(* ===== verification/Go_Base.thy ===== *)
theory Go_Base
  imports Main "HOL-Library.Word" "HOL-Library.AList" "HOL-Library.State_Monad"
begin

text \<open>
  The prelude of the development. It fixes how a Go function becomes a HOL function:

  \<^item> a Go string is a list of bytes, HOL's \<^typ>\<open>string\<close>;
  \<^item> a Go error is a value of \<open>goerr\<close>, whose constructors keep the wrapping structure that
    \<open>errors.As\<close> walks; a function that returns \<open>(T, error)\<close> returns \<open>goerr + T\<close>, with
    \<^const>\<open>Inl\<close> for a non-nil error;
  \<^item> a function with effects is a computation of HOL-Library's state monad, over the part of the
    state it can see; \<open>checked\<close> is the idiom \<open>if err != nil { return wrap(err) }\<close>;
  \<^item> a Go map is an association list with distinct keys. The order of the list is the order in which
    one \<open>range\<close> loop happens to visit the map: Go leaves it unspecified, so a theorem about a
    loop is stated for every order.

  A panic and a loop that does not end are the errors \<open>Panic\<close> and \<open>Diverged\<close>: no Go function
  returns them, and the theorems say when they cannot arise.
\<close>

named_theorems go_defs \<open>definitions of the Go library operations, unfolded to evaluate them\<close>
named_theorems go_run \<open>what a monadic operation returns and leaves behind\<close>
named_theorems path_simps \<open>facts on slash-separated paths\<close>

subsection \<open>Errors\<close>

datatype grpc_code =
  InvalidArgument | NotFound | Aborted | Unimplemented | Internal | Unavailable

datatype os_kind = ENOENT | OtherErrno

datatype num_kind = ErrSyntax | ErrRange

text \<open>
  \<open>OsError\<close> is an error of the operating system or of a library that the repository only calls,
  with the distinction \<open>os.IsNotExist\<close> makes and its text. \<open>FmtErrorf\<close> is \<open>fmt.Errorf\<close>: the
  formatted text and the errors its \<open>%w\<close> verbs wrap. \<open>GrpcError\<close> is the struct \<open>grpcError\<close> of
  server.go: the status error and the cause.
\<close>

datatype goerr =
    ErrorsNew string
  | OsError os_kind string
  | NumError string string num_kind
  | CtlNotExistError string string
  | CtlExistError string string
  | CtlConnAuthError string string
  | WithStack goerr
  | WithMessage goerr string
  | FmtErrorf string "goerr list"
  | StatusError grpc_code string
  | GrpcError goerr goerr
  | Panic string
  | Diverged

text \<open>\<open>errors.Wrap\<close> of github.com/pkg/errors: the message first, then the stack.\<close>

definition errors_Wrap :: "goerr \<Rightarrow> string \<Rightarrow> goerr" where
  "errors_Wrap e m = WithStack (WithMessage e m)"

fun code_name :: "grpc_code \<Rightarrow> string" where
  "code_name InvalidArgument = ''InvalidArgument''"
| "code_name NotFound = ''NotFound''"
| "code_name Aborted = ''Aborted''"
| "code_name Unimplemented = ''Unimplemented''"
| "code_name Internal = ''Internal''"
| "code_name Unavailable = ''Unavailable''"

text \<open>The \<open>Error()\<close> method.\<close>

fun err_msg :: "goerr \<Rightarrow> string" where
  "err_msg (ErrorsNew m) = m"
| "err_msg (OsError _ m) = m"
| "err_msg (NumError f s ErrSyntax) = ''strconv.'' @ f @ '': parsing '' @ [CHR 0x22] @ s @ [CHR 0x22] @ '': invalid syntax''"
| "err_msg (NumError f s ErrRange) = ''strconv.'' @ f @ '': parsing '' @ [CHR 0x22] @ s @ [CHR 0x22] @ '': value out of range''"
| "err_msg (CtlNotExistError so se) = ''beegfs-ctl failed with stdOut: '' @ so @ '' and stdErr: '' @ se"
| "err_msg (CtlExistError so se) = ''beegfs-ctl failed with stdOut: '' @ so @ '' and stdErr: '' @ se"
| "err_msg (CtlConnAuthError so se) = ''beegfs-ctl failed with stdOut: '' @ so @ '' and stdErr: '' @ se"
| "err_msg (WithStack e) = err_msg e"
| "err_msg (WithMessage e m) = m @ '': '' @ err_msg e"
| "err_msg (FmtErrorf m _) = m"
| "err_msg (StatusError c m) = ''rpc error: code = '' @ code_name c @ '' desc = '' @ m"
| "err_msg (GrpcError s _) = err_msg s"
| "err_msg (Panic m) = ''panic: '' @ m"
| "err_msg Diverged = ''''"

text \<open>
  \<open>errors.As(err, &T{})\<close>: some error of the \<open>Unwrap\<close> chain has the type \<open>T\<close>. The predicate \<open>p\<close> is
  the type test.
\<close>

fun errors_As :: "(goerr \<Rightarrow> bool) \<Rightarrow> goerr \<Rightarrow> bool" where
  "errors_As p (WithStack e) = (p (WithStack e) \<or> errors_As p e)"
| "errors_As p (WithMessage e m) = (p (WithMessage e m) \<or> errors_As p e)"
| "errors_As p (FmtErrorf m es) = (p (FmtErrorf m es) \<or> list_ex (errors_As p) es)"
| "errors_As p (GrpcError s c) = (p (GrpcError s c) \<or> errors_As p c)"
| "errors_As p e = p e"

fun is_ctlNotExistError :: "goerr \<Rightarrow> bool" where
  "is_ctlNotExistError (CtlNotExistError _ _) = True"
| "is_ctlNotExistError _ = False"

fun is_ctlExistError :: "goerr \<Rightarrow> bool" where
  "is_ctlExistError (CtlExistError _ _) = True"
| "is_ctlExistError _ = False"

fun is_ctlConnAuthError :: "goerr \<Rightarrow> bool" where
  "is_ctlConnAuthError (CtlConnAuthError _ _) = True"
| "is_ctlConnAuthError _ = False"

text \<open>\<open>os.IsNotExist\<close> does not unwrap.\<close>

fun os_IsNotExist :: "goerr \<Rightarrow> bool" where
  "os_IsNotExist (OsError ENOENT _) = True"
| "os_IsNotExist _ = False"

text \<open>Neither a panic nor a loop without end.\<close>

fun returns_err :: "goerr \<Rightarrow> bool" where
  "returns_err (Panic _) = False"
| "returns_err Diverged = False"
| "returns_err (WithStack e) = returns_err e"
| "returns_err (WithMessage e _) = returns_err e"
| "returns_err (GrpcError _ c) = returns_err c"
| "returns_err _ = True"

definition returns :: "goerr + 'a \<Rightarrow> bool" where
  "returns r = (case r of Inl e \<Rightarrow> returns_err e | Inr _ \<Rightarrow> True)"

lemma returns_simps [simp]: "returns (Inr x)" "returns (Inl e) = returns_err e"
  by (simp_all add: returns_def)

text \<open>\<open>x, err := r; if err != nil { return err }; k(x)\<close> in a function without effects.\<close>

definition bindE :: "goerr + 'a \<Rightarrow> ('a \<Rightarrow> goerr + 'b) \<Rightarrow> goerr + 'b" where
  "bindE r k = (case r of Inl e \<Rightarrow> Inl e | Inr x \<Rightarrow> k x)"

lemma bindE_simps [simp]: "bindE (Inl e) k = Inl e" "bindE (Inr x) k = k x"
  by (simp_all add: bindE_def)

lemma bindE_Inr: "bindE r k = Inr y \<longleftrightarrow> (\<exists>x. r = Inr x \<and> k x = Inr y)"
  by (cases r) auto

subsection \<open>Computations\<close>

abbreviation ret :: "'a \<Rightarrow> ('s, 'a) state" where
  "ret \<equiv> State_Monad.return"

text \<open>\<open>x, err := m; if err != nil { return wrap(err) }; k(x)\<close>\<close>

definition checked ::
  "('s, goerr + 'a) state \<Rightarrow> (goerr \<Rightarrow> goerr) \<Rightarrow> ('a \<Rightarrow> ('s, goerr + 'b) state) \<Rightarrow> ('s, goerr + 'b) state"
where
  "checked m wrap k = State_Monad.bind m (\<lambda>r. case r of Inl e \<Rightarrow> ret (Inl (wrap e)) | Inr x \<Rightarrow> k x)"

lemma run_checked [go_run]:
  "run_state (checked m wrap k) s =
     (case run_state m s of (Inl e, s') \<Rightarrow> (Inl (wrap e), s') | (Inr x, s') \<Rightarrow> run_state (k x) s')"
  by (simp add: checked_def split: prod.splits sum.splits)

text \<open>A pure check in front of the rest of a function.\<close>

definition guarded :: "goerr + 'a \<Rightarrow> (goerr \<Rightarrow> goerr) \<Rightarrow> ('a \<Rightarrow> ('s, goerr + 'b) state) \<Rightarrow> ('s, goerr + 'b) state" where
  "guarded r wrap k = (case r of Inl e \<Rightarrow> ret (Inl (wrap e)) | Inr x \<Rightarrow> k x)"

lemma guarded_simps [simp]:
  "guarded (Inl e) wrap k = ret (Inl (wrap e))"
  "guarded (Inr x) wrap k = k x"
  by (simp_all add: guarded_def)

subsection \<open>Maps\<close>

type_synonym gomap = "(string \<times> string) list"

abbreviation is_map :: "('k \<times> 'v) list \<Rightarrow> bool" where
  "is_map m \<equiv> distinct (map fst m)"

lemma is_map_update [simp]: "is_map m \<Longrightarrow> is_map (AList.update k v m)"
  by (rule distinct_update)

lemma is_map_delete [simp]: "is_map m \<Longrightarrow> is_map (AList.delete k m)"
  by (rule distinct_delete)

subsection \<open>Lists\<close>

lemma list_ex_set: "list_ex P xs \<longleftrightarrow> (\<exists>x\<in>set xs. P x)"
  by (simp add: list_ex_iff)

end
