(* ===== verification/Go_Strings.thy ===== *)
theory Go_Strings
  imports Go_Base "HOL-Library.Sublist"
begin

text \<open>
  What the repository uses of Go's packages \<open>strings\<close>, \<open>strconv\<close> and \<open>fmt\<close>, on byte strings, with
  the facts the components need: what a replacement leaves behind, and that \<open>strconv.ParseUint\<close> reads
  back what \<open>fmt\<close> prints.
\<close>

subsection \<open>Package strings\<close>

definition HasPrefix :: "string \<Rightarrow> string \<Rightarrow> bool" where
  "HasPrefix s p = (take (length p) s = p)"

definition HasSuffix :: "string \<Rightarrow> string \<Rightarrow> bool" where
  "HasSuffix s p = HasPrefix (rev s) (rev p)"

fun Contains :: "string \<Rightarrow> string \<Rightarrow> bool" where
  "Contains [] sub = (sub = [])"
| "Contains (c # cs) sub = (HasPrefix (c # cs) sub \<or> Contains cs sub)"

text \<open>\<open>strings.Cut\<close>: the text around the first occurrence of a separator, if there is one.\<close>

fun Cut :: "string \<Rightarrow> string \<Rightarrow> (string \<times> string) option" where
  "Cut [] sep = (if sep = [] then Some ([], []) else None)"
| "Cut (c # cs) sep =
     (if HasPrefix (c # cs) sep then Some ([], drop (length sep) (c # cs))
      else map_option (\<lambda>(b, a). (c # b, a)) (Cut cs sep))"

text \<open>\<open>strings.SplitN(s, sep, 2)\<close>\<close>

definition SplitN2 :: "string \<Rightarrow> string \<Rightarrow> string list" where
  "SplitN2 s sep = (case Cut s sep of None \<Rightarrow> [s] | Some (b, a) \<Rightarrow> [b, a])"

text \<open>The text before and after the last occurrence of a byte (\<open>strings.LastIndexByte\<close>).\<close>

definition cut_last :: "string \<Rightarrow> char \<Rightarrow> (string \<times> string) option" where
  "cut_last s c =
     (if c \<in> set s
      then Some (rev (tl (dropWhile (\<lambda>x. x \<noteq> c) (rev s))), rev (takeWhile (\<lambda>x. x \<noteq> c) (rev s)))
      else None)"

text \<open>\<open>strings.Replace(s, old, new, 1)\<close> and \<open>strings.Replace(s, old, new, -1)\<close> for a non-empty \<open>old\<close>.\<close>

definition ReplaceFirst :: "string \<Rightarrow> string \<Rightarrow> string \<Rightarrow> string" where
  "ReplaceFirst s old new = (case Cut s old of None \<Rightarrow> s | Some (b, a) \<Rightarrow> b @ new @ a)"

function ReplaceAll :: "string \<Rightarrow> string \<Rightarrow> string \<Rightarrow> string" where
  "ReplaceAll s old new =
     (if s = [] \<or> old = [] then s
      else if HasPrefix s old then new @ ReplaceAll (drop (length old) s) old new
      else hd s # ReplaceAll (tl s) old new)"
  by pat_completeness auto
termination
  by (relation "measure (\<lambda>(s, _, _). length s)") auto

declare ReplaceAll.simps [simp del]

fun Join :: "string list \<Rightarrow> string \<Rightarrow> string" where
  "Join [] sep = []"
| "Join [x] sep = x"
| "Join (x # y # ys) sep = x @ sep @ Join (y # ys) sep"

definition TrimRight :: "string \<Rightarrow> char \<Rightarrow> string" where
  "TrimRight s c = rev (dropWhile (\<lambda>x. x = c) (rev s))"

text \<open>
  \<open>strings.ToLower\<close>. The source only looks for ASCII text in the result. Beside the ASCII capitals, two
  runes have an ASCII lower case: U+0130 (bytes C4 B0) and the Kelvin sign U+212A (bytes E2 84 AA); every
  other rune outside ASCII stays outside ASCII and is kept as it is.
\<close>

definition lower_byte :: "char \<Rightarrow> char" where
  "lower_byte c = (if 65 \<le> (of_char c :: nat) \<and> (of_char c :: nat) \<le> 90 then char_of ((of_char c :: nat) + 32) else c)"

fun ToLower :: "string \<Rightarrow> string" where
  "ToLower (a # b # c # cs) =
     (if a = CHR 0xC4 \<and> b = CHR 0xB0 then CHR ''i'' # ToLower (c # cs)
      else if a = CHR 0xE2 \<and> b = CHR 0x84 \<and> c = CHR 0xAA then CHR ''k'' # ToLower cs
      else lower_byte a # ToLower (b # c # cs))"
| "ToLower [a, b] = (if a = CHR 0xC4 \<and> b = CHR 0xB0 then ''i'' else [lower_byte a, lower_byte b])"
| "ToLower [a] = [lower_byte a]"
| "ToLower [] = []"

lemma HasPrefix_Nil [simp]: "HasPrefix s []"
  by (simp add: HasPrefix_def)

lemma HasPrefix_Cons [simp]:
  "HasPrefix (c # cs) (p # ps) = (c = p \<and> HasPrefix cs ps)"
  "\<not> HasPrefix [] (p # ps)"
  by (auto simp: HasPrefix_def)

lemma HasPrefix_append [simp]: "HasPrefix (p @ s) p"
  by (simp add: HasPrefix_def)

lemma HasPrefix_iff_prefix: "HasPrefix s p \<longleftrightarrow> prefix p s"
  by (metis HasPrefix_def prefix_def append_eq_conv_conj append_take_drop_id)

lemma Contains_iff_sublist: "Contains s sub \<longleftrightarrow> sublist sub s"
  by (induction s) (auto simp: HasPrefix_iff_prefix sublist_Cons_right)

lemma Contains_append_left [intro]: "Contains s sub \<Longrightarrow> Contains (t @ s) sub"
  by (simp add: Contains_iff_sublist sublist_append)

lemma Contains_append_right [intro]: "Contains s sub \<Longrightarrow> Contains (s @ t) sub"
  by (simp add: Contains_iff_sublist sublist_append)

lemma Cut_Some: "Cut s sep = Some (b, a) \<Longrightarrow> s = b @ sep @ a"
proof (induction s arbitrary: b a)
  case Nil
  then show ?case by (simp split: if_splits)
next
  case (Cons c cs)
  then show ?case
    by (auto simp: HasPrefix_def split: if_splits)
       (metis append_take_drop_id)
qed

lemma Cut_None: "Cut s sep = None \<longleftrightarrow> \<not> Contains s sep"
  by (induction s) auto

text \<open>Replacing one byte by a string is a concatenation, byte by byte.\<close>

lemma ReplaceAll_byte:
  "ReplaceAll s [c] new = concat (map (\<lambda>x. if x = c then new else [x]) s)"
proof (induction s)
  case Nil
  then show ?case by (simp add: ReplaceAll.simps)
next
  case (Cons x xs)
  then show ?case by (simp add: ReplaceAll.simps [of "x # xs"])
qed

subsection \<open>Package strconv\<close>

definition digitVal :: "char \<Rightarrow> nat option" where
  "digitVal c =
     (let n = (of_char c :: nat)
      in if 48 \<le> n \<and> n \<le> 57 then Some (n - 48)
         else if 97 \<le> n \<and> n \<le> 122 then Some (n - 87)
         else if 65 \<le> n \<and> n \<le> 90 then Some (n - 55)
         else None)"

fun parse_digits :: "nat \<Rightarrow> nat \<Rightarrow> nat \<Rightarrow> string \<Rightarrow> num_kind + nat" where
  "parse_digits base maxVal n [] = Inr n"
| "parse_digits base maxVal n (c # cs) =
     (case digitVal c of
        None \<Rightarrow> Inl ErrSyntax
      | Some d \<Rightarrow>
          if base \<le> d then Inl ErrSyntax
          else if maxVal < n * base + d then Inl ErrRange
          else parse_digits base maxVal (n * base + d) cs)"

text \<open>\<open>strconv.ParseUint(s, base, bitSize)\<close> for a base from 2 to 36.\<close>

definition ParseUint :: "string \<Rightarrow> nat \<Rightarrow> nat \<Rightarrow> goerr + nat" where
  "ParseUint s base bitSize =
     (if s = [] then Inl (NumError ''ParseUint'' s ErrSyntax)
      else case parse_digits base (2 ^ bitSize - 1) 0 s of
             Inl k \<Rightarrow> Inl (NumError ''ParseUint'' s k)
           | Inr n \<Rightarrow> Inr n)"

text \<open>\<open>strconv.Atoi\<close>: an optional sign and decimal digits, within a 64-bit \<open>int\<close>.\<close>

definition Atoi :: "string \<Rightarrow> goerr + int" where
  "Atoi s =
     (let neg = HasPrefix s ''-'';
          t = (if neg \<or> HasPrefix s ''+'' then tl s else s)
      in if t = [] then Inl (NumError ''Atoi'' s ErrSyntax)
         else case parse_digits 10 (2 ^ 64 - 1) 0 t of
                Inl k \<Rightarrow> Inl (NumError ''Atoi'' s k)
              | Inr n \<Rightarrow>
                  (if neg then (if 2 ^ 63 < n then Inl (NumError ''Atoi'' s ErrRange) else Inr (- int n))
                   else (if 2 ^ 63 \<le> n then Inl (NumError ''Atoi'' s ErrRange) else Inr (int n))))"

function digits_of :: "nat \<Rightarrow> nat \<Rightarrow> nat list" where
  "digits_of b n = (if b < 2 \<or> n < b then [n] else digits_of b (n div b) @ [n mod b])"
  by pat_completeness auto
termination
  by (relation "measure snd") (auto simp: div_less_dividend)

declare digits_of.simps [simp del]

definition digit_char :: "nat \<Rightarrow> char" where
  "digit_char d = char_of (if d < 10 then 48 + d else 87 + d)"

text \<open>\<open>fmt.Sprintf\<close> with \<open>%d\<close> (base 10), \<open>%o\<close> (base 8) and \<open>%x\<close> (base 16) on an unsigned integer, and
  the zero padding of \<open>%03o\<close> and \<open>%04x\<close>.\<close>

definition fmt_uint :: "nat \<Rightarrow> nat \<Rightarrow> string" where
  "fmt_uint b n = map digit_char (digits_of b n)"

definition zero_pad :: "nat \<Rightarrow> string \<Rightarrow> string" where
  "zero_pad w s = replicate (w - length s) (CHR ''0'') @ s"

definition Itoa :: "int \<Rightarrow> string" where
  "Itoa i = (if i < 0 then ''-'' @ fmt_uint 10 (nat (- i)) else fmt_uint 10 (nat i))"

lemma parse_digits_bound:
  "n \<le> maxVal \<Longrightarrow> parse_digits base maxVal n s = Inr m \<Longrightarrow> m \<le> maxVal"
  by (induction s arbitrary: n) (auto split: option.splits if_splits simp: not_less)

lemma ParseUint_bound:
  assumes "ParseUint s base bits = Inr n"
  shows "n < 2 ^ bits"
proof -
  from assms have "parse_digits base (2 ^ bits - 1) 0 s = Inr n"
    by (simp add: ParseUint_def split: if_splits sum.splits)
  then have "n \<le> 2 ^ bits - 1"
    by (rule parse_digits_bound [rotated]) simp
  then show ?thesis
    by (simp add: Suc_le_eq [symmetric] Nat.le_diff_conv2)
qed

lemma digits_of_small: "2 \<le> b \<Longrightarrow> d \<in> set (digits_of b n) \<Longrightarrow> d < b"
proof (induction b n rule: digits_of.induct)
  case (1 b n)
  then show ?case
    by (cases "n < b") (auto simp: digits_of.simps [of b n])
qed

lemma digits_of_not_Nil [simp]: "digits_of b n \<noteq> []"
  by (simp add: digits_of.simps [of b n])

lemma fmt_uint_not_Nil [simp]: "fmt_uint b n \<noteq> []"
  by (simp add: fmt_uint_def)

lemma digitVal_digit_char: "d < 36 \<Longrightarrow> digitVal (digit_char d) = Some d"
  by (auto simp: digitVal_def digit_char_def Let_def of_char_of)

lemma parse_digits_append:
  "parse_digits base maxVal n (s @ t) =
     (case parse_digits base maxVal n s of Inl k \<Rightarrow> Inl k | Inr m \<Rightarrow> parse_digits base maxVal m t)"
  by (induction s arbitrary: n) (auto split: option.splits)

text \<open>Reading back what was printed.\<close>

lemma parse_digits_fmt:
  assumes "2 \<le> b" and "b \<le> 36" and "n \<le> maxVal"
  shows "parse_digits b maxVal 0 (fmt_uint b n) = Inr n"
  using assms
proof (induction b n rule: digits_of.induct)
  case (1 b n)
  show ?case
  proof (cases "n < b")
    case True
    then show ?thesis
      using 1 by (simp add: fmt_uint_def digits_of.simps [of b n] digitVal_digit_char)
  next
    case False
    have "n div b \<le> maxVal"
      using "1.prems" by (meson div_le_dividend le_trans)
    then have ih: "parse_digits b maxVal 0 (fmt_uint b (n div b)) = Inr (n div b)"
      using 1 False by simp
    have "n mod b < 36"
      using "1.prems" mod_less_divisor [of b n] by linarith
    moreover have "fmt_uint b n = fmt_uint b (n div b) @ [digit_char (n mod b)]"
      using False "1.prems" by (simp add: fmt_uint_def digits_of.simps [of b n])
    moreover have "\<not> b \<le> n mod b"
      using "1.prems" by (simp add: not_le)
    ultimately show ?thesis
      using ih "1.prems" by (simp add: parse_digits_append digitVal_digit_char)
  qed
qed

lemma parse_digits_zeros:
  "parse_digits b maxVal 0 (replicate k (CHR ''0'') @ s) = parse_digits b maxVal 0 s" if "0 < b"
  using that by (induction k) (simp_all add: digitVal_def)

lemma ParseUint_fmt_uint:
  assumes "2 \<le> b" and "b \<le> 36" and "n < 2 ^ bits"
  shows "ParseUint (zero_pad w (fmt_uint b n)) b bits = Inr n"
  using assms
  by (simp add: ParseUint_def zero_pad_def parse_digits_zeros parse_digits_fmt)

lemma length_fmt_uint_le:
  assumes "2 \<le> b"
  shows "n < b ^ Suc k \<Longrightarrow> length (fmt_uint b n) \<le> Suc k"
proof (induction k arbitrary: n)
  case 0
  then show ?case by (simp add: fmt_uint_def digits_of.simps [of b n])
next
  case (Suc k)
  show ?case
  proof (cases "n < b")
    case True
    then show ?thesis by (simp add: fmt_uint_def digits_of.simps [of b n])
  next
    case False
    have "n div b < b ^ Suc k"
      using Suc.prems assms by (simp add: less_mult_imp_div_less mult.commute)
    with Suc.IH have "length (fmt_uint b (n div b)) \<le> Suc k" by blast
    with False assms show ?thesis by (simp add: fmt_uint_def digits_of.simps [of b n])
  qed
qed

lemma length_zero_pad: "length (zero_pad w s) = max w (length s)"
  by (simp add: zero_pad_def)

end
