(* ===== verification/Go_Env.thy ===== *)
theory Go_Env
  imports Go_Strings
begin

text \<open>
  The world outside the repository: the file system, the mount table, the commands the driver runs, the
  clock, sockets. It is a parameter of the model, the record \<open>os_env\<close> of operations over an arbitrary
  world \<open>'w\<close>; every operation may fail and may change the world in any way. \<open>traced\<close> runs a given
  environment and writes down each call with its reply, so that a theorem can say what a function asked
  the world to do, in which order, whatever the world answered. \<open>does\<close> and \<open>emits\<close> are the rules to
  prove such a theorem along the text of the function; they work for any type of calls, so that the programs with
  a world of their own share them.
\<close>

subsection \<open>The environment\<close>

record mount_point =
  Device :: string
  mp_Path :: string
  Opts :: "string list"

record 'w os_env =
  os_ReadFile :: "string \<Rightarrow> ('w, goerr + string) state"
  os_WriteFile :: "string \<Rightarrow> string \<Rightarrow> nat \<Rightarrow> ('w, goerr + unit) state"
  os_Create :: "string \<Rightarrow> ('w, goerr + unit) state"
  os_WriteTo :: "string \<Rightarrow> string \<Rightarrow> ('w, goerr + unit) state"
  os_MkdirAll :: "string \<Rightarrow> nat \<Rightarrow> ('w, goerr + unit) state"
  os_Mkdir :: "string \<Rightarrow> nat \<Rightarrow> ('w, goerr + unit) state"
  os_RemoveAll :: "string \<Rightarrow> ('w, goerr + unit) state"
  os_Remove :: "string \<Rightarrow> ('w, goerr + unit) state"
  os_Stat :: "string \<Rightarrow> ('w, goerr + unit) state"
  os_Exists :: "string \<Rightarrow> ('w, goerr + bool) state"
  os_DirExists :: "string \<Rightarrow> ('w, goerr + bool) state"
  os_IsEmpty :: "string \<Rightarrow> ('w, goerr + bool) state"
  os_ReadDir :: "string \<Rightarrow> ('w, goerr + string list) state"
  os_Chmod :: "string \<Rightarrow> 32 word \<Rightarrow> ('w, goerr + unit) state"
  mnt_IsLikelyNotMountPoint :: "string \<Rightarrow> ('w, goerr + bool) state"
  mnt_IsMountPoint :: "string \<Rightarrow> ('w, goerr + bool) state"
  mnt_Mount :: "string \<Rightarrow> string \<Rightarrow> string \<Rightarrow> string list \<Rightarrow> ('w, goerr + unit) state"
  mnt_List :: "('w, goerr + mount_point list) state"
  mnt_CleanupMountPoint :: "string \<Rightarrow> bool \<Rightarrow> ('w, goerr + unit) state"
  selinux_GetEnabled :: "('w, bool) state"
  selinux_ContextGet :: "string \<Rightarrow> string \<Rightarrow> string \<Rightarrow> string \<Rightarrow> string"
  cmd_Run :: "string list \<Rightarrow> ('w, goerr option \<times> string \<times> string) state"
  time_Now :: "('w, int) state"
  time_Sleep :: "int \<Rightarrow> ('w, unit) state"
  net_ListenPacket :: "('w, goerr + nat) state"
  conn_LocalAddr :: "nat \<Rightarrow> ('w, string \<times> string) state"
  net_ResolveUDPAddr :: "string \<Rightarrow> string \<Rightarrow> ('w, goerr + int) state"
  conn_Close :: "nat \<Rightarrow> ('w, goerr + unit) state"

subsection \<open>Traces\<close>

datatype event =
    E_ReadFile string "goerr + string"
  | E_WriteFile string string nat "goerr + unit"
  | E_Create string "goerr + unit"
  | E_WriteTo string string "goerr + unit"
  | E_MkdirAll string nat "goerr + unit"
  | E_Mkdir string nat "goerr + unit"
  | E_RemoveAll string "goerr + unit"
  | E_Remove string "goerr + unit"
  | E_Stat string "goerr + unit"
  | E_Exists string "goerr + bool"
  | E_DirExists string "goerr + bool"
  | E_IsEmpty string "goerr + bool"
  | E_ReadDir string "goerr + string list"
  | E_Chmod string "32 word" "goerr + unit"
  | E_IsLikelyNotMountPoint string "goerr + bool"
  | E_IsMountPoint string "goerr + bool"
  | E_Mount string string string "string list" "goerr + unit"
  | E_List "goerr + mount_point list"
  | E_CleanupMountPoint string bool "goerr + unit"
  | E_GetEnabled bool
  | E_Run "string list" "goerr option \<times> string \<times> string"
  | E_Now int
  | E_Sleep int
  | E_ListenPacket "goerr + nat"
  | E_LocalAddr nat "string \<times> string"
  | E_ResolveUDPAddr string string "goerr + int"
  | E_Close nat "goerr + unit"

text \<open>The paths of the host's file system that a call may change. A command of BeeGFS (\<open>E_Run\<close>) names paths of the BeeGFS file
  system and is not counted; what the commands are run with is the subject of the lemmas on Ctl.thy.\<close>

fun changed_paths :: "event \<Rightarrow> string list" where
  "changed_paths (E_WriteFile p _ _ _) = [p]"
| "changed_paths (E_Create p _) = [p]"
| "changed_paths (E_WriteTo p _ _) = [p]"
| "changed_paths (E_MkdirAll p _ _) = [p]"
| "changed_paths (E_Mkdir p _ _) = [p]"
| "changed_paths (E_RemoveAll p _) = [p]"
| "changed_paths (E_Remove p _) = [p]"
| "changed_paths (E_Chmod p _ _) = [p]"
| "changed_paths (E_Mount _ p _ _ _) = [p]"
| "changed_paths (E_CleanupMountPoint p _ _) = [p]"
| "changed_paths _ = []"

definition logged :: "('w, 'a) state \<Rightarrow> ('a \<Rightarrow> 'e) \<Rightarrow> ('w \<times> 'e list, 'a) state" where
  "logged m ev = State (\<lambda>(w, t). case run_state m w of (x, w') \<Rightarrow> (x, (w', t @ [ev x])))"

definition traced :: "'w os_env \<Rightarrow> ('w \<times> event list) os_env" where
  "traced env =
     \<lparr> os_ReadFile = (\<lambda>p. logged (os_ReadFile env p) (E_ReadFile p)),
       os_WriteFile = (\<lambda>p d m. logged (os_WriteFile env p d m) (E_WriteFile p d m)),
       os_Create = (\<lambda>p. logged (os_Create env p) (E_Create p)),
       os_WriteTo = (\<lambda>p d. logged (os_WriteTo env p d) (E_WriteTo p d)),
       os_MkdirAll = (\<lambda>p m. logged (os_MkdirAll env p m) (E_MkdirAll p m)),
       os_Mkdir = (\<lambda>p m. logged (os_Mkdir env p m) (E_Mkdir p m)),
       os_RemoveAll = (\<lambda>p. logged (os_RemoveAll env p) (E_RemoveAll p)),
       os_Remove = (\<lambda>p. logged (os_Remove env p) (E_Remove p)),
       os_Stat = (\<lambda>p. logged (os_Stat env p) (E_Stat p)),
       os_Exists = (\<lambda>p. logged (os_Exists env p) (E_Exists p)),
       os_DirExists = (\<lambda>p. logged (os_DirExists env p) (E_DirExists p)),
       os_IsEmpty = (\<lambda>p. logged (os_IsEmpty env p) (E_IsEmpty p)),
       os_ReadDir = (\<lambda>p. logged (os_ReadDir env p) (E_ReadDir p)),
       os_Chmod = (\<lambda>p m. logged (os_Chmod env p m) (E_Chmod p m)),
       mnt_IsLikelyNotMountPoint = (\<lambda>p. logged (mnt_IsLikelyNotMountPoint env p) (E_IsLikelyNotMountPoint p)),
       mnt_IsMountPoint = (\<lambda>p. logged (mnt_IsMountPoint env p) (E_IsMountPoint p)),
       mnt_Mount = (\<lambda>s p f os. logged (mnt_Mount env s p f os) (E_Mount s p f os)),
       mnt_List = logged (mnt_List env) E_List,
       mnt_CleanupMountPoint = (\<lambda>p b. logged (mnt_CleanupMountPoint env p b) (E_CleanupMountPoint p b)),
       selinux_GetEnabled = logged (selinux_GetEnabled env) E_GetEnabled,
       selinux_ContextGet = selinux_ContextGet env,
       cmd_Run = (\<lambda>as. logged (cmd_Run env as) (E_Run as)),
       time_Now = logged (time_Now env) E_Now,
       time_Sleep = (\<lambda>d. logged (time_Sleep env d) (\<lambda>_. E_Sleep d)),
       net_ListenPacket = logged (net_ListenPacket env) E_ListenPacket,
       conn_LocalAddr = (\<lambda>c. logged (conn_LocalAddr env c) (E_LocalAddr c)),
       net_ResolveUDPAddr = (\<lambda>n a. logged (net_ResolveUDPAddr env n a) (E_ResolveUDPAddr n a)),
       conn_Close = (\<lambda>c. logged (conn_Close env c) (E_Close c)) \<rparr>"

lemma traced_ops [simp]:
  "os_ReadFile (traced env) p = logged (os_ReadFile env p) (E_ReadFile p)"
  "os_WriteFile (traced env) p d m = logged (os_WriteFile env p d m) (E_WriteFile p d m)"
  "os_Create (traced env) p = logged (os_Create env p) (E_Create p)"
  "os_WriteTo (traced env) p d = logged (os_WriteTo env p d) (E_WriteTo p d)"
  "os_MkdirAll (traced env) p m = logged (os_MkdirAll env p m) (E_MkdirAll p m)"
  "os_Mkdir (traced env) p m = logged (os_Mkdir env p m) (E_Mkdir p m)"
  "os_RemoveAll (traced env) p = logged (os_RemoveAll env p) (E_RemoveAll p)"
  "os_Remove (traced env) p = logged (os_Remove env p) (E_Remove p)"
  "os_Stat (traced env) p = logged (os_Stat env p) (E_Stat p)"
  "os_Exists (traced env) p = logged (os_Exists env p) (E_Exists p)"
  "os_DirExists (traced env) p = logged (os_DirExists env p) (E_DirExists p)"
  "os_IsEmpty (traced env) p = logged (os_IsEmpty env p) (E_IsEmpty p)"
  "os_ReadDir (traced env) p = logged (os_ReadDir env p) (E_ReadDir p)"
  "os_Chmod (traced env) p fm = logged (os_Chmod env p fm) (E_Chmod p fm)"
  "mnt_IsLikelyNotMountPoint (traced env) p = logged (mnt_IsLikelyNotMountPoint env p) (E_IsLikelyNotMountPoint p)"
  "mnt_IsMountPoint (traced env) p = logged (mnt_IsMountPoint env p) (E_IsMountPoint p)"
  "mnt_Mount (traced env) src p f os = logged (mnt_Mount env src p f os) (E_Mount src p f os)"
  "mnt_List (traced env) = logged (mnt_List env) E_List"
  "mnt_CleanupMountPoint (traced env) p b = logged (mnt_CleanupMountPoint env p b) (E_CleanupMountPoint p b)"
  "selinux_GetEnabled (traced env) = logged (selinux_GetEnabled env) E_GetEnabled"
  "selinux_ContextGet (traced env) = selinux_ContextGet env"
  "cmd_Run (traced env) as = logged (cmd_Run env as) (E_Run as)"
  "time_Now (traced env) = logged (time_Now env) E_Now"
  "time_Sleep (traced env) n = logged (time_Sleep env n) (\<lambda>_. E_Sleep n)"
  "net_ListenPacket (traced env) = logged (net_ListenPacket env) E_ListenPacket"
  "conn_LocalAddr (traced env) c = logged (conn_LocalAddr env c) (E_LocalAddr c)"
  "net_ResolveUDPAddr (traced env) nw a = logged (net_ResolveUDPAddr env nw a) (E_ResolveUDPAddr nw a)"
  "conn_Close (traced env) c = logged (conn_Close env c) (E_Close c)"
  by (simp_all add: traced_def)

subsection \<open>Reasoning about traces\<close>

text \<open>
  \<open>does m Q\<close>: whatever the world answers, the result \<open>x\<close> of \<open>m\<close> and the calls \<open>u\<close> that \<open>m\<close> made
  satisfy \<open>Q x u\<close>.
\<close>

definition does :: "('w \<times> 'e list, 'a) state \<Rightarrow> ('a \<Rightarrow> 'e list \<Rightarrow> bool) \<Rightarrow> bool" where
  "does m Q \<longleftrightarrow> (\<forall>w t. case run_state m (w, t) of (x, w', t') \<Rightarrow> \<exists>u. t' = t @ u \<and> Q x u)"

lemma doesD:
  assumes "does m Q" and "run_state m (w, t) = (x, w', t')"
  shows "\<exists>u. t' = t @ u \<and> Q x u"
proof -
  have "case run_state m (w, t) of (x, w', t') \<Rightarrow> \<exists>u. t' = t @ u \<and> Q x u"
    using assms(1) unfolding does_def by (elim allE)
  then show ?thesis using assms(2) by simp
qed

lemma doesI:
  assumes "\<And>w t x w' t'. run_state m (w, t) = (x, w', t') \<Longrightarrow> \<exists>u. t' = t @ u \<and> Q x u"
  shows "does m Q"
  using assms unfolding does_def by (auto split: prod.split)

lemma does_mono:
  assumes "does m P" and "\<And>x u. P x u \<Longrightarrow> Q x u"
  shows "does m Q"
  by (rule doesI) (use doesD [OF assms(1)] assms(2) in blast)

lemma does_conj:
  assumes "does m P" and "does m Q"
  shows "does m (\<lambda>x u. P x u \<and> Q x u)"
  by (rule doesI) (use doesD [OF assms(1)] doesD [OF assms(2)] in blast)

lemma does_ret: "Q x [] \<Longrightarrow> does (ret x) Q"
  by (simp add: does_def State_Monad.return_def)

lemma does_bind:
  assumes "does m P" and "\<And>x u. P x u \<Longrightarrow> does (k x) (\<lambda>y v. Q y (u @ v))"
  shows "does (State_Monad.bind m k) Q"
  unfolding does_def
proof (intro allI)
  fix w t
  obtain x w' t' where 1: "run_state m (w, t) = (x, w', t')" by (metis prod_cases3)
  then obtain u where u: "t' = t @ u" "P x u" using doesD [OF assms(1)] by blast
  obtain y w'' t'' where 2: "run_state (k x) (w', t') = (y, w'', t'')" by (metis prod_cases3)
  then obtain v where "t'' = t' @ v" "Q y (u @ v)" using doesD [OF assms(2) [OF u(2)]] by blast
  then show "case run_state (State_Monad.bind m k) (w, t) of (y, w', t') \<Rightarrow> \<exists>u. t' = t @ u \<and> Q y u"
    using 1 2 u by simp
qed

lemma does_logged:
  assumes "\<And>x. Q x [ev x]"
  shows "does (logged m ev) Q"
  using assms by (auto simp: does_def logged_def split: prod.splits)

lemma does_checked:
  assumes "does m P"
    and "\<And>e u. P (Inl e) u \<Longrightarrow> Q (Inl (wrap e)) u"
    and "\<And>x u. P (Inr x) u \<Longrightarrow> does (k x) (\<lambda>y v. Q y (u @ v))"
  shows "does (checked m wrap k) Q"
  unfolding checked_def
proof (rule does_bind [OF assms(1)])
  fix r u
  assume "P r u"
  then show "does (case r of Inl e \<Rightarrow> ret (Inl (wrap e)) | Inr x \<Rightarrow> k x) (\<lambda>y v. Q y (u @ v))"
    by (cases r) (simp_all add: assms(2,3) does_ret)
qed

lemma does_bind_logged:
  assumes "\<And>x. does (k x) (\<lambda>y v. Q y (ev x # v))"
  shows "does (State_Monad.bind (logged m ev) k) Q"
  by (rule does_bind [where P = "\<lambda>x u. u = [ev x]"]) (auto intro: does_logged assms)

lemma does_checked_logged:
  assumes "\<And>e. Q (Inl (wrap e)) [ev (Inl e)]"
    and "\<And>x. does (k x) (\<lambda>y v. Q y (ev (Inr x) # v))"
  shows "does (checked (logged m ev) wrap k) Q"
  by (rule does_checked [where P = "\<lambda>x u. u = [ev x]"]) (auto intro: does_logged assms)

lemma does_bind_bind [simp]:
  "does (State_Monad.bind (State_Monad.bind m f) g) Q = does (State_Monad.bind m (\<lambda>x. State_Monad.bind (f x) g)) Q"
  by simp

lemma does_if:
  assumes "b \<Longrightarrow> does m Q" and "\<not> b \<Longrightarrow> does n Q"
  shows "does (if b then m else n) Q"
  using assms by simp

lemma does_guarded:
  assumes "\<And>e. r = Inl e \<Longrightarrow> Q (Inl (wrap e)) []" and "\<And>x. r = Inr x \<Longrightarrow> does (k x) Q"
  shows "does (guarded r wrap k) Q"
  using assms by (cases r) (auto intro: does_ret)

lemma does_case_sum:
  assumes "\<And>a. r = Inl a \<Longrightarrow> does (f a) Q" and "\<And>b. r = Inr b \<Longrightarrow> does (g b) Q"
  shows "does (case r of Inl a \<Rightarrow> f a | Inr b \<Rightarrow> g b) Q"
  using assms by (cases r) auto

lemma does_case_option:
  assumes "r = None \<Longrightarrow> does f Q" and "\<And>b. r = Some b \<Longrightarrow> does (g b) Q"
  shows "does (case r of None \<Rightarrow> f | Some b \<Rightarrow> g b) Q"
  using assms by (cases r) auto

lemma does_case_prod:
  assumes "\<And>a b. r = (a, b) \<Longrightarrow> does (f a b) Q"
  shows "does (case r of (a, b) \<Rightarrow> f a b) Q"
  using assms by (cases r) auto

text \<open>\<open>emits P m\<close>: every call that \<open>m\<close> makes satisfies \<open>P\<close>.\<close>

definition emits :: "('e \<Rightarrow> bool) \<Rightarrow> ('w \<times> 'e list, 'a) state \<Rightarrow> bool" where
  "emits P m = does m (\<lambda>_ u. list_all P u)"

named_theorems emits_intros \<open>introduction rules for emits, along the text of a function\<close>

lemma emits_mono: "emits P m \<Longrightarrow> (\<And>e. P e \<Longrightarrow> Q e) \<Longrightarrow> emits Q m"
  unfolding emits_def by (erule does_mono) (metis list_all_iff)

lemma emits_basic [emits_intros]:
  "emits P (ret x)"
  "(\<And>x. P (ev x)) \<Longrightarrow> emits P (logged m' ev)"
  "emits P m \<Longrightarrow> (\<And>x. emits P (k x)) \<Longrightarrow> emits P (State_Monad.bind m k)"
  "emits P n \<Longrightarrow> (\<And>x. emits P (k' x)) \<Longrightarrow> emits P (checked n wrap k')"
  unfolding emits_def
     apply (rule does_ret, simp)
    apply (rule does_logged, simp)
   apply (rule does_bind, assumption, rule does_mono, assumption, simp)
  apply (rule does_checked, assumption, simp, rule does_mono, assumption, simp)
  done

lemma emits_cases [emits_intros]:
  "(b \<Longrightarrow> emits P m) \<Longrightarrow> (\<not> b \<Longrightarrow> emits P n) \<Longrightarrow> emits P (if b then m else n)"
  "(\<And>x. r = Inr x \<Longrightarrow> emits P (k x)) \<Longrightarrow> emits P (guarded r wrap k)"
  "(\<And>a. r = Inl a \<Longrightarrow> emits P (f a)) \<Longrightarrow> (\<And>b. r = Inr b \<Longrightarrow> emits P (g b)) \<Longrightarrow> emits P (case_sum f g r)"
  "(q = None \<Longrightarrow> emits P h) \<Longrightarrow> (\<And>b. q = Some b \<Longrightarrow> emits P (g' b)) \<Longrightarrow> emits P (case_option h g' q)"
  "(\<And>a b. z = (a, b) \<Longrightarrow> emits P (k' a b)) \<Longrightarrow> emits P (case_prod k' z)"
  unfolding emits_def
  by (auto intro: does_ret simp: guarded_def split: sum.split option.split prod.split)

lemma emits_run:
  assumes "emits P m" and "run_state m (w, []) = (x, w', t)"
  shows "list_all P t"
  using doesD [OF assms [unfolded emits_def]] by auto

subsection \<open>A calm world\<close>

text \<open>An environment in which nothing fails: every file holds \<open>content\<close>, nothing is mounted, every command
  succeeds and prints nothing. It shows that hypotheses on environments can be met.\<close>

definition calm_env :: "string \<Rightarrow> 'w os_env" where
  "calm_env content =
     \<lparr> os_ReadFile = (\<lambda>p. ret (Inr content)),
       os_WriteFile = (\<lambda>p d m. ret (Inr ())),
       os_Create = (\<lambda>p. ret (Inr ())),
       os_WriteTo = (\<lambda>p d. ret (Inr ())),
       os_MkdirAll = (\<lambda>p m. ret (Inr ())),
       os_Mkdir = (\<lambda>p m. ret (Inr ())),
       os_RemoveAll = (\<lambda>p. ret (Inr ())),
       os_Remove = (\<lambda>p. ret (Inr ())),
       os_Stat = (\<lambda>p. ret (Inr ())),
       os_Exists = (\<lambda>p. ret (Inr False)),
       os_DirExists = (\<lambda>p. ret (Inr False)),
       os_IsEmpty = (\<lambda>p. ret (Inr True)),
       os_ReadDir = (\<lambda>p. ret (Inr [])),
       os_Chmod = (\<lambda>p m. ret (Inr ())),
       mnt_IsLikelyNotMountPoint = (\<lambda>p. ret (Inr True)),
       mnt_IsMountPoint = (\<lambda>p. ret (Inr False)),
       mnt_Mount = (\<lambda>s p f os. ret (Inr ())),
       mnt_List = ret (Inr []),
       mnt_CleanupMountPoint = (\<lambda>p b. ret (Inr ())),
       selinux_GetEnabled = ret False,
       selinux_ContextGet = (\<lambda>u r t l. u @ '':'' @ r @ '':'' @ t @ '':'' @ l),
       cmd_Run = (\<lambda>as. ret (None, [], [])),
       time_Now = ret 0,
       time_Sleep = (\<lambda>d. ret ()),
       net_ListenPacket = ret (Inr 0),
       conn_LocalAddr = (\<lambda>c. ret (''udp'', ''0.0.0.0:40000'')),
       net_ResolveUDPAddr = (\<lambda>n a. ret (Inr 40000)),
       conn_Close = (\<lambda>c. ret (Inr ())) \<rparr>"

lemma calm_ops [simp]:
  "os_ReadFile (calm_env x) p = ret (Inr x)" "os_WriteFile (calm_env x) p d m = ret (Inr ())"
  "os_Create (calm_env x) p = ret (Inr ())" "os_WriteTo (calm_env x) p d = ret (Inr ())"
  "os_MkdirAll (calm_env x) p m = ret (Inr ())" "os_Mkdir (calm_env x) p m = ret (Inr ())"
  "os_RemoveAll (calm_env x) p = ret (Inr ())" "os_Remove (calm_env x) p = ret (Inr ())"
  "os_Stat (calm_env x) p = ret (Inr ())" "os_Exists (calm_env x) p = ret (Inr False)"
  "os_DirExists (calm_env x) p = ret (Inr False)" "os_IsEmpty (calm_env x) p = ret (Inr True)"
  "os_ReadDir (calm_env x) p = ret (Inr [])" "os_Chmod (calm_env x) p fm = ret (Inr ())"
  "mnt_IsLikelyNotMountPoint (calm_env x) p = ret (Inr True)" "mnt_IsMountPoint (calm_env x) p = ret (Inr False)"
  "mnt_Mount (calm_env x) src p f os = ret (Inr ())" "mnt_List (calm_env x) = ret (Inr [])"
  "mnt_CleanupMountPoint (calm_env x) p b = ret (Inr ())" "selinux_GetEnabled (calm_env x) = ret False"
  "cmd_Run (calm_env x) as = ret (None, [], [])" "time_Now (calm_env x) = ret 0"
  "time_Sleep (calm_env x) n = ret ()" "net_ListenPacket (calm_env x) = ret (Inr 0)"
  "conn_LocalAddr (calm_env x) c = ret (''udp'', ''0.0.0.0:40000'')"
  "net_ResolveUDPAddr (calm_env x) nw a = ret (Inr 40000)" "conn_Close (calm_env x) c = ret (Inr ())"
  by (simp_all add: calm_env_def)

lemma run_ret [simp, go_run]: "run_state (ret x) s = (x, s)"
  by (simp add: State_Monad.return_def)

lemma run_logged [go_run]:
  "run_state (logged m ev) (w, t) = (case run_state m w of (x, w') \<Rightarrow> (x, w', t @ [ev x]))"
  by (simp add: logged_def split: prod.split)

end
