(* ===== verification/Go_Net.thy ===== *)
theory Go_Net
  imports Go_Strings
begin

text \<open>
  What the repository uses of Go's packages \<open>regexp\<close> (whole-text matches of fixed patterns), \<open>net\<close> and
  \<open>net/netip\<close> (the syntax of addresses). The regular-expression matcher is proved against the relation
  that says which strings an expression describes.
\<close>

subsection \<open>Regular expressions\<close>

datatype rexp =
    Fail
  | Empty
  | Class "char \<Rightarrow> bool"
  | Alt rexp rexp
  | Seq rexp rexp
  | Rep rexp

text \<open>Which texts an expression describes.\<close>

inductive describes :: "rexp \<Rightarrow> string \<Rightarrow> bool" where
  d_empty: "describes Empty []"
| d_class: "p c \<Longrightarrow> describes (Class p) [c]"
| d_alt1: "describes r s \<Longrightarrow> describes (Alt r q) s"
| d_alt2: "describes q s \<Longrightarrow> describes (Alt r q) s"
| d_seq: "describes r s \<Longrightarrow> describes q t \<Longrightarrow> describes (Seq r q) (s @ t)"
| d_rep0: "describes (Rep r) []"
| d_rep: "describes r s \<Longrightarrow> describes (Rep r) t \<Longrightarrow> describes (Rep r) (s @ t)"

inductive_simps describes_simps [simp]:
  "describes Fail s" "describes Empty s" "describes (Class p) s" "describes (Alt r q) s" "describes (Seq r q) s"

inductive_cases describes_RepE: "describes (Rep r) s"

fun accepts_empty :: "rexp \<Rightarrow> bool" where
  "accepts_empty Fail = False"
| "accepts_empty Empty = True"
| "accepts_empty (Class p) = False"
| "accepts_empty (Alt r q) = (accepts_empty r \<or> accepts_empty q)"
| "accepts_empty (Seq r q) = (accepts_empty r \<and> accepts_empty q)"
| "accepts_empty (Rep r) = True"

definition mk_alt :: "rexp \<Rightarrow> rexp \<Rightarrow> rexp" where
  "mk_alt r q = (case r of Fail \<Rightarrow> q | _ \<Rightarrow> (case q of Fail \<Rightarrow> r | _ \<Rightarrow> Alt r q))"

definition mk_seq :: "rexp \<Rightarrow> rexp \<Rightarrow> rexp" where
  "mk_seq r q = (case r of Fail \<Rightarrow> Fail | Empty \<Rightarrow> q | _ \<Rightarrow> Seq r q)"

text \<open>What is left to match after one byte.\<close>

fun after_byte :: "char \<Rightarrow> rexp \<Rightarrow> rexp" where
  "after_byte c Fail = Fail"
| "after_byte c Empty = Fail"
| "after_byte c (Class p) = (if p c then Empty else Fail)"
| "after_byte c (Alt r q) = mk_alt (after_byte c r) (after_byte c q)"
| "after_byte c (Seq r q) =
     (if accepts_empty r then mk_alt (mk_seq (after_byte c r) q) (after_byte c q)
      else mk_seq (after_byte c r) q)"
| "after_byte c (Rep r) = mk_seq (after_byte c r) (Rep r)"

definition MatchString :: "rexp \<Rightarrow> string \<Rightarrow> bool" where
  "MatchString r s = accepts_empty (fold after_byte s r)"

lemma describes_mk_alt [simp]: "describes (mk_alt r q) s = describes (Alt r q) s"
  by (auto simp: mk_alt_def split: rexp.splits)

lemma describes_mk_seq [simp]: "describes (mk_seq r q) s = describes (Seq r q) s"
  by (auto simp: mk_seq_def split: rexp.splits)

lemma accepts_empty_describes: "accepts_empty r \<longleftrightarrow> describes r []"
  by (induction r) (auto intro: d_rep0)

lemma describes_Rep_Cons:
  assumes "describes (Rep r) (c # t)"
  shows "\<exists>u v. t = u @ v \<and> describes r (c # u) \<and> describes (Rep r) v"
  using assms
proof (induction "Rep r" "c # t" rule: describes.induct)
  case (d_rep s v)
  then show ?case by (cases s) (auto simp: Cons_eq_append_conv)
qed

lemma describes_Seq_Cons:
  "describes (Seq r q) (c # t) \<longleftrightarrow>
     (describes r [] \<and> describes q (c # t)) \<or> (\<exists>u v. t = u @ v \<and> describes r (c # u) \<and> describes q v)"
  by (auto simp: Cons_eq_append_conv)

lemma describes_after_byte: "describes (after_byte c r) s \<longleftrightarrow> describes r (c # s)"
proof (induction r arbitrary: s)
  case (Seq r q)
  then show ?case
    by (simp add: describes_Seq_Cons accepts_empty_describes del: describes_simps(5))
       (auto simp: describes_simps)
next
  case (Rep r)
  then show ?case
    by (auto dest: describes_Rep_Cons intro: d_rep [where s = "c # _", simplified])
qed auto

theorem MatchString_describes: "MatchString r s \<longleftrightarrow> describes r s"
proof -
  have "accepts_empty (fold after_byte s r) \<longleftrightarrow> describes r s" for r
    by (induction s arbitrary: r) (simp_all add: accepts_empty_describes describes_after_byte)
  then show ?thesis by (simp add: MatchString_def)
qed

text \<open>The operators \<open>r+\<close>, \<open>r?\<close>, \<open>r{n}\<close> and \<open>r{0,n}\<close>, and the byte classes the patterns use.\<close>

definition re_plus :: "rexp \<Rightarrow> rexp" where "re_plus r = Seq r (Rep r)"
definition re_opt :: "rexp \<Rightarrow> rexp" where "re_opt r = Alt Empty r"

fun re_times :: "nat \<Rightarrow> rexp \<Rightarrow> rexp" where
  "re_times 0 r = Empty"
| "re_times (Suc n) r = Seq r (re_times n r)"

fun re_upto :: "nat \<Rightarrow> rexp \<Rightarrow> rexp" where
  "re_upto 0 r = Empty"
| "re_upto (Suc n) r = Alt Empty (Seq r (re_upto n r))"

abbreviation byte_in :: "char \<Rightarrow> nat \<Rightarrow> nat \<Rightarrow> bool" where
  "byte_in c lo hi \<equiv> lo \<le> (of_char c :: nat) \<and> (of_char c :: nat) \<le> hi"

definition is_digit :: "char \<Rightarrow> bool" where "is_digit c = byte_in c 48 57"
definition is_lower :: "char \<Rightarrow> bool" where "is_lower c = byte_in c 97 122"
definition is_upper :: "char \<Rightarrow> bool" where "is_upper c = byte_in c 65 90"
definition is_hex :: "char \<Rightarrow> bool" where "is_hex c = (is_digit c \<or> byte_in c 97 102 \<or> byte_in c 65 70)"

lemmas byte_class_defs = is_digit_def is_lower_def is_upper_def is_hex_def

lemma describes_Rep_Class: "describes (Rep (Class p)) s \<longleftrightarrow> list_all p s"
proof
  assume "describes (Rep (Class p)) s"
  then show "list_all p s"
    by (induction "Rep (Class p)" s rule: describes.induct) auto
next
  assume "list_all p s"
  then show "describes (Rep (Class p)) s"
  proof (induction s)
    case Nil
    show ?case by (rule d_rep0)
  next
    case (Cons c s)
    then have "describes (Class p) [c]" and "describes (Rep (Class p)) s" by auto
    from d_rep [OF this] show ?case by simp
  qed
qed

subsection \<open>Addresses\<close>

text \<open>
  \<open>netip.ParseAddr\<close>, as far as the repository asks: whether the text is an address, of which family, and
  with which zone. An octet is a decimal number up to 255 with no leading zero.
\<close>

datatype addr = V4 | V6 string

definition valid_octet :: "string \<Rightarrow> bool" where
  "valid_octet f \<longleftrightarrow>
     f \<noteq> [] \<and> list_all is_digit f \<and> (length f = 1 \<or> hd f \<noteq> CHR ''0'') \<and>
     parse_digits 10 255 0 f \<noteq> Inl ErrRange"

fun split_dot :: "string \<Rightarrow> string list" where
  "split_dot [] = [[]]"
| "split_dot (c # cs) =
     (if c = CHR ''.'' then [] # split_dot cs else (c # hd (split_dot cs)) # tl (split_dot cs))"

definition valid_ipv4 :: "string \<Rightarrow> bool" where
  "valid_ipv4 s \<longleftrightarrow> (let fs = split_dot s in length fs = 4 \<and> list_all valid_octet fs)"

text \<open>
  The loop of \<open>parseIPv6\<close>: \<open>i\<close> bytes are filled, \<open>ell\<close> says whether an ellipsis was seen, \<open>s\<close> is what
  remains. The result is the fill and the ellipsis at the end, or \<^const>\<open>None\<close> on an error.
\<close>

function ipv6_fields :: "nat \<Rightarrow> bool \<Rightarrow> string \<Rightarrow> (nat \<times> bool) option" where
  "ipv6_fields i ell s =
     (if 16 \<le> i then (if s = [] then Some (i, ell) else None)
      else
        let h = takeWhile is_hex s; r = dropWhile is_hex s
        in if h = [] \<or> 4 < length h then None
           else case r of
             [] \<Rightarrow> Some (i + 2, ell)
           | c # r1 \<Rightarrow>
               if c = CHR ''.'' then
                 (if (\<not> ell \<and> i \<noteq> 12) \<or> 16 < i + 4 \<or> \<not> valid_ipv4 s then None else Some (i + 4, ell))
               else if c \<noteq> CHR '':'' \<or> r1 = [] then None
               else if hd r1 = CHR '':'' then
                 (if ell then None
                  else if tl r1 = [] then Some (i + 2, True)
                  else ipv6_fields (i + 2) True (tl r1))
               else ipv6_fields (i + 2) ell r1)"
  by pat_completeness auto
termination
  by (relation "measure (\<lambda>(i, _, _). 16 - i)") auto

declare ipv6_fields.simps [simp del]

definition valid_ipv6 :: "string \<Rightarrow> bool" where
  "valid_ipv6 s =
     (if s = ''::'' then True
      else let lead = HasPrefix s ''::''
           in case ipv6_fields 0 lead (if lead then drop 2 s else s) of
                None \<Rightarrow> False
              | Some (i, ell) \<Rightarrow> if i < 16 then ell else \<not> ell)"

definition ParseAddr :: "string \<Rightarrow> addr option" where
  "ParseAddr s =
     (case filter (\<lambda>c. c \<in> set ''.:%'') s of
        [] \<Rightarrow> None
      | c # _ \<Rightarrow>
          if c = CHR ''.'' then (if valid_ipv4 s then Some V4 else None)
          else if c = CHR ''%'' then None
          else case Cut s ''%'' of
                 None \<Rightarrow> if valid_ipv6 s then Some (V6 []) else None
               | Some (a, zone) \<Rightarrow> if zone \<noteq> [] \<and> valid_ipv6 a then Some (V6 zone) else None)"

text \<open>\<open>net.ParseIP(s) != nil\<close>, and that \<open>net.ParseCIDR(s)\<close> returns no error.\<close>

definition ParseIP_ok :: "string \<Rightarrow> bool" where
  "ParseIP_ok s = (ParseAddr s = Some V4 \<or> ParseAddr s = Some (V6 []))"

definition mask_ok :: "nat \<Rightarrow> string \<Rightarrow> bool" where
  "mask_ok bits m \<longleftrightarrow>
     m \<noteq> [] \<and> list_all is_digit m \<and> parse_digits 10 bits 0 m \<noteq> Inl ErrRange"

definition ParseCIDR_ok :: "string \<Rightarrow> bool" where
  "ParseCIDR_ok s =
     (case Cut s ''/'' of
        None \<Rightarrow> False
      | Some (a, m) \<Rightarrow>
          (case ParseAddr a of
             None \<Rightarrow> False
           | Some V4 \<Rightarrow> mask_ok 32 m
           | Some (V6 zone) \<Rightarrow> zone = [] \<and> mask_ok 128 m))"

definition JoinHostPort :: "string \<Rightarrow> string \<Rightarrow> string" where
  "JoinHostPort host port =
     (if CHR '':'' \<in> set host then ''['' @ host @ '']:'' @ port else host @ '':'' @ port)"

end
