(* ===== verification/Go_Encoding.thy ===== *)
theory Go_Encoding
  imports Go_Strings
begin

text \<open>
  Go's \<open>base64.StdEncoding.DecodeString\<close> and \<open>crypto/sha1.Sum\<close>, printed in hexadecimal. Decoding is
  proved to invert the encoding of RFC 4648.
\<close>

unbundle bit_operations_syntax

subsection \<open>Base64\<close>

definition base64_alphabet :: string where
  "base64_alphabet = ''ABCDEFGHIJKLMNOPQRSTUVWXYZabcdefghijklmnopqrstuvwxyz0123456789+/''"

definition decode_sextet :: "char \<Rightarrow> nat option" where
  "decode_sextet c =
     (let n = of_char c :: nat
      in if 65 \<le> n \<and> n \<le> 90 then Some (n - 65)
         else if 97 \<le> n \<and> n \<le> 122 then Some (n - 71)
         else if 48 \<le> n \<and> n \<le> 57 then Some (n + 4)
         else if n = 43 then Some 62
         else if n = 47 then Some 63
         else None)"

definition encode_sextet :: "nat \<Rightarrow> char" where
  "encode_sextet d =
     char_of (if d < 26 then d + 65 else if d < 52 then d + 71 else if d < 62 then d - 4
              else if d = 62 then 43 else 47 :: nat)"

definition corrupt :: "nat \<Rightarrow> goerr" where
  "corrupt i = ErrorsNew (''illegal base64 data at input byte '' @ Itoa (int i))"

definition unpack3 :: "nat \<Rightarrow> nat \<Rightarrow> nat \<Rightarrow> nat \<Rightarrow> string" where
  "unpack3 a b c d = (let v = ((a * 64 + b) * 64 + c) * 64 + d
     in [char_of (v div 65536), char_of (v div 256), char_of v])"

text \<open>
  \<open>decodeQuantum\<close>, quantum by quantum. The input is numbered and its line ends are dropped before, as
  every branch of the Go code skips them; \<open>buf\<close> holds the sextets of the current quantum, \<open>n\<close> is the
  length of the input, for the positions in the errors.
\<close>

fun decode_quanta :: "nat \<Rightarrow> nat list \<Rightarrow> (nat \<times> char) list \<Rightarrow> goerr + string" where
  "decode_quanta n buf [] = (if buf = [] then Inr [] else Inl (corrupt (n - length buf)))"
| "decode_quanta n buf ((i, ch) # rest) =
     (case decode_sextet ch of
        Some d \<Rightarrow>
          (case buf of
             [a, b, c] \<Rightarrow>
               (case decode_quanta n [] rest of
                  Inl e \<Rightarrow> Inl e
                | Inr t \<Rightarrow> Inr (unpack3 a b c d @ t))
           | _ \<Rightarrow> decode_quanta n (buf @ [d]) rest)
      | None \<Rightarrow>
          if ch \<noteq> CHR ''='' then Inl (corrupt i)
          else (case buf of
             [a, b] \<Rightarrow>
               (case rest of
                  [] \<Rightarrow> Inl (corrupt n)
                | [(i', ch')] \<Rightarrow> if ch' = CHR ''='' then Inr (take 1 (unpack3 a b 0 0)) else Inl (corrupt (i' - 1))
                | (i', ch') # (i'', _) # _ \<Rightarrow> Inl (corrupt (if ch' = CHR ''='' then i'' else i' - 1)))
           | [a, b, c] \<Rightarrow>
               (case rest of
                  [] \<Rightarrow> Inr (take 2 (unpack3 a b c 0))
                | (i', _) # _ \<Rightarrow> Inl (corrupt i'))
           | _ \<Rightarrow> Inl (corrupt i)))"

definition line_end :: "char \<Rightarrow> bool" where
  "line_end c = (c = CHR 0x0A \<or> c = CHR 0x0D)"

definition base64_DecodeString :: "string \<Rightarrow> goerr + string" where
  "base64_DecodeString s =
     decode_quanta (length s) [] (filter (\<lambda>(_, c). \<not> line_end c) (enumerate 0 s))"

text \<open>The encoding of RFC 4648, section 4.\<close>

fun base64_encode :: "string \<Rightarrow> string" where
  "base64_encode [] = []"
| "base64_encode [x] =
     (let v = of_char x * 65536 in [encode_sextet (v div 262144), encode_sextet (v div 4096 mod 64)] @ ''=='')"
| "base64_encode [x, y] =
     (let v = of_char x * 65536 + of_char y * 256
      in [encode_sextet (v div 262144), encode_sextet (v div 4096 mod 64), encode_sextet (v div 64 mod 64)] @ ''='')"
| "base64_encode (x # y # z # s) =
     (let v = of_char x * 65536 + of_char y * 256 + of_char z
      in [encode_sextet (v div 262144), encode_sextet (v div 4096 mod 64), encode_sextet (v div 64 mod 64),
          encode_sextet (v mod 64)] @ base64_encode s)"

lemma decode_encode_sextet [simp]:
  assumes "d < 64"
  shows "decode_sextet (encode_sextet d) = Some d"
  using assms by (auto simp: decode_sextet_def encode_sextet_def of_char_of Let_def)

lemma encode_sextet_not_line_end [simp]:
  assumes "d < 64"
  shows "\<not> line_end (encode_sextet d)"
proof
  assume "line_end (encode_sextet d)"
  then have "decode_sextet (encode_sextet d) = None" by (auto simp: line_end_def decode_sextet_def)
  then show False using assms by simp
qed

lemma unpack3_pack:
  fixes x y z :: char
  defines "v \<equiv> of_char x * 65536 + of_char y * 256 + of_char z :: nat"
  shows "unpack3 (v div 262144) (v div 4096 mod 64) (v div 64 mod 64) (v mod 64) = [x, y, z]"
proof -
  have "((v div 262144 * 64 + v div 4096 mod 64) * 64 + v div 64 mod 64) * 64 + v mod 64 = v"
    by (simp add: div_mult2_eq [of _ 64 64, simplified] div_mult2_eq [of _ 64 4096, simplified])
  moreover have v: "v = (of_char x * 256 + of_char y) * 256 + of_char z"
    by (simp add: v_def)
  have "v div 65536 = of_char x" "v div 256 = of_char x * 256 + of_char y"
    using nat_of_char_less_256 [of y] nat_of_char_less_256 [of z] unfolding v_def by linarith+
  moreover have "v mod 256 = of_char z" unfolding v by (simp only: mod_mult_self3 of_char_mod_256)
  ultimately show ?thesis
    unfolding unpack3_def Let_def by (metis char_of_mod_256 char_of_char mod_mult_self3)
qed

lemma decode_quad:
  assumes "d1 < 64" "d2 < 64" "d3 < 64" "d4 < 64"
  shows "decode_quanta n [] ((i1, encode_sextet d1) # (i2, encode_sextet d2) # (i3, encode_sextet d3) # (i4, encode_sextet d4) # rest)
     = (case decode_quanta n [] rest of Inl e \<Rightarrow> Inl e | Inr t \<Rightarrow> Inr (unpack3 d1 d2 d3 d4 @ t))"
  using assms by simp

theorem base64_roundtrip_from:
  "decode_quanta n [] (filter (\<lambda>(_, c). \<not> line_end c) (enumerate k (base64_encode s))) = Inr s"
proof (induction s arbitrary: k rule: base64_encode.induct)
  case (2 x)
  have "(of_char x :: nat) * 65536 div 262144 < 64" using nat_of_char_less_256 [of x] by linarith
  then show ?case
    using unpack3_pack [of x "CHR 0x00" "CHR 0x00"]
    by (simp add: Let_def line_end_def [of "CHR ''=''"] decode_sextet_def [of "CHR ''=''"])
next
  case (3 x y)
  let ?v = "(of_char x :: nat) * 65536 + of_char y * 256"
  have "?v div 262144 < 64" using nat_of_char_less_256 [of x] nat_of_char_less_256 [of y] by linarith
  then show ?case
    using unpack3_pack [of x y "CHR 0x00"]
    by (simp add: Let_def line_end_def [of "CHR ''=''"] decode_sextet_def [of "CHR ''=''"])
next
  case (4 x y z s)
  let ?v = "(of_char x :: nat) * 65536 + of_char y * 256 + of_char z"
  have "?v div 262144 < 64"
    using nat_of_char_less_256 [of x] nat_of_char_less_256 [of y] nat_of_char_less_256 [of z] by linarith
  then show ?case
    using 4 by (simp add: Let_def decode_quad unpack3_pack del: decode_quanta.simps)
qed simp

corollary base64_roundtrip: "base64_DecodeString (base64_encode s) = Inr s"
  by (simp add: base64_DecodeString_def base64_roundtrip_from)

subsection \<open>SHA-1\<close>

definition sha1_pad :: "string \<Rightarrow> string" where
  "sha1_pad s =
     (let l = length s
      in s @ [CHR 0x80] @ replicate ((119 - l mod 64) mod 64) (CHR 0x00)
         @ map (\<lambda>i. char_of ((8 * int l) div 256 ^ i)) [7, 6, 5, 4, 3, 2, 1, 0])"

fun word_of_bytes :: "string \<Rightarrow> 32 word list" where
  "word_of_bytes (a # b # c # d # s) =
     (((of_char a * 256 + of_char b) * 256 + of_char c) * 256 + of_char d) # word_of_bytes s"
| "word_of_bytes _ = []"

fun blocks :: "nat \<Rightarrow> 32 word list \<Rightarrow> 32 word list list" where
  "blocks 0 ws = []"
| "blocks (Suc n) ws = take 16 ws # blocks n (drop 16 ws)"

type_synonym sha1_state = "32 word \<times> 32 word \<times> 32 word \<times> 32 word \<times> 32 word"

text \<open>The message schedule keeps the last sixteen words, as the Go code does.\<close>

fun sha1_rounds :: "nat \<Rightarrow> nat \<Rightarrow> 32 word list \<Rightarrow> sha1_state \<Rightarrow> sha1_state" where
  "sha1_rounds 0 i w st = st"
| "sha1_rounds (Suc n) i w (a, b, c, d, e) =
     (let (f, k) =
        (if i < 20 then ((b AND c) OR (NOT b AND d), 0x5A827999)
         else if i < 40 then (b XOR c XOR d, 0x6ED9EBA1)
         else if i < 60 then ((b AND c) OR (b AND d) OR (c AND d), 0x8F1BBCDC)
         else (b XOR c XOR d, 0xCA62C1D6));
        t = word_rotl 5 a + f + e + hd w + k;
        x = word_rotl 1 ((w ! 13) XOR (w ! 8) XOR (w ! 2) XOR (w ! 0))
      in sha1_rounds n (Suc i) (tl w @ [x]) (t, a, word_rotl 30 b, c, d))"

definition sha1_block :: "32 word list \<Rightarrow> sha1_state \<Rightarrow> sha1_state" where
  "sha1_block w st =
     (let (a, b, c, d, e) = st; (a', b', c', d', e') = sha1_rounds 80 0 w st
      in (a + a', b + b', c + c', d + d', e + e'))"

definition sha1_init :: sha1_state where
  "sha1_init = (0x67452301, 0xEFCDAB89, 0x98BADCFE, 0x10325476, 0xC3D2E1F0)"

definition hex_word :: "32 word \<Rightarrow> string" where
  "hex_word w = map (\<lambda>i. digit_char (unat (drop_bit (4 * i) w AND 15))) [7, 6, 5, 4, 3, 2, 1, 0]"

definition sha1_hex :: "string \<Rightarrow> string" where
  "sha1_hex s =
     (let p = sha1_pad s;
          (a, b, c, d, e) = fold sha1_block (blocks (length p div 64) (word_of_bytes p)) sha1_init
      in concat (map hex_word [a, b, c, d, e]))"

lemma length_sha1_hex [simp]: "length (sha1_hex s) = 40"
  by (simp add: sha1_hex_def hex_word_def Let_def split: prod.split)

lemma sha1_hex_digits:
  assumes "c \<in> set (sha1_hex s)"
  shows "\<exists>d < 16. c = digit_char d"
proof -
  have "unat (w AND 15 :: 32 word) < 16" for w
  proof -
    have "w AND 15 \<le> (15 :: 32 word)" by (rule word_and_le1)
    then show ?thesis by (simp add: word_le_nat_alt)
  qed
  then show ?thesis
    using assms by (auto simp: sha1_hex_def hex_word_def Let_def split: prod.splits)
qed

end
