(* ===== verification/Config.thy ===== *)
theory Config
  imports Go_Env Go_Net Go_Encoding
begin

text \<open>
  The configuration types of operator/api/v1/beegfsdriver_types.go that the driver reads, and
  pkg/beegfs/config.go: merging, validating and stripping configurations, and reading them from the
  configuration, connAuth and TLS certificate files. A configuration refines a partial function from
  settings to values; overwriting refines map addition, from which the order of precedence follows.
\<close>

subsection \<open>Types\<close>

text \<open>\<open>BeegfsClientConf\<close> is a map that may be nil (\<^const>\<open>None\<close>): reading a nil map finds nothing, writing to
  it panics.\<close>

record BeegfsConfig =
  GrpcPort :: string
  ConnInterfaces :: "string list"
  ConnNetFilter :: "string list"
  ConnTcpOnlyFilter :: "string list"
  BeegfsClientConf :: "gomap option"
  ConnAuth :: string
  TLSCert :: string
  ConnRDMAInterfaces :: "string list"

record FileSystemSpecificConfig =
  fs_SysMgmtdHost :: string
  fs_Config :: BeegfsConfig

record NodeSpecificConfig =
  NodeList :: "string list"
  ns_DefaultConfig :: BeegfsConfig
  ns_FileSystemSpecificConfigs :: "FileSystemSpecificConfig list"

record PluginConfig =
  DefaultConfig :: BeegfsConfig
  FileSystemSpecificConfigs :: "FileSystemSpecificConfig list"

record PluginConfigFromFile = PluginConfig +
  NodeSpecificConfigs :: "NodeSpecificConfig list"

record ConnAuthConfig =
  ca_SysMgmtdHost :: string
  ca_ConnAuth :: string
  ca_Encoding :: string

record TLSCertConfig =
  tls_SysMgmtdHost :: string
  tls_TLSCert :: string

text \<open>The zero value of the struct, and \<open>NewBeegfsConfig\<close>, which has a map that can be written.\<close>

definition zeroBeegfsConfig :: BeegfsConfig where
  "zeroBeegfsConfig = \<lparr> GrpcPort = [], ConnInterfaces = [], ConnNetFilter = [], ConnTcpOnlyFilter = [],
     BeegfsClientConf = None, ConnAuth = [], TLSCert = [], ConnRDMAInterfaces = [] \<rparr>"

definition NewBeegfsConfig :: BeegfsConfig where
  "NewBeegfsConfig = zeroBeegfsConfig\<lparr>BeegfsClientConf := Some []\<rparr>"

definition zeroPluginConfig :: PluginConfig where
  "zeroPluginConfig = \<lparr> DefaultConfig = zeroBeegfsConfig, FileSystemSpecificConfigs = [] \<rparr>"

definition client_conf :: "BeegfsConfig \<Rightarrow> gomap" where
  "client_conf c = (case BeegfsClientConf c of None \<Rightarrow> [] | Some m \<Rightarrow> m)"

subsection \<open>Overwriting\<close>

fun set_entries :: "gomap option \<Rightarrow> gomap \<Rightarrow> goerr + gomap option" where
  "set_entries m [] = Inr m"
| "set_entries None (e # es) = Inl (Panic ''assignment to entry in nil map'')"
| "set_entries (Some m) ((k, v) # es) = set_entries (Some (AList.update k v m)) es"

definition overWriteBeegfsConfig :: "BeegfsConfig \<Rightarrow> BeegfsConfig \<Rightarrow> goerr + BeegfsConfig" where
  "overWriteBeegfsConfig writeTo writeFrom =
     bindE (set_entries (BeegfsClientConf writeTo) (client_conf writeFrom)) (\<lambda>m.
       Inr (writeTo\<lparr>
         GrpcPort := if length (GrpcPort writeFrom) \<noteq> 0 then GrpcPort writeFrom else GrpcPort writeTo,
         ConnInterfaces := if length (ConnInterfaces writeFrom) \<noteq> 0 then ConnInterfaces writeFrom else ConnInterfaces writeTo,
         ConnNetFilter := if length (ConnNetFilter writeFrom) \<noteq> 0 then ConnNetFilter writeFrom else ConnNetFilter writeTo,
         ConnTcpOnlyFilter := if length (ConnTcpOnlyFilter writeFrom) \<noteq> 0 then ConnTcpOnlyFilter writeFrom else ConnTcpOnlyFilter writeTo,
         ConnRDMAInterfaces := if length (ConnRDMAInterfaces writeFrom) \<noteq> 0 then ConnRDMAInterfaces writeFrom else ConnRDMAInterfaces writeTo,
         ConnAuth := if ConnAuth writeFrom \<noteq> [] then ConnAuth writeFrom else ConnAuth writeTo,
         TLSCert := if TLSCert writeFrom \<noteq> [] then TLSCert writeFrom else TLSCert writeTo,
         BeegfsClientConf := m\<rparr>))"

fun overwrite_matching ::
  "FileSystemSpecificConfig list \<Rightarrow> FileSystemSpecificConfig \<Rightarrow> goerr + FileSystemSpecificConfig list"
where
  "overwrite_matching [] from = Inr []"
| "overwrite_matching (x # xs) from =
     bindE (if fs_SysMgmtdHost x = fs_SysMgmtdHost from
            then bindE (overWriteBeegfsConfig (fs_Config x) (fs_Config from)) (\<lambda>c. Inr (x\<lparr>fs_Config := c\<rparr>))
            else Inr x) (\<lambda>x'.
     bindE (overwrite_matching xs from) (\<lambda>xs'. Inr (x' # xs')))"

fun overwriteFileSystemSpecificConfigs ::
  "FileSystemSpecificConfig list \<Rightarrow> FileSystemSpecificConfig list \<Rightarrow> goerr + FileSystemSpecificConfig list"
where
  "overwriteFileSystemSpecificConfigs writeTo [] = Inr writeTo"
| "overwriteFileSystemSpecificConfigs writeTo (from # writeFrom) =
     bindE (if list_ex (\<lambda>x. fs_SysMgmtdHost x = fs_SysMgmtdHost from) writeTo
            then overwrite_matching writeTo from
            else Inr (writeTo @ [from])) (\<lambda>writeTo'.
     overwriteFileSystemSpecificConfigs writeTo' writeFrom)"

text \<open>\<open>squashConfigForSysMgmtdHost\<close> of beegfs_util.go\<close>

fun squash_onto :: "string \<Rightarrow> BeegfsConfig \<Rightarrow> FileSystemSpecificConfig list \<Rightarrow> goerr + BeegfsConfig" where
  "squash_onto host c [] = Inr c"
| "squash_onto host c (f # fs) =
     (if host = fs_SysMgmtdHost f
      then bindE (overWriteBeegfsConfig c (fs_Config f)) (\<lambda>c'. squash_onto host c' fs)
      else squash_onto host c fs)"

definition squashConfigForSysMgmtdHost :: "string \<Rightarrow> PluginConfig \<Rightarrow> goerr + BeegfsConfig" where
  "squashConfigForSysMgmtdHost host config =
     bindE (overWriteBeegfsConfig NewBeegfsConfig (DefaultConfig config)) (\<lambda>c.
       squash_onto host c (FileSystemSpecificConfigs config))"

subsection \<open>Validating and stripping\<close>

definition noEffectBeegfsConfOptions :: "string list" where
  "noEffectBeegfsConfOptions = [''sysMgmtdHost'', ''connClientPortUDP'', ''connClientPort'', ''connPortShift'']"

definition unsupportedBeegfsConfOptions :: "string list" where
  "unsupportedBeegfsConfOptions =
     [''connInterfacesFile'', ''connNetFilterFile'', ''connTcpOnlyFilterFile'', ''connAuthFile'', ''connRDMAInterfacesFile'']"

text \<open>
  The pattern \<open>^(?:[_a-z0-9](?:[_a-z0-9-]{0,61}[a-z0-9]\.)|(?:[0-9]+/[0-9]{2})\.)+(?:[a-z](?:[a-z0-9-]{0,61}[a-z0-9])?)?$\<close>
\<close>

definition lower_digit :: rexp where
  "lower_digit = Class (\<lambda>c. is_lower c \<or> is_digit c)"

definition domainRegex :: rexp where
  "domainRegex =
     (let digit = Class is_digit;
          dot = Class (\<lambda>c. c = CHR ''.'');
          label = Seq (Class (\<lambda>c. c = CHR ''_'' \<or> is_lower c \<or> is_digit c))
                    (Seq (re_upto 61 (Class (\<lambda>c. c = CHR ''_'' \<or> is_lower c \<or> is_digit c \<or> c = CHR ''-'')))
                       (Seq lower_digit dot));
          range = Seq (Seq (re_plus digit) (Seq (Class (\<lambda>c. c = CHR ''/'')) (re_times 2 digit))) dot;
          top = Seq (Class is_lower)
                  (re_opt (Seq (re_upto 61 (Class (\<lambda>c. is_lower c \<or> is_digit c \<or> c = CHR ''-''))) lower_digit))
      in Seq (re_plus (Alt label range)) (re_opt top))"

fun check_all :: "('a \<Rightarrow> goerr + unit) \<Rightarrow> 'a list \<Rightarrow> goerr + unit" where
  "check_all f [] = Inr ()"
| "check_all f (x # xs) = bindE (f x) (\<lambda>_. check_all f xs)"

definition checkHost :: "FileSystemSpecificConfig \<Rightarrow> goerr + unit" where
  "checkHost f =
     (let h = fs_SysMgmtdHost f
      in if h \<noteq> ''localhost'' \<and> \<not> ParseIP_ok h \<and> \<not> MatchString domainRegex h
         then Inl (ErrorsNew (''invalid SysMgmtdHost '' @ h)) else Inr ())"

definition checkFilter :: "string \<Rightarrow> string \<Rightarrow> goerr + unit" where
  "checkFilter what filt =
     (if \<not> ParseCIDR_ok filt \<and> \<not> ParseIP_ok filt
      then Inl (ErrorsNew (''invalid '' @ what @ '' '' @ filt)) else Inr ())"

definition checkBeegfsConfig :: "BeegfsConfig \<Rightarrow> goerr + unit" where
  "checkBeegfsConfig c =
     bindE (if GrpcPort c \<noteq> [] \<and> (case Atoi (GrpcPort c) of Inl _ \<Rightarrow> True | Inr p \<Rightarrow> p < 1 \<or> p > 65535)
            then Inl (ErrorsNew (''invalid GrpcPort '' @ GrpcPort c)) else Inr ()) (\<lambda>_.
     bindE (check_all (checkFilter ''ConnNetFilter'') (ConnNetFilter c)) (\<lambda>_.
     check_all (checkFilter ''ConnTCPOnlyFilter'') (ConnTcpOnlyFilter c)))"

definition validateConfig :: "PluginConfig \<Rightarrow> goerr + unit" where
  "validateConfig plConfig =
     bindE (check_all checkHost (FileSystemSpecificConfigs plConfig)) (\<lambda>_.
     check_all checkBeegfsConfig (DefaultConfig plConfig # map fs_Config (FileSystemSpecificConfigs plConfig)))"

definition stripBeegfsConfig :: "BeegfsConfig \<Rightarrow> BeegfsConfig" where
  "stripBeegfsConfig c =
     c\<lparr>BeegfsClientConf := map_option (fold AList.delete noEffectBeegfsConfOptions) (BeegfsClientConf c)\<rparr>"

definition stripConfig :: "PluginConfig \<Rightarrow> PluginConfig" where
  "stripConfig plConfig =
     plConfig\<lparr>DefaultConfig := stripBeegfsConfig (DefaultConfig plConfig),
       FileSystemSpecificConfigs :=
         map (\<lambda>f. f\<lparr>fs_Config := stripBeegfsConfig (fs_Config f)\<rparr>) (FileSystemSpecificConfigs plConfig)\<rparr>"

subsection \<open>Reading the files\<close>

definition apply_node_config :: "PluginConfig \<Rightarrow> NodeSpecificConfig \<Rightarrow> goerr + PluginConfig" where
  "apply_node_config p nc =
     bindE (overWriteBeegfsConfig (DefaultConfig p) (ns_DefaultConfig nc)) (\<lambda>d.
     bindE (overwriteFileSystemSpecificConfigs (FileSystemSpecificConfigs p) (ns_FileSystemSpecificConfigs nc)) (\<lambda>fs.
     Inr (p\<lparr>DefaultConfig := d, FileSystemSpecificConfigs := fs\<rparr>)))"

fun apply_node_configs :: "string \<Rightarrow> PluginConfig \<Rightarrow> NodeSpecificConfig list \<Rightarrow> goerr + PluginConfig" where
  "apply_node_configs nodeID p [] = Inr p"
| "apply_node_configs nodeID p (nc # ncs) =
     (if list_ex (\<lambda>n. nodeID = n) (NodeList nc)
      then bindE (apply_node_config p nc) (\<lambda>p'. apply_node_configs nodeID p' ncs)
      else apply_node_configs nodeID p ncs)"

fun re_lit :: "string \<Rightarrow> rexp" where
  "re_lit [] = Empty"
| "re_lit (c # cs) = Seq (Class (\<lambda>x. x = c)) (re_lit cs)"

text \<open>The search for \<open>.*cannot unmarshal .* into Go struct field .*\.beegfsClientConf of type string.*\<close>\<close>

definition unquotedRegex :: rexp where
  "unquotedRegex =
     (let anything = Rep (Class (\<lambda>c. True)); dots = Rep (Class (\<lambda>c. c \<noteq> CHR 0x0A))
      in Seq anything (Seq dots (Seq (re_lit ''cannot unmarshal '') (Seq dots (Seq (re_lit '' into Go struct field '')
           (Seq dots (Seq (re_lit ''.beegfsClientConf of type string'') (Seq dots anything))))))))"

definition parseConfigFromFile ::
  "'w os_env \<Rightarrow> (string \<Rightarrow> goerr + PluginConfigFromFile) \<Rightarrow> string \<Rightarrow> string \<Rightarrow> ('w, goerr + PluginConfig) state"
where
  "parseConfigFromFile env unmarshal path nodeID =
     checked (os_ReadFile env path) (\<lambda>e. errors_Wrap e ''failed to read configuration file'') (\<lambda>rawConfigBytes.
     guarded (unmarshal rawConfigBytes)
       (\<lambda>e. errors_Wrap e (if MatchString unquotedRegex (err_msg e)
                           then ''likely missing quotes around an integer or boolean beegfsClientConf value''
                           else ''failed to unmarshal configuration file'')) (\<lambda>rawConfig.
     guarded (apply_node_configs nodeID (PluginConfig.truncate rawConfig) (NodeSpecificConfigs rawConfig)) id (\<lambda>newPluginConfig.
     guarded (validateConfig newPluginConfig) (\<lambda>e. WithMessage e ''config validation failed'') (\<lambda>_.
     ret (Inr (stripConfig newPluginConfig))))))"

definition decodeConnAuth :: "ConnAuthConfig \<Rightarrow> goerr + string" where
  "decodeConnAuth c =
     (if ca_Encoding c = ''raw'' \<or> ca_Encoding c = [] then Inr (ca_ConnAuth c @ [CHR 0x0A])
      else if ca_Encoding c = ''base64'' then
        (case base64_DecodeString (ca_ConnAuth c) of
           Inl e \<Rightarrow> Inl (errors_Wrap e ''failed to decode base64 connAuth'')
         | Inr s \<Rightarrow> Inr s)
      else Inl (ErrorsNew (''invalid ConnAuthFile encoding '' @ ca_Encoding c)))"

text \<open>The first configuration for the host gets the secret; without one, a new configuration is appended.\<close>

fun set_for_host ::
  "(BeegfsConfig \<Rightarrow> BeegfsConfig) \<Rightarrow> string \<Rightarrow> FileSystemSpecificConfig list \<Rightarrow> FileSystemSpecificConfig list"
where
  "set_for_host upd host [] = [\<lparr> fs_SysMgmtdHost = host, fs_Config = upd zeroBeegfsConfig \<rparr>]"
| "set_for_host upd host (f # fs) =
     (if host = fs_SysMgmtdHost f then f\<lparr>fs_Config := upd (fs_Config f)\<rparr> # fs
      else f # set_for_host upd host fs)"

fun applyConnAuths :: "FileSystemSpecificConfig list \<Rightarrow> ConnAuthConfig list \<Rightarrow> goerr + FileSystemSpecificConfig list" where
  "applyConnAuths fs [] = Inr fs"
| "applyConnAuths fs (c # cs) =
     bindE (decodeConnAuth c) (\<lambda>secret.
       applyConnAuths (set_for_host (\<lambda>b. b\<lparr>ConnAuth := secret\<rparr>) (ca_SysMgmtdHost c) fs) cs)"

definition parseConnAuthFromFile ::
  "'w os_env \<Rightarrow> (string \<Rightarrow> goerr + ConnAuthConfig list) \<Rightarrow> string \<Rightarrow> PluginConfig \<Rightarrow> ('w, goerr + PluginConfig) state"
where
  "parseConnAuthFromFile env unmarshal path cfg =
     checked (os_ReadFile env path) (\<lambda>e. errors_Wrap e ''failed to read connAuth file'') (\<lambda>raw.
     guarded (unmarshal raw) (\<lambda>e. errors_Wrap e ''failed to unmarshal connAuth file'') (\<lambda>connAuthConfigs.
     guarded (applyConnAuths (FileSystemSpecificConfigs cfg) connAuthConfigs) id (\<lambda>fs.
     ret (Inr (cfg\<lparr>FileSystemSpecificConfigs := fs\<rparr>)))))"

definition applyTLSCerts :: "FileSystemSpecificConfig list \<Rightarrow> TLSCertConfig list \<Rightarrow> FileSystemSpecificConfig list" where
  "applyTLSCerts fs cs =
     foldl (\<lambda>fs c. set_for_host (\<lambda>b. b\<lparr>TLSCert := tls_TLSCert c @ [CHR 0x0A]\<rparr>) (tls_SysMgmtdHost c) fs) fs cs"

definition parseTLSCertsFromFile ::
  "'w os_env \<Rightarrow> (string \<Rightarrow> goerr + TLSCertConfig list) \<Rightarrow> string \<Rightarrow> PluginConfig \<Rightarrow> ('w, goerr + PluginConfig) state"
where
  "parseTLSCertsFromFile env unmarshal path cfg =
     checked (os_ReadFile env path) (\<lambda>e. errors_Wrap e ''failed to read tlsCerts file'') (\<lambda>raw.
     guarded (unmarshal raw) (\<lambda>e. errors_Wrap e ''failed to unmarshal tlsCerts file'') (\<lambda>tlsCertConfigs.
     ret (Inr (cfg\<lparr>FileSystemSpecificConfigs := applyTLSCerts (FileSystemSpecificConfigs cfg) tlsCertConfigs\<rparr>))))"

subsection \<open>Configurations as maps from settings to values\<close>

datatype setting =
    S_GrpcPort | S_ConnInterfaces | S_ConnNetFilter | S_ConnTcpOnlyFilter | S_ConnAuth | S_TLSCert
  | S_ConnRDMAInterfaces | S_ClientConf string

definition defined :: "'a list \<Rightarrow> 'b \<Rightarrow> 'b option" where
  "defined v x = (if v = [] then None else Some x)"

fun settings :: "BeegfsConfig \<Rightarrow> setting \<rightharpoonup> string list" where
  "settings c S_GrpcPort = defined (GrpcPort c) [GrpcPort c]"
| "settings c S_ConnInterfaces = defined (ConnInterfaces c) (ConnInterfaces c)"
| "settings c S_ConnNetFilter = defined (ConnNetFilter c) (ConnNetFilter c)"
| "settings c S_ConnTcpOnlyFilter = defined (ConnTcpOnlyFilter c) (ConnTcpOnlyFilter c)"
| "settings c S_ConnAuth = defined (ConnAuth c) [ConnAuth c]"
| "settings c S_TLSCert = defined (TLSCert c) [TLSCert c]"
| "settings c S_ConnRDMAInterfaces = defined (ConnRDMAInterfaces c) (ConnRDMAInterfaces c)"
| "settings c (S_ClientConf k) = map_option (\<lambda>v. [v]) (map_of (client_conf c) k)"

definition config_ok :: "BeegfsConfig \<Rightarrow> bool" where
  "config_ok c = is_map (client_conf c)"

definition writable :: "BeegfsConfig \<Rightarrow> bool" where
  "writable c = (BeegfsClientConf c \<noteq> None)"

definition layers :: "(setting \<rightharpoonup> string list) list \<Rightarrow> setting \<rightharpoonup> string list" where
  "layers ms = foldl (++) Map.empty ms"

definition for_host :: "string \<Rightarrow> FileSystemSpecificConfig list \<Rightarrow> BeegfsConfig list" where
  "for_host host fs = map fs_Config (filter (\<lambda>f. fs_SysMgmtdHost f = host) fs)"

lemma layers_simps [simp]:
  "layers [] = Map.empty"
  "layers (ms @ [m]) = layers ms ++ m"
  by (simp_all add: layers_def)

lemma foldl_map_add: "foldl (++) a ms = a ++ foldl (++) Map.empty ms"
  by (induction ms rule: rev_induct) simp_all

lemma layers_Cons [simp]: "layers (m # ms) = m ++ layers ms"
  by (simp add: layers_def foldl_map_add [of m])

lemma layers_append: "layers (ms @ ns) = layers ms ++ layers ns"
  by (induction ms) simp_all

lemma set_entries_Some:
  "set_entries (Some m) es = Inr (Some (fold (\<lambda>(k, v). AList.update k v) es m))"
  by (induction es arbitrary: m) auto

lemma map_of_set_entries:
  "is_map es \<Longrightarrow> map_of (fold (\<lambda>(k, v). AList.update k v) es m) = map_of m ++ map_of es"
proof (induction es arbitrary: m)
  case (Cons e es)
  obtain k v where e: "e = (k, v)" by fastforce
  with Cons have "k \<notin> dom (map_of es)" by (simp add: dom_map_of_conv_image_fst)
  with Cons e show ?case by (auto simp: fun_eq_iff update_conv' map_add_def domIff split: option.split)
qed simp

lemma is_map_set_entries: "is_map m \<Longrightarrow> is_map (fold (\<lambda>(k, v). AList.update k v) es m)"
  by (induction es arbitrary: m) auto

lemma set_entries_Inl:
  "set_entries m es = Inl e \<longleftrightarrow> m = None \<and> es \<noteq> [] \<and> e = Panic ''assignment to entry in nil map''"
  by (cases m; cases es) (auto simp: set_entries_Some)

lemma overWrite_result:
  assumes "overWriteBeegfsConfig dst src = Inr c" and "config_ok dst" and "config_ok src"
  shows "settings c = settings dst ++ settings src \<and> config_ok c \<and> (writable dst \<longrightarrow> writable c)"
proof -
  from assms(1) obtain m where m: "set_entries (BeegfsClientConf dst) (client_conf src) = Inr m"
    by (auto simp: overWriteBeegfsConfig_def bindE_Inr)
  have conf: "BeegfsClientConf c = m" using assms(1) m by (auto simp: overWriteBeegfsConfig_def)
  have "map_of (client_conf c) = map_of (client_conf dst) ++ map_of (client_conf src)
     \<and> config_ok c \<and> (writable dst \<longrightarrow> writable c)"
  proof (cases "BeegfsClientConf dst")
    case None
    then show ?thesis using m conf set_entries_Inl [of None "client_conf src"]
      by (cases "client_conf src") (auto simp: client_conf_def config_ok_def writable_def)
  next
    case (Some a)
    then show ?thesis
      using m conf assms(2,3)
      by (auto simp: set_entries_Some client_conf_def [of c] client_conf_def [of dst] config_ok_def writable_def
          map_of_set_entries is_map_set_entries)
  qed
  moreover have "settings c x = (settings dst ++ settings src) x" if "\<nexists>k. x = S_ClientConf k" for x
    using that assms(1) m by (cases x) (auto simp: overWriteBeegfsConfig_def map_add_def defined_def)
  moreover have "settings c (S_ClientConf k) = (settings dst ++ settings src) (S_ClientConf k)" for k
    using calculation(1) by (auto simp: map_add_def split: option.split)
  ultimately show ?thesis by (metis ext)
qed

lemma overWrite_writable:
  assumes "writable dst"
  shows "\<exists>c. overWriteBeegfsConfig dst src = Inr c"
  using assms by (auto simp: writable_def overWriteBeegfsConfig_def set_entries_Some)

definition fs_ok :: "FileSystemSpecificConfig list \<Rightarrow> bool" where
  "fs_ok fs = list_all (\<lambda>f. config_ok (fs_Config f)) fs"

definition plugin_ok :: "PluginConfig \<Rightarrow> bool" where
  "plugin_ok p = (config_ok (DefaultConfig p) \<and> fs_ok (FileSystemSpecificConfigs p))"

abbreviation host_layers :: "string \<Rightarrow> FileSystemSpecificConfig list \<Rightarrow> setting \<rightharpoonup> string list" where
  "host_layers host fs \<equiv> layers (map settings (for_host host fs))"

lemma for_host_simps [simp]:
  "for_host h [] = []"
  "for_host h (f # fs) = (if fs_SysMgmtdHost f = h then fs_Config f # for_host h fs else for_host h fs)"
  "for_host h (fs @ gs) = for_host h fs @ for_host h gs"
  by (simp_all add: for_host_def)

lemma squash_onto_result:
  assumes "writable c" "config_ok c" "fs_ok fs"
  shows "\<exists>c'. squash_onto h c fs = Inr c' \<and> settings c' = settings c ++ host_layers h fs \<and> config_ok c' \<and> writable c'"
  using assms
proof (induction fs arbitrary: c)
  case (Cons f fs)
  show ?case
  proof (cases "h = fs_SysMgmtdHost f")
    case True
    obtain c1 where c1: "overWriteBeegfsConfig c (fs_Config f) = Inr c1"
      using overWrite_writable Cons.prems(1) by blast
    moreover have "config_ok (fs_Config f)" "fs_ok fs" using Cons.prems(3) by (auto simp: fs_ok_def)
    ultimately have "settings c1 = settings c ++ settings (fs_Config f)" "config_ok c1" "writable c1"
      using overWrite_result [OF c1] Cons.prems by auto
    with Cons.IH [of c1] \<open>fs_ok fs\<close> True c1 show ?thesis by auto
  qed (use Cons in \<open>simp add: fs_ok_def\<close>)
qed simp

lemma NewBeegfsConfig_ok [simp]:
  "writable NewBeegfsConfig" "config_ok NewBeegfsConfig" "settings NewBeegfsConfig = Map.empty"
proof -
  have "settings NewBeegfsConfig x = None" for x
    by (cases x) (simp_all add: NewBeegfsConfig_def zeroBeegfsConfig_def defined_def client_conf_def)
  then show "settings NewBeegfsConfig = Map.empty" by blast
qed (simp_all add: NewBeegfsConfig_def zeroBeegfsConfig_def writable_def config_ok_def client_conf_def)

lemma squash_result:
  assumes "plugin_ok p"
  shows "\<exists>c. squashConfigForSysMgmtdHost h p = Inr c
     \<and> settings c = settings (DefaultConfig p) ++ host_layers h (FileSystemSpecificConfigs p) \<and> config_ok c \<and> writable c"
proof -
  obtain d where d: "overWriteBeegfsConfig NewBeegfsConfig (DefaultConfig p) = Inr d"
    using overWrite_writable NewBeegfsConfig_ok(1) by blast
  moreover have "settings d = settings (DefaultConfig p)" "config_ok d" "writable d"
    using overWrite_result [OF d] assms by (auto simp: plugin_ok_def)
  ultimately show ?thesis
    using squash_onto_result [of d "FileSystemSpecificConfigs p" h] assms
    by (auto simp: squashConfigForSysMgmtdHost_def plugin_ok_def)
qed

text \<open>Overwriting every matching entry adds one layer on top, if some entry matches.\<close>

lemma overwrite_matching_result:
  assumes "overwrite_matching fs from = Inr fs'" "fs_ok fs" "config_ok (fs_Config from)"
  shows "fs_ok fs' \<and> map fs_SysMgmtdHost fs' = map fs_SysMgmtdHost fs
    \<and> (\<forall>h. host_layers h fs' = (if h = fs_SysMgmtdHost from \<and> for_host h fs \<noteq> []
         then host_layers h fs ++ settings (fs_Config from) else host_layers h fs))"
  using assms
proof (induction fs arbitrary: fs')
  case (Cons f fs)
  from Cons.prems obtain f' fs1 where 1: "fs' = f' # fs1" "overwrite_matching fs from = Inr fs1"
    and f': "(if fs_SysMgmtdHost f = fs_SysMgmtdHost from
            then bindE (overWriteBeegfsConfig (fs_Config f) (fs_Config from)) (\<lambda>c. Inr (f\<lparr>fs_Config := c\<rparr>))
            else Inr f) = Inr f'"
    by (auto simp: bindE_Inr)
  have ok: "config_ok (fs_Config f)" "fs_ok fs" using Cons.prems(2) by (auto simp: fs_ok_def)
  have f: "fs_SysMgmtdHost f' = fs_SysMgmtdHost f \<and> config_ok (fs_Config f') \<and> settings (fs_Config f')
      = settings (fs_Config f) ++ (if fs_SysMgmtdHost f = fs_SysMgmtdHost from then settings (fs_Config from) else Map.empty)"
    using f' ok overWrite_result Cons.prems(3) by (auto simp: bindE_Inr split: if_splits)
  have absorb: "a ++ y ++ b ++ y = a ++ b ++ y" for a b y :: "setting \<rightharpoonup> string list"
    by (auto simp: map_add_def fun_eq_iff split: option.splits)
  have ih: "fs_ok fs1" "map fs_SysMgmtdHost fs1 = map fs_SysMgmtdHost fs"
    "host_layers h fs1 = (if h = fs_SysMgmtdHost from \<and> for_host h fs \<noteq> []
         then host_layers h fs ++ settings (fs_Config from) else host_layers h fs)" for h
    using Cons.IH [OF 1(2) ok(2) Cons.prems(3)] by auto
  show ?case
    using f 1(1) ih by (auto simp: fs_ok_def absorb)
qed (simp add: fs_ok_def)

lemma overwriteFSS_result:
  assumes "overwriteFileSystemSpecificConfigs dst src = Inr fs'" "fs_ok dst" "fs_ok src"
  shows "fs_ok fs' \<and> (\<forall>h. host_layers h fs' = host_layers h dst ++ host_layers h src)"
  using assms
proof (induction src arbitrary: dst)
  case (Cons f src)
  from Cons.prems(1) obtain dst1 where 1: "overwriteFileSystemSpecificConfigs dst1 src = Inr fs'"
    and dst1: "(if list_ex (\<lambda>x. fs_SysMgmtdHost x = fs_SysMgmtdHost f) dst then overwrite_matching dst f
          else Inr (dst @ [f])) = Inr dst1"
    by (auto simp: bindE_Inr)
  have ok: "config_ok (fs_Config f)" "fs_ok src" using Cons.prems(3) by (auto simp: fs_ok_def)
  have ex: "list_ex (\<lambda>x. fs_SysMgmtdHost x = fs_SysMgmtdHost f) dst \<longleftrightarrow> for_host (fs_SysMgmtdHost f) dst \<noteq> []"
    by (induction dst) auto
  have "fs_ok dst1 \<and> (\<forall>h. host_layers h dst1 = host_layers h dst ++ host_layers h [f])"
    using dst1 overwrite_matching_result [of dst f dst1] Cons.prems(2) ok(1) ex
    by (auto simp: fs_ok_def layers_append split: if_splits)
  with Cons.IH [OF 1] ok show ?case by auto
qed simp

definition node_layers :: "string \<Rightarrow> NodeSpecificConfig list \<Rightarrow> NodeSpecificConfig list" where
  "node_layers nodeID ncs = filter (\<lambda>nc. nodeID \<in> set (NodeList nc)) ncs"

definition nodes_ok :: "NodeSpecificConfig list \<Rightarrow> bool" where
  "nodes_ok ncs = list_all (\<lambda>nc. config_ok (ns_DefaultConfig nc) \<and> fs_ok (ns_FileSystemSpecificConfigs nc)) ncs"

lemma apply_node_configs_result:
  assumes "apply_node_configs nodeID p ncs = Inr p'" "plugin_ok p" "nodes_ok ncs"
  shows "plugin_ok p'
    \<and> settings (DefaultConfig p') = settings (DefaultConfig p) ++ layers (map (settings \<circ> ns_DefaultConfig) (node_layers nodeID ncs))
    \<and> (\<forall>h. host_layers h (FileSystemSpecificConfigs p') = host_layers h (FileSystemSpecificConfigs p)
         ++ layers (map (\<lambda>nc. host_layers h (ns_FileSystemSpecificConfigs nc)) (node_layers nodeID ncs)))"
  using assms
proof (induction ncs arbitrary: p)
  case (Cons nc ncs)
  have ok: "config_ok (ns_DefaultConfig nc)" "fs_ok (ns_FileSystemSpecificConfigs nc)" "nodes_ok ncs"
    using Cons.prems(3) by (auto simp: nodes_ok_def)
  show ?case
  proof (cases "nodeID \<in> set (NodeList nc)")
    case True
    then have "list_ex (\<lambda>n. nodeID = n) (NodeList nc)" by (simp add: list_ex_iff)
    with Cons.prems(1) obtain p1 where p1: "apply_node_config p nc = Inr p1" "apply_node_configs nodeID p1 ncs = Inr p'"
      by (auto simp: bindE_Inr)
    then obtain d fs where d: "overWriteBeegfsConfig (DefaultConfig p) (ns_DefaultConfig nc) = Inr d"
      and fs: "overwriteFileSystemSpecificConfigs (FileSystemSpecificConfigs p) (ns_FileSystemSpecificConfigs nc) = Inr fs"
      and p1': "p1 = p\<lparr>DefaultConfig := d, FileSystemSpecificConfigs := fs\<rparr>"
      by (auto simp: apply_node_config_def bindE_Inr)
    have "plugin_ok p1" "settings (DefaultConfig p1) = settings (DefaultConfig p) ++ settings (ns_DefaultConfig nc)"
      "\<And>h. host_layers h (FileSystemSpecificConfigs p1)
         = host_layers h (FileSystemSpecificConfigs p) ++ host_layers h (ns_FileSystemSpecificConfigs nc)"
      using overWrite_result [OF d] overwriteFSS_result [OF fs] Cons.prems(2) ok by (auto simp: p1' plugin_ok_def)
    with Cons.IH [OF p1(2)] ok(3) True show ?thesis by (auto simp: node_layers_def)
  next
    case False
    then have "\<not> list_ex (\<lambda>n. nodeID = n) (NodeList nc)" by (auto simp: list_ex_iff)
    with Cons False ok(3) show ?thesis by (auto simp: node_layers_def)
  qed
qed (simp add: node_layers_def)

text \<open>Stripping removes the options without effect and nothing else.\<close>

definition effective :: "setting set" where
  "effective = - S_ClientConf ` set noEffectBeegfsConfOptions"

lemma map_of_fold_delete: "map_of (fold AList.delete ks m) = (map_of m) |` (- set ks)"
  by (induction ks arbitrary: m) (auto simp: delete_conv' restrict_map_def fun_eq_iff)

lemma settings_strip: "settings (stripBeegfsConfig c) = settings c |` effective"
proof
  fix x
  have "client_conf (stripBeegfsConfig c) = fold AList.delete noEffectBeegfsConfOptions (client_conf c)"
    by (cases "BeegfsClientConf c")
      (auto simp: client_conf_def stripBeegfsConfig_def noEffectBeegfsConfOptions_def)
  then show "settings (stripBeegfsConfig c) x = (settings c |` effective) x"
    by (cases x) (auto simp: restrict_map_def effective_def map_of_fold_delete stripBeegfsConfig_def)
qed

lemma config_ok_strip: "config_ok c \<Longrightarrow> config_ok (stripBeegfsConfig c)"
proof -
  have "is_map m \<Longrightarrow> is_map (fold AList.delete ks m)" for ks and m :: gomap
    by (induction ks arbitrary: m) auto
  then show "config_ok c \<Longrightarrow> config_ok (stripBeegfsConfig c)"
    by (cases "BeegfsClientConf c") (auto simp: config_ok_def client_conf_def stripBeegfsConfig_def)
qed

lemma restrict_layers: "layers (map (\<lambda>m. m |` A) ms) = layers ms |` A"
  by (induction ms) (auto simp: restrict_map_def map_add_def fun_eq_iff)

lemma host_layers_strip:
  "host_layers h (map (\<lambda>f. f\<lparr>fs_Config := stripBeegfsConfig (fs_Config f)\<rparr>) fs) = host_layers h fs |` effective"
proof -
  have "map settings (for_host h (map (\<lambda>f. f\<lparr>fs_Config := stripBeegfsConfig (fs_Config f)\<rparr>) fs))
      = map (\<lambda>m. m |` effective) (map settings (for_host h fs))"
    by (induction fs) (auto simp: settings_strip)
  then show ?thesis by (simp only: restrict_layers)
qed

lemma stripConfig_result:
  assumes "plugin_ok p"
  shows "plugin_ok (stripConfig p)"
    and "settings (DefaultConfig (stripConfig p)) = settings (DefaultConfig p) |` effective"
    and "host_layers h (FileSystemSpecificConfigs (stripConfig p)) = host_layers h (FileSystemSpecificConfigs p) |` effective"
  using assms by (auto simp: stripConfig_def plugin_ok_def fs_ok_def list_all_iff config_ok_strip settings_strip host_layers_strip)

subsection \<open>Properties\<close>

text \<open>The settings that the sections for a node give to all file systems and to one of them, and the order of precedence
  that docs/deployment.md states: \<open>config < fileSystemSpecificConfig < nodeSpecificConfig.config <
  nodeSpecificConfig.fileSystemSpecificConfig\<close>, and within a layer what is lower in the file.\<close>

definition node_defaults :: "string \<Rightarrow> PluginConfigFromFile \<Rightarrow> setting \<rightharpoonup> string list" where
  "node_defaults nodeID raw = layers (map (settings \<circ> ns_DefaultConfig) (node_layers nodeID (NodeSpecificConfigs raw)))"

definition node_specifics :: "string \<Rightarrow> string \<Rightarrow> PluginConfigFromFile \<Rightarrow> setting \<rightharpoonup> string list" where
  "node_specifics nodeID host raw =
     layers (map (\<lambda>nc. host_layers host (ns_FileSystemSpecificConfigs nc)) (node_layers nodeID (NodeSpecificConfigs raw)))"

definition documented_settings :: "string \<Rightarrow> string \<Rightarrow> PluginConfigFromFile \<Rightarrow> setting \<rightharpoonup> string list" where
  "documented_settings nodeID host raw =
     settings (DefaultConfig raw) ++ host_layers host (FileSystemSpecificConfigs raw) ++ node_defaults nodeID raw ++ node_specifics nodeID host raw"


definition sample_raw :: PluginConfigFromFile where
  "sample_raw =
     \<lparr> DefaultConfig = NewBeegfsConfig,
       FileSystemSpecificConfigs =
         [\<lparr> fs_SysMgmtdHost = ''localhost'', fs_Config = zeroBeegfsConfig\<lparr>GrpcPort := ''8011''\<rparr> \<rparr>],
       NodeSpecificConfigs =
         [\<lparr> NodeList = [''node1''],
            ns_DefaultConfig = zeroBeegfsConfig\<lparr>GrpcPort := ''8012'', ConnInterfaces := [''ib0''],
              BeegfsClientConf := Some [(''connPortShift'', ''1''), (''quotaEnabled'', ''true'')]\<rparr>,
            ns_FileSystemSpecificConfigs = [] \<rparr>] \<rparr>"

definition sample_cfg :: PluginConfig where
  "sample_cfg =
     \<lparr> DefaultConfig = zeroBeegfsConfig\<lparr>GrpcPort := ''8012'', ConnInterfaces := [''ib0''],
         BeegfsClientConf := Some [(''quotaEnabled'', ''true'')]\<rparr>,
       FileSystemSpecificConfigs =
         [\<lparr> fs_SysMgmtdHost = ''localhost'', fs_Config = zeroBeegfsConfig\<lparr>GrpcPort := ''8011''\<rparr> \<rparr>] \<rparr>"

lemmas config_eval =
  parseConfigFromFile_def sample_raw_def sample_cfg_def PluginConfig.truncate_def apply_node_config_def
  overWriteBeegfsConfig_def client_conf_def zeroBeegfsConfig_def NewBeegfsConfig_def validateConfig_def
  checkHost_def checkBeegfsConfig_def Atoi_def digitVal_def stripConfig_def stripBeegfsConfig_def
  noEffectBeegfsConfOptions_def squashConfigForSysMgmtdHost_def

lemma sample_parsed:
  "run_state (parseConfigFromFile (calm_env []) (\<lambda>_. Inr sample_raw) ''/config.yaml'' ''node1'') () = (Inr sample_cfg, ())"
  by (simp add: config_eval go_run)


text \<open>The documentation (docs/deployment.md) ranks the default configuration of a node-specific section above
  the file-system-specific sections. The code ranks it below: here the node asks for port 8012, the file
  system for port 8011, and the driver uses 8011.\<close>

theorem node_default_below_fs_specific:
  "GrpcPort (ns_DefaultConfig (hd (NodeSpecificConfigs sample_raw))) = ''8012''
   \<and> run_state (parseConfigFromFile (calm_env []) (\<lambda>_. Inr sample_raw) ''/config.yaml'' ''node1'') () = (Inr sample_cfg, ())
   \<and> (case squashConfigForSysMgmtdHost ''localhost'' sample_cfg of Inr c \<Rightarrow> GrpcPort c = ''8011'' | Inl _ \<Rightarrow> False)"
  by (simp only: sample_parsed) (simp add: config_eval)

text \<open>Overwriting a configuration panics exactly when the target has no client configuration map and the source
  has an entry for it; the panic reaches the caller when a node-specific section sets \<open>beegfsClientConf\<close> and
  the section it overrides does not.\<close>

theorem overWriteBeegfsConfig_panics_iff:
  "(\<exists>e. overWriteBeegfsConfig dst src = Inl e) = (BeegfsClientConf dst = None \<and> client_conf src \<noteq> [])"
proof -
  have "(\<exists>e. overWriteBeegfsConfig dst src = Inl e) = (\<exists>e. set_entries (BeegfsClientConf dst) (client_conf src) = Inl e)"
    by (cases "set_entries (BeegfsClientConf dst) (client_conf src)") (simp_all add: overWriteBeegfsConfig_def)
  then show ?thesis by (simp add: set_entries_Inl)
qed

text \<open>So a configuration file whose default section has no \<open>beegfsClientConf\<close> and whose section for this
  node has one makes the driver panic while it starts.\<close>

theorem node_config_panics:
  "run_state (parseConfigFromFile (calm_env []) (\<lambda>_. Inr (sample_raw\<lparr>DefaultConfig := zeroBeegfsConfig\<rparr>)) ''/config.yaml'' ''node1'') ()
     = (Inl (Panic ''assignment to entry in nil map''), ())"
  by (simp add: config_eval go_run)

lemma for_host_set_for_host:
  "for_host h (set_for_host upd h' fs) =
     (if h = h' then (case for_host h fs of [] \<Rightarrow> [upd zeroBeegfsConfig] | c # cs \<Rightarrow> upd c # cs) else for_host h fs)"
  by (induction fs) (auto split: list.split)

definition secrets :: "string \<Rightarrow> ConnAuthConfig list \<Rightarrow> string list" where
  "secrets h cs = map (projr \<circ> decodeConnAuth) (filter (\<lambda>c. ca_SysMgmtdHost c = h) cs)"

lemma secrets_simps [simp]:
  "secrets h [] = []"
  "secrets h (c # cs) = (if ca_SysMgmtdHost c = h then projr (decodeConnAuth c) # secrets h cs else secrets h cs)"
  by (simp_all add: secrets_def)

lemma applyConnAuths_for_host:
  assumes "applyConnAuths fs cs = Inr fs'"
  shows "for_host h fs' =
     (if secrets h cs = [] then for_host h fs
      else case for_host h fs of
             [] \<Rightarrow> [zeroBeegfsConfig\<lparr>ConnAuth := last (secrets h cs)\<rparr>]
           | c # bs \<Rightarrow> c\<lparr>ConnAuth := last (secrets h cs)\<rparr> # bs)"
  using assms
proof (induction cs arbitrary: fs)
  case (Cons c cs)
  then obtain sec where sec: "decodeConnAuth c = Inr sec"
    "applyConnAuths (set_for_host (\<lambda>b. b\<lparr>ConnAuth := sec\<rparr>) (ca_SysMgmtdHost c) fs) cs = Inr fs'"
    by (auto simp: bindE_Inr)
  show ?case
    using Cons.IH [OF sec(2)] sec(1) by (auto simp: for_host_set_for_host split: list.splits)
qed simp

lemma layers_none: "(\<And>m. m \<in> set ms \<Longrightarrow> m x = None) \<Longrightarrow> layers ms x = None"
  by (induction ms) (auto simp: map_add_def)

lemma fs_ok_set_for_host:
  "fs_ok l \<Longrightarrow> (\<And>c. config_ok c \<Longrightarrow> config_ok (upd c)) \<Longrightarrow> fs_ok (set_for_host upd h l)"
  by (induction l) (auto simp: fs_ok_def config_ok_def client_conf_def zeroBeegfsConfig_def)

lemma fs_ok_applyConnAuths: "applyConnAuths fs cs = Inr fs' \<Longrightarrow> fs_ok fs \<Longrightarrow> fs_ok fs'"
proof (induction cs arbitrary: fs)
  case (Cons c cs)
  from Cons.prems obtain sec where "applyConnAuths (set_for_host (\<lambda>b. b\<lparr>ConnAuth := sec\<rparr>) (ca_SysMgmtdHost c) fs) cs = Inr fs'"
    by (auto simp: bindE_Inr)
  moreover have "fs_ok (set_for_host (\<lambda>b. b\<lparr>ConnAuth := sec\<rparr>) (ca_SysMgmtdHost c) fs)"
    using Cons.prems(2) by (rule fs_ok_set_for_host) (simp add: config_ok_def client_conf_def)
  ultimately show ?case by (rule Cons.IH)
qed simp

lemma ConnAuth_settings: "settings c S_ConnAuth = Some [x] \<Longrightarrow> ConnAuth c = x"
  by (simp add: defined_def split: if_splits)



lemma check_all_Inr: "check_all f xs = Inr () \<longleftrightarrow> (\<forall>x \<in> set xs. f x = Inr ())"
  by (induction xs) (auto simp: bindE_Inr)

definition port_in_range :: "string \<Rightarrow> bool" where
  "port_in_range p = (\<exists>n. Atoi p = Inr n \<and> 1 \<le> n \<and> n \<le> 65535)"

definition filter_ok :: "string \<Rightarrow> bool" where
  "filter_ok f = (ParseCIDR_ok f \<or> ParseIP_ok f)"

lemma checkBeegfsConfig_iff:
  "checkBeegfsConfig c = Inr () \<longleftrightarrow>
     (GrpcPort c = [] \<or> port_in_range (GrpcPort c)) \<and> list_all filter_ok (ConnNetFilter c) \<and> list_all filter_ok (ConnTcpOnlyFilter c)"
  by (auto simp: checkBeegfsConfig_def bindE_Inr check_all_Inr checkFilter_def filter_ok_def list_all_iff port_in_range_def
      split: if_splits sum.splits)

lemma checkHost_iff:
  "checkHost f = Inr () \<longleftrightarrow>
     fs_SysMgmtdHost f = ''localhost'' \<or> ParseIP_ok (fs_SysMgmtdHost f) \<or> describes domainRegex (fs_SysMgmtdHost f)"
  by (simp add: checkHost_def Let_def MatchString_describes)

text \<open>What a validated configuration guarantees. Validation succeeds exactly when every file-system-specific
  management host is \<open>localhost\<close>, an address or a text that the domain pattern describes, and every
  section has no gRPC port or one from 1 to 65535, and only networks and addresses in its filters.\<close>

theorem validateConfig_iff:
  "(validateConfig p = Inr ()) =
     (list_all (\<lambda>f. fs_SysMgmtdHost f = ''localhost'' \<or> ParseIP_ok (fs_SysMgmtdHost f) \<or> describes domainRegex (fs_SysMgmtdHost f))
        (FileSystemSpecificConfigs p)
      \<and> list_all (\<lambda>c. (GrpcPort c = [] \<or> port_in_range (GrpcPort c)) \<and> list_all filter_ok (ConnNetFilter c)
          \<and> list_all filter_ok (ConnTcpOnlyFilter c))
        (DefaultConfig p # map fs_Config (FileSystemSpecificConfigs p)))"
  by (auto simp: validateConfig_def bindE_Inr check_all_Inr checkBeegfsConfig_iff checkHost_iff list_all_iff)

text \<open>The pattern asks for labels of at least two characters, so a valid domain name is refused.\<close>

theorem domainRegex_refuses_short_label:
  "\<not> MatchString domainRegex ''x.org''"
  by code_simp

end
