(* ===== verification/Redaction.thy ===== *)
theory Redaction
  imports Config
begin

text \<open>
  The \<open>MarshalJSON\<close> methods of operator/api/v1/beegfsdriver_types.go, through which the logger prints
  configurations. They return a JSON value here; \<open>encoding/json\<close> renders it as text. The lemmas show that the
  value does not depend on a secret, only on whether there is one.
\<close>

datatype json = J_Null | J_String string | J_Array "json list" | J_Object "(string \<times> json) list"

text \<open>A field of a struct: with \<open>omitempty\<close> it is left out when it is empty; a nil slice without it is \<open>null\<close>.\<close>

definition omitempty :: "string \<Rightarrow> 'a list \<Rightarrow> ('a list \<Rightarrow> json) \<Rightarrow> (string \<times> json) list" where
  "omitempty key v f = (if v = [] then [] else [(key, f v)])"

definition j_strings :: "string list \<Rightarrow> json" where
  "j_strings xs = J_Array (map J_String xs)"

definition j_map :: "gomap \<Rightarrow> json" where
  "j_map m = J_Object (map (\<lambda>(k, v). (k, J_String v)) m)"

definition masked :: "string \<Rightarrow> string" where
  "masked secret = (if secret \<noteq> '''' then ''******'' else '''')"

text \<open>The fields of the anonymous struct: the two masked ones first, then those of the alias, in which \<open>ConnAuth\<close> and
  \<open>TLSCert\<close> have the tag \<open>json:"-"\<close>.\<close>

definition BeegfsConfig_MarshalJSON :: "BeegfsConfig \<Rightarrow> json" where
  "BeegfsConfig_MarshalJSON c =
     J_Object (omitempty ''connAuth'' (masked (ConnAuth c)) J_String @
       omitempty ''tlsCert'' (masked (TLSCert c)) J_String @
       omitempty ''grpcPort'' (GrpcPort c) J_String @
       omitempty ''connInterfaces'' (ConnInterfaces c) j_strings @
       omitempty ''connNetFilter'' (ConnNetFilter c) j_strings @
       omitempty ''connTcpOnlyFilter'' (ConnTcpOnlyFilter c) j_strings @
       omitempty ''beegfsClientConf'' (client_conf c) j_map @
       omitempty ''connRDMAInterfaces'' (ConnRDMAInterfaces c) j_strings)"

definition ConnAuthConfig_MarshalJSON :: "ConnAuthConfig \<Rightarrow> json" where
  "ConnAuthConfig_MarshalJSON c =
     J_Object [(''sysMgmtdHost'', J_String (ca_SysMgmtdHost c)), (''connAuth'', J_String (masked (ca_ConnAuth c))),
       (''encoding'', J_String '''')]"

definition TLSCertConfig_MarshalJSON :: "TLSCertConfig \<Rightarrow> json" where
  "TLSCertConfig_MarshalJSON c =
     J_Object [(''sysMgmtdHost'', J_String (tls_SysMgmtdHost c)), (''tlsCert'', J_String (masked (tls_TLSCert c)))]"

text \<open>The default encoding of the structs around a \<open>BeegfsConfig\<close>, by their tags.\<close>

definition json_FileSystemSpecificConfig :: "FileSystemSpecificConfig \<Rightarrow> json" where
  "json_FileSystemSpecificConfig c =
     J_Object [(''sysMgmtdHost'', J_String (fs_SysMgmtdHost c)), (''config'', BeegfsConfig_MarshalJSON (fs_Config c))]"

definition json_FileSystemSpecificConfigs :: "FileSystemSpecificConfig list \<Rightarrow> json" where
  "json_FileSystemSpecificConfigs cs = J_Array (map json_FileSystemSpecificConfig cs)"

definition json_PluginConfig :: "PluginConfig \<Rightarrow> json" where
  "json_PluginConfig c =
     J_Object ((''config'', BeegfsConfig_MarshalJSON (DefaultConfig c)) #
       omitempty ''fileSystemSpecificConfigs'' (FileSystemSpecificConfigs c) json_FileSystemSpecificConfigs)"

subsection \<open>Secrets stay secret\<close>

text \<open>Two secrets that are both present or both absent, and configurations that are equal up to such secrets.\<close>

definition same_secret :: "string \<Rightarrow> string \<Rightarrow> bool" where
  "same_secret a b \<longleftrightarrow> (a = [] \<longleftrightarrow> b = [])"

definition same_public :: "BeegfsConfig \<Rightarrow> BeegfsConfig \<Rightarrow> bool" where
  "same_public c d \<longleftrightarrow> d\<lparr>ConnAuth := ConnAuth c, TLSCert := TLSCert c\<rparr> = c \<and>
     same_secret (ConnAuth c) (ConnAuth d) \<and> same_secret (TLSCert c) (TLSCert d)"

lemma masked_same: "same_secret a b \<Longrightarrow> masked a = masked b"
  by (auto simp: masked_def same_secret_def)

lemma BeegfsConfig_redacted:
  assumes "same_public c d"
  shows "BeegfsConfig_MarshalJSON c = BeegfsConfig_MarshalJSON d"
proof -
  have c: "c = d\<lparr>ConnAuth := ConnAuth c, TLSCert := TLSCert c\<rparr>" using assms by (simp add: same_public_def)
  have "masked (ConnAuth c) = masked (ConnAuth d)" "masked (TLSCert c) = masked (TLSCert d)"
    using assms by (auto simp: same_public_def intro: masked_same)
  moreover have "GrpcPort c = GrpcPort d" "ConnInterfaces c = ConnInterfaces d" "ConnNetFilter c = ConnNetFilter d"
    "ConnTcpOnlyFilter c = ConnTcpOnlyFilter d" "client_conf c = client_conf d" "ConnRDMAInterfaces c = ConnRDMAInterfaces d"
    by (subst c, simp add: client_conf_def)+
  ultimately show ?thesis by (simp add: BeegfsConfig_MarshalJSON_def)
qed

text \<open>C25. Secrets do not reach the log. The JSON value of a plugin configuration, of an entry of the connAuth file and
  of an entry of the TLS certificate file is the same for any two inputs that agree on everything but the contents of
  connAuth secrets and TLS certificates: it tells at most whether a secret is there.\<close>

theorem secrets_redacted:
  assumes "same_public (DefaultConfig c) (DefaultConfig d)"
    and "list_all2 (\<lambda>x y. fs_SysMgmtdHost x = fs_SysMgmtdHost y \<and> same_public (fs_Config x) (fs_Config y))
      (FileSystemSpecificConfigs c) (FileSystemSpecificConfigs d)"
    and "same_secret s s'"
  shows "json_PluginConfig c = json_PluginConfig d \<and>
    ConnAuthConfig_MarshalJSON (a\<lparr>ca_ConnAuth := s\<rparr>) = ConnAuthConfig_MarshalJSON (a\<lparr>ca_ConnAuth := s'\<rparr>) \<and>
    TLSCertConfig_MarshalJSON (t\<lparr>tls_TLSCert := s\<rparr>) = TLSCertConfig_MarshalJSON (t\<lparr>tls_TLSCert := s'\<rparr>)"
proof (intro conjI)
  have "json_FileSystemSpecificConfigs (FileSystemSpecificConfigs c) = json_FileSystemSpecificConfigs (FileSystemSpecificConfigs d)"
    unfolding json_FileSystemSpecificConfigs_def json.inject
    using assms(2) by (induction rule: list_all2_induct) (auto simp: json_FileSystemSpecificConfig_def BeegfsConfig_redacted)
  moreover have "FileSystemSpecificConfigs c = [] \<longleftrightarrow> FileSystemSpecificConfigs d = []"
    using assms(2) by auto
  ultimately show "json_PluginConfig c = json_PluginConfig d"
    using BeegfsConfig_redacted [OF assms(1)] by (simp add: json_PluginConfig_def omitempty_def)
qed (simp_all add: ConnAuthConfig_MarshalJSON_def TLSCertConfig_MarshalJSON_def masked_same [OF assms(3)])

text \<open>The JSON value of an entry of the connAuth file loses the encoding as well.\<close>

lemma connAuth_json_drops_encoding:
  "ConnAuthConfig_MarshalJSON (c\<lparr>ca_Encoding := e\<rparr>) = ConnAuthConfig_MarshalJSON c"
  by (simp add: ConnAuthConfig_MarshalJSON_def)

theorem secrets_redacted_witness:
  "json_PluginConfig \<lparr> DefaultConfig = zeroBeegfsConfig\<lparr>ConnAuth := ''secret1''\<rparr>, FileSystemSpecificConfigs = [] \<rparr> =
   json_PluginConfig \<lparr> DefaultConfig = zeroBeegfsConfig\<lparr>ConnAuth := ''hunter2''\<rparr>, FileSystemSpecificConfigs = [] \<rparr>"
  by (rule secrets_redacted [where s = "''a''" and s' = "''b''", THEN conjunct1])
    (simp_all add: same_public_def same_secret_def zeroBeegfsConfig_def)

end
