(* ===== verification/Thread_Safe.thy ===== *)
theory Thread_Safe
  imports Go_Base
begin

text \<open>
  pkg/beegfs/thread_safe.go: the set of volume IDs that a request works on, and the map of what is known
  to be done for a volume. Every method takes the mutex for its whole body, so each one is a single atomic
  step. The controller relies on the two contracts \<open>string_lock\<close> and \<open>status_store\<close>.
\<close>

subsection \<open>threadSafeStringLock\<close>

record threadSafeStringLock =
  lock_items :: "string set"

definition newThreadSafeStringLock :: threadSafeStringLock where
  "newThreadSafeStringLock = \<lparr> lock_items = {} \<rparr>"

definition obtainLockOnString :: "string \<Rightarrow> threadSafeStringLock \<Rightarrow> bool \<times> threadSafeStringLock" where
  "obtainLockOnString stringToLock v =
     (if stringToLock \<notin> lock_items v
      then (True, v\<lparr>lock_items := insert stringToLock (lock_items v)\<rparr>)
      else (False, v))"

definition releaseLockOnString :: "string \<Rightarrow> threadSafeStringLock \<Rightarrow> threadSafeStringLock" where
  "releaseLockOnString stringToUnlock v = v\<lparr>lock_items := lock_items v - {stringToUnlock}\<rparr>"

subsection \<open>threadSafeStatusMap\<close>

datatype volumeStatus = statusCreated | statusDeleted

record threadSafeStatusMap =
  status_items :: "(string \<times> volumeStatus) list"

definition newThreadSafeStatusMap :: threadSafeStatusMap where
  "newThreadSafeStatusMap = \<lparr> status_items = [] \<rparr>"

definition writeStatus :: "string \<Rightarrow> volumeStatus \<Rightarrow> threadSafeStatusMap \<Rightarrow> threadSafeStatusMap" where
  "writeStatus volumeID status m = m\<lparr>status_items := AList.update volumeID status (status_items m)\<rparr>"

definition readStatus :: "string \<Rightarrow> threadSafeStatusMap \<Rightarrow> volumeStatus option" where
  "readStatus volumeID m = map_of (status_items m) volumeID"

subsection \<open>The contracts\<close>

locale string_lock =
  fixes obtain_lock :: "'k \<Rightarrow> 's \<Rightarrow> bool \<times> 's"
    and release_lock :: "'k \<Rightarrow> 's \<Rightarrow> 's"
    and held :: "'s \<Rightarrow> 'k set"
  assumes obtain_result: "fst (obtain_lock k s) \<longleftrightarrow> k \<notin> held s"
    and obtain_held: "held (snd (obtain_lock k s)) = insert k (held s)"
    and release_held: "held (release_lock k s) = held s - {k}"
begin

lemma obtain_excludes: "fst (obtain_lock k s) \<Longrightarrow> \<not> fst (obtain_lock k (snd (obtain_lock k s)))"
  by (simp add: obtain_result obtain_held)

lemma obtain_other: "k \<noteq> k' \<Longrightarrow> fst (obtain_lock k' (snd (obtain_lock k s))) \<longleftrightarrow> fst (obtain_lock k' s)"
  by (auto simp: obtain_result obtain_held)

lemma release_restores: "fst (obtain_lock k s) \<Longrightarrow> held (release_lock k (snd (obtain_lock k s))) = held s"
  by (simp add: obtain_result obtain_held release_held)

lemma release_enables: "fst (obtain_lock k (release_lock k s))"
  by (simp add: obtain_result release_held)

lemma release_other: "k \<noteq> k' \<Longrightarrow> k' \<in> held (release_lock k s) \<longleftrightarrow> k' \<in> held s"
  by (auto simp: release_held)

end

locale status_store =
  fixes write_status :: "'k \<Rightarrow> 'v \<Rightarrow> 's \<Rightarrow> 's"
    and read_status :: "'k \<Rightarrow> 's \<Rightarrow> 'v option"
    and new_store :: 's
  assumes read_new: "read_status k new_store = None"
    and read_written: "read_status k (write_status k v s) = Some v"
    and read_other: "k \<noteq> k' \<Longrightarrow> read_status k' (write_status k v s) = read_status k' s"
begin

lemma read_write: "read_status k' (write_status k v s) = (if k' = k then Some v else read_status k' s)"
  using read_written read_other by metis

lemma read_last_write:
  "read_status k (fold (\<lambda>(k, v). write_status k v) ws s) =
     (case filter (\<lambda>(k', _). k' = k) ws of [] \<Rightarrow> read_status k s | _ \<Rightarrow> Some (snd (last (filter (\<lambda>(k', _). k' = k) ws))))"
  by (induction ws arbitrary: s) (auto simp: read_write split: list.splits)

end

interpretation volume_lock: string_lock obtainLockOnString releaseLockOnString lock_items
  by unfold_locales (auto simp: obtainLockOnString_def releaseLockOnString_def)

interpretation volume_status: status_store writeStatus readStatus newThreadSafeStatusMap
  by unfold_locales (auto simp: writeStatus_def readStatus_def newThreadSafeStatusMap_def update_conv')

text \<open>The status map remembers the last status written for each volume, whatever is written for other
  volumes in between, and knows nothing of a volume for which nothing was written.\<close>

theorem readStatus_last_write:
  "readStatus volumeID (fold (\<lambda>(k, v). writeStatus k v) ws newThreadSafeStatusMap) =
     (case filter (\<lambda>(k, _). k = volumeID) ws of
        [] \<Rightarrow> None
      | _ \<Rightarrow> Some (snd (last (filter (\<lambda>(k, _). k = volumeID) ws))))"
  using volume_status.read_last_write [of volumeID ws newThreadSafeStatusMap]
  by (simp add: volume_status.read_new split: list.splits)

end
