(* ===== verification/Go_Path.thy ===== *)
theory Go_Path
  imports Go_Strings
begin

text \<open>
  Go's package \<open>path\<close>: \<open>Clean\<close>, \<open>Join\<close>, \<open>Dir\<close> and \<open>Base\<close>, following the rules the package documents.
  The lemmas describe them on absolute paths as operations on the list of path elements, which is how
  the components reason about where a path can point.
\<close>

subsection \<open>The functions\<close>

fun split_slash :: "string \<Rightarrow> string list" where
  "split_slash [] = [[]]"
| "split_slash (c # cs) =
     (if c = CHR ''/'' then [] # split_slash cs
      else (c # hd (split_slash cs)) # tl (split_slash cs))"

text \<open>
  The elements of a path are read from left to right; \<open>st\<close> holds the elements kept so far, the last one
  first. \<open>rooted\<close>: the path starts with a slash, so \<open>..\<close> at its root is dropped.
\<close>

fun clean_elems :: "bool \<Rightarrow> string list \<Rightarrow> string list \<Rightarrow> string list" where
  "clean_elems rooted st [] = rev st"
| "clean_elems rooted st (c # cs) =
     (if c = '''' \<or> c = ''.'' then clean_elems rooted st cs
      else if c = ''..'' then
        (case st of
           [] \<Rightarrow> clean_elems rooted (if rooted then [] else [''..'']) cs
         | t # ts \<Rightarrow> clean_elems rooted (if t = ''..'' then ''..'' # st else ts) cs)
      else clean_elems rooted (c # st) cs)"

definition path_Clean :: "string \<Rightarrow> string" where
  "path_Clean p =
     (if p = '''' then ''.''
      else if HasPrefix p ''/'' then ''/'' @ Join (clean_elems True [] (split_slash p)) ''/''
      else let cs = clean_elems False [] (split_slash p) in if cs = [] then ''.'' else Join cs ''/'')"

definition path_Join :: "string list \<Rightarrow> string" where
  "path_Join elems =
     (let es = dropWhile (\<lambda>e. e = '''') elems in if es = [] then '''' else path_Clean (Join es ''/''))"

definition path_Dir :: "string \<Rightarrow> string" where
  "path_Dir p = path_Clean (case cut_last p (CHR ''/'') of None \<Rightarrow> '''' | Some (d, _) \<Rightarrow> d @ ''/'')"

definition path_Base :: "string \<Rightarrow> string" where
  "path_Base p =
     (if p = '''' then ''.''
      else let q = TrimRight p (CHR ''/'')
           in if q = '''' then ''/''
              else case cut_last q (CHR ''/'') of None \<Rightarrow> q | Some (_, b) \<Rightarrow> b)"

lemmas path_defs = path_Clean_def path_Join_def path_Dir_def path_Base_def cut_last_def TrimRight_def

subsection \<open>Elements of a path\<close>

text \<open>A proper element names a directory entry; an absolute clean path is a list of them.\<close>

definition proper :: "string \<Rightarrow> bool" where
  "proper c \<longleftrightarrow> c \<noteq> '''' \<and> CHR ''/'' \<notin> set c \<and> c \<noteq> ''.'' \<and> c \<noteq> ''..''"

definition abs_path :: "string list \<Rightarrow> string" where
  "abs_path cs = ''/'' @ Join cs ''/''"

abbreviation rooted :: "string \<Rightarrow> bool" where
  "rooted p \<equiv> HasPrefix p ''/''"

lemma properI:
  "c \<noteq> '''' \<Longrightarrow> CHR ''/'' \<notin> set c \<Longrightarrow> c \<noteq> ''.'' \<Longrightarrow> c \<noteq> ''..'' \<Longrightarrow> proper c"
  by (simp add: proper_def)

lemma properD:
  "proper c \<Longrightarrow> c \<noteq> ''''" "proper c \<Longrightarrow> CHR ''/'' \<notin> set c" "proper c \<Longrightarrow> c \<noteq> ''.''" "proper c \<Longrightarrow> c \<noteq> ''..''"
  by (simp_all add: proper_def)

lemma rooted_abs_path [simp]: "rooted (abs_path cs)"
  by (simp add: abs_path_def)

lemma abs_path_not_Nil [simp]: "abs_path cs \<noteq> []" "[] \<noteq> abs_path cs"
  by (simp_all add: abs_path_def)

lemma split_slash_not_Nil [simp]: "split_slash s \<noteq> []"
  by (cases s) auto

lemma split_slash_no_slash: "e \<in> set (split_slash s) \<Longrightarrow> CHR ''/'' \<notin> set e"
proof (induction s arbitrary: e)
  case Nil
  then show ?case by simp
next
  case (Cons c cs)
  obtain x xs where "split_slash cs = x # xs" by (cases "split_slash cs") auto
  with Cons show ?case by (auto split: if_splits)
qed

lemma split_slash_elem: "CHR ''/'' \<notin> set e \<Longrightarrow> split_slash e = [e]"
  by (induction e) auto

lemma split_slash_append: "split_slash (s @ CHR ''/'' # t) = split_slash s @ split_slash t"
  by (induction s) auto

lemma split_slash_Join:
  "cs \<noteq> [] \<Longrightarrow> \<forall>c\<in>set cs. CHR ''/'' \<notin> set c \<Longrightarrow> split_slash (Join cs ''/'') = cs"
proof (induction cs)
  case Nil
  then show ?case by simp
next
  case (Cons c cs)
  then show ?case
    by (cases cs) (simp_all add: split_slash_elem split_slash_append)
qed

lemma Join_snoc: "cs \<noteq> [] \<Longrightarrow> Join (cs @ [c]) ''/'' = Join cs ''/'' @ ''/'' @ c"
  by (induction cs "''/''" rule: Join.induct) auto

lemma Join_append: "cs \<noteq> [] \<Longrightarrow> ds \<noteq> [] \<Longrightarrow> Join (cs @ ds) ''/'' = Join cs ''/'' @ ''/'' @ Join ds ''/''"
proof (induction cs)
  case Nil
  then show ?case by simp
next
  case (Cons c cs)
  then show ?case by (cases cs; cases ds) simp_all
qed

lemma Join_eq_Nil: "\<forall>c\<in>set cs. c \<noteq> [] \<Longrightarrow> Join cs ''/'' = [] \<longleftrightarrow> cs = []"
  by (cases cs; cases "tl cs") auto

text \<open>Cleaning keeps proper elements, so an absolute path becomes a list of them.\<close>

lemma clean_elems_proper:
  "list_all proper st \<Longrightarrow> \<forall>c\<in>set cs. CHR ''/'' \<notin> set c \<Longrightarrow> list_all proper (clean_elems True st cs)"
proof (induction cs arbitrary: st)
  case Nil
  then show ?case by (simp add: list_all_iff)
next
  case (Cons c cs)
  consider "c = '''' \<or> c = ''.''" | "c = ''..''" | "proper c"
    using Cons.prems(2) by (auto simp: proper_def)
  then show ?case
  proof cases
    case 1
    then have "clean_elems True st (c # cs) = clean_elems True st cs" by simp
    then show ?thesis using Cons.IH [of st] Cons.prems by (simp only: list.set) blast
  next
    case 2
    have hd: "list_all proper (tl st) \<and> (st = [] \<or> hd st \<noteq> ''..'')"
      using Cons.prems(1) by (cases st) (auto dest: properD)
    moreover have "clean_elems True st (c # cs) = clean_elems True (tl st) cs"
      using 2 hd by (cases st) simp_all
    ultimately show ?thesis using Cons.IH [of "tl st"] Cons.prems by (simp only: list.set) blast
  next
    case 3
    then have "clean_elems True st (c # cs) = clean_elems True (c # st) cs" by (simp add: proper_def)
    then show ?thesis using 3 Cons.IH [of "c # st"] Cons.prems by (simp only: list.set list.pred_inject) blast
  qed
qed

lemma clean_elems_id: "list_all proper cs \<Longrightarrow> clean_elems r st cs = rev st @ cs"
  by (induction cs arbitrary: st) (auto simp: proper_def)

lemma clean_elems_append: "clean_elems r st (cs @ ds) = clean_elems r (rev (clean_elems r st cs)) ds"
  by (induction r st cs rule: clean_elems.induct) (auto split: list.splits)

lemma path_Clean_rooted:
  "rooted p \<Longrightarrow> path_Clean p = abs_path (clean_elems True [] (split_slash p))"
  by (auto simp: path_Clean_def abs_path_def HasPrefix_def)

lemma path_Clean_rooted_abs:
  assumes "rooted p"
  obtains cs where "list_all proper cs" and "path_Clean p = abs_path cs"
proof -
  have "list_all proper (clean_elems True [] (split_slash p))"
    by (rule clean_elems_proper) (auto dest: split_slash_no_slash)
  with assms show ?thesis using that path_Clean_rooted by blast
qed

lemma split_slash_abs_path:
  "list_all proper cs \<Longrightarrow> split_slash (abs_path cs) = (if cs = [] then [[], []] else [] # cs)"
  by (simp add: abs_path_def split_slash_Join list_all_iff proper_def)

lemma path_Clean_abs_path [path_simps]: "list_all proper cs \<Longrightarrow> path_Clean (abs_path cs) = abs_path cs"
  by (simp add: path_Clean_rooted split_slash_abs_path clean_elems_id)

lemma abs_path_inject:
  assumes *: "list_all proper cs" "list_all proper ds"
  shows "abs_path cs = abs_path ds \<longleftrightarrow> cs = ds"
proof
  assume "abs_path cs = abs_path ds"
  then have "split_slash (abs_path cs) = split_slash (abs_path ds)" by simp
  with * show "cs = ds"
    by (auto simp: split_slash_abs_path proper_def split: if_splits)
qed simp

lemma list_all_proper_elems [simp]:
  "list_all proper (cs @ [c]) \<longleftrightarrow> list_all proper cs \<and> proper c"
  by simp

subsection \<open>Join, Dir and Base on absolute paths\<close>

text \<open>Joining to an absolute clean path resolves the elements of the second path from there.\<close>

definition resolve :: "string list \<Rightarrow> string \<Rightarrow> string list" where
  "resolve cs s = clean_elems True (rev cs) (split_slash s)"

lemma list_all_proper_resolve: "list_all proper cs \<Longrightarrow> list_all proper (resolve cs s)"
  unfolding resolve_def by (rule clean_elems_proper) (auto simp: list_all_iff dest: split_slash_no_slash)

lemma path_Join_abs2:
  assumes "list_all proper cs"
  shows "path_Join [abs_path cs, s] = abs_path (resolve cs s)"
proof -
  have "path_Join [abs_path cs, s] = path_Clean (abs_path cs @ ''/'' @ s)"
    by (simp add: path_Join_def Let_def)
  also have "\<dots> = abs_path (clean_elems True [] (split_slash (abs_path cs @ ''/'' @ s)))"
    by (rule path_Clean_rooted) (simp add: abs_path_def)
  also have "split_slash (abs_path cs @ ''/'' @ s) = split_slash (abs_path cs) @ split_slash s"
    by (simp add: split_slash_append)
  finally show ?thesis
    using assms by (simp add: clean_elems_append split_slash_abs_path clean_elems_id resolve_def)
qed

lemma resolve_abs_path [path_simps]: "list_all proper ds \<Longrightarrow> resolve cs (abs_path ds) = cs @ ds"
  by (simp add: resolve_def split_slash_abs_path clean_elems_id)

lemma resolve_elem [path_simps]: "proper d \<Longrightarrow> resolve cs d = cs @ [d]"
  by (auto simp: resolve_def split_slash_elem proper_def)

lemma resolve_Nil [path_simps]: "resolve cs [] = cs"
  by (simp add: resolve_def)

lemma path_Join_cons2:
  "a \<noteq> '''' \<Longrightarrow> path_Join (a # b # cs) = path_Clean (Join (a # b # cs) ''/'')"
  by (simp add: path_Join_def Let_def)

text \<open>A join of several elements resolves them one after the other.\<close>

lemma path_Join_abs_list:
  assumes "list_all proper cs" and "es \<noteq> []"
  shows "path_Join (abs_path cs # es) = abs_path (foldl resolve cs es)"
proof -
  obtain e es' where es: "es = e # es'" using assms(2) by (cases es) auto
  have "path_Join (abs_path cs # es) = path_Clean (abs_path cs @ ''/'' @ Join es ''/'')"
    by (simp add: es path_Join_def Let_def)
  also have "\<dots> = abs_path (clean_elems True [] (split_slash (abs_path cs @ ''/'' @ Join es ''/'')))"
    by (rule path_Clean_rooted) (simp add: abs_path_def)
  also have "split_slash (abs_path cs @ ''/'' @ Join es ''/'') = split_slash (abs_path cs) @ concat (map split_slash es)"
  proof -
    have "es \<noteq> [] \<Longrightarrow> split_slash (Join es ''/'') = concat (map split_slash es)" for es
      by (induction es "''/''" rule: Join.induct) (simp_all add: split_slash_append)
    with assms(2) show ?thesis by (simp add: split_slash_append)
  qed
  also have "clean_elems True [] (split_slash (abs_path cs) @ concat (map split_slash es)) =
      clean_elems True (rev cs) (concat (map split_slash es))"
    using assms(1) by (simp add: clean_elems_append split_slash_abs_path clean_elems_id)
  also have "clean_elems True (rev cs) (concat (map split_slash es)) = foldl resolve cs es" for cs
    by (induction es arbitrary: cs) (simp_all add: clean_elems_append resolve_def)
  finally show ?thesis .
qed

lemma path_Dir_abs_path [path_simps]:
  assumes "list_all proper cs" and "proper c"
  shows "path_Dir (abs_path (cs @ [c])) = abs_path cs"
proof -
  have nc: "CHR ''/'' \<notin> set c" using assms(2) by (rule properD)
  define d where "d = (if cs = [] then [] else ''/'' @ Join cs ''/'')"
  have "abs_path (cs @ [c]) = d @ CHR ''/'' # c"
    by (auto simp: abs_path_def d_def Join_snoc)
  moreover have "cut_last (d @ CHR ''/'' # c) (CHR ''/'') = Some (d, c)"
  proof -
    have "takeWhile (\<lambda>x. x \<noteq> CHR ''/'') (rev c @ CHR ''/'' # rev d) = rev c"
      using nc by (subst takeWhile_append2) auto
    moreover have "dropWhile (\<lambda>x. x \<noteq> CHR ''/'') (rev c @ CHR ''/'' # rev d) = CHR ''/'' # rev d"
      using nc by (subst dropWhile_append2) auto
    ultimately show ?thesis by (simp add: cut_last_def)
  qed
  ultimately have "path_Dir (abs_path (cs @ [c])) = path_Clean (d @ ''/'')"
    by (simp add: path_Dir_def)
  also have "\<dots> = abs_path cs"
  proof (cases "cs = []")
    case True
    then show ?thesis using path_Clean_abs_path [of "[]"] by (simp add: d_def abs_path_def)
  next
    case False
    then have "split_slash (d @ ''/'') = split_slash (abs_path cs) @ [[]]"
      by (simp add: d_def abs_path_def split_slash_append)
    moreover have "rooted (d @ ''/'')" by (simp add: d_def False)
    ultimately show ?thesis
      using assms(1) False
      by (simp add: path_Clean_rooted clean_elems_append split_slash_abs_path clean_elems_id)
  qed
  finally show ?thesis .
qed

lemma path_Dir_root [path_simps]: "path_Dir (abs_path []) = abs_path []"
  by (simp add: path_defs abs_path_def)

lemma path_Base_abs_path [path_simps]:
  assumes "list_all proper cs" and "proper c"
  shows "path_Base (abs_path (cs @ [c])) = c"
proof -
  have nc: "CHR ''/'' \<notin> set c" "c \<noteq> []" using assms(2) by (auto simp: proper_def)
  obtain d where eq: "abs_path (cs @ [c]) = d @ CHR ''/'' # c"
    by (cases "cs = []") (auto simp: abs_path_def Join_snoc)
  have "last c \<noteq> CHR ''/''" using nc by (metis last_in_set)
  then have "TrimRight (abs_path (cs @ [c])) (CHR ''/'') = abs_path (cs @ [c])"
    unfolding TrimRight_def eq using nc(2) by (cases c rule: rev_cases) auto
  moreover have "takeWhile (\<lambda>x. x \<noteq> CHR ''/'') (rev c @ CHR ''/'' # rev d) = rev c"
    using nc by (subst takeWhile_append2) auto
  ultimately show ?thesis
    using nc by (simp add: path_Base_def Let_def cut_last_def eq)
qed

subsection \<open>Containment\<close>

text \<open>\<open>within b p\<close>: the path \<open>p\<close> is \<open>b\<close> itself or lies below it.\<close>

definition within :: "string \<Rightarrow> string \<Rightarrow> bool" where
  "within b p \<longleftrightarrow> p = b \<or> HasPrefix p (b @ ''/'')"

lemma within_abs_path: "list_all proper cs \<Longrightarrow> cs \<noteq> [] \<Longrightarrow> within (abs_path cs) (abs_path (cs @ ds))"
  by (cases "ds = []") (auto simp: within_def abs_path_def Join_append HasPrefix_iff_prefix)

text \<open>A resolution whose own elements never climb stays below its base.\<close>

lemma path_Join_within:
  assumes "list_all proper cs" and "cs \<noteq> []" and "list_all proper ds"
  shows "path_Join [abs_path cs, abs_path ds] = abs_path (cs @ ds)"
    and "within (abs_path cs) (path_Join [abs_path cs, abs_path ds])"
  using assms by (simp_all add: path_Join_abs2 resolve_abs_path within_abs_path)

end
