(* ===== verification/Go_URL.thy ===== *)
theory Go_URL
  imports Go_Net Go_Path
begin

text \<open>
  Go's package \<open>net/url\<close> as the repository uses it: \<open>URL.String\<close> on a URL with a scheme, a host and a
  path, and \<open>url.Parse\<close>, of whose result only the scheme, the host and the path are read. The main lemma
  is that parsing reads back what was printed.
\<close>

subsection \<open>Escaping\<close>

datatype url_mode = EncodePath | EncodeHost | EncodeZone | EncodeUserPassword | EncodeFragment

definition is_alnum :: "char \<Rightarrow> bool" where
  "is_alnum c = (is_digit c \<or> is_lower c \<or> is_upper c)"

definition shouldEscape :: "url_mode \<Rightarrow> char \<Rightarrow> bool" where
  "shouldEscape m c =
     (if is_alnum c then False
      else if (m = EncodeHost \<or> m = EncodeZone) \<and> c \<in> set ''!$&()*+,;=:[]<>'' \<union> {CHR 0x22, CHR 0x27} then False
      else if c \<in> set ''-_.~'' then False
      else if c \<in> set ''$&+,/:;=?@'' then
        (case m of
           EncodePath \<Rightarrow> c = CHR ''?''
         | EncodeUserPassword \<Rightarrow> c \<in> set ''@/?:''
         | EncodeFragment \<Rightarrow> False
         | _ \<Rightarrow> True)
      else if m = EncodeFragment \<and> c \<in> set ''!()*'' then False
      else True)"

definition upper_hex :: "nat \<Rightarrow> char" where
  "upper_hex d = char_of (if d < 10 then 48 + d else 55 + d)"

definition percent :: "char \<Rightarrow> string" where
  "percent c = [CHR ''%'', upper_hex (of_char c div 16), upper_hex (of_char c mod 16)]"

definition escape :: "url_mode \<Rightarrow> string \<Rightarrow> string" where
  "escape m s = concat (map (\<lambda>c. if shouldEscape m c then percent c else [c]) s)"

definition unhex :: "char \<Rightarrow> nat" where
  "unhex c = (case digitVal c of None \<Rightarrow> 0 | Some d \<Rightarrow> d)"

definition url_error :: "string \<Rightarrow> goerr" where
  "url_error m = ErrorsNew m"

fun unescape :: "url_mode \<Rightarrow> string \<Rightarrow> goerr + string" where
  "unescape m [] = Inr []"
| "unescape m (c # cs) =
     (if c = CHR ''%'' then
        (case cs of
           h # l # cs' \<Rightarrow>
             let v = char_of (16 * unhex h + unhex l)
             in if \<not> is_hex h \<or> \<not> is_hex l
                  \<or> (m = EncodeHost \<and> unhex h < 8 \<and> [h, l] \<noteq> ''25'')
                  \<or> (m = EncodeZone \<and> [h, l] \<noteq> ''25'' \<and> v \<noteq> CHR '' '' \<and> shouldEscape EncodeHost v)
                then Inl (url_error ''invalid URL escape'')
                else (case unescape m cs' of Inl e \<Rightarrow> Inl e | Inr t \<Rightarrow> Inr (v # t))
         | _ \<Rightarrow> Inl (url_error ''invalid URL escape''))
      else if (m = EncodeHost \<or> m = EncodeZone) \<and> (of_char c :: nat) < 128 \<and> shouldEscape m c
      then Inl (url_error ''invalid character in host name'')
      else (case unescape m cs of Inl e \<Rightarrow> Inl e | Inr t \<Rightarrow> Inr (c # t)))"

subsection \<open>Printing and parsing\<close>

text \<open>\<open>URL.String\<close> for a URL with \<open>Scheme\<close>, \<open>Host\<close> and \<open>Path\<close> set and nothing else.\<close>

definition url_String :: "string \<Rightarrow> string \<Rightarrow> string \<Rightarrow> string" where
  "url_String scheme host path =
     (let ep = (if path = ''*'' then ''*'' else escape EncodePath path)
      in scheme @ '':'' @ (if host \<noteq> [] \<or> path \<noteq> [] then ''//'' else []) @ escape EncodeHost host
         @ (if ep \<noteq> [] \<and> \<not> HasPrefix ep ''/'' \<and> host \<noteq> [] then ''/'' else []) @ ep)"

definition has_ctl :: "string \<Rightarrow> bool" where
  "has_ctl s = list_ex (\<lambda>c. (of_char c :: nat) < 32 \<or> (of_char c :: nat) = 127) s"

fun scheme_scan :: "string \<Rightarrow> string \<Rightarrow> string \<Rightarrow> goerr + string \<times> string" where
  "scheme_scan raw acc [] = Inr ([], raw)"
| "scheme_scan raw acc (c # cs) =
     (if is_lower c \<or> is_upper c then scheme_scan raw (acc @ [c]) cs
      else if is_digit c \<or> c \<in> set ''+-.'' then
        (if acc = [] then Inr ([], raw) else scheme_scan raw (acc @ [c]) cs)
      else if c = CHR '':'' then
        (if acc = [] then Inl (url_error ''missing protocol scheme'') else Inr (acc, cs))
      else Inr ([], raw))"

definition getScheme :: "string \<Rightarrow> goerr + string \<times> string" where
  "getScheme raw = scheme_scan raw [] raw"

definition validOptionalPort :: "string \<Rightarrow> bool" where
  "validOptionalPort p = (p = [] \<or> (hd p = CHR '':'' \<and> list_all is_digit (tl p)))"

text \<open>\<open>parseHost\<close>: an address in brackets has to be an IPv6 address; another host may end in a port.\<close>

definition parseHost :: "string \<Rightarrow> goerr + string" where
  "parseHost host =
     (case cut_last host (CHR ''['') of
        Some (_, after_open) \<Rightarrow>
          (case cut_last host (CHR '']'') of
             None \<Rightarrow> Inl (url_error ''missing ']' in host'')
           | Some (_, port) \<Rightarrow>
               if \<not> validOptionalPort port then Inl (url_error ''invalid port after host'')
               else case cut_last after_open (CHR '']'') of
                 None \<Rightarrow> Inl (url_error ''missing ']' in host'')
               | Some (name, _) \<Rightarrow>
                   bindE (unescape EncodeHost port) (\<lambda>port'.
                   bindE (case Cut name ''%25'' of
                            None \<Rightarrow> unescape EncodeHost name
                          | Some (h, z) \<Rightarrow>
                              bindE (unescape EncodeHost h) (\<lambda>h'.
                              bindE (unescape EncodeZone (''%25'' @ z)) (\<lambda>z'. Inr (h' @ z')))) (\<lambda>name'.
                   case ParseAddr name' of
                     Some (V6 _) \<Rightarrow> Inr (''['' @ name' @ '']'' @ port')
                   | _ \<Rightarrow> Inl (url_error ''invalid host''))))
      | None \<Rightarrow>
          (case cut_last host (CHR '':'') of
             Some (_, port) \<Rightarrow>
               if list_all is_digit port then unescape EncodeHost host
               else Inl (url_error ''invalid port after host'')
           | None \<Rightarrow> unescape EncodeHost host))"

definition validUserinfo :: "string \<Rightarrow> bool" where
  "validUserinfo s = list_all (\<lambda>c. is_alnum c \<or> c \<in> set ''-._:~!$&()*+,;=%@'' \<union> {CHR 0x27}) s"

definition parseAuthority :: "string \<Rightarrow> goerr + string" where
  "parseAuthority a =
     (case cut_last a (CHR ''@'') of
        None \<Rightarrow> parseHost a
      | Some (userinfo, h) \<Rightarrow>
          bindE (parseHost h) (\<lambda>host.
            if \<not> validUserinfo userinfo then Inl (url_error ''net/url: invalid userinfo'')
            else bindE (unescape EncodeUserPassword userinfo) (\<lambda>_. Inr host)))"

definition before :: "string \<Rightarrow> string \<Rightarrow> string" where
  "before s sep = (case Cut s sep of None \<Rightarrow> s | Some (b, _) \<Rightarrow> b)"

text \<open>\<open>parse(rawURL, false)\<close>: the scheme, the host and the path.\<close>

definition url_parse :: "string \<Rightarrow> goerr + string \<times> string \<times> string" where
  "url_parse raw =
     (if has_ctl raw then Inl (url_error ''net/url: invalid control character in URL'')
      else if raw = ''*'' then Inr ([], [], ''*'')
      else bindE (getScheme raw) (\<lambda>(sch, r).
        let scheme = ToLower sch; rest = before r ''?''
        in if \<not> HasPrefix rest ''/'' \<and> scheme \<noteq> [] then Inr (scheme, [], [])
           else if \<not> HasPrefix rest ''/'' \<and> CHR '':'' \<in> set (before rest ''/'')
           then Inl (url_error ''first path segment in URL cannot contain colon'')
           else if (scheme \<noteq> [] \<or> \<not> HasPrefix rest ''///'') \<and> HasPrefix rest ''//'' then
             let auth = takeWhile (\<lambda>c. c \<noteq> CHR ''/'') (drop 2 rest);
                 p = dropWhile (\<lambda>c. c \<noteq> CHR ''/'') (drop 2 rest)
             in bindE (parseAuthority auth) (\<lambda>host.
                bindE (unescape EncodePath p) (\<lambda>path. Inr (scheme, host, path)))
           else bindE (unescape EncodePath rest) (\<lambda>path. Inr (scheme, [], path))))"

definition url_Parse :: "string \<Rightarrow> goerr + string \<times> string \<times> string" where
  "url_Parse raw =
     (case (case Cut raw ''#'' of
              None \<Rightarrow> url_parse raw
            | Some (u, frag) \<Rightarrow>
                bindE (url_parse u) (\<lambda>url. bindE (unescape EncodeFragment frag) (\<lambda>_. Inr url))) of
        Inl e \<Rightarrow> Inl (FmtErrorf (''parse '' @ [CHR 0x22] @ raw @ [CHR 0x22] @ '': '' @ err_msg e) [e])
      | Inr url \<Rightarrow> Inr url)"

subsection \<open>Reading back what was printed\<close>

lemma upper_hex_bits:
  assumes "d < 16"
  shows "is_hex (upper_hex d)" "unhex (upper_hex d) = d"
  using assms by (auto simp: upper_hex_def byte_class_defs unhex_def digitVal_def of_char_of)

lemma unhex_percent:
  "unhex (upper_hex (of_char c div 16)) = of_char c div 16"
  "unhex (upper_hex (of_char c mod 16)) = of_char c mod 16"
  "is_hex (upper_hex (of_char c div 16))" "is_hex (upper_hex (of_char c mod 16))"
proof -
  have "(of_char c :: nat) div 16 < 16" and "(of_char c :: nat) mod 16 < 16"
    using nat_of_char_less_256 [of c] by (linarith, simp)
  then show "unhex (upper_hex (of_char c div 16)) = of_char c div 16"
    "unhex (upper_hex (of_char c mod 16)) = of_char c mod 16"
    "is_hex (upper_hex (of_char c div 16))" "is_hex (upper_hex (of_char c mod 16))"
    by (simp_all add: upper_hex_bits)
qed

text \<open>The bytes of a host that \<open>parseHost\<close> accepts outside brackets and that escaping keeps readable; an IPv6 address
  without a zone stands in brackets.\<close>

definition host_byte :: "char \<Rightarrow> bool" where
  "host_byte c = (c \<noteq> CHR ''['' \<and> ((of_char c :: nat) \<ge> 128 \<or> c = CHR ''%'' \<or> \<not> shouldEscape EncodeHost c))"

definition plain_host :: "string \<Rightarrow> bool" where
  "plain_host h = (list_all host_byte h
     \<and> (case cut_last h (CHR '':'') of None \<Rightarrow> True | Some (_, port) \<Rightarrow> list_all is_digit port))"

definition bracketed_host :: "string \<Rightarrow> bool" where
  "bracketed_host h =
     (case h of
        [] \<Rightarrow> False
      | c # r \<Rightarrow> c = CHR ''[''
          \<and> (case cut_last r (CHR '']'') of
               None \<Rightarrow> False
             | Some (name, port) \<Rightarrow> validOptionalPort port \<and> list_all (\<lambda>c. is_alnum c \<or> c = CHR '':'' \<or> c = CHR ''.'') name
                 \<and> (case ParseAddr name of Some (V6 _) \<Rightarrow> True | _ \<Rightarrow> False)))"

definition valid_host :: "string \<Rightarrow> bool" where
  "valid_host h = (plain_host h \<or> bracketed_host h)"

lemma escape_simps [simp]:
  "escape m [] = []"
  "escape m (c # cs) = (if shouldEscape m c then percent c else [c]) @ escape m cs"
  by (simp_all add: escape_def)

lemma shouldEscape_percent: "m \<noteq> EncodeFragment \<Longrightarrow> shouldEscape m (CHR ''%'')"
  by (simp add: shouldEscape_def is_alnum_def byte_class_defs)

lemma unescape_escape_path: "unescape EncodePath (escape EncodePath s) = Inr s"
proof (induction s)
  case (Cons c s)
  then show ?case
    using shouldEscape_percent [of EncodePath]
    by (cases "shouldEscape EncodePath c")
      (auto simp: percent_def unhex_percent simp del: of_char_eq_iff)
qed simp

lemma host_escape_digits:
  assumes "(of_char c :: nat) \<ge> 128"
  shows "\<not> unhex (upper_hex (of_char c div 16)) < 8"
  using assms by (simp add: unhex_percent)

lemma percent_percent: "percent (CHR ''%'') = ''%25''"
  by code_simp

lemma char_of_37: "char_of (37 :: nat) = CHR ''%''"
  by code_simp

lemma unhex_25: "unhex (CHR ''2'') = 2" "unhex (CHR ''5'') = 5" "is_hex (CHR ''2'')" "is_hex (CHR ''5'')"
  by code_simp+

lemma unescape_escape_host:
  assumes "list_all host_byte s"
  shows "unescape EncodeHost (escape EncodeHost s) = Inr s"
  using assms
proof (induction s)
  case (Cons c s)
  then have IH: "unescape EncodeHost (escape EncodeHost s) = Inr s" and c: "host_byte c" by simp_all
  consider "c = CHR ''%''" | "c \<noteq> CHR ''%''" "shouldEscape EncodeHost c" "(of_char c :: nat) \<ge> 128"
    | "c \<noteq> CHR ''%''" "\<not> shouldEscape EncodeHost c"
    using c by (auto simp: host_byte_def)
  then show ?case
  proof cases
    case 1
    then show ?thesis
      using IH by (simp add: shouldEscape_percent percent_percent unhex_25 char_of_37)
  next
    case 2
    then show ?thesis
      using IH host_escape_digits [of c] by (simp add: percent_def unhex_percent)
  qed (use IH in simp)
qed simp

text \<open>What the printed host and the printed path can contain.\<close>

lemma set_escape:
  assumes "x \<in> set (escape m s)"
  obtains "x \<in> set s" "\<not> shouldEscape m x" | "x = CHR ''%''" | d where "d < 16" "x = upper_hex d"
proof -
  from assms obtain c where c: "c \<in> set s" "x \<in> set (if shouldEscape m c then percent c else [c])"
    by (auto simp: escape_def)
  have d: "(of_char c :: nat) div 16 < 16" "(of_char c :: nat) mod 16 < 16"
    using nat_of_char_less_256 [of c] by (linarith, simp)
  show thesis
    using c that(1,2) that(3) [OF d(1)] that(3) [OF d(2)] by (auto simp: percent_def split: if_splits)
qed

lemma upper_hex_plain:
  assumes "d < 16"
  shows "is_alnum (upper_hex d)"
  using assms by (auto simp: upper_hex_def is_alnum_def byte_class_defs of_char_of)

lemma not_alnum: "\<not> is_alnum (CHR ''/'')" "\<not> is_alnum (CHR ''?'')" "\<not> is_alnum (CHR ''#'')"
  "\<not> is_alnum (CHR ''['')" "\<not> is_alnum (CHR ''@'')" "\<not> is_alnum (CHR ''%'')" "\<not> is_alnum (CHR '':'')"
  by code_simp+

lemma is_alnum_printable: "is_alnum c \<Longrightarrow> 32 \<le> (of_char c :: nat) \<and> (of_char c :: nat) \<noteq> 127"
  by (auto simp: is_alnum_def byte_class_defs)

lemma unescaped_set:
  assumes "\<not> shouldEscape m c" "\<not> is_alnum c"
  shows "c \<in> set (CHR 0x22 # CHR 0x27 # ''!$&()*+,;=:[]<>-_.~$&+,/:;=?@'')"
proof (rule ccontr)
  assume c: "c \<notin> set (CHR 0x22 # CHR 0x27 # ''!$&()*+,;=:[]<>-_.~$&+,/:;=?@'')"
  have "c \<notin> set ''!$&()*+,;=:[]<>'' \<union> {CHR 0x22, CHR 0x27}" "c \<notin> set ''-_.~''" "c \<notin> set ''$&+,/:;=?@''" "c \<notin> set ''!()*''"
    using c by simp_all
  then show False using assms unfolding shouldEscape_def by presburger
qed

lemma unescaped_printable:
  assumes "\<not> shouldEscape m c"
  shows "32 \<le> (of_char c :: nat) \<and> (of_char c :: nat) \<noteq> 127"
proof (cases "is_alnum c")
  case False
  have "list_all (\<lambda>c. 32 \<le> (of_char c :: nat) \<and> (of_char c :: nat) \<noteq> 127)
    (CHR 0x22 # CHR 0x27 # ''!$&()*+,;=:[]<>-_.~$&+,/:;=?@'')"
    by simp
  then show ?thesis using unescaped_set [OF assms False] unfolding list_all_iff by blast
qed (rule is_alnum_printable)

lemma shouldEscape_reserved:
  "shouldEscape EncodePath (CHR ''?'')" "shouldEscape EncodePath (CHR ''#'')"
  "shouldEscape EncodeHost (CHR ''?'')" "shouldEscape EncodeHost (CHR ''#'')"
  "shouldEscape EncodeHost (CHR ''/'')" "shouldEscape EncodeHost (CHR ''@'')"
  by code_simp+

lemma escape_printable: "\<not> has_ctl (escape m s)"
proof -
  have "32 \<le> (of_char x :: nat) \<and> (of_char x :: nat) \<noteq> 127" if "x \<in> set (escape m s)" for x
    using that
    by (cases rule: set_escape)
      (use unescaped_printable is_alnum_printable upper_hex_plain in auto)
  then show ?thesis by (fastforce simp: has_ctl_def list_ex_iff)
qed

lemma escape_removes:
  assumes "shouldEscape m x" "x \<noteq> CHR ''%''" "\<not> is_alnum x"
  shows "x \<notin> set (escape m s)"
  using assms upper_hex_plain by (auto elim: set_escape)

lemma escape_no_reserved [simp]:
  "CHR ''?'' \<notin> set (escape EncodePath s)" "CHR ''#'' \<notin> set (escape EncodePath s)"
  "CHR ''?'' \<notin> set (escape EncodeHost s)" "CHR ''#'' \<notin> set (escape EncodeHost s)"
  "CHR ''/'' \<notin> set (escape EncodeHost s)" "CHR ''@'' \<notin> set (escape EncodeHost s)"
  by (simp_all add: escape_removes shouldEscape_reserved not_alnum)

lemma escape_keeps:
  assumes "\<not> shouldEscape m x" "x \<noteq> CHR ''%''" "\<not> is_alnum x"
  shows "x \<in> set (escape m s) \<longleftrightarrow> x \<in> set s"
  using assms upper_hex_plain by (auto elim: set_escape) (auto simp: escape_def)

lemma not_shouldEscape_host: "\<not> shouldEscape EncodeHost (CHR '':'')" "\<not> shouldEscape EncodeHost (CHR ''['')"
  by code_simp+

lemma escape_keeps_host:
  "CHR '':'' \<in> set (escape EncodeHost s) \<longleftrightarrow> CHR '':'' \<in> set s"
  "CHR ''['' \<in> set (escape EncodeHost s) \<longleftrightarrow> CHR ''['' \<in> set s"
  by (simp_all add: escape_keeps not_shouldEscape_host not_alnum)

lemma escape_append: "escape m (s @ t) = escape m s @ escape m t"
  by (simp add: escape_def)

lemma escape_id: "list_all (\<lambda>c. \<not> shouldEscape m c) s \<Longrightarrow> escape m s = s"
  by (induction s) simp_all

lemma cut_last_unique:
  assumes "c \<notin> set b"
  shows "cut_last (a @ c # b) c = Some (a, b)"
proof -
  have "takeWhile (\<lambda>x. x \<noteq> c) (rev b @ c # rev a) = rev b" "dropWhile (\<lambda>x. x \<noteq> c) (rev b @ c # rev a) = c # rev a"
    using assms by (subst takeWhile_append2 dropWhile_append2; auto)+
  then show ?thesis by (simp add: cut_last_def)
qed

lemma cut_last_SomeD:
  assumes "cut_last s c = Some (a, b)"
  shows "s = a @ c # b \<and> c \<notin> set b"
proof -
  have "c \<in> set s" using assms by (simp add: cut_last_def split: if_splits)
  then obtain a' b' where "s = a' @ c # b'" "c \<notin> set b'" by (meson split_list_last)
  then show ?thesis using assms cut_last_unique by simp
qed

lemma parseHost_plain:
  assumes "plain_host h"
  shows "parseHost (escape EncodeHost h) = Inr h"
proof -
  have h: "list_all host_byte h" using assms by (simp add: plain_host_def)
  have br: "CHR ''['' \<notin> set (escape EncodeHost h)"
    using h by (auto simp: escape_keeps_host host_byte_def list_all_iff)
  have port: "list_all is_digit port" if "cut_last (escape EncodeHost h) (CHR '':'') = Some (a, port)" for a port
  proof -
    have "CHR '':'' \<in> set (escape EncodeHost h)" using cut_last_SomeD [OF that] by simp
    then have "CHR '':'' \<in> set h" by (simp add: escape_keeps_host)
    then obtain u p where hp: "h = u @ CHR '':'' # p" "CHR '':'' \<notin> set p" by (meson split_list_last)
    then have "list_all is_digit p" using assms by (simp add: plain_host_def cut_last_unique)
    moreover then have "escape EncodeHost p = p"
      by (intro escape_id) (auto simp: list_all_iff shouldEscape_def is_alnum_def)
    ultimately show ?thesis
      using that hp cut_last_unique [of "CHR '':''" p "escape EncodeHost u"]
      by (simp add: escape_append not_shouldEscape_host)
  qed
  show ?thesis
    using br unescape_escape_host [OF h] port
    by (auto simp: parseHost_def cut_last_def [of _ "CHR ''[''"] split: option.split)
qed

lemma Cut_byte_None: "c \<notin> set s \<Longrightarrow> Cut s [c] = None"
  by (auto simp: Cut_None Contains_iff_sublist sublist_def)

lemma host_bytes:
  "is_alnum c \<or> c = CHR '':'' \<or> c = CHR ''.'' \<Longrightarrow> host_byte c \<and> \<not> shouldEscape EncodeHost c \<and> c \<noteq> CHR ''['' \<and> c \<noteq> CHR '']'' \<and> c \<noteq> CHR ''%''"
proof -
  have other: "\<not> is_alnum (CHR ''['')" "\<not> is_alnum (CHR '']'')" "\<not> is_alnum (CHR ''%'')"
      "\<not> shouldEscape EncodeHost (CHR '':'')" "\<not> shouldEscape EncodeHost (CHR ''.'')"
    by code_simp+
  assume c: "is_alnum c \<or> c = CHR '':'' \<or> c = CHR ''.''"
  then have "\<not> shouldEscape EncodeHost c" using other(4,5) by (auto simp: shouldEscape_def)
  moreover from c other have "c \<noteq> CHR ''['' \<and> c \<noteq> CHR '']'' \<and> c \<noteq> CHR ''%''" by auto
  ultimately show ?thesis by (simp add: host_byte_def)
qed

lemma parseHost_bracketed:
  assumes "bracketed_host h"
  shows "parseHost (escape EncodeHost h) = Inr h"
proof -
  obtain name port a where h: "h = CHR ''['' # name @ CHR '']'' # port" and r: "CHR '']'' \<notin> set port" and port: "validOptionalPort port"
      and name: "list_all (\<lambda>c. is_alnum c \<or> c = CHR '':'' \<or> c = CHR ''.'') name" and v6: "ParseAddr name = Some (V6 a)"
    using assms by (auto simp: bracketed_host_def dest: cut_last_SomeD split: list.splits option.splits addr.splits)
  have digits: "list_all (\<lambda>c. is_alnum c \<or> c = CHR '':'' \<or> c = CHR ''.'') port"
    using port by (cases port) (auto simp: validOptionalPort_def list_all_iff is_alnum_def)
  have plain: "list_all host_byte name" "list_all (\<lambda>c. \<not> shouldEscape EncodeHost c) name" "CHR ''['' \<notin> set name" "CHR ''%'' \<notin> set name"
    using name host_bytes by (auto simp: list_all_iff)
  have plain_port: "list_all host_byte port" "list_all (\<lambda>c. \<not> shouldEscape EncodeHost c) port" "CHR ''['' \<notin> set port"
    using digits host_bytes by (auto simp: list_all_iff)
  have close: "\<not> shouldEscape EncodeHost (CHR '']'')" by code_simp
  have esc: "escape EncodeHost h = h"
    using escape_id [OF plain(2)] escape_id [OF plain_port(2)] close by (simp add: h escape_append not_shouldEscape_host)
  have un: "unescape EncodeHost name = Inr name" "unescape EncodeHost port = Inr port"
    using unescape_escape_host [OF plain(1)] unescape_escape_host [OF plain_port(1)]
    by (simp_all only: escape_id [OF plain(2)] escape_id [OF plain_port(2)])
  have cuts: "cut_last h (CHR ''['') = Some ([], name @ CHR '']'' # port)" "cut_last h (CHR '']'') = Some (CHR ''['' # name, port)"
      "cut_last (name @ CHR '']'' # port) (CHR '']'') = Some (name, port)"
    using cut_last_unique [of "CHR ''[''" "name @ CHR '']'' # port" "[]"] cut_last_unique [OF r, of "CHR ''['' # name"]
      cut_last_unique [OF r, of name] plain(3) plain_port(3) by (simp_all add: h)
  have "Cut name ''%25'' = None" using plain(4) by (auto simp: Cut_None Contains_iff_sublist sublist_def)
  then show ?thesis unfolding esc by (simp add: parseHost_def cuts port un v6) (simp add: h)
qed

lemma parseHost_escape: "valid_host h \<Longrightarrow> parseHost (escape EncodeHost h) = Inr h"
  unfolding valid_host_def using parseHost_plain parseHost_bracketed by blast

lemma before_byte: "c \<notin> set s \<Longrightarrow> before s [c] = s"
  by (simp add: before_def Cut_byte_None)

lemma parseAuthority_escape: "valid_host h \<Longrightarrow> parseAuthority (escape EncodeHost h) = Inr h"
  by (simp add: parseAuthority_def cut_last_def parseHost_escape)

lemma escape_path_slash: "HasPrefix (escape EncodePath p) ''/'' \<longleftrightarrow> rooted p"
proof (cases p)
  case (Cons c cs)
  moreover have "\<not> shouldEscape EncodePath (CHR ''/'')" by code_simp
  ultimately show ?thesis by (auto simp: percent_def)
qed simp

definition printed_path :: "string \<Rightarrow> bool" where
  "printed_path p = (p = [] \<or> rooted p)"

lemma getScheme_beegfs: "getScheme (''beegfs:'' @ r) = Inr (''beegfs'', r)"
  by (simp add: getScheme_def byte_class_defs)

lemma url_String_beegfs:
  assumes "printed_path p"
  shows "url_String ''beegfs'' h p
    = ''beegfs:'' @ (if h = [] \<and> p = [] then [] else ''//'' @ escape EncodeHost h @ escape EncodePath p)"
  using assms by (auto simp: url_String_def printed_path_def escape_path_slash)

lemma authority_split:
  assumes "printed_path p"
  shows "takeWhile (\<lambda>c. c \<noteq> CHR ''/'') (escape EncodeHost h @ escape EncodePath p) = escape EncodeHost h"
    "dropWhile (\<lambda>c. c \<noteq> CHR ''/'') (escape EncodeHost h @ escape EncodePath p) = escape EncodePath p"
proof -
  have h: "\<And>c. c \<in> set (escape EncodeHost h) \<Longrightarrow> c \<noteq> CHR ''/''" by (metis escape_no_reserved(5))
  have p: "takeWhile (\<lambda>c. c \<noteq> CHR ''/'') (escape EncodePath p) = []"
    "dropWhile (\<lambda>c. c \<noteq> CHR ''/'') (escape EncodePath p) = escape EncodePath p"
    using assms escape_path_slash [of p] unfolding printed_path_def
    by (cases "escape EncodePath p"; auto)+
  show "takeWhile (\<lambda>c. c \<noteq> CHR ''/'') (escape EncodeHost h @ escape EncodePath p) = escape EncodeHost h"
    "dropWhile (\<lambda>c. c \<noteq> CHR ''/'') (escape EncodeHost h @ escape EncodePath p) = escape EncodePath p"
    using h p by (simp_all add: takeWhile_append2 dropWhile_append2)
qed

theorem url_Parse_String:
  assumes h: "valid_host h" and p: "printed_path p"
  shows "url_Parse (url_String ''beegfs'' h p) = Inr (''beegfs'', h, p)"
proof -
  let ?r = "escape EncodeHost h @ escape EncodePath p"
  let ?s = "url_String ''beegfs'' h p"
  have s: "?s = ''beegfs:'' @ (if h = [] \<and> p = [] then [] else ''//'' @ ?r)"
    by (rule url_String_beegfs [OF p])
  have "CHR ''#'' \<notin> set ?s" unfolding s by simp
  then have "Cut ?s ''#'' = None" by (rule Cut_byte_None)
  moreover have "\<not> has_ctl ?s"
    using escape_printable [of EncodeHost h] escape_printable [of EncodePath p]
    by (simp add: s has_ctl_def)
  moreover have "getScheme ?s = Inr (''beegfs'', if h = [] \<and> p = [] then [] else ''//'' @ ?r)"
    unfolding s by (rule getScheme_beegfs)
  moreover have "before (if h = [] \<and> p = [] then [] else ''//'' @ ?r) ''?'' = (if h = [] \<and> p = [] then [] else ''//'' @ ?r)"
    by (rule before_byte) simp
  moreover have "ToLower ''beegfs'' = ''beegfs''" by code_simp
  ultimately show ?thesis
    using parseAuthority_escape [OF h] unescape_escape_path [of p] authority_split [OF p, of h]
    by (auto simp: url_Parse_def url_parse_def s)
qed

end
