(* ===== verification/Volume.thy ===== *)
theory Volume
  imports Config Go_URL
begin

text \<open>
  The internal representation of a volume: the types of pkg/beegfs/beegfs.go, the volume identifiers of
  pkg/beegfs/beegfs_util.go, and how a volume is built from its parts or from its identifier. The lemmas
  show that the identifier determines the volume, where its directories lie, and which directory name the
  controller derives from it.
\<close>

unbundle bit_operations_syntax

subsection \<open>Types\<close>

record beegfsVolume =
  config :: BeegfsConfig
  clientConfPath :: string
  csiDirPath :: string
  csiDirPathBeegfsRoot :: string
  mountDirPath :: string
  mountPath :: string
  sysMgmtdHost :: string
  volDirBasePathBeegfsRoot :: string
  volDirBasePath :: string
  volDirPathBeegfsRoot :: string
  volDirPath :: string
  volumeID :: string

definition getConnAuthPath :: "beegfsVolume \<Rightarrow> string" where
  "getConnAuthPath v = path_Join [mountDirPath v, ''connAuthFile'']"

definition getTLSCertPath :: "beegfsVolume \<Rightarrow> string" where
  "getTLSCertPath v = path_Join [mountDirPath v, ''cert.pem'']"

record stripePatternConfig =
  storagePoolID :: string
  stripePatternChunkSize :: string
  stripePatternNumTargets :: string

record permissionsConfig =
  uid :: "32 word"
  gid :: "32 word"
  mode :: "16 word"

definition hasNonDefaultOwnerOrGroup :: "permissionsConfig \<Rightarrow> bool" where
  "hasNonDefaultOwnerOrGroup cfg = (uid cfg > 0 \<or> gid cfg > 0)"

definition hasSpecialPermissions :: "permissionsConfig \<Rightarrow> bool" where
  "hasSpecialPermissions cfg = (mode cfg > 0x1FF)"

text \<open>The bits of \<open>os.FileMode\<close> for the special permissions.\<close>

definition ModeSticky :: "32 word" where "ModeSticky = 2 ^ 20"
definition ModeSetgid :: "32 word" where "ModeSetgid = 2 ^ 22"
definition ModeSetuid :: "32 word" where "ModeSetuid = 2 ^ 23"

definition goFileMode :: "permissionsConfig \<Rightarrow> 32 word" where
  "goFileMode cfg =
     (let goMode = ucast (mode cfg AND 0x1FF);
          stickyBit = mode cfg AND 0x200 > 0;
          setgidBit = mode cfg AND 0x400 > 0;
          setuidBit = mode cfg AND 0x800 > 0;
          goMode = (if stickyBit then goMode OR ModeSticky else goMode);
          goMode = (if setgidBit then goMode OR ModeSetgid else goMode)
      in if setuidBit then goMode OR ModeSetuid else goMode)"

record reqParameters =
  rp_sysMgmtdHost :: string
  rp_volDirBasePathBeegfsRoot :: string
  volStripePatternConfig :: stripePatternConfig
  volPermissionsConfig :: permissionsConfig

subsection \<open>Identifiers\<close>

definition NewBeegfsURL :: "string \<Rightarrow> string \<Rightarrow> string" where
  "NewBeegfsURL host path = url_String ''beegfs'' host path"

definition parseBeegfsURL :: "string \<Rightarrow> goerr + string \<times> string" where
  "parseBeegfsURL rawURL =
     (case url_Parse rawURL of
        Inl e \<Rightarrow> Inl (WithStack e)
      | Inr (scheme, host, path) \<Rightarrow>
          if scheme \<noteq> ''beegfs'' then Inl (ErrorsNew ''URL has incorrect scheme'') else Inr (host, path))"

definition sanitizeVolumeID :: "string \<Rightarrow> string" where
  "sanitizeVolumeID volID =
     (let s = ReplaceFirst volID ''beegfs://'' '''';
          s = ReplaceAll s ''_'' ''__'';
          s = ReplaceAll s ''/'' ''_''
      in if length s > 255 then sha1_hex volID else s)"

subsection \<open>Volumes\<close>

definition newBeegfsVolume :: "string \<Rightarrow> string \<Rightarrow> string \<Rightarrow> PluginConfig \<Rightarrow> goerr + beegfsVolume" where
  "newBeegfsVolume mountDir host volDirRoot pluginConfig =
     bindE (squashConfigForSysMgmtdHost host pluginConfig) (\<lambda>cfg.
     let mountP = path_Join [mountDir, ''mount''];
         volDir = path_Join [mountP, volDirRoot];
         volDirBase = path_Dir volDir;
         volDirBaseRoot = path_Dir volDirRoot;
         volName = path_Base volDirRoot
     in Inr \<lparr> config = cfg,
              clientConfPath = path_Join [mountDir, ''beegfs-client.conf''],
              csiDirPath = path_Join [volDirBase, ''.csi'', ''volumes'', volName],
              csiDirPathBeegfsRoot = path_Join [volDirBaseRoot, ''.csi'', ''volumes'', volName],
              mountDirPath = mountDir,
              mountPath = mountP,
              sysMgmtdHost = host,
              volDirBasePathBeegfsRoot = volDirBaseRoot,
              volDirBasePath = volDirBase,
              volDirPathBeegfsRoot = volDirRoot,
              volDirPath = volDir,
              volumeID = NewBeegfsURL host volDirRoot \<rparr>)"

definition newBeegfsVolumeFromID :: "string \<Rightarrow> string \<Rightarrow> PluginConfig \<Rightarrow> goerr + beegfsVolume" where
  "newBeegfsVolumeFromID mountDir volID pluginConfig =
     bindE (parseBeegfsURL volID) (\<lambda>(host, volDirRoot). newBeegfsVolume mountDir host volDirRoot pluginConfig)"

subsection \<open>Modes\<close>

text \<open>What \<open>os.Chmod\<close> hands to the kernel (package \<open>os\<close>, function \<open>syscallMode\<close>).\<close>

definition syscallMode :: "32 word \<Rightarrow> 32 word" where
  "syscallMode i =
     (let p = i AND 0x1FF;
          p = (if i AND ModeSetuid \<noteq> 0 then p OR 0x800 else p);
          p = (if i AND ModeSetgid \<noteq> 0 then p OR 0x400 else p)
      in if i AND ModeSticky \<noteq> 0 then p OR 0x200 else p)"

lemma and_exp_pos_iff: "(x AND 2 ^ n > 0) \<longleftrightarrow> bit x n" for x :: "'a::len word"
  by (metis and_exp_eq_0_iff_not_bit word_neq_0_conv)

lemma mode_exps:
  "(0x200 :: 'a::len word) = 2 ^ 9" "(0x400 :: 'a::len word) = 2 ^ 10" "(0x800 :: 'a::len word) = 2 ^ 11"
  by simp_all

lemma special_exps:
  "(0x100000 :: 'a::len word) = 2 ^ 20" "(0x400000 :: 'a::len word) = 2 ^ 22" "(0x800000 :: 'a::len word) = 2 ^ 23"
  by simp_all

lemma bit_exp32: "k < 32 \<Longrightarrow> bit (2 ^ k :: 32 word) n \<longleftrightarrow> n = k"
  by (auto simp: bit_exp_iff possible_bit_def)

lemma bit_mode_consts:
  "bit (0x200 :: 32 word) n \<longleftrightarrow> n = 9" "bit (0x400 :: 32 word) n \<longleftrightarrow> n = 10" "bit (0x800 :: 32 word) n \<longleftrightarrow> n = 11"
  "bit (0x100000 :: 32 word) n \<longleftrightarrow> n = 20" "bit (0x400000 :: 32 word) n \<longleftrightarrow> n = 22" "bit (0x800000 :: 32 word) n \<longleftrightarrow> n = 23"
  unfolding mode_exps special_exps by (rule bit_exp32, simp)+

lemma bit_goFileMode:
  "bit (goFileMode cfg) n \<longleftrightarrow>
     (n < 9 \<and> bit (mode cfg) n) \<or> (n = 20 \<and> bit (mode cfg) 9) \<or> (n = 22 \<and> bit (mode cfg) 10) \<or> (n = 23 \<and> bit (mode cfg) 11)"
proof -
  have m: "(0x1FF :: 16 word) = mask 9" by (simp add: mask_eq_exp_minus_1)
  show ?thesis
    unfolding goFileMode_def Let_def mode_exps and_exp_pos_iff ModeSticky_def ModeSetgid_def ModeSetuid_def m
    by (auto simp: bit_or_iff bit_and_iff bit_ucast_iff bit_mask_iff possible_bit_def bit_mode_consts
        simp del: bit_numeral_word_iff)
qed

lemma bit_syscallMode:
  "bit (syscallMode i) n \<longleftrightarrow>
     (n < 9 \<and> bit i n) \<or> (n = 9 \<and> bit i 20) \<or> (n = 10 \<and> bit i 22) \<or> (n = 11 \<and> bit i 23)"
proof -
  have m: "(0x1FF :: 32 word) = mask 9" by (simp add: mask_eq_exp_minus_1)
  show ?thesis
    unfolding syscallMode_def Let_def mode_exps ModeSticky_def ModeSetgid_def ModeSetuid_def m and_exp_eq_0_iff_not_bit
    by (auto simp: bit_or_iff bit_and_iff bit_ucast_iff bit_mask_iff possible_bit_def bit_mode_consts
        simp del: bit_numeral_word_iff)
qed

lemma bit_word_less: "w < 2 ^ k \<Longrightarrow> bit w n \<Longrightarrow> n < k" for w :: "'a::len word"
  by (metis bit_and_iff bit_mask_iff less_mask_eq)

text \<open>C36. The file mode that the driver passes to \<open>os.Chmod\<close> for a 12-bit Unix mode makes the kernel set
  exactly that mode, special bits included.\<close>

theorem goFileMode_syscallMode:
  assumes "mode cfg < 0x1000"
  shows "syscallMode (goFileMode cfg) = ucast (mode cfg)"
proof (rule bit_word_eqI)
  fix n
  assume "n < LENGTH(32)"
  have "bit (mode cfg) n \<Longrightarrow> n < 12"
    using assms bit_word_less [of "mode cfg" 12] by simp
  moreover have "n < 9 \<or> n = 9 \<or> n = 10 \<or> n = 11 \<or> 12 \<le> n" by linarith
  ultimately show "bit (syscallMode (goFileMode cfg)) n \<longleftrightarrow> bit (ucast (mode cfg) :: 32 word) n"
    by (elim disjE) (auto simp: bit_syscallMode bit_goFileMode bit_ucast_iff)
qed

theorem goFileMode_syscallMode_witness:
  "syscallMode (goFileMode \<lparr> uid = 0, gid = 0, mode = 0x5ED \<rparr>) = 0x5ED"
  using goFileMode_syscallMode [of "\<lparr> uid = 0, gid = 0, mode = 0x5ED \<rparr>"] by simp

subsection \<open>Identifiers and volumes\<close>

lemma parse_NewBeegfsURL:
  assumes "valid_host host" and "printed_path path"
  shows "parseBeegfsURL (NewBeegfsURL host path) = Inr (host, path)"
  using url_Parse_String [OF assms] by (simp add: parseBeegfsURL_def NewBeegfsURL_def)

text \<open>C32. A volume identifier can be read back. For a host name or address that a URL can carry, with or without a
  port, and every absolute path, whatever bytes it has, parsing the identifier gives the host and the path
  it was made from.\<close>

theorem beegfs_url_roundtrip:
  assumes "valid_host host" and "rooted path"
  shows "parseBeegfsURL (NewBeegfsURL host path) = Inr (host, path)"
  using assms by (intro parse_NewBeegfsURL) (auto simp: printed_path_def)

theorem beegfs_url_roundtrip_witness:
  "parseBeegfsURL (NewBeegfsURL ''10.0.0.1:8008'' ''/scratch/50% full?#1'') = Inr (''10.0.0.1:8008'', ''/scratch/50% full?#1'')"
proof -
  have "valid_host ''10.0.0.1:8008''" by code_simp
  then show ?thesis using beegfs_url_roundtrip by simp
qed

lemma newBeegfsVolume_result:
  assumes "plugin_ok pluginConfig"
  shows "\<exists>v. newBeegfsVolume mountDir host volDirRoot pluginConfig = Inr v"
  using squash_result [OF assms, of host] by (auto simp: newBeegfsVolume_def Let_def)

lemma newBeegfsVolume_fields:
  assumes "newBeegfsVolume mountDir host volDirRoot pluginConfig = Inr v"
  shows "squashConfigForSysMgmtdHost host pluginConfig = Inr (config v)"
    "clientConfPath v = path_Join [mountDir, ''beegfs-client.conf'']"
    "csiDirPath v = path_Join [path_Dir (volDirPath v), ''.csi'', ''volumes'', path_Base volDirRoot]"
    "csiDirPathBeegfsRoot v = path_Join [path_Dir volDirRoot, ''.csi'', ''volumes'', path_Base volDirRoot]"
    "mountDirPath v = mountDir" "mountPath v = path_Join [mountDir, ''mount'']" "sysMgmtdHost v = host"
    "volDirBasePathBeegfsRoot v = path_Dir volDirRoot" "volDirBasePath v = path_Dir (volDirPath v)"
    "volDirPathBeegfsRoot v = volDirRoot" "volDirPath v = path_Join [mountPath v, volDirRoot]"
    "volumeID v = NewBeegfsURL host volDirRoot"
  using assms by (auto simp: newBeegfsVolume_def Let_def bindE_Inr)

lemma proper_literals [simp]:
  "proper ''mount''" "proper ''beegfs-client.conf''" "proper ''.csi''" "proper ''volumes''" "proper ''nodes''"
  "proper ''connAuthFile''" "proper ''cert.pem''" "proper ''connInterfacesFile''" "proper ''connNetFilterFile''"
  "proper ''connTcpOnlyFilterFile''" "proper ''connRDMAInterfacesFile''"
  by (simp_all add: proper_def)

text \<open>The directories of a volume, in terms of the elements of the mount directory and of the volume path.\<close>

lemma volume_paths:
  assumes v: "newBeegfsVolume (abs_path ms) host (abs_path (bs @ [n])) pluginConfig = Inr v"
    and ok: "list_all proper ms" "list_all proper bs" "proper n"
  shows "mountDirPath v = abs_path ms"
    "mountPath v = abs_path (ms @ [''mount''])"
    "clientConfPath v = abs_path (ms @ [''beegfs-client.conf''])"
    "volDirPathBeegfsRoot v = abs_path (bs @ [n])"
    "volDirPath v = abs_path (ms @ [''mount''] @ bs @ [n])"
    "volDirBasePath v = abs_path (ms @ [''mount''] @ bs)"
    "csiDirPath v = abs_path (ms @ [''mount''] @ bs @ [''.csi'', ''volumes'', n])"
    "csiDirPathBeegfsRoot v = abs_path (bs @ [''.csi'', ''volumes'', n])"
    "getConnAuthPath v = abs_path (ms @ [''connAuthFile''])"
    "getTLSCertPath v = abs_path (ms @ [''cert.pem''])"
proof -
  note f = newBeegfsVolume_fields [OF v]
  have mp: "mountPath v = abs_path (ms @ [''mount''])"
    using ok by (simp add: f path_Join_abs2 path_simps)
  moreover have vd: "volDirPath v = abs_path ((ms @ [''mount''] @ bs) @ [n])"
    unfolding f(11) mp using ok by (simp add: path_Join_abs2 path_simps)
  moreover have vb: "path_Dir (volDirPath v) = abs_path (ms @ [''mount''] @ bs)"
    unfolding vd using ok by (intro path_Dir_abs_path) simp_all
  moreover have "path_Base (abs_path (bs @ [n])) = n" "path_Dir (abs_path (bs @ [n])) = abs_path bs"
    using ok by (simp_all add: path_simps)
  ultimately show "mountDirPath v = abs_path ms"
    "mountPath v = abs_path (ms @ [''mount''])"
    "clientConfPath v = abs_path (ms @ [''beegfs-client.conf''])"
    "volDirPathBeegfsRoot v = abs_path (bs @ [n])"
    "volDirPath v = abs_path (ms @ [''mount''] @ bs @ [n])"
    "volDirBasePath v = abs_path (ms @ [''mount''] @ bs)"
    "csiDirPath v = abs_path (ms @ [''mount''] @ bs @ [''.csi'', ''volumes'', n])"
    "csiDirPathBeegfsRoot v = abs_path (bs @ [''.csi'', ''volumes'', n])"
    "getConnAuthPath v = abs_path (ms @ [''connAuthFile''])"
    "getTLSCertPath v = abs_path (ms @ [''cert.pem''])"
    using ok f by (simp_all add: path_Join_abs_list path_simps getConnAuthPath_def getTLSCertPath_def)
qed

lemma newBeegfsVolumeFromID_volumeID:
  assumes "newBeegfsVolume mountDir host path pluginConfig = Inr v" and "valid_host host" and "printed_path path"
  shows "newBeegfsVolumeFromID mountDir (volumeID v) pluginConfig = Inr v"
  using assms by (simp add: newBeegfsVolumeFromID_def newBeegfsVolume_fields(12) parse_NewBeegfsURL)

subsection \<open>Directory names from identifiers\<close>

definition sanitized :: "char \<Rightarrow> string" where
  "sanitized c = (if c = CHR ''_'' then ''__'' else if c = CHR ''/'' then ''_'' else [c])"

text \<open>Texts in which no slash touches another slash or an underscore.\<close>

fun unambiguous :: "string \<Rightarrow> bool" where
  "unambiguous (a # b # s) =
     (\<not> (a = CHR ''/'' \<and> b \<in> set ''/_'') \<and> \<not> (a = CHR ''_'' \<and> b = CHR ''/'') \<and> unambiguous (b # s))"
| "unambiguous _ = True"

lemma sanitized_bytes:
  "ReplaceAll (ReplaceAll s ''_'' ''__'') ''/'' ''_'' = concat (map sanitized s)"
  by (induction s) (auto simp: ReplaceAll_byte sanitized_def)

lemma sanitizeVolumeID_eq:
  "sanitizeVolumeID (''beegfs://'' @ s) =
     (if length (concat (map sanitized s)) > 255 then sha1_hex (''beegfs://'' @ s) else concat (map sanitized s))"
  by (simp add: sanitizeVolumeID_def ReplaceFirst_def sanitized_bytes Let_def)

lemma sanitized_no_slash: "CHR ''/'' \<notin> set (concat (map sanitized s))"
  by (induction s) (auto simp: sanitized_def)

lemma digit_char_not_special:
  assumes "d < 16"
  shows "digit_char d \<noteq> CHR ''/''"
proof
  assume "digit_char d = CHR ''/''"
  then have "digitVal (CHR ''/'') = Some d" using digitVal_digit_char [of d] assms by simp
  then show False by (simp add: digitVal_def)
qed

lemma sanitizeVolumeID_shape: "CHR ''/'' \<notin> set (sanitizeVolumeID volID) \<and> length (sanitizeVolumeID volID) \<le> 255"
proof -
  let ?s = "ReplaceFirst volID ''beegfs://'' ''''"
  have "CHR ''/'' \<notin> set (sha1_hex volID)"
    using sha1_hex_digits digit_char_not_special by metis
  then show ?thesis
    using sanitized_no_slash [of ?s] by (simp add: sanitizeVolumeID_def sanitized_bytes Let_def)
qed

lemma sanitized_Nil [simp]: "concat (map sanitized s) = [] \<longleftrightarrow> s = []"
  by (cases s) (auto simp: sanitized_def)

lemma sanitized_starts_underscore:
  assumes "concat (map sanitized t) = CHR ''_'' # r"
  shows "\<exists>c t'. t = c # t' \<and> c \<in> set ''/_''"
  using assms by (cases t) (auto simp: sanitized_def split: if_splits)

lemma unambiguous_tl: "unambiguous (c # s) \<Longrightarrow> unambiguous s"
  by (cases s) simp_all

lemma sanitized_heads:
  assumes "sanitized c @ x = sanitized d @ y"
  shows "c = d \<or> (c = CHR ''_'' \<and> d = CHR ''/'' \<and> y = CHR ''_'' # x) \<or> (c = CHR ''/'' \<and> d = CHR ''_'' \<and> x = CHR ''_'' # y)"
  using assms
  by (cases "c = CHR ''_''"; cases "c = CHR ''/''"; cases "d = CHR ''_''"; cases "d = CHR ''/''")
    (simp_all add: sanitized_def)

lemma sanitized_inject:
  assumes "unambiguous s" and "unambiguous t" and "concat (map sanitized s) = concat (map sanitized t)"
  shows "s = t"
  using assms
proof (induction s arbitrary: t)
  case Nil
  then show ?case by (metis concat.simps(1) list.simps(8) sanitized_Nil)
next
  case (Cons c s)
  have "t \<noteq> []" using Cons.prems(3) sanitized_Nil by (metis list.discI)
  then obtain d t' where t: "t = d # t'" by (cases t) blast+
  have eq: "sanitized c @ concat (map sanitized s) = sanitized d @ concat (map sanitized t')"
    using Cons.prems(3) unfolding t by (simp only: list.map concat.simps)
  have tails: "unambiguous s" "unambiguous t'"
    using unambiguous_tl [of c s] unambiguous_tl [of d t'] Cons.prems(1,2) unfolding t by blast+
  have no: False if "concat (map sanitized b) = CHR ''_'' # x" "unambiguous (CHR ''/'' # b)" for b x
    using sanitized_starts_underscore [OF that(1)] that(2) by auto
  have "c = d"
    using sanitized_heads [OF eq] no Cons.prems(1,2) unfolding t by blast
  with eq have "concat (map sanitized s) = concat (map sanitized t')" by (simp only: same_append_eq)
  with \<open>c = d\<close> Cons.IH [OF tails] show ?case unfolding t by blast
qed

lemma sanitized_URL_proper:
  assumes "rooted path"
  shows "proper (sanitizeVolumeID (NewBeegfsURL host path)) \<and> length (sanitizeVolumeID (NewBeegfsURL host path)) \<le> 255"
proof -
  let ?x = "escape EncodeHost host @ escape EncodePath path"
  have u: "NewBeegfsURL host path = ''beegfs://'' @ ?x"
    using assms url_String_beegfs [of path host] by (auto simp: NewBeegfsURL_def printed_path_def)
  have "rooted (escape EncodePath path)" using assms by (simp add: escape_path_slash)
  then have "CHR ''/'' \<in> set ?x" by (cases "escape EncodePath path") auto
  then have us: "CHR ''_'' \<in> set (concat (map sanitized ?x))" by (force simp: sanitized_def)
  have "sanitizeVolumeID (NewBeegfsURL host path) \<notin> {'''', ''.'', ''..''}"
  proof (cases "length (concat (map sanitized ?x)) > 255")
    case True
    then have "length (sanitizeVolumeID (NewBeegfsURL host path)) = 40" unfolding u sanitizeVolumeID_eq by simp
    then show ?thesis by auto
  next
    case False
    moreover have "y \<notin> {'''', ''.'', ''..''}" if "CHR ''_'' \<in> set y" for y
      using that by auto
    ultimately show ?thesis unfolding u sanitizeVolumeID_eq using us by (simp only: if_False not_False_eq_True)
  qed
  then show ?thesis using sanitizeVolumeID_shape [of "NewBeegfsURL host path"] by (auto simp: proper_def)
qed

text \<open>The directory name that the controller derives from a volume identifier is one path element: it has no
  slash, at most 255 bytes, and for the identifier of a volume with an absolute path it is neither empty nor
  \<open>.\<close> nor \<open>..\<close>, so the mount directory lies directly below the data directory.\<close>

theorem sanitizeVolumeID_proper:
  assumes "rooted path"
  shows "proper (sanitizeVolumeID (NewBeegfsURL host path)) \<and> length (sanitizeVolumeID (NewBeegfsURL host path)) \<le> 255"
  using assms by (rule sanitized_URL_proper)

theorem sanitizeVolumeID_proper_witness: "proper (sanitizeVolumeID (NewBeegfsURL ''10.0.0.1'' ''/scratch/vol_1''))"
  using sanitizeVolumeID_proper [of "''/scratch/vol_1''" "''10.0.0.1''"] by simp

text \<open>Different identifiers get different directory names, as long as they are short and no slash of theirs
  touches another slash or an underscore.\<close>

theorem sanitizeVolumeID_inject:
  assumes "unambiguous s" and "unambiguous t"
    and "length (concat (map sanitized s)) \<le> 255" and "length (concat (map sanitized t)) \<le> 255"
    and "sanitizeVolumeID (''beegfs://'' @ s) = sanitizeVolumeID (''beegfs://'' @ t)"
  shows "s = t"
  using assms sanitized_inject unfolding sanitizeVolumeID_eq by simp

theorem sanitizeVolumeID_inject_witness:
  "sanitizeVolumeID (''beegfs://'' @ ''h/a_b'') \<noteq> sanitizeVolumeID (''beegfs://'' @ ''h/a/b'')"
  using sanitizeVolumeID_inject [of "''h/a_b''" "''h/a/b''"] by (auto simp: sanitized_def)

text \<open>Without that restriction two volumes can share a directory, although their locks differ.\<close>

theorem sanitizeVolumeID_collision:
  "sanitizeVolumeID (NewBeegfsURL ''h'' ''/a_/b'') = sanitizeVolumeID (NewBeegfsURL ''h'' ''/a/_b'')
   \<and> NewBeegfsURL ''h'' ''/a_/b'' \<noteq> NewBeegfsURL ''h'' ''/a/_b''"
  by code_simp

end
