(* ===== verification/Client_Files.thy ===== *)
theory Client_Files
  imports Volume "HOL-Library.Multiset"
begin

text \<open>
  The client files of a volume, pkg/beegfs/beegfs_util.go: a port for the client, the configuration file made
  from a template, and the files it refers to. The INI library is a parameter, the record \<open>ini_lib\<close>; its
  documented behaviour is the predicate \<open>ini_laws\<close>. The theorems say what the written configuration
  holds, in which files, and that the order in which Go visits the client configuration does not matter.
\<close>

subsection \<open>The INI library\<close>

record 'i ini_lib =
  ini_Load :: "string \<Rightarrow> goerr + 'i"
  ini_HasKey :: "'i \<Rightarrow> string \<Rightarrow> bool"
  ini_SetValue :: "'i \<Rightarrow> string \<Rightarrow> string \<Rightarrow> 'i"
  ini_Value :: "'i \<Rightarrow> string \<Rightarrow> string"
  ini_Bytes :: "'i \<Rightarrow> string"

text \<open>Setting the value of a key of the default section changes that value and no other, and adds no other key.\<close>

definition ini_laws :: "'i ini_lib \<Rightarrow> bool" where
  "ini_laws lib \<longleftrightarrow>
     (\<forall>i k v k'. ini_HasKey lib (ini_SetValue lib i k v) k' = (k' = k \<or> ini_HasKey lib i k')) \<and>
     (\<forall>i k v k'. ini_Value lib (ini_SetValue lib i k v) k' = (if k' = k then v else ini_Value lib i k'))"

subsection \<open>getEphemeralPortUDP\<close>

definition getEphemeralPortUDP :: "'w os_env \<Rightarrow> ('w, goerr + int) state" where
  "getEphemeralPortUDP env =
     checked (net_ListenPacket env) WithStack (\<lambda>conn.
     State_Monad.bind (conn_LocalAddr env conn) (\<lambda>(network, addr).
     State_Monad.bind (net_ResolveUDPAddr env network addr) (\<lambda>r.
     State_Monad.bind (conn_Close env conn) (\<lambda>c.
     ret (case (r, c) of
            (Inl e, Inl ce) \<Rightarrow> Inl (WithMessage (WithStack e) (err_msg ce))
          | (Inl e, Inr _) \<Rightarrow> Inl (WithStack e)
          | (Inr p, Inl ce) \<Rightarrow> Inl (WithStack ce)
          | (Inr p, Inr _) \<Rightarrow> Inr p)))))"

subsection \<open>writeClientFiles\<close>

definition setConfigValueIfKeyExists :: "'i ini_lib \<Rightarrow> 'i \<Rightarrow> string \<Rightarrow> string \<Rightarrow> goerr + 'i" where
  "setConfigValueIfKeyExists lib iniFile key v =
     (if ini_HasKey lib iniFile key then Inr (ini_SetValue lib iniFile key v)
      else Inl (ErrorsNew (key @ '' not in template beegfs-client.conf file'')))"

definition setClientPort :: "'i ini_lib \<Rightarrow> 'i \<Rightarrow> string \<Rightarrow> goerr + 'i" where
  "setClientPort lib i port =
     (case setConfigValueIfKeyExists lib i ''connClientPort'' port of
        Inr i' \<Rightarrow> Inr i'
      | Inl _ \<Rightarrow>
          (case setConfigValueIfKeyExists lib i ''connClientPortUDP'' port of
             Inr i' \<Rightarrow> Inr i'
           | Inl e \<Rightarrow>
               Inl (FmtErrorf (''unable to set connClientPort (BeeGFS 8) or connClientPortUDP (BeeGFS 7): '' @ err_msg e) [e])))"

definition deprecatedPort :: "string \<Rightarrow> bool" where
  "deprecatedPort k = (k = ''connMgmtdPortTCP'' \<or> k = ''connMgmtdPortUDP'')"

text \<open>The loop over \<open>BeegfsClientConf\<close>; \<open>connMgmtdPort\<close> is the value that replaced a deprecated key.\<close>

fun applyClientConf :: "'i ini_lib \<Rightarrow> 'i \<Rightarrow> string \<Rightarrow> gomap \<Rightarrow> goerr + 'i" where
  "applyClientConf lib i connMgmtdPort [] = Inr i"
| "applyClientConf lib i connMgmtdPort ((k, v) # es) =
     (case setConfigValueIfKeyExists lib i k v of
        Inr i' \<Rightarrow> applyClientConf lib i' connMgmtdPort es
      | Inl err \<Rightarrow>
          if deprecatedPort k then
            if ini_HasKey lib i ''connMgmtdPort'' then
              if connMgmtdPort \<noteq> [] \<and> connMgmtdPort \<noteq> v
              then Inl (FmtErrorf ''the template beegfs-client.conf file appears to be for BeeGFS 8 but connMgmtdPortTCP and connMgmtdPortUDP appear to be set to different values in the driver configuration (they must be the same in BeeGFS 8+)'' [])
              else bindE (setConfigValueIfKeyExists lib i ''connMgmtdPort'' v) (\<lambda>i'.
                     applyClientConf lib i' (if connMgmtdPort = [] then v else connMgmtdPort) es)
            else Inl err
          else Inl err)"

text \<open>The block for one list option: set the path in the configuration and write the list, a line per item.\<close>

definition writeListFile ::
  "'w os_env \<Rightarrow> 'i ini_lib \<Rightarrow> 'i \<Rightarrow> string list \<Rightarrow> string \<Rightarrow> string \<Rightarrow> string \<Rightarrow> ('w, goerr + 'i) state"
where
  "writeListFile env lib i items key path msg =
     (if length items \<noteq> 0 then
        guarded (setConfigValueIfKeyExists lib i key path) id (\<lambda>i'.
        checked (os_WriteFile env path (Join items [CHR 0x0A] @ [CHR 0x0A]) 0x1A4) (\<lambda>e. errors_Wrap e msg) (\<lambda>_.
        ret (Inr i')))
      else ret (Inr i))"

definition writeConnAuth :: "'w os_env \<Rightarrow> 'i ini_lib \<Rightarrow> 'i \<Rightarrow> beegfsVolume \<Rightarrow> ('w, goerr + 'i) state" where
  "writeConnAuth env lib i vol =
     (if length (ConnAuth (config vol)) \<noteq> 0 then
        guarded (setConfigValueIfKeyExists lib i ''connAuthFile'' (getConnAuthPath vol)) id (\<lambda>i'.
        checked (os_WriteFile env (getConnAuthPath vol) (ConnAuth (config vol)) 0x100)
          (\<lambda>e. errors_Wrap e ''error writing connAuth file'') (\<lambda>_.
        ret (Inr i')))
      else ret (Inr i))"

definition writeTLSCert :: "'w os_env \<Rightarrow> beegfsVolume \<Rightarrow> ('w, goerr + unit) state" where
  "writeTLSCert env vol =
     (if length (TLSCert (config vol)) \<noteq> 0 then
        checked (os_WriteFile env (getTLSCertPath vol) (TLSCert (config vol)) 0x100)
          (\<lambda>e. errors_Wrap e ''error writing tlsCert file'') (\<lambda>_. ret (Inr ()))
      else ret (Inr ()))"

definition writeClientFiles :: "'w os_env \<Rightarrow> 'i ini_lib \<Rightarrow> beegfsVolume \<Rightarrow> string \<Rightarrow> ('w, goerr + unit) state" where
  "writeClientFiles env lib vol confTemplatePath =
     checked (getEphemeralPortUDP env) (\<lambda>e. WithMessage e ''error selecting connClientPort'') (\<lambda>port.
     checked (os_ReadFile env confTemplatePath)
       (\<lambda>e. errors_Wrap e (''error loading beegfs-client.conf file at '' @ confTemplatePath)) (\<lambda>clientConfBytes.
     guarded (ini_Load lib clientConfBytes) (\<lambda>e. errors_Wrap e ''error parsing template beegfs-client.conf file'') (\<lambda>i0.
     guarded (setConfigValueIfKeyExists lib i0 ''sysMgmtdHost'' (sysMgmtdHost vol)) id (\<lambda>i1.
     guarded (setClientPort lib i1 (Itoa port)) id (\<lambda>i2.
     guarded (applyClientConf lib i2 [] (client_conf (config vol))) id (\<lambda>i3.
     checked (writeListFile env lib i3 (ConnInterfaces (config vol)) ''connInterfacesFile''
         (path_Join [mountDirPath vol, ''connInterfacesFile'']) ''error writing connInterfaces file'') id (\<lambda>i4.
     checked (writeConnAuth env lib i4 vol) id (\<lambda>i5.
     checked (writeTLSCert env vol) id (\<lambda>_.
     checked (writeListFile env lib i5 (ConnNetFilter (config vol)) ''connNetFilterFile''
         (path_Join [mountDirPath vol, ''connNetFilterFile'']) ''error writing connNetFilter file'') id (\<lambda>i6.
     checked (writeListFile env lib i6 (ConnTcpOnlyFilter (config vol)) ''connTcpOnlyFilterFile''
         (path_Join [mountDirPath vol, ''connTcpOnlyFilterFile'']) ''error writing connTcpOnlyFilter file'') id (\<lambda>i7.
     checked (writeListFile env lib i7 (ConnRDMAInterfaces (config vol)) ''connRDMAInterfacesFile''
         (path_Join [mountDirPath vol, ''connRDMAInterfacesFile'']) ''error writing connRDMAInterfaces file'') id (\<lambda>i8.
     checked (os_Create env (clientConfPath vol)) (\<lambda>e. errors_Wrap e ''error creating beegfs-client.conf file'') (\<lambda>_.
     checked (os_WriteTo env (clientConfPath vol) (ini_Bytes lib i8))
       (\<lambda>e. errors_Wrap e ''error writing beegfs-client.conf file'') (\<lambda>_.
     ret (Inr ())))))))))))))))"

subsection \<open>The client configuration\<close>

lemma ini_lawsD:
  assumes "ini_laws lib"
  shows "ini_HasKey lib (ini_SetValue lib i k v) k' = (k' = k \<or> ini_HasKey lib i k')"
    and "ini_Value lib (ini_SetValue lib i k v) k' = (if k' = k then v else ini_Value lib i k')"
  using assms by (simp_all add: ini_laws_def)

lemma setConfigValue_Inr:
  "setConfigValueIfKeyExists lib i k v = Inr j \<longleftrightarrow> ini_HasKey lib i k \<and> j = ini_SetValue lib i k v"
  by (auto simp: setConfigValueIfKeyExists_def)

text \<open>Some entry replaces the port because its own key is not in the template.\<close>

definition replaces_port :: "'i ini_lib \<Rightarrow> 'i \<Rightarrow> gomap \<Rightarrow> bool" where
  "replaces_port lib i es = list_ex (\<lambda>(k, _). \<not> ini_HasKey lib i k) es"

lemma replaces_port_simps [simp]:
  "\<not> replaces_port lib i []"
  "replaces_port lib i ((k, v) # es) \<longleftrightarrow> \<not> ini_HasKey lib i k \<or> replaces_port lib i es"
  by (simp_all add: replaces_port_def)

text \<open>The value that a key of the template ends up with: the entry of the configuration, the port that
  replaces a deprecated one, or the value of the template.\<close>

definition merged_value :: "'i ini_lib \<Rightarrow> 'i \<Rightarrow> string \<Rightarrow> gomap \<Rightarrow> string \<Rightarrow> string" where
  "merged_value lib i port es k =
     (if k = ''connMgmtdPort'' \<and> replaces_port lib i es then port
      else if ini_HasKey lib i k then (case map_of es k of Some v \<Rightarrow> v | None \<Rightarrow> ini_Value lib i k)
      else ini_Value lib i k)"

definition conf_fits :: "'i ini_lib \<Rightarrow> 'i \<Rightarrow> string \<Rightarrow> gomap \<Rightarrow> bool" where
  "conf_fits lib i port es \<longleftrightarrow>
     is_map es
     \<and> list_all (\<lambda>(k, v). ini_HasKey lib i k \<or> (deprecatedPort k \<and> ini_HasKey lib i ''connMgmtdPort'' \<and> v = port)) es
     \<and> (replaces_port lib i es \<and> map_of es ''connMgmtdPort'' \<noteq> None \<longrightarrow> map_of es ''connMgmtdPort'' = Some port)"

lemma replaces_port_cong:
  "(\<And>k. ini_HasKey lib i' k = ini_HasKey lib i k) \<Longrightarrow> replaces_port lib i' es = replaces_port lib i es"
  by (simp add: replaces_port_def)

lemma applyClientConf_merged:
  assumes laws: "ini_laws lib" and "conf_fits lib i p es" and "port = [] \<or> port = p"
  shows "\<exists>j. applyClientConf lib i port es = Inr j \<and> (\<forall>k. ini_HasKey lib j k = ini_HasKey lib i k)
     \<and> (\<forall>k. ini_Value lib j k = merged_value lib i p es k)"
  using assms(2,3)
proof (induction es arbitrary: i port)
  case Nil
  then show ?case by (simp add: merged_value_def)
next
  case (Cons e es)
  obtain k v where e: "e = (k, v)" by fastforce
  have new: "map_of es k = None" "is_map es"
    using Cons.prems(1) by (auto simp: conf_fits_def e map_of_eq_None_iff)
  let ?M = "''connMgmtdPort''"
  show ?case
  proof (cases "ini_HasKey lib i k")
    case True
    let ?i = "ini_SetValue lib i k v"
    have same: "ini_HasKey lib ?i x = ini_HasKey lib i x" for x
      using True ini_lawsD(1) [OF laws] by auto
    have "conf_fits lib ?i p es"
      using Cons.prems(1) True new by (auto simp: conf_fits_def e same replaces_port_cong [OF same])
    from Cons.IH [OF this Cons.prems(2)] obtain j where j: "applyClientConf lib ?i port es = Inr j"
      "\<And>x. ini_HasKey lib j x = ini_HasKey lib ?i x" "\<And>x. ini_Value lib j x = merged_value lib ?i p es x" by blast
    have "merged_value lib ?i p es x = merged_value lib i p (e # es) x" for x
      using True new by (auto simp: merged_value_def e same replaces_port_cong [OF same] ini_lawsD(2) [OF laws]
          split: option.splits)
    with j same True show ?thesis by (auto simp: e setConfigValueIfKeyExists_def)
  next
    case False
    let ?i = "ini_SetValue lib i ?M v"
    have d: "deprecatedPort k" "ini_HasKey lib i ?M" "v = p"
      using Cons.prems(1) False by (auto simp: conf_fits_def e)
    have same: "ini_HasKey lib ?i x = ini_HasKey lib i x" for x
      using d(2) ini_lawsD(1) [OF laws] by auto
    have kM: "k \<noteq> ?M" using False d(2) by auto
    have all: "list_all (\<lambda>(k, v). ini_HasKey lib i k \<or> (deprecatedPort k \<and> ini_HasKey lib i ?M \<and> v = p)) es"
      and M: "map_of es ?M \<noteq> None \<longrightarrow> map_of es ?M = Some p"
      using Cons.prems(1) False kM d(2) by (simp_all add: conf_fits_def e)
    then have "conf_fits lib ?i p es"
      using new(2) unfolding conf_fits_def same by blast
    from Cons.IH [OF this, of "if port = [] then v else port"] Cons.prems(2) d(3)
    obtain j where j: "applyClientConf lib ?i (if port = [] then v else port) es = Inr j"
      "\<And>x. ini_HasKey lib j x = ini_HasKey lib ?i x" "\<And>x. ini_Value lib j x = merged_value lib ?i p es x" by auto
    have "merged_value lib ?i p es x = merged_value lib i p (e # es) x" for x
    proof (cases "x = ?M")
      case True
      then show ?thesis using False d(2,3) M kM
        by (cases "map_of es ?M") (simp_all add: merged_value_def e same ini_lawsD(2) [OF laws])
    next
      case nM: False
      then show ?thesis using False
        by (cases "x = k") (simp_all add: merged_value_def e same ini_lawsD(2) [OF laws] split: option.split)
    qed
    with j same False d Cons.prems(2) show ?thesis by (auto simp: e setConfigValueIfKeyExists_def)
  qed
qed

lemma perm_same:
  assumes "mset es = mset conf" and "is_map conf"
  shows "is_map es" and "set es = set conf" and "map_of es = map_of conf"
proof -
  show set: "set es = set conf" using assms(1) by (metis set_mset_mset)
  have "mset (map fst es) = mset (map fst conf)" using assms(1) by simp
  then show "is_map es" using assms(2) by (metis mset_eq_imp_distinct_iff)
  then show "map_of es = map_of conf" using map_of_inject_set [of es conf] set assms(2) by blast
qed

text \<open>An INI file as its default section, to show that the laws can hold.\<close>

definition section_lib :: "gomap \<Rightarrow> gomap ini_lib" where
  "section_lib template =
     \<lparr> ini_Load = (\<lambda>_. Inr template),
       ini_HasKey = (\<lambda>i k. map_of i k \<noteq> None),
       ini_SetValue = (\<lambda>i k v. AList.update k v i),
       ini_Value = (\<lambda>i k. case map_of i k of Some v \<Rightarrow> v | None \<Rightarrow> []),
       ini_Bytes = (\<lambda>i. concat (map (\<lambda>(k, v). k @ '' = '' @ v @ [CHR 0x0A]) i)) \<rparr>"

lemma section_lib_laws [simp]: "ini_laws (section_lib template)"
  by (simp add: ini_laws_def section_lib_def update_conv')

text \<open>C31. The driver merges the client configuration into the template in whatever order Go visits the map: every
  order succeeds with the same keys and the same values, provided that the configuration fits the template,
  i.e. each key is in the template or is one of the two deprecated port keys that \<open>connMgmtdPort\<close>
  replaces, and the ports to put there agree. A key gets its configured value, \<open>connMgmtdPort\<close> the
  replaced port, and every other key keeps the value of the template.\<close>

theorem client_conf_any_order:
  assumes "ini_laws lib" and "conf_fits lib i port conf" and "mset es = mset conf"
  shows "\<exists>j. applyClientConf lib i [] es = Inr j \<and> (\<forall>k. ini_HasKey lib j k = ini_HasKey lib i k)
     \<and> (\<forall>k. ini_Value lib j k = merged_value lib i port conf k)"
proof -
  have "is_map conf" using assms(2) by (simp add: conf_fits_def)
  note same = perm_same [OF assms(3) this]
  then have r: "replaces_port lib i es = replaces_port lib i conf"
    by (simp add: replaces_port_def list_ex_iff)
  with same have "conf_fits lib i port es" using assms(2) by (simp add: conf_fits_def list_all_iff)
  moreover have "merged_value lib i port es = merged_value lib i port conf"
    using r same by (simp add: merged_value_def fun_eq_iff)
  ultimately show ?thesis using applyClientConf_merged [OF assms(1)] by metis
qed

theorem client_conf_any_order_witness:
  "\<exists>j. applyClientConf (section_lib []) [(''connMgmtdPort'', ''8008''), (''quotaEnabled'', ''false'')] []
       [(''connMgmtdPortUDP'', ''9000''), (''quotaEnabled'', ''true''), (''connMgmtdPortTCP'', ''9000'')] = Inr j
     \<and> ini_Value (section_lib []) j ''connMgmtdPort'' = ''9000'' \<and> ini_Value (section_lib []) j ''quotaEnabled'' = ''true''"
proof -
  let ?i = "[(''connMgmtdPort'', ''8008''), (''quotaEnabled'', ''false'')]"
  let ?c = "[(''connMgmtdPortTCP'', ''9000''), (''connMgmtdPortUDP'', ''9000''), (''quotaEnabled'', ''true'')]"
  let ?e = "[(''connMgmtdPortUDP'', ''9000''), (''quotaEnabled'', ''true''), (''connMgmtdPortTCP'', ''9000'')]"
  have "conf_fits (section_lib []) ?i ''9000'' ?c"
    by (simp add: conf_fits_def section_lib_def deprecatedPort_def replaces_port_def)
  moreover have "mset ?e = mset ?c" by simp
  ultimately obtain j where "applyClientConf (section_lib []) ?i [] ?e = Inr j"
    "\<forall>k. ini_Value (section_lib []) j k = merged_value (section_lib []) ?i ''9000'' ?c k"
    using client_conf_any_order [OF section_lib_laws] by blast
  then show ?thesis by (simp add: merged_value_def section_lib_def replaces_port_def)
qed

text \<open>With a template of BeeGFS 8 and both the new and a deprecated key set to different ports, the result
  depends on the order in which Go happens to visit the map.\<close>

theorem client_conf_order_matters:
  "applyClientConf (section_lib []) [(''connMgmtdPort'', ''8008'')] [] [(''connMgmtdPort'', ''1''), (''connMgmtdPortTCP'', ''2'')]
     = Inr [(''connMgmtdPort'', ''2'')]
   \<and> applyClientConf (section_lib []) [(''connMgmtdPort'', ''8008'')] [] [(''connMgmtdPortTCP'', ''2''), (''connMgmtdPort'', ''1'')]
     = Inr [(''connMgmtdPort'', ''1'')]"
  by (simp add: setConfigValueIfKeyExists_def section_lib_def deprecatedPort_def)

subsection \<open>The files\<close>

text \<open>Every path that a call changes lies below a directory.\<close>

definition confined :: "string \<Rightarrow> event \<Rightarrow> bool" where
  "confined d e = list_all (within d) (changed_paths e)"

definition mounted_below :: "string list \<Rightarrow> beegfsVolume \<Rightarrow> bool" where
  "mounted_below ms vol \<longleftrightarrow>
     ms \<noteq> [] \<and> list_all proper ms \<and> mountDirPath vol = abs_path ms
     \<and> clientConfPath vol = abs_path (ms @ [''beegfs-client.conf'']) \<and> mountPath vol = abs_path (ms @ [''mount''])"

lemma newBeegfsVolume_mounted_below:
  assumes "newBeegfsVolume (abs_path ms) host p cfg = Inr v" "list_all proper ms" "ms \<noteq> []"
  shows "mounted_below ms v"
  using assms newBeegfsVolume_fields [OF assms(1)]
  by (simp add: mounted_below_def path_Join_abs2 path_simps)

lemma getEphemeralPortUDP_quiet [emits_intros]:
  assumes "\<And>e. changed_paths e = [] \<Longrightarrow> P e"
  shows "emits P (getEphemeralPortUDP (traced env))"
  unfolding getEphemeralPortUDP_def by (simp, intro emits_intros assms) simp_all

lemma writeClientFiles_confined:
  assumes "mounted_below ms vol"
  shows "emits (confined (abs_path ms)) (writeClientFiles (traced env) lib vol tmpl)"
proof -
  have below: "within (abs_path ms) (abs_path (ms @ [x]))" for x
    using assms by (simp add: mounted_below_def within_abs_path)
  have join: "path_Join [abs_path ms, x] = abs_path (ms @ [x])" if "proper x" for x
    using assms that by (simp add: mounted_below_def path_Join_abs2 path_simps)
  show ?thesis
    unfolding writeClientFiles_def writeListFile_def writeConnAuth_def writeTLSCert_def traced_ops
    by (intro emits_intros)
      (use assms in \<open>simp_all add: confined_def join below getConnAuthPath_def getTLSCertPath_def mounted_below_def\<close>)
qed

text \<open>What a successful call has written, in this order, after the template was read.\<close>

definition list_file :: "string list \<Rightarrow> string \<Rightarrow> event list" where
  "list_file items path =
     (if items = [] then [] else [E_WriteFile path (Join items [CHR 0x0A] @ [CHR 0x0A]) 0x1A4 (Inr ())])"

definition secret_file :: "string \<Rightarrow> string \<Rightarrow> event list" where
  "secret_file secret path = (if secret = [] then [] else [E_WriteFile path secret 0x100 (Inr ())])"

definition client_files :: "beegfsVolume \<Rightarrow> event list" where
  "client_files vol =
     list_file (ConnInterfaces (config vol)) (path_Join [mountDirPath vol, ''connInterfacesFile''])
     @ secret_file (ConnAuth (config vol)) (getConnAuthPath vol)
     @ secret_file (TLSCert (config vol)) (getTLSCertPath vol)
     @ list_file (ConnNetFilter (config vol)) (path_Join [mountDirPath vol, ''connNetFilterFile''])
     @ list_file (ConnTcpOnlyFilter (config vol)) (path_Join [mountDirPath vol, ''connTcpOnlyFilterFile''])
     @ list_file (ConnRDMAInterfaces (config vol)) (path_Join [mountDirPath vol, ''connRDMAInterfacesFile''])"

definition option_for :: "'a list \<Rightarrow> string \<Rightarrow> string \<Rightarrow> gomap" where
  "option_for v key path = (if v = [] then [] else [(key, path)])"

definition file_options :: "beegfsVolume \<Rightarrow> gomap" where
  "file_options vol =
     option_for (ConnRDMAInterfaces (config vol)) ''connRDMAInterfacesFile'' (path_Join [mountDirPath vol, ''connRDMAInterfacesFile''])
     @ option_for (ConnTcpOnlyFilter (config vol)) ''connTcpOnlyFilterFile'' (path_Join [mountDirPath vol, ''connTcpOnlyFilterFile''])
     @ option_for (ConnNetFilter (config vol)) ''connNetFilterFile'' (path_Join [mountDirPath vol, ''connNetFilterFile''])
     @ option_for (ConnAuth (config vol)) ''connAuthFile'' (getConnAuthPath vol)
     @ option_for (ConnInterfaces (config vol)) ''connInterfacesFile'' (path_Join [mountDirPath vol, ''connInterfacesFile''])"

definition sets_option :: "'i ini_lib \<Rightarrow> gomap \<Rightarrow> 'i \<Rightarrow> 'i \<Rightarrow> bool" where
  "sets_option lib opts i i' \<longleftrightarrow>
     (\<forall>k. ini_Value lib i' k = (case map_of opts k of Some p \<Rightarrow> p | None \<Rightarrow> ini_Value lib i k))"

lemma sets_option_trans: "sets_option lib os i i' \<Longrightarrow> sets_option lib os' i' i'' \<Longrightarrow> sets_option lib (os' @ os) i i''"
  by (auto simp: sets_option_def map_add_def split: option.splits)

lemma writeListFile_does:
  assumes "ini_laws lib"
  shows "does (writeListFile (traced env) lib i items key path msg)
    (\<lambda>r u. case r of Inr i' \<Rightarrow> u = list_file items path \<and> sets_option lib (option_for items key path) i i' | Inl _ \<Rightarrow> True)"
  unfolding writeListFile_def traced_ops
  by (intro does_if does_guarded does_checked_logged does_ret)
    (auto simp: list_file_def option_for_def sets_option_def setConfigValue_Inr ini_lawsD(2) [OF assms])

lemma writeConnAuth_does:
  assumes "ini_laws lib"
  shows "does (writeConnAuth (traced env) lib i vol)
    (\<lambda>r u. case r of
       Inr i' \<Rightarrow> u = secret_file (ConnAuth (config vol)) (getConnAuthPath vol)
         \<and> sets_option lib (option_for (ConnAuth (config vol)) ''connAuthFile'' (getConnAuthPath vol)) i i'
     | Inl _ \<Rightarrow> True)"
  unfolding writeConnAuth_def traced_ops
  by (intro does_if does_guarded does_checked_logged does_ret)
    (auto simp: secret_file_def option_for_def sets_option_def setConfigValue_Inr ini_lawsD(2) [OF assms])

lemma writeTLSCert_does:
  "does (writeTLSCert (traced env) vol)
    (\<lambda>r u. case r of Inr _ \<Rightarrow> u = secret_file (TLSCert (config vol)) (getTLSCertPath vol) | Inl _ \<Rightarrow> True)"
  unfolding writeTLSCert_def traced_ops
  by (intro does_if does_checked_logged does_ret) (auto simp: secret_file_def)

lemma does_any: "does m (\<lambda>_ _. True)" if "emits (\<lambda>_. True) m"
  using that unfolding emits_def by (rule does_mono) simp

lemma writeClientFiles_does:
  assumes laws: "ini_laws lib"
  shows "does (writeClientFiles (traced env) lib vol tmpl)
    (\<lambda>r u. case r of
       Inr _ \<Rightarrow> \<exists>pre port bytes i0 i1 i2 i3 i.
         u = pre @ [E_ReadFile tmpl (Inr bytes)] @ client_files vol
           @ [E_Create (clientConfPath vol) (Inr ()), E_WriteTo (clientConfPath vol) (ini_Bytes lib i) (Inr ())]
         \<and> ini_Load lib bytes = Inr i0
         \<and> setConfigValueIfKeyExists lib i0 ''sysMgmtdHost'' (sysMgmtdHost vol) = Inr i1
         \<and> setClientPort lib i1 (Itoa port) = Inr i2
         \<and> applyClientConf lib i2 [] (client_conf (config vol)) = Inr i3
         \<and> sets_option lib (file_options vol) i3 i
     | Inl _ \<Rightarrow> True)"
proof -
  have port: "does (getEphemeralPortUDP (traced env)) (\<lambda>_ _. True)"
    by (rule does_any) (intro emits_intros, simp)
  note list = writeListFile_does [OF laws] and auth = writeConnAuth_does [OF laws] and tls = writeTLSCert_does
  show ?thesis
    unfolding writeClientFiles_def traced_ops
    apply (rule does_checked [OF port], simp)
    apply (rule does_checked_logged, simp)
    apply (rule does_guarded, simp)+
    apply (rule does_checked [OF list], simp)
    apply (rule does_checked [OF auth], simp)
    apply (rule does_checked [OF tls], simp)
    apply (rule does_checked [OF list], simp)+
    apply (rule does_checked_logged, simp)+
    apply (rule does_ret)
    apply (clarsimp simp: client_files_def file_options_def)
    apply (intro exI conjI, rule refl, assumption, assumption)
    apply (blast intro: sets_option_trans)
    done
qed

text \<open>The same without the laws: which calls a successful call has made.\<close>

definition files_written :: "'i ini_lib \<Rightarrow> beegfsVolume \<Rightarrow> string \<Rightarrow> event list \<Rightarrow> bool" where
  "files_written lib vol tmpl u \<longleftrightarrow>
     (\<exists>pre bytes i. u = pre @ [E_ReadFile tmpl (Inr bytes)] @ client_files vol
        @ [E_Create (clientConfPath vol) (Inr ()), E_WriteTo (clientConfPath vol) (ini_Bytes lib i) (Inr ())])"

lemma writeClientFiles_writes:
  "does (writeClientFiles (traced env) lib vol tmpl) (\<lambda>r u. case r of Inr _ \<Rightarrow> files_written lib vol tmpl u | Inl _ \<Rightarrow> True)"
proof -
  have port: "does (getEphemeralPortUDP (traced env)) (\<lambda>_ _. True)"
    by (rule does_any) (intro emits_intros, simp)
  have list: "does (writeListFile (traced env) lib i items key path msg) (\<lambda>r u. case r of Inr _ \<Rightarrow> u = list_file items path | Inl _ \<Rightarrow> True)"
    for i items key path msg
    unfolding writeListFile_def traced_ops by (intro does_if does_guarded does_checked_logged does_ret) (auto simp: list_file_def)
  have auth: "does (writeConnAuth (traced env) lib i vol)
      (\<lambda>r u. case r of Inr _ \<Rightarrow> u = secret_file (ConnAuth (config vol)) (getConnAuthPath vol) | Inl _ \<Rightarrow> True)" for i
    unfolding writeConnAuth_def traced_ops by (intro does_if does_guarded does_checked_logged does_ret) (auto simp: secret_file_def)
  show ?thesis
    unfolding writeClientFiles_def traced_ops
    apply (rule does_checked [OF port], simp)
    apply (rule does_checked_logged, simp)
    apply (rule does_guarded, simp)+
    apply (rule does_checked [OF list], simp)
    apply (rule does_checked [OF auth], simp)
    apply (rule does_checked [OF writeTLSCert_does], simp)
    apply (rule does_checked [OF list], simp)+
    apply (rule does_checked_logged, simp)+
    apply (rule does_ret)
    apply (clarsimp simp: client_files_def files_written_def)
    apply blast
    done
qed

lemma applyClientConf_keeps:
  assumes "ini_laws lib" and "applyClientConf lib i port es = Inr j" and "map_of es k = None" and "k \<noteq> ''connMgmtdPort''"
  shows "ini_Value lib j k = ini_Value lib i k"
  using assms(2,3)
proof (induction es arbitrary: i port)
  case (Cons e es)
  obtain k' v where e: "e = (k', v)" by fastforce
  from Cons.prems obtain i' port' key where step: "applyClientConf lib i' port' es = Inr j"
    "i' = ini_SetValue lib i key v" "key \<noteq> k"
    using assms(4) by (auto simp: e setConfigValueIfKeyExists_def bindE_def split: if_splits)
  then have "ini_Value lib j k = ini_Value lib i' k" using Cons.IH Cons.prems(2) by (simp add: e split: if_splits)
  then show ?case using step ini_lawsD(2) [OF assms(1)] by simp
qed simp

text \<open>C30. A successful \<open>writeClientFiles\<close> leaves a usable mount directory. It has written the configuration file
  last, after every file that the configuration names; a connAuth secret and a TLS certificate are written
  unchanged, readable by the owner alone; the configuration names the management host of the volume, the
  secret file when there is a secret, and each interface or filter file that was written.\<close>

theorem writeClientFiles_success:
  assumes "ini_laws lib" and "run_state (writeClientFiles (traced env) lib vol tmpl) (w, []) = (Inr (), w', t)"
    and "map_of (client_conf (config vol)) ''sysMgmtdHost'' = None"
  shows "\<exists>pre i. t = pre @ client_files vol
           @ [E_Create (clientConfPath vol) (Inr ()), E_WriteTo (clientConfPath vol) (ini_Bytes lib i) (Inr ())]
     \<and> ini_Value lib i ''sysMgmtdHost'' = sysMgmtdHost vol
     \<and> (\<forall>k p. map_of (file_options vol) k = Some p \<longrightarrow> ini_Value lib i k = p)"
proof -
  obtain pre port bytes i0 i1 i2 i3 i where
    t: "t = pre @ [E_ReadFile tmpl (Inr bytes)] @ client_files vol
           @ [E_Create (clientConfPath vol) (Inr ()), E_WriteTo (clientConfPath vol) (ini_Bytes lib i) (Inr ())]"
    and i: "setConfigValueIfKeyExists lib i0 ''sysMgmtdHost'' (sysMgmtdHost vol) = Inr i1"
      "setClientPort lib i1 (Itoa port) = Inr i2" "applyClientConf lib i2 [] (client_conf (config vol)) = Inr i3"
      "sets_option lib (file_options vol) i3 i"
    using doesD [OF writeClientFiles_does [OF assms(1)] assms(2)] by auto
  have v1: "ini_Value lib i1 ''sysMgmtdHost'' = sysMgmtdHost vol"
    using i(1) ini_lawsD(2) [OF assms(1)] by (simp add: setConfigValue_Inr)
  have v2: "ini_Value lib i2 ''sysMgmtdHost'' = ini_Value lib i1 ''sysMgmtdHost''"
    using i(2) ini_lawsD(2) [OF assms(1)]
    by (auto simp: setClientPort_def setConfigValueIfKeyExists_def split: if_splits)
  note keep = applyClientConf_keeps [OF assms(1) i(3) assms(3)]
  have "map_of (file_options vol) ''sysMgmtdHost'' = None"
    by (simp add: file_options_def option_for_def)
  then have "ini_Value lib i ''sysMgmtdHost'' = sysMgmtdHost vol"
    using i(4) keep v1 v2 by (simp add: sets_option_def)
  then show ?thesis using t i(4) by (auto simp: sets_option_def)
qed

definition sample_vol :: beegfsVolume where
  "sample_vol =
     \<lparr> config = NewBeegfsConfig\<lparr>ConnAuth := ''secret'', ConnInterfaces := [''ib0'', ''eth0'']\<rparr>,
       clientConfPath = ''/data/v/beegfs-client.conf'',
       csiDirPath = ''/data/v/mount/scratch/.csi/volumes/vol1'',
       csiDirPathBeegfsRoot = ''/scratch/.csi/volumes/vol1'',
       mountDirPath = ''/data/v'',
       mountPath = ''/data/v/mount'',
       sysMgmtdHost = ''10.0.0.1'',
       volDirBasePathBeegfsRoot = ''/scratch'',
       volDirBasePath = ''/data/v/mount/scratch'',
       volDirPathBeegfsRoot = ''/scratch/vol1'',
       volDirPath = ''/data/v/mount/scratch/vol1'',
       volumeID = ''beegfs://10.0.0.1/scratch/vol1'' \<rparr>"

definition sample_lib :: "gomap ini_lib" where
  "sample_lib = section_lib [(''sysMgmtdHost'', []), (''connClientPort'', []), (''connAuthFile'', []), (''connInterfacesFile'', [])]"

lemma sample_lib_laws [simp]: "ini_laws sample_lib"
  by (simp add: sample_lib_def)

lemma writeClientFiles_calm:
  "fst (run_state (writeClientFiles (traced (calm_env [])) sample_lib sample_vol ''/tmpl'') (w, t)) = Inr ()"
  by (simp add: writeClientFiles_def getEphemeralPortUDP_def writeListFile_def writeConnAuth_def writeTLSCert_def
      go_run sample_lib_def section_lib_def sample_vol_def setConfigValueIfKeyExists_def setClientPort_def
      NewBeegfsConfig_def zeroBeegfsConfig_def client_conf_def)

theorem writeClientFiles_success_witness:
  "\<exists>pre i. snd (snd (run_state (writeClientFiles (traced (calm_env [])) sample_lib sample_vol ''/tmpl'') ((), [])))
      = pre @ client_files sample_vol @ [E_Create (clientConfPath sample_vol) (Inr ()),
          E_WriteTo (clientConfPath sample_vol) (ini_Bytes sample_lib i) (Inr ())]
    \<and> ini_Value sample_lib i ''sysMgmtdHost'' = ''10.0.0.1''
    \<and> ini_Value sample_lib i ''connAuthFile'' = getConnAuthPath sample_vol"
proof -
  let ?r = "run_state (writeClientFiles (traced (calm_env [])) sample_lib sample_vol ''/tmpl'') ((), [])"
  have "?r = (Inr (), fst (snd ?r), snd (snd ?r))"
    using writeClientFiles_calm [of "()" "[]"] by (metis prod.collapse)
  moreover have "map_of (client_conf (config sample_vol)) ''sysMgmtdHost'' = None" "sysMgmtdHost sample_vol = ''10.0.0.1''"
    "map_of (file_options sample_vol) ''connAuthFile'' = Some (getConnAuthPath sample_vol)"
    by (simp_all add: sample_vol_def NewBeegfsConfig_def zeroBeegfsConfig_def client_conf_def file_options_def option_for_def)
  ultimately show ?thesis using writeClientFiles_success [OF sample_lib_laws] by metis
qed

end
