(* ===== verification/Mounts.thy ===== *)
theory Mounts
  imports Client_Files
begin

text \<open>
  Mounting and unmounting, pkg/beegfs/beegfs_util.go: mount options, \<open>mountIfNecessary\<close>,
  \<open>unmountAndCleanUpIfNecessary\<close>, and the check of volume capabilities. The theorems say which options a
  mount has, when the driver mounts, and that it never unmounts or deletes anything while the file system is
  bind mounted elsewhere.
\<close>

subsection \<open>Capabilities\<close>

text \<open>The access type of a \<open>csi.VolumeCapability\<close>: not set, a block volume, or a mount with its flags.\<close>

datatype access_type = AccessUnset | AccessBlock | AccessMount "string list"

record volume_capability =
  access :: access_type

fun isValidVolumeCapabilities :: "volume_capability list \<Rightarrow> bool \<times> string" where
  "isValidVolumeCapabilities [] = (True, [])"
| "isValidVolumeCapabilities (c # cs) =
     (case access c of
        AccessMount _ \<Rightarrow> isValidVolumeCapabilities cs
      | _ \<Rightarrow> (False, ''access_type must be MountVolume''))"

definition isValidVolumeCapability :: "volume_capability \<Rightarrow> bool \<times> string" where
  "isValidVolumeCapability volCap = isValidVolumeCapabilities [volCap]"

definition mountFlags :: "volume_capability \<Rightarrow> string list" where
  "mountFlags c = (case access c of AccessMount fl \<Rightarrow> fl | _ \<Rightarrow> [])"

subsection \<open>Mount options\<close>

definition is_cfgFile :: "string \<Rightarrow> bool" where
  "is_cfgFile opt = Contains (ToLower opt) ''cfgfile''"

fun collectMountOptions :: "string list \<Rightarrow> string list \<Rightarrow> string list" where
  "collectMountOptions mountOpts [] = mountOpts"
| "collectMountOptions mountOpts (opt # opts) =
     (if is_cfgFile opt then collectMountOptions mountOpts opts
      else if list_ex (\<lambda>existingOpt. opt = existingOpt) mountOpts then collectMountOptions mountOpts opts
      else collectMountOptions (mountOpts @ [opt]) opts)"

definition removeInvalidMountOptions :: "string list \<Rightarrow> string list" where
  "removeInvalidMountOptions inputMountOpts = collectMountOptions [] inputMountOpts"

definition addContextToMountOptionsIfNecessary :: "'w os_env \<Rightarrow> string list \<Rightarrow> string list" where
  "addContextToMountOptionsIfNecessary env inputMountOpts =
     (if list_ex (\<lambda>opt. HasPrefix opt ''context='') inputMountOpts then inputMountOpts
      else inputMountOpts @ [''context='' @ selinux_ContextGet env ''system_u'' ''object_r'' ''container_file_t'' ''s0''])"

definition constructMountOptions :: "'w os_env \<Rightarrow> string list \<Rightarrow> beegfsVolume \<Rightarrow> ('w, string list) state" where
  "constructMountOptions env desiredMountOpts vol =
     (let mountOpts =
        (if length desiredMountOpts = 0
         then [''rw'', ''relatime'', ''cfgFile='' @ clientConfPath vol, ''nosuid'']
         else removeInvalidMountOptions desiredMountOpts @ [''cfgFile='' @ clientConfPath vol])
      in State_Monad.bind (selinux_GetEnabled env) (\<lambda>enabled.
           ret (if enabled then addContextToMountOptionsIfNecessary env mountOpts else mountOpts)))"

subsection \<open>Mounting and unmounting\<close>

definition ensureMountPoint :: "'w os_env \<Rightarrow> beegfsVolume \<Rightarrow> goerr + bool \<Rightarrow> ('w, goerr + bool) state" where
  "ensureMountPoint env vol r =
     (case r of
        Inl err \<Rightarrow>
          if os_IsNotExist err then checked (os_Mkdir env (mountPath vol) 0x1E8) WithStack (\<lambda>_. ret (Inr True))
          else ret (Inl (WithStack err))
      | Inr notMnt \<Rightarrow> ret (Inr notMnt))"

definition mountIfNecessary :: "'w os_env \<Rightarrow> beegfsVolume \<Rightarrow> string list \<Rightarrow> ('w, goerr + unit) state" where
  "mountIfNecessary env vol desiredMountOpts =
     State_Monad.bind (constructMountOptions env desiredMountOpts vol) (\<lambda>mountOpts.
     State_Monad.bind (mnt_IsLikelyNotMountPoint env (mountPath vol)) (\<lambda>r.
     checked (ensureMountPoint env vol r) id (\<lambda>notMnt.
     if \<not> notMnt then ret (Inr ())
     else checked (mnt_Mount env ''beegfs_nodev'' (mountPath vol) ''beegfs'' mountOpts) WithStack (\<lambda>_.
       ret (Inr ())))))"

fun removeEntries :: "'w os_env \<Rightarrow> string \<Rightarrow> string list \<Rightarrow> ('w, goerr + unit) state" where
  "removeEntries env dir [] = ret (Inr ())"
| "removeEntries env dir (d # ds) =
     checked (os_RemoveAll env (path_Join [dir, d])) WithStack (\<lambda>_. removeEntries env dir ds)"

definition cleanUpIfNecessary :: "'w os_env \<Rightarrow> beegfsVolume \<Rightarrow> bool \<Rightarrow> ('w, goerr + unit) state" where
  "cleanUpIfNecessary env vol rmDir =
     (if \<not> rmDir then
        checked (os_ReadDir env (mountDirPath vol)) WithStack (\<lambda>dir. removeEntries env (mountDirPath vol) dir)
      else checked (os_RemoveAll env (mountDirPath vol)) WithStack (\<lambda>_. ret (Inr ())))"

text \<open>An entry of the mount table that is a bind mount of the volume's file system.\<close>

definition bindMounted :: "beegfsVolume \<Rightarrow> mount_point \<Rightarrow> bool" where
  "bindMounted vol entry =
     (Device entry = ''beegfs_nodev''
      \<and> \<not> Contains (mp_Path entry) (path_Join [path_Base (mountDirPath vol), ''mount''])
      \<and> list_ex (\<lambda>opt. Contains opt (clientConfPath vol)) (Opts entry))"

definition unmountAndCleanUpIfNecessary :: "'w os_env \<Rightarrow> beegfsVolume \<Rightarrow> bool \<Rightarrow> ('w, goerr + unit) state" where
  "unmountAndCleanUpIfNecessary env vol rmDir =
     checked (mnt_List env) (\<lambda>e. errors_Wrap e ''error listing mounted filesystems'') (\<lambda>allMounts.
     case find (bindMounted vol) allMounts of
       Some entry \<Rightarrow>
         ret (Inl (ErrorsNew (''refused to unmount staged file system at '' @ mountPath vol
           @ '' while bind mounted at '' @ mp_Path entry)))
     | None \<Rightarrow>
         checked (mnt_CleanupMountPoint env (mountPath vol) False) WithStack (\<lambda>_.
         checked (cleanUpIfNecessary env vol rmDir)
           (\<lambda>e. WithMessage e (''failed to clean up '' @ mountDirPath vol @ '' for '' @ volumeID vol)) (\<lambda>_.
         ret (Inr ()))))"

subsection \<open>Options\<close>

lemma isValidVolumeCapabilities_iff: "fst (isValidVolumeCapabilities cs) \<longleftrightarrow> (\<forall>c \<in> set cs. \<exists>fl. access c = AccessMount fl)"
  by (induction cs) (auto split: access_type.split)

text \<open>The reference: the first occurrence of each option that is no \<open>cfgFile\<close> option.\<close>

function first_occurrences :: "'a list \<Rightarrow> 'a list" where
  "first_occurrences [] = []"
| "first_occurrences (x # xs) = x # first_occurrences (filter (\<lambda>y. y \<noteq> x) xs)"
  by pat_completeness auto
termination
  by (relation "measure length") (auto simp: less_Suc_eq_le)

lemma set_first_occurrences [simp]: "set (first_occurrences xs) = set xs"
  by (induction xs rule: first_occurrences.induct) auto

lemma distinct_first_occurrences [simp]: "distinct (first_occurrences xs)"
  by (induction xs rule: first_occurrences.induct) auto

lemma first_occurrences_id: "distinct xs \<Longrightarrow> first_occurrences xs = xs"
proof (induction xs)
  case (Cons x xs)
  then have "filter (\<lambda>y. y \<noteq> x) xs = xs" by (auto simp: filter_id_conv)
  with Cons show ?case by simp
qed simp

lemma collectMountOptions_eq:
  "collectMountOptions acc opts = acc @ first_occurrences (filter (\<lambda>x. \<not> is_cfgFile x \<and> x \<notin> set acc) opts)"
proof (induction opts arbitrary: acc)
  case (Cons x xs)
  show ?case
  proof (cases "is_cfgFile x \<or> x \<in> set acc")
    case True
    then show ?thesis using Cons by (auto simp: list_ex_iff)
  next
    case False
    then have "collectMountOptions acc (x # xs) = collectMountOptions (acc @ [x]) xs" by (auto simp: list_ex_iff)
    also have "\<dots> = acc @ x # first_occurrences (filter (\<lambda>y. \<not> is_cfgFile y \<and> y \<notin> set (acc @ [x])) xs)"
      using Cons by simp
    also have "filter (\<lambda>y. \<not> is_cfgFile y \<and> y \<notin> set (acc @ [x])) xs
        = filter (\<lambda>y. y \<noteq> x) (filter (\<lambda>y. \<not> is_cfgFile y \<and> y \<notin> set acc) xs)"
      by (auto simp: filter_filter intro: filter_cong)
    finally show ?thesis using False by simp
  qed
qed simp

text \<open>The options that the driver takes over from a request are the first occurrences, in order, of the options
  that do not mention \<open>cfgFile\<close> in any case, and taking them over again changes nothing.\<close>

theorem removeInvalidMountOptions_eq:
  "removeInvalidMountOptions opts = first_occurrences (filter (\<lambda>x. \<not> is_cfgFile x) opts)
   \<and> removeInvalidMountOptions (removeInvalidMountOptions opts) = removeInvalidMountOptions opts"
proof -
  have eq: "removeInvalidMountOptions os = first_occurrences (filter (\<lambda>x. \<not> is_cfgFile x) os)" for os
    by (simp add: removeInvalidMountOptions_def collectMountOptions_eq)
  moreover have "filter P (first_occurrences xs) = first_occurrences xs" if "list_all P xs" for P and xs :: "string list"
    using that by (simp add: list_all_iff)
  ultimately show ?thesis by (simp add: list_all_iff first_occurrences_id)
qed

lemma removeInvalid_no_cfgFile: "opt \<in> set (removeInvalidMountOptions opts) \<Longrightarrow> \<not> is_cfgFile opt"
  by (simp add: removeInvalidMountOptions_def collectMountOptions_eq)

lemma is_cfgFile_option: "is_cfgFile (''cfgFile='' @ p)"
proof -
  have "char_of (102 :: nat) = CHR ''f''" by code_simp
  then have "\<exists>s. ToLower (''cfgFile='' @ p) = ''cfgfile'' @ s"
    by (cases p; cases "tl p") (simp_all add: lower_byte_def)
  then show ?thesis unfolding is_cfgFile_def by (metis Contains_iff_sublist sublist_append_rightI)
qed

text \<open>The options of a mount when SELinux is enabled or not.\<close>

definition options_for :: "'w os_env \<Rightarrow> string list \<Rightarrow> beegfsVolume \<Rightarrow> bool \<Rightarrow> string list" where
  "options_for env opts vol enabled =
     (let base = (if opts = [] then [''rw'', ''relatime'', ''cfgFile='' @ clientConfPath vol, ''nosuid'']
                  else removeInvalidMountOptions opts @ [''cfgFile='' @ clientConfPath vol])
      in if enabled then addContextToMountOptionsIfNecessary env base else base)"

lemma constructMountOptions_does:
  "does (constructMountOptions (traced env) opts vol)
     (\<lambda>r u. \<exists>b. u = [E_GetEnabled b] \<and> r = options_for env opts vol b)"
  unfolding constructMountOptions_def Let_def traced_ops
  by (intro does_bind_logged does_ret) (simp add: addContextToMountOptionsIfNecessary_def options_for_def)

lemma run_parts: "run_state m s = (fst (run_state m s), fst (snd (run_state m s)), snd (snd (run_state m s)))"
  by (simp only: prod.collapse)

text \<open>C34. Every BeeGFS mount gets the driver's own configuration file and no other: whatever options a request
  asks for, exactly one option mentions \<open>cfgFile\<close>, and it names the client configuration of the volume;
  with SELinux enabled some option sets a context. The default context is assumed not to mention
  \<open>cfgFile\<close>.\<close>

theorem constructMountOptions_cfgFile:
  assumes "\<not> is_cfgFile (''context='' @ selinux_ContextGet env ''system_u'' ''object_r'' ''container_file_t'' ''s0'')"
    and "run_state (constructMountOptions (traced env) opts vol) (w, []) = (r, w', t)"
  shows "filter is_cfgFile r = [''cfgFile='' @ clientConfPath vol]
    \<and> (t = [E_GetEnabled True] \<longrightarrow> list_ex (\<lambda>opt. HasPrefix opt ''context='') r)"
proof -
  let ?base = "if opts = [] then [''rw'', ''relatime'', ''cfgFile='' @ clientConfPath vol, ''nosuid'']
         else removeInvalidMountOptions opts @ [''cfgFile='' @ clientConfPath vol]"
  have plain: "\<not> is_cfgFile ''rw''" "\<not> is_cfgFile ''relatime''" "\<not> is_cfgFile ''nosuid''"
    by code_simp+
  have base: "filter is_cfgFile ?base = [''cfgFile='' @ clientConfPath vol]"
    using plain removeInvalid_no_cfgFile [of _ opts] by (auto simp: is_cfgFile_option [simplified] filter_empty_conv)
  obtain b where b: "t = [E_GetEnabled b]" "r = (if b then addContextToMountOptionsIfNecessary env ?base else ?base)"
    using doesD [OF constructMountOptions_does assms(2)] unfolding options_for_def Let_def by auto
  show ?thesis
    using base assms(1) b by (cases b) (auto simp: addContextToMountOptionsIfNecessary_def)
qed

theorem constructMountOptions_cfgFile_witness:
  "filter is_cfgFile (fst (run_state (constructMountOptions (traced (calm_env [])) [''ro'', ''CFGFILE=/etc/x'', ''ro''] sample_vol) ((), [])))
     = [''cfgFile=/data/v/beegfs-client.conf'']"
proof -
  have "\<not> is_cfgFile (''context='' @ selinux_ContextGet (calm_env []) ''system_u'' ''object_r'' ''container_file_t'' ''s0'')"
    unfolding calm_env_def os_env.select_convs by code_simp
  then have "filter is_cfgFile (fst (run_state (constructMountOptions (traced (calm_env [])) [''ro'', ''CFGFILE=/etc/x'', ''ro''] sample_vol) ((), [])))
     = [''cfgFile='' @ clientConfPath sample_vol]"
    by (rule constructMountOptions_cfgFile [OF _ run_parts, THEN conjunct1])
  then show ?thesis by (simp add: sample_vol_def)
qed

subsection \<open>When the driver mounts and unmounts\<close>

text \<open>What \<open>mountIfNecessary\<close> does after the options are known: nothing if the path is a mount point; otherwise
  one mount, after creating the mount point if it did not exist.\<close>

definition mount_call :: "beegfsVolume \<Rightarrow> string list \<Rightarrow> goerr + unit \<Rightarrow> event list \<Rightarrow> bool" where
  "mount_call vol opts r u \<longleftrightarrow>
     (\<exists>res. u = [E_Mount ''beegfs_nodev'' (mountPath vol) ''beegfs'' opts res]
        \<and> r = (case res of Inl e \<Rightarrow> Inl (WithStack e) | Inr _ \<Rightarrow> Inr ()))"

fun mount_steps :: "beegfsVolume \<Rightarrow> string list \<Rightarrow> goerr + unit \<Rightarrow> event list \<Rightarrow> bool" where
  "mount_steps vol opts r (E_IsLikelyNotMountPoint p (Inr notMnt) # u) =
     (p = mountPath vol \<and> (if notMnt then mount_call vol opts r u else u = [] \<and> r = Inr ()))"
| "mount_steps vol opts r (E_IsLikelyNotMountPoint p (Inl e) # u) =
     (p = mountPath vol \<and>
      (if os_IsNotExist e then
         (\<exists>m v. u = E_Mkdir (mountPath vol) 0x1E8 m # v
            \<and> (case m of Inl k \<Rightarrow> v = [] \<and> r = Inl (WithStack k) | Inr _ \<Rightarrow> mount_call vol opts r v))
       else u = [] \<and> r = Inl (WithStack e)))"
| "mount_steps vol opts r _ = False"

lemma ensureMountPoint_does:
  "does (ensureMountPoint (traced env) vol x)
     (\<lambda>r u. case x of
        Inl e \<Rightarrow> if os_IsNotExist e
                 then \<exists>m. u = [E_Mkdir (mountPath vol) 0x1E8 m] \<and> r = (case m of Inl k \<Rightarrow> Inl (WithStack k) | Inr _ \<Rightarrow> Inr True)
                 else u = [] \<and> r = Inl (WithStack e)
      | Inr b \<Rightarrow> u = [] \<and> r = Inr b)"
  unfolding ensureMountPoint_def traced_ops
  by (intro does_case_sum does_if does_checked_logged does_ret) auto

lemma mount_tail_does:
  assumes mount: "does mount (mount_call vol opts)"
  shows "does (State_Monad.bind (logged m (E_IsLikelyNotMountPoint (mountPath vol)))
      (\<lambda>r. checked (ensureMountPoint (traced env) vol r) id (\<lambda>notMnt. if \<not> notMnt then ret (Inr ()) else mount)))
    (mount_steps vol opts)"
proof (rule does_bind_logged, rule does_checked [OF ensureMountPoint_does], goal_cases)
  case (1 x e u)
  then show ?case by (cases x) (auto split: if_splits sum.splits)
next
  case (2 x notMnt u)
  then show ?case
    by (cases x) (auto intro!: does_ret does_mono [OF mount] split: if_splits sum.splits)
qed

definition mounting :: "'w os_env \<Rightarrow> beegfsVolume \<Rightarrow> string list \<Rightarrow> goerr + unit \<Rightarrow> event list \<Rightarrow> bool" where
  "mounting env vol desired r t \<longleftrightarrow> (\<exists>b u. t = E_GetEnabled b # u \<and> mount_steps vol (options_for env desired vol b) r u)"

lemma mountIfNecessary_does: "does (mountIfNecessary (traced env) vol desired) (mounting env vol desired)"
proof -
  have mount: "does (checked (logged (mnt_Mount env ''beegfs_nodev'' (mountPath vol) ''beegfs'' opts)
        (E_Mount ''beegfs_nodev'' (mountPath vol) ''beegfs'' opts)) WithStack (\<lambda>_. ret (Inr ()))) (mount_call vol opts)" for opts
    by (rule does_checked_logged) (auto intro!: does_ret simp: mount_call_def)
  show ?thesis
    unfolding mountIfNecessary_def traced_ops
    by (rule does_bind [OF constructMountOptions_does], elim exE conjE, rule does_mono [OF mount_tail_does [OF mount]])
      (auto simp: mounting_def)
qed

text \<open>C35. \<open>mountIfNecessary\<close> mounts at most once, only at the mount path of the volume and only if it is not a
  mount point yet; a mount point that does not exist is created first; each failure is the result, and
  success means that the path is mounted or was already.\<close>

theorem mountIfNecessary_steps:
  assumes "run_state (mountIfNecessary (traced env) vol desired) (w, []) = (r, w', t)"
  shows "mounting env vol desired r t"
  using doesD [OF mountIfNecessary_does assms] by simp

theorem mountIfNecessary_steps_witness:
  "mounting (calm_env [] :: unit os_env) sample_vol [''ro'']
     (fst (run_state (mountIfNecessary (traced (calm_env [])) sample_vol [''ro'']) ((), [])))
     (snd (snd (run_state (mountIfNecessary (traced (calm_env [])) sample_vol [''ro'']) ((), []))))"
  by (rule mountIfNecessary_steps [OF run_parts])

lemma find_None_iff_list_ex: "find P xs = None \<longleftrightarrow> \<not> list_ex P xs"
  by (induction xs) auto

text \<open>What cleaning up does: delete the directory of the volume, or its entries one after the other up to the
  first failure.\<close>

fun remove_steps :: "string \<Rightarrow> string list \<Rightarrow> goerr + unit \<Rightarrow> event list \<Rightarrow> bool" where
  "remove_steps dir [] r u = (r = Inr () \<and> u = [])"
| "remove_steps dir (d # ds) r (E_RemoveAll p (Inl e) # u) = (p = path_Join [dir, d] \<and> u = [] \<and> r = Inl (WithStack e))"
| "remove_steps dir (d # ds) r (E_RemoveAll p (Inr _) # u) = (p = path_Join [dir, d] \<and> remove_steps dir ds r u)"
| "remove_steps dir (d # ds) r _ = False"

definition clean_steps :: "beegfsVolume \<Rightarrow> bool \<Rightarrow> goerr + unit \<Rightarrow> event list \<Rightarrow> bool" where
  "clean_steps vol rmDir r u =
     (if rmDir
      then \<exists>x. u = [E_RemoveAll (mountDirPath vol) x] \<and> r = (case x of Inl e \<Rightarrow> Inl (WithStack e) | Inr _ \<Rightarrow> Inr ())
      else \<exists>x v. u = E_ReadDir (mountDirPath vol) x # v
        \<and> (case x of Inl e \<Rightarrow> v = [] \<and> r = Inl (WithStack e) | Inr ds \<Rightarrow> remove_steps (mountDirPath vol) ds r v))"

lemma removeEntries_does: "does (removeEntries (traced env) dir ds) (remove_steps dir ds)"
proof (induction ds)
  case (Cons d ds)
  show ?case unfolding removeEntries.simps traced_ops
    by (rule does_checked_logged) (auto intro: does_mono [OF Cons])
qed (auto intro: does_ret)

lemma cleanUp_does: "does (cleanUpIfNecessary (traced env) vol rmDir) (clean_steps vol rmDir)"
proof (cases rmDir)
  case True
  then show ?thesis unfolding cleanUpIfNecessary_def traced_ops
    by (auto intro!: does_checked_logged does_ret simp: clean_steps_def)
next
  case False
  then show ?thesis unfolding cleanUpIfNecessary_def traced_ops
    by (auto intro!: does_checked_logged does_mono [OF removeEntries_does] simp: clean_steps_def)
qed

text \<open>What unmounting does: list the mounts; refuse if some entry is a bind mount of this file system; else clean
  up the mount point and, only if that succeeded, delete files.\<close>

definition unmount_steps :: "beegfsVolume \<Rightarrow> bool \<Rightarrow> goerr + unit \<Rightarrow> event list \<Rightarrow> bool" where
  "unmount_steps vol rmDir r t =
     (\<exists>l u. t = E_List l # u \<and>
       (case l of
          Inl e \<Rightarrow> u = [] \<and> r = Inl (errors_Wrap e ''error listing mounted filesystems'')
        | Inr ms \<Rightarrow>
            if list_ex (bindMounted vol) ms then u = [] \<and> (\<exists>msg. r = Inl (ErrorsNew msg))
            else \<exists>c v. u = E_CleanupMountPoint (mountPath vol) False c # v \<and>
              (case c of Inl e \<Rightarrow> v = [] \<and> r = Inl (WithStack e)
               | Inr _ \<Rightarrow> \<exists>q. clean_steps vol rmDir q v \<and> (r = Inr () \<longleftrightarrow> q = Inr ()))))"

lemma unmount_does: "does (unmountAndCleanUpIfNecessary (traced env) vol rmDir) (unmount_steps vol rmDir)"
  unfolding unmountAndCleanUpIfNecessary_def traced_ops
proof (rule does_checked_logged, goal_cases)
  case (2 ms)
  show ?case
  proof (cases "find (bindMounted vol) ms")
    case None
    then have "\<not> list_ex (bindMounted vol) ms" by (simp add: find_None_iff_list_ex)
    then show ?thesis using None
      by (auto intro!: does_checked_logged does_checked [OF cleanUp_does] does_ret simp: unmount_steps_def)
  next
    case (Some e)
    then have "list_ex (bindMounted vol) ms" by (metis find_None_iff_list_ex option.distinct(1))
    then show ?thesis using Some by (auto intro: does_ret simp: unmount_steps_def)
  qed
qed (simp add: unmount_steps_def)

text \<open>C22. Nothing is unmounted or deleted while the file system is bind mounted elsewhere. Unmounting first lists
  the mounts; if an entry shows a bind mount of the volume's file system it does nothing else and fails;
  otherwise it cleans up the mount point, and deletes files only after that has succeeded. Success means
  that no deletion failed.\<close>

theorem unmount_refuses_bind_mounted:
  assumes "run_state (unmountAndCleanUpIfNecessary (traced env) vol rmDir) (w, []) = (r, w', t)"
  shows "unmount_steps vol rmDir r t"
  using doesD [OF unmount_does assms] by simp

theorem unmount_refuses_bind_mounted_witness:
  "unmount_steps sample_vol True (fst (run_state (unmountAndCleanUpIfNecessary (traced (calm_env [])) sample_vol True) ((), [])))
     (snd (snd (run_state (unmountAndCleanUpIfNecessary (traced (calm_env [])) sample_vol True) ((), []))))"
  by (rule unmount_refuses_bind_mounted [OF run_parts])

subsection \<open>Containment\<close>

text \<open>Mounting and unmounting touch nothing outside the directory of the volume.\<close>

lemma mounted_belowD:
  assumes "mounted_below ms vol"
  shows "within (abs_path ms) (mountDirPath vol)" "within (abs_path ms) (mountPath vol)"
    "within (abs_path ms) (clientConfPath vol)"
  using assms within_abs_path [of ms "[]"] by (auto simp: mounted_below_def within_abs_path)

lemma mountIfNecessary_confined:
  assumes "mounted_below ms vol"
  shows "emits (confined (abs_path ms)) (mountIfNecessary (traced env) vol opts)"
  unfolding mountIfNecessary_def constructMountOptions_def ensureMountPoint_def Let_def traced_ops
  by (intro emits_intros) (simp_all add: confined_def mounted_belowD [OF assms])

lemma cleanUpIfNecessary_confined:
  assumes "mounted_below ms vol"
  shows "emits (confined (abs_path ms)) (cleanUpIfNecessary (traced env) vol True)"
  unfolding cleanUpIfNecessary_def traced_ops
  by (simp, intro emits_intros) (simp add: confined_def mounted_belowD [OF assms])

lemma unmountAndCleanUpIfNecessary_confined:
  assumes "mounted_below ms vol"
  shows "emits (confined (abs_path ms)) (unmountAndCleanUpIfNecessary (traced env) vol True)"
  unfolding unmountAndCleanUpIfNecessary_def traced_ops
  by (intro emits_intros cleanUpIfNecessary_confined assms) (simp_all add: confined_def mounted_belowD [OF assms])

end
