(* ===== verification/Ctl.thy ===== *)
theory Ctl
  imports Mounts
begin

text \<open>
  pkg/beegfs/beegfs_ctl.go: the commands \<open>beegfs\<close> (BeeGFS 8) and \<open>beegfs-ctl\<close> (BeeGFS 7) that create, inspect
  and stripe the directory of a volume, and the dispatcher that finds out which of the two a file system
  understands. The interface \<open>beegfsCtlExecutorInterface\<close> is a record of operations; the contract that the
  controller relies on is the locale \<open>ctl_contract\<close>, met by the dispatcher, by both executors and by the fake.
\<close>

subsection \<open>Quoting\<close>

text \<open>The verb \<open>%q\<close> of package \<open>fmt\<close>: text in UTF-8 is kept, bytes that are not UTF-8 are shown as \<open>\x..\<close>. Go also shows as
  \<open>\u....\<close> the characters beyond ASCII that it does not take for printable, which are kept here; only the text of errors has
  them.\<close>

definition quote_byte :: "char \<Rightarrow> string" where
  "quote_byte c =
     (if c = CHR 0x22 \<or> c = CHR 0x5C then [CHR 0x5C, c]
      else if c = CHR 0x07 then [CHR 0x5C, CHR ''a'']
      else if c = CHR 0x08 then [CHR 0x5C, CHR ''b'']
      else if c = CHR 0x09 then [CHR 0x5C, CHR ''t'']
      else if c = CHR 0x0A then [CHR 0x5C, CHR ''n'']
      else if c = CHR 0x0B then [CHR 0x5C, CHR ''v'']
      else if c = CHR 0x0C then [CHR 0x5C, CHR ''f'']
      else if c = CHR 0x0D then [CHR 0x5C, CHR ''r'']
      else let n = (of_char c :: nat)
           in if 32 \<le> n \<and> n < 127 then [c] else [CHR 0x5C, CHR ''x''] @ zero_pad 2 (fmt_uint 16 n))"

text \<open>The width of the character that the text begins with, 0 if it does not begin with one (\<open>utf8.DecodeRuneInString\<close>).\<close>

definition utf8_width :: "string \<Rightarrow> nat" where
  "utf8_width s =
     (let b = (\<lambda>i. of_char (s ! i) :: nat); x = b 0;
          byte = (\<lambda>i lo hi. i < length s \<and> lo \<le> b i \<and> b i \<le> hi)
      in if x < 0x80 then 1
         else if 0xC2 \<le> x \<and> x \<le> 0xDF \<and> byte 1 0x80 0xBF then 2
         else if 0xE0 \<le> x \<and> x \<le> 0xEF \<and> byte 1 (if x = 0xE0 then 0xA0 else 0x80) (if x = 0xED then 0x9F else 0xBF)
           \<and> byte 2 0x80 0xBF then 3
         else if 0xF0 \<le> x \<and> x \<le> 0xF4 \<and> byte 1 (if x = 0xF0 then 0x90 else 0x80) (if x = 0xF4 then 0x8F else 0xBF)
           \<and> byte 2 0x80 0xBF \<and> byte 3 0x80 0xBF then 4
         else 0)"

function quote_text :: "string \<Rightarrow> string" where
  "quote_text [] = []"
| "quote_text (c # cs) =
     (let n = utf8_width (c # cs)
      in if n \<le> 1 then quote_byte c @ quote_text cs else take n (c # cs) @ quote_text (drop n (c # cs)))"
  by pat_completeness auto
termination by (relation "measure length") auto

definition fmt_q :: "string \<Rightarrow> string" where
  "fmt_q s = [CHR 0x22] @ quote_text s @ [CHR 0x22]"

lemma fmt_q_sample: "fmt_q [CHR ''a'', CHR 0x22, CHR 0xC3, CHR 0xA9, CHR 0xFF] = [CHR 0x22, CHR ''a'', CHR 0x5C, CHR 0x22, CHR 0xC3, CHR 0xA9] @ [CHR 0x5C] @ ''xff'' @ [CHR 0x22]"
  by code_simp

subsection \<open>Running a command\<close>

text \<open>The Go functions return the standard output together with a possibly nil error.\<close>

type_synonym ctl_result = "string \<times> goerr option"

text \<open>The error of a finished command, from its exit error and its output.\<close>

definition ctl_error :: "goerr option \<times> string \<times> string \<Rightarrow> goerr option" where
  "ctl_error = (\<lambda>(err, stdOutString, stdErrString).
     case err of
       None \<Rightarrow> None
     | Some err \<Rightarrow> Some
         (if Contains stdErrString ''does not exist'' \<or> Contains stdErrString ''no such file or directory''
          then CtlNotExistError stdOutString stdErrString
          else if Contains stdErrString ''exists already'' \<or> Contains stdOutString ''exists already''
          then CtlExistError stdOutString stdErrString
          else if Contains stdErrString ''No connAuthFile configured''
          then CtlConnAuthError stdOutString stdErrString
          else FmtErrorf (''error executing ctl: '' @ err_msg err
              @ '' (stdOut: '' @ fmt_q (TrimRight stdOutString (CHR 0x0A))
              @ '' | stdErr: '' @ fmt_q (TrimRight stdErrString (CHR 0x0A)) @ '')'') [err]))"

definition execBeeGFSCmd :: "'w os_env \<Rightarrow> string list \<Rightarrow> bool \<Rightarrow> ('w, ctl_result) state" where
  "execBeeGFSCmd env args isHelpCommand =
     State_Monad.bind (cmd_Run env args) (\<lambda>(err, stdOutString, stdErrString).
     ret (stdOutString, ctl_error (err, stdOutString, stdErrString)))"

subsection \<open>Arguments\<close>

definition constructSetPatternForVolumeArgs :: "stripePatternConfig \<Rightarrow> bool \<Rightarrow> string list \<times> bool" where
  "constructSetPatternForVolumeArgs cfg isV8 =
     (if isV8 then
        let args = [];
            args = (if stripePatternNumTargets cfg \<noteq> '''' then [''--num-targets='' @ stripePatternNumTargets cfg] @ args else args);
            needToExecute = (stripePatternNumTargets cfg \<noteq> '''');
            args = (if stripePatternChunkSize cfg \<noteq> '''' then [''--chunk-size='' @ stripePatternChunkSize cfg] @ args else args);
            needToExecute = (needToExecute \<or> stripePatternChunkSize cfg \<noteq> '''');
            args = (if storagePoolID cfg \<noteq> '''' then [''--pool='' @ storagePoolID cfg] @ args else args);
            needToExecute = (needToExecute \<or> storagePoolID cfg \<noteq> '''')
        in if needToExecute then ([''--mount=none'', ''entry'', ''set''] @ args, True) else ([], False)
      else
        let args = [];
            args = (if stripePatternNumTargets cfg \<noteq> '''' then [''--numtargets='' @ stripePatternNumTargets cfg] @ args else args);
            needToExecute = (stripePatternNumTargets cfg \<noteq> '''');
            args = (if stripePatternChunkSize cfg \<noteq> '''' then [''--chunksize='' @ stripePatternChunkSize cfg] @ args else args);
            needToExecute = (needToExecute \<or> stripePatternChunkSize cfg \<noteq> '''');
            args = (if storagePoolID cfg \<noteq> '''' then [''--storagepoolid='' @ storagePoolID cfg] @ args else args);
            needToExecute = (needToExecute \<or> storagePoolID cfg \<noteq> '''')
        in if needToExecute then ([''--unmounted'', ''--setpattern''] @ args, True) else ([], False))"

definition constructCreateDirForVolumeArgs :: "permissionsConfig \<Rightarrow> bool \<Rightarrow> string list" where
  "constructCreateDirForVolumeArgs cfg isV8 =
     (let md = mode cfg AND 0x1FF;
          octal = zero_pad 3 (fmt_uint 8 (unat md));
          args = (if isV8 then [''--mount=none'', ''entry'', ''create'', ''directory'', ''--permissions='' @ octal]
                  else [''--unmounted'', ''--createdir'', ''--access='' @ octal]);
          args = (if uid cfg \<noteq> 0 then args @ [''--uid='' @ fmt_uint 10 (unat (uid cfg))] else args)
      in if gid cfg \<noteq> 0 then args @ [''--gid='' @ fmt_uint 10 (unat (gid cfg))] else args)"

subsection \<open>Creating directories\<close>

text \<open>The loop that collects the parents of a directory, most general first. It does not end when the parents
  never reach the root.\<close>

partial_function (option) collectParents :: "string \<Rightarrow> string list \<Rightarrow> string list option" where
  "collectParents dir acc = (if dir = ''/'' then Some acc else collectParents (path_Dir dir) (dir # acc))"

definition dirsToMake :: "string \<Rightarrow> string list option" where
  "dirsToMake dirPath = collectParents (path_Dir dirPath) [dirPath]"

fun createDirs :: "(string list \<Rightarrow> ('w, ctl_result) state) \<Rightarrow> beegfsVolume \<Rightarrow> string list \<Rightarrow> string list \<Rightarrow> ('w, goerr + unit) state" where
  "createDirs execute vol createDirArgs [] = ret (Inr ())"
| "createDirs execute vol createDirArgs (dir # dirs) =
     State_Monad.bind (execute (createDirArgs @ [dir])) (\<lambda>(_, err).
     case err of
       Some e \<Rightarrow>
         if \<not> errors_As is_ctlExistError e
         then ret (Inl (WithMessage e (''cannot create BeeGFS directory '' @ dir @ '' for '' @ volumeID vol)))
         else createDirs execute vol createDirArgs dirs
     | None \<Rightarrow> createDirs execute vol createDirArgs dirs)"

subsection \<open>The executors\<close>

record 'w ctl_exec =
  createDirectoryForVolume :: "beegfsVolume \<Rightarrow> string \<Rightarrow> permissionsConfig \<Rightarrow> ('w, goerr + unit) state"
  statDirectoryForVolume :: "beegfsVolume \<Rightarrow> string \<Rightarrow> ('w, ctl_result) state"
  setPatternForVolume :: "beegfsVolume \<Rightarrow> stripePatternConfig \<Rightarrow> ('w, goerr + unit) state"

definition V8_execute :: "'w os_env \<Rightarrow> beegfsVolume \<Rightarrow> string list \<Rightarrow> ('w, ctl_result) state" where
  "V8_execute env vol args =
     (if length args > 0 \<and> args ! 0 = ''--help'' then execBeeGFSCmd env (''beegfs'' # args) True
      else
        let port = GrpcPort (config vol);
            port = (if port = '''' then ''8010'' else port);
            args = args @ [''--mgmtd-addr='' @ JoinHostPort (sysMgmtdHost vol) port];
            args = (if length (ConnAuth (config vol)) \<noteq> 0 then args @ [''--auth-file='' @ getConnAuthPath vol]
                    else args @ [''--auth-disable'']);
            args = (if length (TLSCert (config vol)) \<noteq> 0 then args @ [''--tls-cert-file='' @ getTLSCertPath vol]
                    else args @ [''--tls-disable''])
        in execBeeGFSCmd env (''beegfs'' # args) False)"

definition V8_statDirectoryForVolume :: "'w os_env \<Rightarrow> beegfsVolume \<Rightarrow> string \<Rightarrow> ('w, ctl_result) state" where
  "V8_statDirectoryForVolume env vol dirPath = V8_execute env vol [''--mount=none'', ''entry'', ''info'', dirPath]"

definition V8_createDirectoryForVolume ::
  "'w os_env \<Rightarrow> beegfsVolume \<Rightarrow> string \<Rightarrow> permissionsConfig \<Rightarrow> ('w, goerr + unit) state"
where
  "V8_createDirectoryForVolume env vol dirPath cfg =
     State_Monad.bind (V8_statDirectoryForVolume env vol dirPath) (\<lambda>(_, err).
     case err of
       Some e \<Rightarrow>
         if errors_As is_ctlNotExistError e then
           (case dirsToMake dirPath of
              None \<Rightarrow> ret (Inl Diverged)
            | Some dirs \<Rightarrow> createDirs (V8_execute env vol) vol (constructCreateDirForVolumeArgs cfg True) dirs)
         else ret (Inl e)
     | None \<Rightarrow> ret (Inr ()))"

definition V8_setPatternForVolume ::
  "'w os_env \<Rightarrow> beegfsVolume \<Rightarrow> stripePatternConfig \<Rightarrow> ('w, goerr + unit) state"
where
  "V8_setPatternForVolume env vol cfg =
     (case constructSetPatternForVolumeArgs cfg True of (args, needToExecute) \<Rightarrow>
      if needToExecute then
        State_Monad.bind (V8_execute env vol (args @ [volDirPathBeegfsRoot vol])) (\<lambda>(_, err).
        ret (case err of
               Some e \<Rightarrow> Inl (WithMessage e (''cannot set pattern for BeeGFS directory '' @ volDirPathBeegfsRoot vol
                 @ '' for volume '' @ sysMgmtdHost vol))
             | None \<Rightarrow> Inr ()))
      else ret (Inr ()))"

definition beegfsCtlExecutorV8 :: "'w os_env \<Rightarrow> 'w ctl_exec" where
  "beegfsCtlExecutorV8 env =
     \<lparr> createDirectoryForVolume = V8_createDirectoryForVolume env,
       statDirectoryForVolume = V8_statDirectoryForVolume env,
       setPatternForVolume = V8_setPatternForVolume env \<rparr>"

definition V7_execute :: "'w os_env \<Rightarrow> string \<Rightarrow> string list \<Rightarrow> ('w, ctl_result) state" where
  "V7_execute env confPath args =
     (let isHelpCommand = (length args > 0 \<and> args ! 0 = ''--help'');
          args = [''--cfgFile='' @ confPath] @ args
      in execBeeGFSCmd env (''beegfs-ctl'' # args) isHelpCommand)"

definition V7_statDirectoryForVolume :: "'w os_env \<Rightarrow> beegfsVolume \<Rightarrow> string \<Rightarrow> ('w, ctl_result) state" where
  "V7_statDirectoryForVolume env vol dirPath =
     V7_execute env (clientConfPath vol) [''--unmounted'', ''--getentryinfo'', dirPath]"

definition V7_createDirectoryForVolume ::
  "'w os_env \<Rightarrow> beegfsVolume \<Rightarrow> string \<Rightarrow> permissionsConfig \<Rightarrow> ('w, goerr + unit) state"
where
  "V7_createDirectoryForVolume env vol dirPath cfg =
     State_Monad.bind (V7_statDirectoryForVolume env vol dirPath) (\<lambda>(_, err).
     case err of
       Some e \<Rightarrow>
         if errors_As is_ctlNotExistError e then
           (case dirsToMake dirPath of
              None \<Rightarrow> ret (Inl Diverged)
            | Some dirs \<Rightarrow>
                createDirs (V7_execute env (clientConfPath vol)) vol (constructCreateDirForVolumeArgs cfg False) dirs)
         else ret (Inl e)
     | None \<Rightarrow> ret (Inr ()))"

definition V7_setPatternForVolume ::
  "'w os_env \<Rightarrow> beegfsVolume \<Rightarrow> stripePatternConfig \<Rightarrow> ('w, goerr + unit) state"
where
  "V7_setPatternForVolume env vol cfg =
     (case constructSetPatternForVolumeArgs cfg False of (args, needToExecute) \<Rightarrow>
      if needToExecute then
        State_Monad.bind (V7_execute env (clientConfPath vol) (args @ [volDirPathBeegfsRoot vol])) (\<lambda>(_, err).
        ret (case err of
               Some e \<Rightarrow> Inl (WithMessage e (''cannot set pattern for BeeGFS directory '' @ volDirPathBeegfsRoot vol
                 @ '' for volume '' @ sysMgmtdHost vol))
             | None \<Rightarrow> Inr ()))
      else ret (Inr ()))"

definition beegfsCtlExecutorV7 :: "'w os_env \<Rightarrow> 'w ctl_exec" where
  "beegfsCtlExecutorV7 env =
     \<lparr> createDirectoryForVolume = V7_createDirectoryForVolume env,
       statDirectoryForVolume = V7_statDirectoryForVolume env,
       setPatternForVolume = V7_setPatternForVolume env \<rparr>"

definition fakeBeegfsCtlExecutor :: "'w ctl_exec" where
  "fakeBeegfsCtlExecutor =
     \<lparr> createDirectoryForVolume = (\<lambda>vol path cfg. ret (Inr ())),
       statDirectoryForVolume = (\<lambda>vol path. ret ('''', None)),
       setPatternForVolume = (\<lambda>vol cfg. ret (Inr ())) \<rparr>"

subsection \<open>The dispatcher\<close>

definition detectCTLVersion :: "'w os_env \<Rightarrow> beegfsVolume \<Rightarrow> ('w, goerr + 'w ctl_exec) state" where
  "detectCTLVersion env vol =
     State_Monad.bind (V8_execute env vol [''node'', ''list'']) (\<lambda>(_, errCheckingV8NodeList).
     case errCheckingV8NodeList of
       None \<Rightarrow> ret (Inr (beegfsCtlExecutorV8 env))
     | Some e8 \<Rightarrow>
         let errString = ''BeeGFS 8 list nodes failed ('' @ err_msg e8 @ '')'' in
         State_Monad.bind (V7_execute env (clientConfPath vol) [''--listnodes'', ''--nodetype=management'']) (\<lambda>(_, errCheckingV7NodeList).
         case errCheckingV7NodeList of
           None \<Rightarrow> ret (Inr (beegfsCtlExecutorV7 env))
         | Some e7 \<Rightarrow>
             let errString = (if length errString > 0 then errString @ ''; '' else errString);
                 errString = errString @ ''BeeGFS 7 list nodes failed ('' @ err_msg e7 @ '')''
             in ret (Inl (FmtErrorf (''unable to verify if this is a BeeGFS 7 or 8 volume: '' @ errString
                  @ '' (hint: verify the management address and that the correct version of BeeGFS CTL is installed and in $PATH)'') []))))"

definition dispatch_createDirectoryForVolume ::
  "'w os_env \<Rightarrow> beegfsVolume \<Rightarrow> string \<Rightarrow> permissionsConfig \<Rightarrow> ('w, goerr + unit) state"
where
  "dispatch_createDirectoryForVolume env vol dirPath cfg =
     State_Monad.bind (detectCTLVersion env vol) (\<lambda>r.
     case r of Inl err \<Rightarrow> ret (Inl err) | Inr ctl \<Rightarrow> createDirectoryForVolume ctl vol dirPath cfg)"

definition dispatch_statDirectoryForVolume :: "'w os_env \<Rightarrow> beegfsVolume \<Rightarrow> string \<Rightarrow> ('w, ctl_result) state" where
  "dispatch_statDirectoryForVolume env vol dirPath =
     State_Monad.bind (detectCTLVersion env vol) (\<lambda>r.
     case r of Inl err \<Rightarrow> ret ('''', Some err) | Inr ctl \<Rightarrow> statDirectoryForVolume ctl vol dirPath)"

definition dispatch_setPatternForVolume ::
  "'w os_env \<Rightarrow> beegfsVolume \<Rightarrow> stripePatternConfig \<Rightarrow> ('w, goerr + unit) state"
where
  "dispatch_setPatternForVolume env vol cfg =
     State_Monad.bind (detectCTLVersion env vol) (\<lambda>r.
     case r of Inl err \<Rightarrow> ret (Inl err) | Inr ctl \<Rightarrow> setPatternForVolume ctl vol cfg)"

definition beegfsCtlDispatcher :: "'w os_env \<Rightarrow> 'w ctl_exec" where
  "beegfsCtlDispatcher env =
     \<lparr> createDirectoryForVolume = dispatch_createDirectoryForVolume env,
       statDirectoryForVolume = dispatch_statDirectoryForVolume env,
       setPatternForVolume = dispatch_setPatternForVolume env \<rparr>"

text \<open>The zero value of a volume, with which \<open>--help\<close> is run.\<close>

definition zeroVolume :: beegfsVolume where
  "zeroVolume =
     \<lparr> config = zeroBeegfsConfig, clientConfPath = '''', csiDirPath = '''', csiDirPathBeegfsRoot = '''',
       mountDirPath = '''', mountPath = '''', sysMgmtdHost = '''', volDirBasePathBeegfsRoot = '''',
       volDirBasePath = '''', volDirPathBeegfsRoot = '''', volDirPath = '''', volumeID = '''' \<rparr>"

definition newBeeGFSCtlExecutor :: "'w os_env \<Rightarrow> ('w, goerr + 'w ctl_exec) state" where
  "newBeeGFSCtlExecutor env =
     State_Monad.bind (V8_execute env zeroVolume [''--help'']) (\<lambda>(_, v8Err).
     State_Monad.bind (V7_execute env '''' [''--help'']) (\<lambda>(_, v7err).
     let v7err = (case v7err of Some e \<Rightarrow> if errors_As is_ctlConnAuthError e then None else Some e | None \<Rightarrow> None)
     in case (v7err, v8Err) of
          (Some e7, Some e8) \<Rightarrow>
            ret (Inl (FmtErrorf (''unable to verify the BeeGFS 7 CTL is installed: '' @ err_msg e7
              @ ''; unable to verify the BeeGFS 8 CTL is installed: '' @ err_msg e8
              @ '' (one must be installed and in $PATH to proceed)'') [e7, e8]))
        | _ \<Rightarrow> ret (Inr (beegfsCtlDispatcher env))))"

subsection \<open>The parents of a directory\<close>

lemma collectParents_abs:
  "list_all proper cs \<Longrightarrow>
     collectParents (abs_path cs) acc = Some (map (\<lambda>k. abs_path (take (Suc k) cs)) [0..<length cs] @ acc)"
proof (induction cs arbitrary: acc rule: rev_induct)
  case Nil
  show ?case by (simp add: collectParents.simps abs_path_def)
next
  case (snoc c cs)
  then have *: "list_all proper cs" "proper c" by simp_all
  have "abs_path (cs @ [c]) \<noteq> ''/''"
    using abs_path_inject [of "cs @ [c]" "[]"] * by (auto simp: abs_path_def)
  then have "collectParents (abs_path (cs @ [c])) acc = collectParents (abs_path cs) (abs_path (cs @ [c]) # acc)"
    using * by (subst collectParents.simps) (simp add: path_Dir_abs_path)
  also have "\<dots> = Some (map (\<lambda>k. abs_path (take (Suc k) cs)) [0..<length cs] @ abs_path (cs @ [c]) # acc)"
    using snoc * by blast
  finally show ?case by simp
qed

lemma dirsToMake_abs:
  assumes "list_all proper cs"
  shows "dirsToMake (abs_path cs) =
    Some (if cs = [] then [''/''] else map (\<lambda>k. abs_path (take (Suc k) cs)) [0..<length cs])"
proof (cases cs rule: rev_cases)
  case Nil
  then show ?thesis by (simp add: dirsToMake_def path_Dir_root) (simp add: collectParents.simps abs_path_def)
next
  case (snoc bs c)
  with assms show ?thesis by (simp add: dirsToMake_def path_Dir_abs_path collectParents_abs)
qed

text \<open>C38. For an absolute path the loop over the parents ends, and what it collects are the ancestors of the
  directory from the most general one down to the directory itself, each exactly once.\<close>

theorem dirsToMake_ancestors:
  assumes "list_all proper cs" and "cs \<noteq> []"
  shows "dirsToMake (abs_path cs) = Some (map (\<lambda>k. abs_path (take (Suc k) cs)) [0..<length cs])"
  using assms by (simp add: dirsToMake_abs)

theorem dirsToMake_ancestors_witness:
  "dirsToMake ''/scratch/pvc'' = Some [''/scratch'', ''/scratch/pvc'']"
  using dirsToMake_ancestors [of "[''scratch'', ''pvc'']"] by (simp add: abs_path_def proper_def)

text \<open>For a relative path the parents reach \<open>.\<close>, which is its own parent: the loop does not end.\<close>

lemma collectParents_dot:
  assumes "collectParents dir acc = Some ds"
  shows "dir \<noteq> ''.''"
proof (rule collectParents.raw_induct [OF _ assms, where P = "\<lambda>d _ _. d \<noteq> ''.''"], goal_cases)
  case (1 collect dir acc ds)
  have "path_Dir ''.'' = ''.''" by (simp add: path_defs)
  with 1(1) [of "path_Dir dir" "dir # acc" ds] 1(2) show ?case by (auto split: if_splits)
qed

theorem dirsToMake_relative_diverges: "dirsToMake ''scratch'' = None"
proof -
  have "path_Dir ''scratch'' = ''.''" by (simp add: path_defs)
  then show ?thesis
    unfolding dirsToMake_def using collectParents_dot by (metis not_None_eq)
qed

subsection \<open>The arguments\<close>

lemma mode_low_bits: "unat (md AND 0x1FF :: 16 word) < 8 ^ Suc 2"
proof -
  have "md AND 0x1FF \<le> (0x1FF :: 16 word)" by (rule word_and_le1)
  then have "unat (md AND 0x1FF) \<le> unat (0x1FF :: 16 word)" by (simp only: word_le_nat_alt)
  then show ?thesis by simp
qed

text \<open>The command that creates a directory carries the permissions as three octal digits that read back as the
  nine permission bits of the mode, and the owner and group as decimal numbers that read back as the
  requested ones; both are left out when zero.\<close>

theorem createDirArgs_read_back:
  "\<exists>octal owner.
     constructCreateDirForVolumeArgs cfg isV8 =
       (if isV8 then [''--mount=none'', ''entry'', ''create'', ''directory'', ''--permissions='' @ octal]
        else [''--unmounted'', ''--createdir'', ''--access='' @ octal]) @ owner
     \<and> length octal = 3 \<and> ParseUint octal 8 12 = Inr (unat (mode cfg AND 0x1FF))
     \<and> owner = map (\<lambda>n. ''--uid='' @ fmt_uint 10 n) (filter (\<lambda>n. n \<noteq> 0) [unat (uid cfg)])
              @ map (\<lambda>n. ''--gid='' @ fmt_uint 10 n) (filter (\<lambda>n. n \<noteq> 0) [unat (gid cfg)])
     \<and> ParseUint (fmt_uint 10 (unat (uid cfg))) 10 32 = Inr (unat (uid cfg))
     \<and> ParseUint (fmt_uint 10 (unat (gid cfg))) 10 32 = Inr (unat (gid cfg))"
proof -
  let ?m = "unat (mode cfg AND 0x1FF)"
  have len: "length (fmt_uint 8 ?m) \<le> 3"
    using length_fmt_uint_le [OF _ mode_low_bits [of "mode cfg"]] by simp
  have oct: "ParseUint (zero_pad 3 (fmt_uint 8 ?m)) 8 12 = Inr ?m"
    using mode_low_bits [of "mode cfg"] by (intro ParseUint_fmt_uint) simp_all
  have dec: "ParseUint (fmt_uint 10 (unat n)) 10 32 = Inr (unat n)" for n :: "32 word"
    using ParseUint_fmt_uint [of 10 "unat n" 32 0] unsigned_less [of n] by (simp add: zero_pad_def)
  show ?thesis
    by (intro exI [of _ "zero_pad 3 (fmt_uint 8 ?m)"] exI conjI oct dec)
      (use len in \<open>auto simp: constructCreateDirForVolumeArgs_def Let_def length_zero_pad unat_eq_0\<close>)
qed

text \<open>Striping: a command is run exactly when some setting is given, and it carries the settings that are
  given, in the order pool, chunk size, number of targets, under the names of the respective tool.\<close>

theorem setPatternArgs_eq:
  "constructSetPatternForVolumeArgs cfg isV8 =
     (let opts = [flag @ val. (flag, val) \<leftarrow>
                   zip (if isV8 then [''--pool='', ''--chunk-size='', ''--num-targets='']
                        else [''--storagepoolid='', ''--chunksize='', ''--numtargets=''])
                     [storagePoolID cfg, stripePatternChunkSize cfg, stripePatternNumTargets cfg], val \<noteq> '''']
      in if opts = [] then ([], False)
         else ((if isV8 then [''--mount=none'', ''entry'', ''set''] else [''--unmounted'', ''--setpattern'']) @ opts, True))"
  by (simp add: constructSetPatternForVolumeArgs_def Let_def)

subsection \<open>What the dispatcher runs\<close>

datatype ctl_version = CtlV7 | CtlV8

fun command_line :: "ctl_version \<Rightarrow> beegfsVolume \<Rightarrow> string list \<Rightarrow> string list" where
  "command_line CtlV7 vol args = [''beegfs-ctl'', ''--cfgFile='' @ clientConfPath vol] @ args"
| "command_line CtlV8 vol args =
     [''beegfs''] @ args
     @ [''--mgmtd-addr='' @ JoinHostPort (sysMgmtdHost vol) (if GrpcPort (config vol) = '''' then ''8010'' else GrpcPort (config vol)),
        if ConnAuth (config vol) = '''' then ''--auth-disable'' else ''--auth-file='' @ getConnAuthPath vol,
        if TLSCert (config vol) = '''' then ''--tls-disable'' else ''--tls-cert-file='' @ getTLSCertPath vol]"

fun stat_args :: "ctl_version \<Rightarrow> string \<Rightarrow> string list" where
  "stat_args CtlV7 path = [''--unmounted'', ''--getentryinfo'', path]"
| "stat_args CtlV8 path = [''--mount=none'', ''entry'', ''info'', path]"

text \<open>The version is 8 if its command can list the nodes, else 7 if that one can, else unknown.\<close>

fun detect_steps :: "beegfsVolume \<Rightarrow> ctl_version option \<Rightarrow> event list \<Rightarrow> bool" where
  "detect_steps vol (Some CtlV8) d =
     (\<exists>x. d = [E_Run (command_line CtlV8 vol [''node'', ''list'']) x] \<and> ctl_error x = None)"
| "detect_steps vol v d =
     (\<exists>x y. d = [E_Run (command_line CtlV8 vol [''node'', ''list'']) x,
                 E_Run (command_line CtlV7 vol [''--listnodes'', ''--nodetype=management'']) y]
       \<and> ctl_error x \<noteq> None \<and> (ctl_error y = None \<longleftrightarrow> v = Some CtlV7))"

text \<open>Creating directories: one command each, in order, until one fails for another reason than that the
  directory exists.\<close>

fun create_steps :: "(string list \<Rightarrow> string list) \<Rightarrow> string list \<Rightarrow> string list \<Rightarrow> goerr + unit \<Rightarrow> event list \<Rightarrow> bool" where
  "create_steps cmd args [] r u = (u = [] \<and> r = Inr ())"
| "create_steps cmd args (dir # dirs) r u =
     (\<exists>x v. u = E_Run (cmd (args @ [dir])) x # v
       \<and> (if ctl_error x = None \<or> errors_As is_ctlExistError (the (ctl_error x)) then create_steps cmd args dirs r v
          else v = [] \<and> (\<exists>msg. r = Inl (WithMessage (the (ctl_error x)) msg))))"

definition ensure_steps ::
  "ctl_version \<Rightarrow> beegfsVolume \<Rightarrow> string list \<Rightarrow> permissionsConfig \<Rightarrow> goerr + unit \<Rightarrow> event list \<Rightarrow> bool"
where
  "ensure_steps v vol cs cfg r u =
     (\<exists>x u'. u = E_Run (command_line v vol (stat_args v (abs_path cs))) x # u'
       \<and> (case ctl_error x of
            None \<Rightarrow> u' = [] \<and> r = Inr ()
          | Some e \<Rightarrow>
              if errors_As is_ctlNotExistError e
              then create_steps (command_line v vol) (constructCreateDirForVolumeArgs cfg (v = CtlV8))
                     (map (\<lambda>k. abs_path (take (Suc k) cs)) [0..<length cs]) r u'
              else u' = [] \<and> r = Inl e))"

lemma does_exec:
  assumes "\<And>x. does (k (fst (snd x), ctl_error x)) (\<lambda>y v. Q y (E_Run args x # v))"
  shows "does (State_Monad.bind (execBeeGFSCmd (traced env) args h) k) Q"
  unfolding execBeeGFSCmd_def traced_ops does_bind_bind
  by (rule does_bind_logged) (use assms in \<open>auto split: prod.split\<close>)

lemma V7_execute_eq: "V7_execute env (clientConfPath vol) args = execBeeGFSCmd env (command_line CtlV7 vol args) (args \<noteq> [] \<and> hd args = ''--help'')"
  by (cases args) (simp_all add: V7_execute_def Let_def)

lemma V8_execute_eq:
  "\<not> (args \<noteq> [] \<and> hd args = ''--help'') \<Longrightarrow> V8_execute env vol args = execBeeGFSCmd env (command_line CtlV8 vol args) False"
  by (cases args) (simp_all add: V8_execute_def Let_def)

lemma createDirs_does:
  assumes "\<And>dir. execute (args @ [dir]) = execBeeGFSCmd (traced env) (cmd (args @ [dir])) False"
  shows "does (createDirs execute vol args dirs) (create_steps cmd args dirs)"
proof (induction dirs)
  case (Cons dir dirs)
  show ?case
    unfolding createDirs.simps assms
  proof (rule does_exec)
    fix x
    show "does (case (fst (snd x), ctl_error x) of (_, Some e) \<Rightarrow>
          if \<not> errors_As is_ctlExistError e
          then ret (Inl (WithMessage e (''cannot create BeeGFS directory '' @ dir @ '' for '' @ volumeID vol)))
          else createDirs execute vol args dirs | (_, None) \<Rightarrow> createDirs execute vol args dirs)
        (\<lambda>y v. create_steps cmd args (dir # dirs) y (E_Run (cmd (args @ [dir])) x # v))"
      by (cases "ctl_error x") (auto intro: does_ret does_mono [OF Cons])
  qed
qed (auto intro: does_ret)

lemma create_args_not_help:
  "hd (constructCreateDirForVolumeArgs cfg v) \<noteq> ''--help''" "constructCreateDirForVolumeArgs cfg v \<noteq> []"
  by (simp_all add: constructCreateDirForVolumeArgs_def Let_def)

lemma V8_create_does:
  assumes "list_all proper cs" "cs \<noteq> []"
  shows "does (V8_createDirectoryForVolume (traced env) vol (abs_path cs) cfg) (ensure_steps CtlV8 vol cs cfg)"
proof -
  have "V8_execute (traced env) vol (constructCreateDirForVolumeArgs cfg True @ [dir]) =
      execBeeGFSCmd (traced env) (command_line CtlV8 vol (constructCreateDirForVolumeArgs cfg True @ [dir])) False" for dir
    by (rule V8_execute_eq) (simp add: create_args_not_help)
  note mk = createDirs_does [of "V8_execute (traced env) vol", OF this]
  show ?thesis
    unfolding V8_createDirectoryForVolume_def V8_statDirectoryForVolume_def
    by (subst V8_execute_eq, simp, rule does_exec)
      (use assms in \<open>auto simp: ensure_steps_def dirsToMake_abs intro!: does_ret does_mono [OF mk] split: option.split\<close>)
qed

lemma V7_create_does:
  assumes "list_all proper cs" "cs \<noteq> []"
  shows "does (V7_createDirectoryForVolume (traced env) vol (abs_path cs) cfg) (ensure_steps CtlV7 vol cs cfg)"
proof -
  have "V7_execute (traced env) (clientConfPath vol) (constructCreateDirForVolumeArgs cfg False @ [dir]) =
      execBeeGFSCmd (traced env) (command_line CtlV7 vol (constructCreateDirForVolumeArgs cfg False @ [dir])) False" for dir
    by (simp add: V7_execute_eq create_args_not_help)
  note mk = createDirs_does [of "V7_execute (traced env) (clientConfPath vol)", OF this]
  show ?thesis
    unfolding V7_createDirectoryForVolume_def V7_statDirectoryForVolume_def
    by (subst (1) V7_execute_eq, rule does_exec)
      (use assms in \<open>auto simp: ensure_steps_def dirsToMake_abs intro!: does_ret does_mono [OF mk] split: option.split\<close>)
qed

lemma detect_does:
  "does (detectCTLVersion (traced env) vol)
     (\<lambda>r d. \<exists>v. detect_steps vol v d \<and>
        (case v of Some CtlV8 \<Rightarrow> r = Inr (beegfsCtlExecutorV8 (traced env))
         | Some CtlV7 \<Rightarrow> r = Inr (beegfsCtlExecutorV7 (traced env)) | None \<Rightarrow> \<exists>m. r = Inl (FmtErrorf m [])))"
  unfolding detectCTLVersion_def V7_execute_eq
proof (subst V8_execute_eq, simp, rule does_exec, goal_cases)
  case (1 x)
  show ?case
  proof (cases "ctl_error x")
    case None
    then show ?thesis by (auto intro!: does_ret exI [of _ "Some CtlV8"])
  next
    case (Some e)
    show ?thesis unfolding Some Let_def option.case prod.case
    proof (rule does_exec, goal_cases)
      case (1 y)
      show ?case
      proof (cases "ctl_error y")
        case None
        with Some show ?thesis by (auto intro!: does_ret exI [of _ "Some CtlV7"])
      next
        case (Some e')
        with \<open>ctl_error x = Some e\<close> show ?thesis by (auto intro!: does_ret exI [of _ "None :: ctl_version option"])
      qed
    qed
  qed
qed

declare detect_steps.simps [simp del] command_line.simps [simp del]

text \<open>The commands that create a directory, with the version of the file system found out first.\<close>

definition mkdir_steps ::
  "beegfsVolume \<Rightarrow> string list \<Rightarrow> permissionsConfig \<Rightarrow> goerr + unit \<Rightarrow> event list \<Rightarrow> bool"
where
  "mkdir_steps vol cs cfg r t \<longleftrightarrow>
     (\<exists>v d u. t = d @ u \<and> detect_steps vol v d
       \<and> (case v of None \<Rightarrow> u = [] \<and> (\<exists>e. r = Inl e \<and> returns_err e) | Some v \<Rightarrow> ensure_steps v vol cs cfg r u))"

lemma dispatch_create_does:
  assumes "list_all proper cs" "cs \<noteq> []"
  shows "does (dispatch_createDirectoryForVolume (traced env) vol (abs_path cs) cfg) (mkdir_steps vol cs cfg)"
  unfolding mkdir_steps_def
  unfolding dispatch_createDirectoryForVolume_def
proof (rule does_bind [OF detect_does], elim exE conjE, goal_cases)
  case (1 r d v)
  show ?case
  proof (cases v)
    case None
    with 1 obtain m where "r = Inl (FmtErrorf m [])" by auto
    with 1(1) None show ?thesis
      by (simp only: sum.case, intro does_ret exI [of _ None] exI [of _ d] exI [of _ "[]"]) simp
  next
    case (Some x)
    then obtain ctl where ctl: "r = Inr ctl" "does (createDirectoryForVolume ctl vol (abs_path cs) cfg) (ensure_steps x vol cs cfg)"
      using 1(2) V7_create_does [OF assms(1,2), of env vol cfg] V8_create_does [OF assms(1,2), of env vol cfg]
      by (cases x) (auto simp: beegfsCtlExecutorV8_def beegfsCtlExecutorV7_def)
    show ?thesis
      unfolding ctl(1) sum.case
    proof (rule does_mono [OF ctl(2)])
      fix y u
      assume "ensure_steps x vol cs cfg y u"
      then show "\<exists>v d' u'. d @ u = d' @ u' \<and> detect_steps vol v d'
        \<and> (case v of None \<Rightarrow> u' = [] \<and> (\<exists>e. y = Inl e \<and> returns_err e) | Some v \<Rightarrow> ensure_steps v vol cs cfg y u')"
        using 1(1) Some by (intro exI [of _ v] exI [of _ d] exI [of _ u]) simp
    qed
  qed
qed

text \<open>C17. Creating the directory of a volume. The dispatcher finds out the version of the file system, asks for the
  directory with the command of that version, does nothing more if it exists and passes on any error other
  than that it does not exist; then it creates the missing ancestors and the directory, most general first,
  one command each, treating a directory that exists already as created, and stops at the first other error.
  For an absolute path it always returns.\<close>

theorem dispatch_createDirectory_steps:
  assumes "list_all proper cs" "cs \<noteq> []"
    and "run_state (dispatch_createDirectoryForVolume (traced env) vol (abs_path cs) cfg) (w, []) = (r, w', t)"
  shows "\<exists>v d u. t = d @ u \<and> detect_steps vol v d
    \<and> (case v of None \<Rightarrow> u = [] \<and> (\<exists>e. r = Inl e \<and> returns_err e) | Some v \<Rightarrow> ensure_steps v vol cs cfg r u)"
  using doesD [OF dispatch_create_does [OF assms(1,2)] assms(3)] by (simp add: mkdir_steps_def)

theorem dispatch_createDirectory_steps_witness:
  "\<exists>v d u. snd (snd (run_state (dispatch_createDirectoryForVolume (traced (calm_env [])) sample_vol
        (abs_path [''scratch'', ''vol1'']) \<lparr>uid = 0, gid = 0, mode = 0x1FF\<rparr>) ((), []))) = d @ u
    \<and> detect_steps sample_vol v d
    \<and> (case v of None \<Rightarrow> u = [] \<and> (\<exists>e. fst (run_state (dispatch_createDirectoryForVolume (traced (calm_env [])) sample_vol
        (abs_path [''scratch'', ''vol1'']) \<lparr>uid = 0, gid = 0, mode = 0x1FF\<rparr>) ((), [])) = Inl e \<and> returns_err e)
       | Some v \<Rightarrow> ensure_steps v sample_vol [''scratch'', ''vol1''] \<lparr>uid = 0, gid = 0, mode = 0x1FF\<rparr>
           (fst (run_state (dispatch_createDirectoryForVolume (traced (calm_env [])) sample_vol
        (abs_path [''scratch'', ''vol1'']) \<lparr>uid = 0, gid = 0, mode = 0x1FF\<rparr>) ((), []))) u)"
  by (rule dispatch_createDirectory_steps [OF _ _ run_parts]) (simp_all add: proper_def)

subsection \<open>The contract of an executor\<close>

text \<open>An executor does nothing but run commands, and returns for every absolute path.\<close>

fun is_run :: "event \<Rightarrow> bool" where
  "is_run (E_Run _ _) = True"
| "is_run _ = False"

locale ctl_contract =
  fixes ctl :: "('w \<times> event list) ctl_exec"
  assumes create_runs: "emits is_run (createDirectoryForVolume ctl vol path cfg)"
    and stat_runs: "emits is_run (statDirectoryForVolume ctl vol path)"
    and pattern_runs: "emits is_run (setPatternForVolume ctl vol stripes)"
    and create_returns: "list_all proper cs \<Longrightarrow> does (createDirectoryForVolume ctl vol (abs_path cs) cfg) (\<lambda>r _. returns r)"
    and stat_returns: "does (statDirectoryForVolume ctl vol path) (\<lambda>r _. pred_option returns_err (snd r))"
    and pattern_returns: "does (setPatternForVolume ctl vol stripes) (\<lambda>r _. returns r)"
begin

lemma run_confined: "is_run e \<Longrightarrow> confined d e"
  by (cases e) (simp_all add: confined_def)

lemma runs_confined:
  "emits (confined d) (createDirectoryForVolume ctl vol path cfg)"
  "emits (confined d) (statDirectoryForVolume ctl vol path)"
  "emits (confined d) (setPatternForVolume ctl vol stripes)"
  by (blast intro: emits_mono run_confined create_runs stat_runs pattern_runs)+

end

lemma ctl_error_returns: "ctl_error x = Some e \<Longrightarrow> returns_err e"
  by (auto simp: ctl_error_def split: prod.splits option.splits if_splits)

lemma execute_runs [emits_intros]:
  "emits is_run (execBeeGFSCmd (traced env) args h)"
  "emits is_run (V7_execute (traced env) conf args)"
  "emits is_run (V8_execute (traced env) vol args)"
  unfolding V7_execute_def V8_execute_def execBeeGFSCmd_def Let_def traced_ops
  by (intro emits_intros; simp)+

lemma execute_does:
  "does (execBeeGFSCmd (traced env) args h) (\<lambda>r _. pred_option returns_err (snd r))"
  "does (V7_execute (traced env) conf args) (\<lambda>r _. pred_option returns_err (snd r))"
  "does (V8_execute (traced env) vol args) (\<lambda>r _. pred_option returns_err (snd r))"
proof -
  show *: "does (execBeeGFSCmd (traced env) args h) (\<lambda>r _. pred_option returns_err (snd r))" for args h
    unfolding execBeeGFSCmd_def traced_ops
    by (rule does_bind_logged) (auto intro!: does_ret simp: pred_option_def dest: ctl_error_returns split: option.splits)
  show "does (V7_execute (traced env) conf args) (\<lambda>r _. pred_option returns_err (snd r))"
    "does (V8_execute (traced env) vol args) (\<lambda>r _. pred_option returns_err (snd r))"
    unfolding V7_execute_def V8_execute_def Let_def by (auto intro: *)
qed

lemma createDirs_runs:
  "(\<And>as. emits is_run (execute as)) \<Longrightarrow> emits is_run (createDirs execute vol args dirs)"
  by (induction dirs) (auto intro!: emits_intros)

lemma createDirs_returns:
  assumes "\<And>as. does (execute as) (\<lambda>r _. pred_option returns_err (snd r))"
  shows "does (createDirs execute vol args dirs) (\<lambda>r _. returns r)"
proof (induction dirs)
  case (Cons dir dirs)
  show ?case unfolding createDirs.simps
    by (rule does_bind [OF assms]) (auto intro!: does_ret Cons split: option.split)
qed (simp add: does_ret)

interpretation v8_ctl: ctl_contract "beegfsCtlExecutorV8 (traced env)" for env
proof (unfold_locales, goal_cases)
  case (1 vol path cfg)
  show ?case by (simp add: beegfsCtlExecutorV8_def V8_createDirectoryForVolume_def V8_statDirectoryForVolume_def)
      (intro emits_intros createDirs_runs)
next
  case (2 vol path)
  show ?case by (simp add: beegfsCtlExecutorV8_def V8_statDirectoryForVolume_def) (intro emits_intros)
next
  case (3 vol stripes)
  show ?case by (simp add: beegfsCtlExecutorV8_def V8_setPatternForVolume_def) (intro emits_intros)
next
  case (4 cs vol cfg)
  then show ?case
    by (auto simp: beegfsCtlExecutorV8_def V8_createDirectoryForVolume_def V8_statDirectoryForVolume_def dirsToMake_abs
        intro!: does_bind [OF execute_does(3)] does_ret createDirs_returns execute_does split: option.split)
next
  case (5 vol path)
  show ?case by (simp add: beegfsCtlExecutorV8_def V8_statDirectoryForVolume_def execute_does)
next
  case (6 vol stripes)
  show ?case
    by (auto simp: beegfsCtlExecutorV8_def V8_setPatternForVolume_def
        intro!: does_bind [OF execute_does(3)] does_ret split: prod.split option.split)
qed

interpretation v7_ctl: ctl_contract "beegfsCtlExecutorV7 (traced env)" for env
proof (unfold_locales, goal_cases)
  case (1 vol path cfg)
  show ?case by (simp add: beegfsCtlExecutorV7_def V7_createDirectoryForVolume_def V7_statDirectoryForVolume_def)
      (intro emits_intros createDirs_runs)
next
  case (2 vol path)
  show ?case by (simp add: beegfsCtlExecutorV7_def V7_statDirectoryForVolume_def) (intro emits_intros)
next
  case (3 vol stripes)
  show ?case by (simp add: beegfsCtlExecutorV7_def V7_setPatternForVolume_def) (intro emits_intros)
next
  case (4 cs vol cfg)
  then show ?case
    by (auto simp: beegfsCtlExecutorV7_def V7_createDirectoryForVolume_def V7_statDirectoryForVolume_def dirsToMake_abs
        intro!: does_bind [OF execute_does(2)] does_ret createDirs_returns execute_does split: option.split)
next
  case (5 vol path)
  show ?case by (simp add: beegfsCtlExecutorV7_def V7_statDirectoryForVolume_def execute_does)
next
  case (6 vol stripes)
  show ?case
    by (auto simp: beegfsCtlExecutorV7_def V7_setPatternForVolume_def
        intro!: does_bind [OF execute_does(2)] does_ret split: prod.split option.split)
qed

interpretation fake_ctl: ctl_contract fakeBeegfsCtlExecutor
  by unfold_locales (auto simp: fakeBeegfsCtlExecutor_def intro!: emits_intros does_ret)

text \<open>The dispatcher meets the contract because both executors do.\<close>

lemma detect_runs: "emits is_run (detectCTLVersion (traced env) vol)"
  unfolding detectCTLVersion_def Let_def by (intro emits_intros)

lemma detect_result:
  "does (detectCTLVersion (traced env) vol)
     (\<lambda>r u. list_all is_run u \<and>
        (case r of Inl e \<Rightarrow> returns_err e | Inr c \<Rightarrow> c = beegfsCtlExecutorV8 (traced env) \<or> c = beegfsCtlExecutorV7 (traced env)))"
proof (rule does_mono [OF does_conj [OF detect_does detect_runs [unfolded emits_def]]], elim conjE exE, goal_cases)
  case (1 r u v)
  then show ?case by (cases v) (auto split: ctl_version.splits)
qed

lemma dispatch_emits:
  assumes "\<And>c. c = beegfsCtlExecutorV8 (traced env) \<or> c = beegfsCtlExecutorV7 (traced env) \<Longrightarrow> emits is_run (k c)"
  shows "emits is_run (State_Monad.bind (detectCTLVersion (traced env) vol)
    (\<lambda>r. case r of Inl err \<Rightarrow> ret (f err) | Inr ctl \<Rightarrow> k ctl))"
  unfolding emits_def
  by (rule does_bind [OF detect_result])
    (auto intro!: does_ret does_mono [OF assms [unfolded emits_def]] split: sum.splits)

lemma dispatch_returns:
  assumes "\<And>c. c = beegfsCtlExecutorV8 (traced env) \<or> c = beegfsCtlExecutorV7 (traced env) \<Longrightarrow> does (k c) (\<lambda>r _. Q r)"
    and "\<And>e. returns_err e \<Longrightarrow> Q (f e)"
  shows "does (State_Monad.bind (detectCTLVersion (traced env) vol)
    (\<lambda>r. case r of Inl err \<Rightarrow> ret (f err) | Inr ctl \<Rightarrow> k ctl)) (\<lambda>r _. Q r)"
  by (rule does_bind [OF detect_result]) (auto intro!: does_ret assms split: sum.splits)

lemmas dispatch_defs = beegfsCtlDispatcher_def dispatch_createDirectoryForVolume_def
  dispatch_statDirectoryForVolume_def dispatch_setPatternForVolume_def

interpretation dispatcher_ctl: ctl_contract "beegfsCtlDispatcher (traced env)" for env
proof (unfold_locales, goal_cases)
  case (4 cs vol cfg)
  then show ?case
    by (auto simp: dispatch_defs intro!: dispatch_returns v8_ctl.create_returns v7_ctl.create_returns)
qed (auto simp: dispatch_defs intro!: dispatch_emits dispatch_returns v8_ctl.create_runs v7_ctl.create_runs
    v8_ctl.stat_runs v7_ctl.stat_runs v8_ctl.pattern_runs v7_ctl.pattern_runs
    v8_ctl.stat_returns v7_ctl.stat_returns v8_ctl.pattern_returns v7_ctl.pattern_returns)

end
