(* ===== verification/Params.thy ===== *)
theory Params
  imports Volume Go_Net "HOL-Library.List_Lexorder" "HOL-Library.Char_ord"
begin

text \<open>
  The parameters of a CreateVolume request (pkg/beegfs/controllerserver.go). \<open>validateReqParams\<close> takes the known
  parameters out of the request's map one group after the other and refuses what is left over. The two
  groups share a contract, the locale \<open>param_group\<close>; its result is that the loop over the map computes the
  same whatever order Go visits the map in.
\<close>

subsection \<open>The keys\<close>

definition volDirBasePathKey :: string where "volDirBasePathKey = ''volDirBasePath''"
definition sysMgmtdHostKey :: string where "sysMgmtdHostKey = ''sysMgmtdHost''"
definition stripePatternStoragePoolIDKey :: string where "stripePatternStoragePoolIDKey = ''stripePattern/storagePoolID''"
definition stripePatternChunkSizeKey :: string where "stripePatternChunkSizeKey = ''stripePattern/chunkSize''"
definition stripePatternNumTargetsKey :: string where "stripePatternNumTargetsKey = ''stripePattern/numTargets''"
definition permissionsUIDKey :: string where "permissionsUIDKey = ''permissions/uid''"
definition permissionsGIDKey :: string where "permissionsGIDKey = ''permissions/gid''"
definition permissionsModeKey :: string where "permissionsModeKey = ''permissions/mode''"
definition defaultPermissionsMode :: "16 word" where "defaultPermissionsMode = 0x1FF"

lemmas key_defs = volDirBasePathKey_def sysMgmtdHostKey_def stripePatternStoragePoolIDKey_def
  stripePatternChunkSizeKey_def stripePatternNumTargetsKey_def permissionsUIDKey_def permissionsGIDKey_def
  permissionsModeKey_def

subsection \<open>The loops\<close>

text \<open>\<open>m[k]\<close>: the zero value when there is no entry.\<close>

definition index_map :: "gomap \<Rightarrow> string \<Rightarrow> string" where
  "index_map m k = (case map_of m k of None \<Rightarrow> '''' | Some v \<Rightarrow> v)"

text \<open>A \<open>range\<close> loop whose body may return an error. Deleting the entry that is being visited does not change
  which entries are visited.\<close>

fun range_loop :: "('k \<Rightarrow> 's \<Rightarrow> goerr + 's) \<Rightarrow> 'k list \<Rightarrow> 's \<Rightarrow> goerr + 's" where
  "range_loop body [] s = Inr s"
| "range_loop body (k # ks) s = bindE (body k s) (range_loop body ks)"

definition chunkSizeRegex :: rexp where
  "chunkSizeRegex = Seq (re_plus (Class is_digit)) (Class (\<lambda>c. is_lower c \<or> is_upper c))"

definition stripe_body :: "string \<Rightarrow> stripePatternConfig \<times> gomap \<Rightarrow> goerr + stripePatternConfig \<times> gomap" where
  "stripe_body param = (\<lambda>(cfg, reqParams).
     if Contains param ''stripePattern/'' then
       if param = stripePatternStoragePoolIDKey then
         let cfg = cfg\<lparr>storagePoolID := index_map reqParams stripePatternStoragePoolIDKey\<rparr>
         in (case (if storagePoolID cfg \<noteq> '''' then ParseUint (storagePoolID cfg) 10 16 else Inr 0) of
               Inl err \<Rightarrow> Inl (errors_Wrap err ''could not parse provided StoragePoolID'')
             | Inr _ \<Rightarrow> Inr (cfg, AList.delete stripePatternStoragePoolIDKey reqParams))
       else if param = stripePatternChunkSizeKey then
         let cfg = cfg\<lparr>stripePatternChunkSize := index_map reqParams stripePatternChunkSizeKey\<rparr>
         in if stripePatternChunkSize cfg \<noteq> '''' \<and> \<not> MatchString chunkSizeRegex (stripePatternChunkSize cfg)
            then Inl (ErrorsNew ''could not parse provided chunkSize'')
            else Inr (cfg, AList.delete stripePatternChunkSizeKey reqParams)
       else if param = stripePatternNumTargetsKey then
         let cfg = cfg\<lparr>stripePatternNumTargets := index_map reqParams stripePatternNumTargetsKey\<rparr>
         in (case (if stripePatternNumTargets cfg \<noteq> '''' then ParseUint (stripePatternNumTargets cfg) 10 16 else Inr 0) of
               Inl err \<Rightarrow> Inl (errors_Wrap err ''could not parse provided numTargets'')
             | Inr _ \<Rightarrow> Inr (cfg, AList.delete stripePatternNumTargetsKey reqParams))
       else Inl (ErrorsNew (''CreateVolume parameter invalid: '' @ param))
     else Inr (cfg, reqParams))"

definition getStripePatternConfigFromParams :: "gomap \<Rightarrow> goerr + stripePatternConfig \<times> gomap" where
  "getStripePatternConfigFromParams reqParams =
     range_loop stripe_body (map fst reqParams)
       (\<lparr> storagePoolID = '''', stripePatternChunkSize = '''', stripePatternNumTargets = '''' \<rparr>, reqParams)"

definition permissions_body :: "string \<Rightarrow> permissionsConfig \<times> gomap \<Rightarrow> goerr + permissionsConfig \<times> gomap" where
  "permissions_body param = (\<lambda>(cfg, reqParams).
     if HasPrefix param ''permissions/'' then
       if param = permissionsUIDKey then
         let val = index_map reqParams permissionsUIDKey
         in (case ParseUint val 10 32 of
               Inl err \<Rightarrow> Inl (errors_Wrap err ''could not parse provided UID'')
             | Inr n \<Rightarrow> Inr (cfg\<lparr>uid := word_of_nat n\<rparr>, AList.delete permissionsUIDKey reqParams))
       else if param = permissionsGIDKey then
         let val = index_map reqParams permissionsGIDKey
         in (case ParseUint val 10 32 of
               Inl err \<Rightarrow> Inl (errors_Wrap err ''could not parse provided GID'')
             | Inr n \<Rightarrow> Inr (cfg\<lparr>gid := word_of_nat n\<rparr>, AList.delete permissionsGIDKey reqParams))
       else if param = permissionsModeKey then
         let val = index_map reqParams permissionsModeKey
         in (case ParseUint val 8 12 of
               Inl err \<Rightarrow> Inl (errors_Wrap err ''could not parse provided mode'')
             | Inr n \<Rightarrow> Inr (cfg\<lparr>mode := word_of_nat n\<rparr>, AList.delete permissionsModeKey reqParams))
       else Inl (ErrorsNew (''CreateVolume parameter invalid: '' @ param))
     else Inr (cfg, reqParams))"

definition getPermissionsConfigFromParams :: "gomap \<Rightarrow> goerr + permissionsConfig \<times> gomap" where
  "getPermissionsConfigFromParams reqParams =
     range_loop permissions_body (map fst reqParams) (\<lparr> uid = 0, gid = 0, mode = defaultPermissionsMode \<rparr>, reqParams)"

text \<open>The verb \<open>%s\<close> of package \<open>fmt\<close> prints a map with its keys sorted.\<close>

definition fmt_map :: "gomap \<Rightarrow> string" where
  "fmt_map m = ''map['' @ Join (map (\<lambda>(k, v). k @ '':'' @ v) (sort_key fst m)) '' '' @ '']''"

text \<open>The second component of the result is what is left in the caller's map, which the function shares.\<close>

definition validateReqParams :: "gomap \<Rightarrow> goerr + reqParameters \<times> gomap" where
  "validateReqParams params =
     (case map_of params sysMgmtdHostKey of
        None \<Rightarrow> Inl (ErrorsNew ''sysMgmtdHost not provided'')
      | Some host \<Rightarrow>
          if host = '''' then Inl (ErrorsNew ''sysMgmtdHost not provided'')
          else
            let params = AList.delete sysMgmtdHostKey params
            in (case map_of params volDirBasePathKey of
                  None \<Rightarrow> Inl (ErrorsNew ''volDirBasePath not provided'')
                | Some volDirBase \<Rightarrow>
                    let base = path_Clean (path_Join [''/'', volDirBase]);
                        params = AList.delete volDirBasePathKey params
                    in bindE (getStripePatternConfigFromParams params) (\<lambda>(stripes, params).
                       bindE (getPermissionsConfigFromParams params) (\<lambda>(perms, params).
                       if length params \<noteq> 0
                       then Inl (ErrorsNew (''CreateVolume parameter invalid: '' @ fmt_map params))
                       else Inr (\<lparr> rp_sysMgmtdHost = host, rp_volDirBasePathBeegfsRoot = base,
                                   volStripePatternConfig = stripes, volPermissionsConfig = perms \<rparr>, params)))))"

subsection \<open>A group of parameters\<close>

locale param_group =
  fixes body :: "string \<Rightarrow> 'c \<times> gomap \<Rightarrow> goerr + 'c \<times> gomap"
    and relevant :: "string \<Rightarrow> bool"
    and accepted :: "string \<Rightarrow> string \<Rightarrow> bool"
    and assign :: "string \<Rightarrow> string \<Rightarrow> 'c \<Rightarrow> 'c"
  assumes skipped: "\<not> relevant k \<Longrightarrow> body k (c, m) = Inr (c, m)"
    and taken: "relevant k \<Longrightarrow> map_of m k = Some v \<Longrightarrow> accepted k v \<Longrightarrow> body k (c, m) = Inr (assign k v c, AList.delete k m)"
    and refused: "relevant k \<Longrightarrow> map_of m k = Some v \<Longrightarrow> \<not> accepted k v \<Longrightarrow> \<exists>e. body k (c, m) = Inl e \<and> returns_err e"
begin

lemma loop_Inr:
  assumes "distinct (map fst ps)" and "\<forall>(k, v) \<in> set ps. map_of m k = Some v"
  shows "range_loop body (map fst ps) (c, m) = Inr s \<longleftrightarrow>
    (\<forall>(k, v) \<in> set ps. relevant k \<longrightarrow> accepted k v)
    \<and> s = (fold (\<lambda>(k, v). if relevant k then assign k v else id) ps c,
           filter (\<lambda>(k, _). \<not> (relevant k \<and> k \<in> fst ` set ps)) m)"
  using assms
proof (induction ps arbitrary: c m)
  case Nil
  then show ?case by auto
next
  case (Cons p ps)
  obtain k v where p: "p = (k, v)" by fastforce
  have rest: "distinct (map fst ps)" "k \<notin> fst ` set ps" "\<forall>(k, v) \<in> set ps. map_of m k = Some v" "map_of m k = Some v"
    using Cons.prems p by auto
  consider "\<not> relevant k" | "relevant k" "accepted k v" | "relevant k" "\<not> accepted k v" by blast
  then show ?case
  proof cases
    case 1
    have "filter (\<lambda>(k', _). \<not> (relevant k' \<and> (k' = k \<or> k' \<in> fst ` set ps))) m
        = filter (\<lambda>(k', _). \<not> (relevant k' \<and> k' \<in> fst ` set ps)) m"
      using 1 by (intro filter_cong) auto
    with 1 Cons.IH [OF rest(1,3)] show ?thesis by (simp add: p skipped)
  next
    case 2
    have "\<forall>(k', v) \<in> set ps. map_of (AList.delete k m) k' = Some v"
      using rest(2,3) by (auto simp: delete_conv' rev_image_eqI)
    moreover have "filter (\<lambda>(k', _). \<not> (relevant k' \<and> k' \<in> fst ` set ps)) (AList.delete k m)
        = filter (\<lambda>(k', _). \<not> (relevant k' \<and> (k' = k \<or> k' \<in> fst ` set ps))) m"
      using 2 by (auto simp: AList.delete_eq intro!: filter_cong)
    ultimately show ?thesis using 2 Cons.IH [OF rest(1)] by (simp add: p taken [OF 2(1) rest(4) 2(2)])
  next
    case 3
    then show ?thesis using refused [OF 3(1) rest(4) 3(2), of c] by (auto simp: p)
  qed
qed

lemma loop_on_map:
  assumes "is_map m"
  shows "range_loop body (map fst m) (c, m) = Inr s \<longleftrightarrow>
    (\<forall>(k, v) \<in> set m. relevant k \<longrightarrow> accepted k v)
    \<and> s = (fold (\<lambda>(k, v). if relevant k then assign k v else id) m c, filter (\<lambda>(k, _). \<not> relevant k) m)"
proof -
  have "filter (\<lambda>(k, _). \<not> (relevant k \<and> k \<in> fst ` set m)) m = filter (\<lambda>(k, _). \<not> relevant k) m"
    by (rule filter_cong) (auto intro: rev_image_eqI)
  then show ?thesis using loop_Inr [OF assms, of m c s] assms by (simp add: case_prod_beta')
qed

end

subsection \<open>What is accepted\<close>

definition parses :: "string \<Rightarrow> nat \<Rightarrow> nat \<Rightarrow> bool" where
  "parses s base bits = (case ParseUint s base bits of Inl _ \<Rightarrow> False | Inr _ \<Rightarrow> True)"

definition parsed :: "string \<Rightarrow> nat \<Rightarrow> nat \<Rightarrow> nat" where
  "parsed s base bits = (case ParseUint s base bits of Inl _ \<Rightarrow> 0 | Inr n \<Rightarrow> n)"

text \<open>A chunk size is a number followed by one letter.\<close>

definition chunk_size :: "string \<Rightarrow> bool" where
  "chunk_size v \<longleftrightarrow>
     length v \<ge> 2 \<and> list_all is_digit (butlast v) \<and> (is_lower (last v) \<or> is_upper (last v))"

lemma chunkSizeRegex_iff: "MatchString chunkSizeRegex v \<longleftrightarrow> chunk_size v"
proof -
  have "MatchString chunkSizeRegex v \<longleftrightarrow>
      (\<exists>d ds c. v = (d # ds) @ [c] \<and> is_digit d \<and> list_all is_digit ds \<and> (is_lower c \<or> is_upper c))"
    unfolding MatchString_describes chunkSizeRegex_def re_plus_def describes_simps describes_Rep_Class
    by (metis append.assoc append_Cons append_Nil)
  also have "\<dots> \<longleftrightarrow> chunk_size v"
    unfolding chunk_size_def
    by (cases v rule: rev_cases; cases "butlast v") auto
  finally show ?thesis .
qed

definition stripe_ok :: "string \<Rightarrow> string \<Rightarrow> bool" where
  "stripe_ok k v \<longleftrightarrow>
     (if k = stripePatternStoragePoolIDKey \<or> k = stripePatternNumTargetsKey then v = '''' \<or> parses v 10 16
      else k = stripePatternChunkSizeKey \<and> (v = '''' \<or> chunk_size v))"

definition stripe_assign :: "string \<Rightarrow> string \<Rightarrow> stripePatternConfig \<Rightarrow> stripePatternConfig" where
  "stripe_assign k v cfg =
     (if k = stripePatternStoragePoolIDKey then cfg\<lparr>storagePoolID := v\<rparr>
      else if k = stripePatternChunkSizeKey then cfg\<lparr>stripePatternChunkSize := v\<rparr>
      else cfg\<lparr>stripePatternNumTargets := v\<rparr>)"

definition permission_ok :: "string \<Rightarrow> string \<Rightarrow> bool" where
  "permission_ok k v \<longleftrightarrow>
     (if k = permissionsUIDKey \<or> k = permissionsGIDKey then parses v 10 32 else k = permissionsModeKey \<and> parses v 8 12)"

definition permission_assign :: "string \<Rightarrow> string \<Rightarrow> permissionsConfig \<Rightarrow> permissionsConfig" where
  "permission_assign k v cfg =
     (if k = permissionsUIDKey then cfg\<lparr>uid := word_of_nat (parsed v 10 32)\<rparr>
      else if k = permissionsGIDKey then cfg\<lparr>gid := word_of_nat (parsed v 10 32)\<rparr>
      else cfg\<lparr>mode := word_of_nat (parsed v 8 12)\<rparr>)"

lemmas parse_defs = parses_def parsed_def

lemma ParseUint_returns: "ParseUint s base bits = Inl e \<Longrightarrow> returns_err e"
  by (auto simp: ParseUint_def split: if_splits sum.splits)

lemma key_neq [simp]:
  "stripePatternStoragePoolIDKey \<noteq> stripePatternChunkSizeKey" "stripePatternStoragePoolIDKey \<noteq> stripePatternNumTargetsKey"
  "stripePatternChunkSizeKey \<noteq> stripePatternStoragePoolIDKey" "stripePatternChunkSizeKey \<noteq> stripePatternNumTargetsKey"
  "stripePatternNumTargetsKey \<noteq> stripePatternStoragePoolIDKey" "stripePatternNumTargetsKey \<noteq> stripePatternChunkSizeKey"
  "permissionsUIDKey \<noteq> permissionsGIDKey" "permissionsUIDKey \<noteq> permissionsModeKey"
  "permissionsGIDKey \<noteq> permissionsUIDKey" "permissionsGIDKey \<noteq> permissionsModeKey"
  "permissionsModeKey \<noteq> permissionsUIDKey" "permissionsModeKey \<noteq> permissionsGIDKey"
  "sysMgmtdHostKey \<noteq> volDirBasePathKey" "volDirBasePathKey \<noteq> sysMgmtdHostKey"
  "stripePatternStoragePoolIDKey \<noteq> sysMgmtdHostKey" "stripePatternStoragePoolIDKey \<noteq> volDirBasePathKey"
  "stripePatternChunkSizeKey \<noteq> sysMgmtdHostKey" "stripePatternChunkSizeKey \<noteq> volDirBasePathKey"
  "stripePatternNumTargetsKey \<noteq> sysMgmtdHostKey" "stripePatternNumTargetsKey \<noteq> volDirBasePathKey"
  "permissionsUIDKey \<noteq> sysMgmtdHostKey" "permissionsUIDKey \<noteq> volDirBasePathKey"
  "permissionsGIDKey \<noteq> sysMgmtdHostKey" "permissionsGIDKey \<noteq> volDirBasePathKey"
  "permissionsModeKey \<noteq> sysMgmtdHostKey" "permissionsModeKey \<noteq> volDirBasePathKey"
  by (simp_all add: key_defs)

interpretation stripes: param_group stripe_body "\<lambda>k. Contains k ''stripePattern/''" stripe_ok stripe_assign
proof (unfold_locales, goal_cases)
  case (1 k c m)
  then show ?case by (simp add: stripe_body_def)
next
  case (2 k m v c)
  then consider "k = stripePatternStoragePoolIDKey" | "k = stripePatternChunkSizeKey" | "k = stripePatternNumTargetsKey"
    by (auto simp: stripe_ok_def split: if_splits)
  then show ?case
    using 2 by cases (auto simp: stripe_body_def stripe_ok_def stripe_assign_def index_map_def parses_def
        chunkSizeRegex_iff Let_def split: sum.splits)
next
  case (3 k m v c)
  consider "k = stripePatternStoragePoolIDKey" | "k = stripePatternChunkSizeKey" | "k = stripePatternNumTargetsKey"
    | "k \<noteq> stripePatternStoragePoolIDKey" "k \<noteq> stripePatternChunkSizeKey" "k \<noteq> stripePatternNumTargetsKey" by blast
  then show ?case
    using 3 by cases (auto simp: stripe_body_def stripe_ok_def index_map_def parses_def chunkSizeRegex_iff Let_def
        errors_Wrap_def split: sum.splits dest: ParseUint_returns)
qed

interpretation permissions: param_group permissions_body "\<lambda>k. HasPrefix k ''permissions/''" permission_ok permission_assign
proof (unfold_locales, goal_cases)
  case (1 k c m)
  then show ?case by (simp add: permissions_body_def)
next
  case (2 k m v c)
  then consider "k = permissionsUIDKey" | "k = permissionsGIDKey" | "k = permissionsModeKey"
    by (auto simp: permission_ok_def split: if_splits)
  then show ?case
    using 2 by cases (auto simp: permissions_body_def permission_ok_def permission_assign_def index_map_def parse_defs
        Let_def split: sum.splits)
next
  case (3 k m v c)
  consider "k = permissionsUIDKey" | "k = permissionsGIDKey" | "k = permissionsModeKey"
    | "k \<noteq> permissionsUIDKey" "k \<noteq> permissionsGIDKey" "k \<noteq> permissionsModeKey" by blast
  then show ?case
    using 3 by cases (auto simp: permissions_body_def permission_ok_def index_map_def parses_def Let_def
        errors_Wrap_def split: sum.splits dest: ParseUint_returns)
qed

subsection \<open>The result, independent of the order of the map\<close>

definition or_else :: "'a option \<Rightarrow> 'a \<Rightarrow> 'a" where
  "or_else x d = (case x of None \<Rightarrow> d | Some v \<Rightarrow> v)"

lemma or_else_simps [simp]: "or_else None d = d" "or_else (Some v) d = v"
  by (simp_all add: or_else_def)

definition number :: "nat \<Rightarrow> nat \<Rightarrow> string option \<Rightarrow> 'a::len word \<Rightarrow> 'a word" where
  "number base bits x d = (case x of None \<Rightarrow> d | Some v \<Rightarrow> word_of_nat (parsed v base bits))"

lemma number_simps [simp]: "number b n None d = d" "number b n (Some v) d = word_of_nat (parsed v b n)"
  by (simp_all add: number_def)

lemma relevant_keys [simp]:
  "Contains stripePatternStoragePoolIDKey ''stripePattern/''" "Contains stripePatternChunkSizeKey ''stripePattern/''"
  "Contains stripePatternNumTargetsKey ''stripePattern/''"
  "HasPrefix permissionsUIDKey ''permissions/''" "HasPrefix permissionsGIDKey ''permissions/''"
  "HasPrefix permissionsModeKey ''permissions/''"
  "\<not> Contains permissionsUIDKey ''stripePattern/''" "\<not> Contains permissionsGIDKey ''stripePattern/''"
  "\<not> Contains permissionsModeKey ''stripePattern/''"
  "\<not> Contains sysMgmtdHostKey ''stripePattern/''" "\<not> Contains volDirBasePathKey ''stripePattern/''"
  "\<not> HasPrefix sysMgmtdHostKey ''permissions/''" "\<not> HasPrefix volDirBasePathKey ''permissions/''"
  by (simp_all add: key_defs)

lemma group_keys:
  "stripe_ok k v \<Longrightarrow> k = stripePatternStoragePoolIDKey \<or> k = stripePatternChunkSizeKey \<or> k = stripePatternNumTargetsKey"
  "permission_ok k v \<Longrightarrow> k = permissionsUIDKey \<or> k = permissionsGIDKey \<or> k = permissionsModeKey"
  by (auto simp: stripe_ok_def permission_ok_def split: if_splits)

lemma stripes_fold:
  assumes "is_map m" and "\<forall>(k, v) \<in> set m. Contains k ''stripePattern/'' \<longrightarrow> stripe_ok k v"
  shows "fold (\<lambda>(k, v). if Contains k ''stripePattern/'' then stripe_assign k v else id) m cfg =
    \<lparr> storagePoolID = or_else (map_of m stripePatternStoragePoolIDKey) (storagePoolID cfg),
      stripePatternChunkSize = or_else (map_of m stripePatternChunkSizeKey) (stripePatternChunkSize cfg),
      stripePatternNumTargets = or_else (map_of m stripePatternNumTargetsKey) (stripePatternNumTargets cfg) \<rparr>"
  using assms
proof (induction m arbitrary: cfg)
  case (Cons p m)
  obtain k v where p: "p = (k, v)" by fastforce
  have new: "map_of m k = None" and ok: "Contains k ''stripePattern/'' \<Longrightarrow> stripe_ok k v"
    using Cons.prems by (auto simp: p map_of_eq_None_iff)
  consider "k = stripePatternStoragePoolIDKey" | "k = stripePatternChunkSizeKey" | "k = stripePatternNumTargetsKey"
    | "\<not> Contains k ''stripePattern/''" "k \<noteq> stripePatternStoragePoolIDKey" "k \<noteq> stripePatternChunkSizeKey" "k \<noteq> stripePatternNumTargetsKey"
    using ok group_keys(1) by blast
  then show ?case
    using Cons new by cases (simp_all add: p stripe_assign_def)
qed simp

lemma permissions_fold:
  assumes "is_map m" and "\<forall>(k, v) \<in> set m. HasPrefix k ''permissions/'' \<longrightarrow> permission_ok k v"
  shows "fold (\<lambda>(k, v). if HasPrefix k ''permissions/'' then permission_assign k v else id) m cfg =
    \<lparr> uid = number 10 32 (map_of m permissionsUIDKey) (uid cfg),
      gid = number 10 32 (map_of m permissionsGIDKey) (gid cfg),
      mode = number 8 12 (map_of m permissionsModeKey) (mode cfg) \<rparr>"
  using assms
proof (induction m arbitrary: cfg)
  case (Cons p m)
  obtain k v where p: "p = (k, v)" by fastforce
  have new: "map_of m k = None" and ok: "HasPrefix k ''permissions/'' \<Longrightarrow> permission_ok k v"
    using Cons.prems by (auto simp: p map_of_eq_None_iff)
  consider "k = permissionsUIDKey" | "k = permissionsGIDKey" | "k = permissionsModeKey"
    | "\<not> HasPrefix k ''permissions/''" "k \<noteq> permissionsUIDKey" "k \<noteq> permissionsGIDKey" "k \<noteq> permissionsModeKey"
    using ok group_keys(2) by blast
  then show ?case
    using Cons new by cases (simp_all add: p permission_assign_def)
qed simp

text \<open>A parameter that may be given, and what a set of parameters means.\<close>

definition param_ok :: "string \<Rightarrow> string \<Rightarrow> bool" where
  "param_ok k v \<longleftrightarrow>
     (k = sysMgmtdHostKey \<and> v \<noteq> '''') \<or> k = volDirBasePathKey \<or> stripe_ok k v \<or> permission_ok k v"

definition params_of :: "(string \<Rightarrow> string option) \<Rightarrow> reqParameters" where
  "params_of m =
     \<lparr> rp_sysMgmtdHost = or_else (m sysMgmtdHostKey) '''',
       rp_volDirBasePathBeegfsRoot = path_Clean (path_Join [''/'', or_else (m volDirBasePathKey) '''']),
       volStripePatternConfig =
         \<lparr> storagePoolID = or_else (m stripePatternStoragePoolIDKey) '''',
           stripePatternChunkSize = or_else (m stripePatternChunkSizeKey) '''',
           stripePatternNumTargets = or_else (m stripePatternNumTargetsKey) '''' \<rparr>,
       volPermissionsConfig =
         \<lparr> uid = number 10 32 (m permissionsUIDKey) 0, gid = number 10 32 (m permissionsGIDKey) 0,
           mode = number 8 12 (m permissionsModeKey) 0x1FF \<rparr> \<rparr>"

lemma param_ok_groups:
  assumes "k \<noteq> sysMgmtdHostKey" and "k \<noteq> volDirBasePathKey"
  shows "param_ok k v \<longleftrightarrow>
    (if Contains k ''stripePattern/'' then stripe_ok k v else HasPrefix k ''permissions/'' \<and> permission_ok k v)"
  using assms group_keys [of k v] by (auto simp: param_ok_def)

lemma param_ok_single [simp]:
  "param_ok sysMgmtdHostKey v \<longleftrightarrow> v \<noteq> ''''" "param_ok volDirBasePathKey v"
  by (auto simp: param_ok_def dest: group_keys) (simp_all add: key_defs stripe_ok_def permission_ok_def)

lemma is_map_filter: "is_map m \<Longrightarrow> is_map (filter P m)"
  by (induction m) auto

lemma map_of_filter_key: "map_of (filter (\<lambda>(k, _). P k) m) k = (if P k then map_of m k else None)"
  by (induction m) auto

lemma getStripePattern_Inr:
  assumes "is_map m"
  shows "getStripePatternConfigFromParams m = Inr (cfg, rest) \<longleftrightarrow>
    (\<forall>(k, v) \<in> set m. Contains k ''stripePattern/'' \<longrightarrow> stripe_ok k v)
    \<and> cfg = \<lparr> storagePoolID = or_else (map_of m stripePatternStoragePoolIDKey) '''',
              stripePatternChunkSize = or_else (map_of m stripePatternChunkSizeKey) '''',
              stripePatternNumTargets = or_else (map_of m stripePatternNumTargetsKey) '''' \<rparr>
    \<and> rest = filter (\<lambda>(k, _). \<not> Contains k ''stripePattern/'') m"
  unfolding getStripePatternConfigFromParams_def stripes.loop_on_map [OF assms]
  by (cases "\<forall>(k, v) \<in> set m. Contains k ''stripePattern/'' \<longrightarrow> stripe_ok k v")
    (simp_all only: stripes_fold [OF assms], simp_all)

lemma getPermissions_Inr:
  assumes "is_map m"
  shows "getPermissionsConfigFromParams m = Inr (cfg, rest) \<longleftrightarrow>
    (\<forall>(k, v) \<in> set m. HasPrefix k ''permissions/'' \<longrightarrow> permission_ok k v)
    \<and> cfg = \<lparr> uid = number 10 32 (map_of m permissionsUIDKey) 0, gid = number 10 32 (map_of m permissionsGIDKey) 0,
              mode = number 8 12 (map_of m permissionsModeKey) 0x1FF \<rparr>
    \<and> rest = filter (\<lambda>(k, _). \<not> HasPrefix k ''permissions/'') m"
  unfolding getPermissionsConfigFromParams_def permissions.loop_on_map [OF assms]
  by (cases "\<forall>(k, v) \<in> set m. HasPrefix k ''permissions/'' \<longrightarrow> permission_ok k v")
    (simp_all only: permissions_fold [OF assms], simp_all add: defaultPermissionsMode_def)

lemma delete_two: "AList.delete b (AList.delete a m) = filter (\<lambda>(k, _). k \<noteq> a \<and> k \<noteq> b) m"
  by (auto simp: AList.delete_eq intro!: filter_cong)

lemma groups_exhaust:
  "(\<forall>(k, v) \<in> set m. Contains k ''stripePattern/'' \<longrightarrow> stripe_ok k v)
   \<and> (\<forall>(k, v) \<in> set (filter (\<lambda>(k, _). \<not> Contains k ''stripePattern/'') m). HasPrefix k ''permissions/'' \<longrightarrow> permission_ok k v)
   \<and> filter (\<lambda>(k, _). \<not> HasPrefix k ''permissions/'') (filter (\<lambda>(k, _). \<not> Contains k ''stripePattern/'') m) = []
   \<longleftrightarrow> (\<forall>(k, v) \<in> set m. if Contains k ''stripePattern/'' then stripe_ok k v else HasPrefix k ''permissions/'' \<and> permission_ok k v)"
  by (auto simp: filter_empty_conv)

lemma validate_rest:
  assumes "is_map m" and "\<forall>(k, _) \<in> set m. k \<noteq> sysMgmtdHostKey \<and> k \<noteq> volDirBasePathKey"
  shows "bindE (getStripePatternConfigFromParams m) (\<lambda>(stripes, m).
      bindE (getPermissionsConfigFromParams m) (\<lambda>(perms, m). if m \<noteq> [] then Inl (f m) else Inr (g stripes perms, m)))
      = Inr (rp, rest) \<longleftrightarrow>
    (\<forall>(k, v) \<in> set m. param_ok k v) \<and> rest = []
    \<and> rp = g (volStripePatternConfig (params_of (map_of m))) (volPermissionsConfig (params_of (map_of m)))"
proof -
  have *: "map_of (filter (\<lambda>(k, _). \<not> Contains k ''stripePattern/'') m) k = map_of m k"
    if "\<not> Contains k ''stripePattern/''" for k
    using that by (simp add: map_of_filter_key [of "\<lambda>k. \<not> Contains k ''stripePattern/''"])
  have "(\<forall>(k, v) \<in> set m. param_ok k v) \<longleftrightarrow>
      (\<forall>(k, v) \<in> set m. if Contains k ''stripePattern/'' then stripe_ok k v else HasPrefix k ''permissions/'' \<and> permission_ok k v)"
    using assms(2) param_ok_groups by (intro ball_cong) auto
  then show ?thesis
    unfolding groups_exhaust [symmetric]
    by (auto simp: bindE_Inr getStripePattern_Inr [OF assms(1)] getPermissions_Inr is_map_filter [OF assms(1)] params_of_def *)
qed

lemma all_param_ok:
  assumes "is_map m" and "map_of m sysMgmtdHostKey = Some host"
  shows "(\<forall>(k, v) \<in> set m. param_ok k v) \<longleftrightarrow>
    host \<noteq> '''' \<and> (\<forall>(k, v) \<in> set (filter (\<lambda>(k, _). k \<noteq> sysMgmtdHostKey \<and> k \<noteq> volDirBasePathKey) m). param_ok k v)"
    (is "?all \<longleftrightarrow> _ \<and> ?rest")
proof (intro iffI conjI)
  assume all: ?all
  have "(sysMgmtdHostKey, host) \<in> set m" using assms(2) by (rule map_of_SomeD)
  with all show "host \<noteq> ''''" using param_ok_single(1) by blast
  show ?rest using all by simp
next
  assume rest: "host \<noteq> '''' \<and> ?rest"
  have "param_ok k v" if in_m: "(k, v) \<in> set m" for k v
  proof -
    have "v = host" if "k = sysMgmtdHostKey" using that in_m assms by (metis map_of_is_SomeI option.inject)
    moreover have "param_ok k v" if "k \<noteq> sysMgmtdHostKey" "k \<noteq> volDirBasePathKey" using that in_m rest by simp
    ultimately show ?thesis using rest param_ok_single by blast
  qed
  then show ?all by blast
qed

lemma validateReqParams_Inr:
  assumes "is_map m"
  shows "validateReqParams m = Inr (rp, rest) \<longleftrightarrow>
    (\<forall>(k, v) \<in> set m. param_ok k v) \<and> sysMgmtdHostKey \<in> fst ` set m \<and> volDirBasePathKey \<in> fst ` set m
    \<and> rp = params_of (map_of m) \<and> rest = []"
proof (cases "map_of m sysMgmtdHostKey")
  case None
  then have "sysMgmtdHostKey \<notin> fst ` set m" by (simp add: map_of_eq_None_iff)
  with None show ?thesis by (simp add: validateReqParams_def)
next
  case (Some host)
  show ?thesis
  proof (cases "map_of m volDirBasePathKey")
    case None
    then have "volDirBasePathKey \<notin> fst ` set m" by (simp add: map_of_eq_None_iff)
    with None Some show ?thesis by (simp add: validateReqParams_def delete_conv')
  next
    case base: (Some base)
    let ?m = "filter (\<lambda>(k, _). k \<noteq> sysMgmtdHostKey \<and> k \<noteq> volDirBasePathKey) m"
    have ok: "(\<forall>(k, v) \<in> set m. param_ok k v) \<longleftrightarrow> host \<noteq> '''' \<and> (\<forall>(k, v) \<in> set ?m. param_ok k v)"
      by (rule all_param_ok [OF assms Some])
    have same: "map_of ?m k = map_of m k" if "k \<noteq> sysMgmtdHostKey" "k \<noteq> volDirBasePathKey" for k
      using that map_of_filter_key [of "\<lambda>k. k \<noteq> sysMgmtdHostKey \<and> k \<noteq> volDirBasePathKey" m k] by simp
    have keys: "sysMgmtdHostKey \<in> fst ` set m" "volDirBasePathKey \<in> fst ` set m"
      using Some base by (auto dest: map_of_SomeD intro: rev_image_eqI)
    show ?thesis
    proof (cases "host = ''''")
      case True
      then show ?thesis using Some ok by (simp add: validateReqParams_def)
    next
      case False
      have "is_map ?m" "\<forall>(k, _) \<in> set ?m. k \<noteq> sysMgmtdHostKey \<and> k \<noteq> volDirBasePathKey"
        using assms by (auto intro: is_map_filter)
      note rest = validate_rest [OF this]
      have fields: "volStripePatternConfig (params_of (map_of ?m)) = volStripePatternConfig (params_of (map_of m))"
        "volPermissionsConfig (params_of (map_of ?m)) = volPermissionsConfig (params_of (map_of m))"
        by (simp_all add: params_of_def same)
      have eq: "validateReqParams m = Inr (rp, rest) \<longleftrightarrow> (\<forall>(k, v) \<in> set ?m. param_ok k v) \<and> rest = [] \<and>
          rp = \<lparr> rp_sysMgmtdHost = host, rp_volDirBasePathBeegfsRoot = path_Clean (path_Join [''/'', base]),
             volStripePatternConfig = volStripePatternConfig (params_of (map_of m)),
             volPermissionsConfig = volPermissionsConfig (params_of (map_of m)) \<rparr>"
        unfolding fields [symmetric] using Some base False
        by (simp add: validateReqParams_def Let_def delete_conv' delete_two rest)
      moreover have "params_of (map_of m) = \<lparr> rp_sysMgmtdHost = host, rp_volDirBasePathBeegfsRoot = path_Clean (path_Join [''/'', base]),
             volStripePatternConfig = volStripePatternConfig (params_of (map_of m)),
             volPermissionsConfig = volPermissionsConfig (params_of (map_of m)) \<rparr>"
        using Some base by (simp add: params_of_def)
      ultimately show ?thesis using ok keys False by auto
    qed
  qed
qed

text \<open>C18. Which parameters of a request are accepted and what they mean. \<open>validateReqParams\<close> succeeds exactly when
  the host is given and not empty, the base path is given, every other parameter is one of the known six and
  every value can be read; the result depends only on the contents of the map, not on the order in which Go
  visits it, and it holds the given values, with numbers read without loss, or the defaults. The caller's map
  is left empty.\<close>

theorem validateReqParams_iff:
  assumes "is_map m"
  shows "validateReqParams m = Inr (rp, rest) \<longleftrightarrow>
    (\<forall>(k, v) \<in> set m. param_ok k v) \<and> sysMgmtdHostKey \<in> fst ` set m \<and> volDirBasePathKey \<in> fst ` set m
    \<and> rp = params_of (map_of m) \<and> rest = []"
  using assms by (rule validateReqParams_Inr)

definition sample_params :: gomap where
  "sample_params =
     [(permissionsModeKey, ''1755''), (sysMgmtdHostKey, ''10.0.0.1''), (stripePatternChunkSizeKey, ''1m''),
      (volDirBasePathKey, ''/a/../scratch'')]"

lemma sample_params_nonempty: "sample_params \<noteq> []"
  by (simp add: sample_params_def)

lemma sample_params_facts:
  "is_map sample_params" "ParseUint ''1755'' 8 12 = Inr 0x3ED" "chunk_size ''1m''"
  "path_Clean (path_Join [''/'', ''/a/../scratch'']) = ''/scratch''"
  by (simp add: sample_params_def key_defs) code_simp+

lemma sample_params_valid:
  "validateReqParams sample_params =
     Inr (\<lparr> rp_sysMgmtdHost = ''10.0.0.1'', rp_volDirBasePathBeegfsRoot = ''/scratch'',
            volStripePatternConfig = \<lparr> storagePoolID = '''', stripePatternChunkSize = ''1m'', stripePatternNumTargets = '''' \<rparr>,
            volPermissionsConfig = \<lparr> uid = 0, gid = 0, mode = 0x3ED \<rparr> \<rparr>, [])"
proof -
  have "\<forall>(k, v) \<in> set sample_params. param_ok k v"
    by (auto simp: sample_params_def param_ok_def stripe_ok_def permission_ok_def parses_def sample_params_facts)
  moreover have "params_of (map_of sample_params) = \<lparr> rp_sysMgmtdHost = ''10.0.0.1'', rp_volDirBasePathBeegfsRoot = ''/scratch'',
      volStripePatternConfig = \<lparr> storagePoolID = '''', stripePatternChunkSize = ''1m'', stripePatternNumTargets = '''' \<rparr>,
      volPermissionsConfig = \<lparr> uid = 0, gid = 0, mode = 0x3ED \<rparr> \<rparr>"
    by (simp add: params_of_def sample_params_facts(2) parsed_def) (simp add: sample_params_def key_defs sample_params_facts parsed_def)
  moreover have "sysMgmtdHostKey \<in> fst ` set sample_params" "volDirBasePathKey \<in> fst ` set sample_params"
    by (simp_all add: sample_params_def)
  ultimately show ?thesis using validateReqParams_Inr [OF sample_params_facts(1)] by metis
qed

theorem validateReqParams_iff_witness:
  "validateReqParams sample_params =
     Inr (\<lparr> rp_sysMgmtdHost = ''10.0.0.1'', rp_volDirBasePathBeegfsRoot = ''/scratch'',
            volStripePatternConfig = \<lparr> storagePoolID = '''', stripePatternChunkSize = ''1m'', stripePatternNumTargets = '''' \<rparr>,
            volPermissionsConfig = \<lparr> uid = 0, gid = 0, mode = 0x3ED \<rparr> \<rparr>, [])"
proof -
  have "\<forall>(k, v) \<in> set sample_params. param_ok k v"
    by (auto simp: sample_params_def param_ok_def stripe_ok_def permission_ok_def parses_def sample_params_facts)
  moreover have "params_of (map_of sample_params) = \<lparr> rp_sysMgmtdHost = ''10.0.0.1'', rp_volDirBasePathBeegfsRoot = ''/scratch'',
      volStripePatternConfig = \<lparr> storagePoolID = '''', stripePatternChunkSize = ''1m'', stripePatternNumTargets = '''' \<rparr>,
      volPermissionsConfig = \<lparr> uid = 0, gid = 0, mode = 0x3ED \<rparr> \<rparr>"
    by (simp add: params_of_def sample_params_facts(2) parsed_def) (simp add: sample_params_def key_defs sample_params_facts parsed_def)
  moreover have "sysMgmtdHostKey \<in> fst ` set sample_params" "volDirBasePathKey \<in> fst ` set sample_params"
    by (simp_all add: sample_params_def)
  ultimately show ?thesis using validateReqParams_iff [OF sample_params_facts(1)] by metis
qed

lemma parsed_exact:
  assumes "parses v base bits" and "bits \<le> LENGTH('a)"
  shows "ParseUint v base bits = Inr (unat (word_of_nat (parsed v base bits) :: 'a::len word)) \<and> parsed v base bits < 2 ^ bits"
proof -
  from assms(1) obtain n where n: "ParseUint v base bits = Inr n" by (auto simp: parses_def split: sum.splits)
  then have b: "n < 2 ^ bits" by (rule ParseUint_bound)
  also have "\<dots> \<le> 2 ^ LENGTH('a)" using assms(2) by (simp add: power_increasing)
  finally have "unat (word_of_nat n :: 'a word) = n" by (simp add: unsigned_of_nat take_bit_nat_eq_self)
  with n b show ?thesis by (simp add: parsed_def)
qed

text \<open>C37. Reading numbers loses nothing: when a request is accepted, the owner, the group and the mode it gives are
  read in base 10 and 8, fit 32 and 12 bits, and the fields of the result hold exactly these numbers, so the
  conversions to \<open>uint32\<close> and \<open>uint16\<close> never wrap.\<close>

theorem permissions_exact:
  assumes "is_map m" and "validateReqParams m = Inr (rp, rest)"
  shows "(map_of m permissionsUIDKey = Some u \<longrightarrow>
           ParseUint u 10 32 = Inr (unat (uid (volPermissionsConfig rp))))
    \<and> (map_of m permissionsGIDKey = Some g \<longrightarrow>
           ParseUint g 10 32 = Inr (unat (gid (volPermissionsConfig rp))))
    \<and> (map_of m permissionsModeKey = Some p \<longrightarrow>
           ParseUint p 8 12 = Inr (unat (mode (volPermissionsConfig rp))) \<and> mode (volPermissionsConfig rp) < 0x1000)"
proof -
  have ok: "\<And>k v. map_of m k = Some v \<Longrightarrow> param_ok k v" and rp: "rp = params_of (map_of m)"
    using assms(2) unfolding validateReqParams_Inr [OF assms(1)] by (auto dest: map_of_SomeD)
  have parses: "map_of m permissionsUIDKey = Some u \<Longrightarrow> parses u 10 32" "map_of m permissionsGIDKey = Some g \<Longrightarrow> parses g 10 32"
    "map_of m permissionsModeKey = Some p \<Longrightarrow> parses p 8 12"
    by (drule ok, simp add: param_ok_groups permission_ok_def)+
  have "word_of_nat (parsed p 8 12) < (0x1000 :: 16 word)" if "parses p 8 12"
    using parsed_exact [OF that, where 'a = 16] by (simp add: word_less_nat_alt unsigned_of_nat take_bit_nat_eq_self)
  then show ?thesis
    using parsed_exact [OF parses(1), where 'a = 32] parsed_exact [OF parses(2), where 'a = 32] parsed_exact [OF parses(3), where 'a = 16] parses
    by (auto simp: rp params_of_def)
qed

theorem permissions_exact_witness:
  "ParseUint ''1755'' 8 12 = Inr (unat (mode (volPermissionsConfig (fst (projr (validateReqParams sample_params))))))"
proof -
  obtain r where "validateReqParams sample_params = Inr r"
    using validateReqParams_Inr [OF sample_params_facts(1)]
    by (auto simp: sample_params_def param_ok_def stripe_ok_def permission_ok_def parses_def sample_params_facts)
  moreover have "map_of sample_params permissionsModeKey = Some ''1755''" by (simp add: sample_params_def)
  ultimately show ?thesis
    using permissions_exact [OF sample_params_facts(1), of "fst r" "snd r" _ _ "''1755''"] by simp
qed

end
