(* ===== verification/Process.thy ===== *)
theory Process
  imports Thread_Safe Go_Env
begin

text \<open>
  How the handlers of the controller service are written. What the requests share are the volumes in flight, the status map
  and the world. A handler is a process: what it does next, and how it goes on with the answer. Each method of the lock and of
  the status map holds a mutex for its whole body and is a single action; the calls on the world between two such methods are
  one action of the process, which takes its time. \<open>exec\<close> runs a process on its own, which gives the function from
  states to states that a request without company computes; the theory \<open>Concurrency\<close> interleaves processes.
\<close>

subsection \<open>Panics and calls that do not return\<close>

fun is_panic :: "goerr \<Rightarrow> bool" where
  "is_panic (Panic _) = True"
| "is_panic _ = False"

text \<open>A call that does not return, wherever the callers wrapped it.\<close>

fun diverges_err :: "goerr \<Rightarrow> bool" where
  "diverges_err Diverged = True"
| "diverges_err (WithStack e) = diverges_err e"
| "diverges_err (WithMessage e _) = diverges_err e"
| "diverges_err (GrpcError _ e) = diverges_err e"
| "diverges_err _ = False"

definition diverges :: "goerr + 'a \<Rightarrow> bool" where
  "diverges r = (case r of Inl e \<Rightarrow> diverges_err e | Inr _ \<Rightarrow> False)"

subsection \<open>The shared state\<close>

record 'w controller_state =
  volumeIDsInFlight :: threadSafeStringLock
  volumeStatusMap :: threadSafeStatusMap
  world :: 'w

definition on_world :: "('w, 'a) state \<Rightarrow> ('w controller_state, 'a) state" where
  "on_world m = State (\<lambda>s. case run_state m (world s) of (x, w) \<Rightarrow> (x, s\<lparr>world := w\<rparr>))"

definition cs_readStatus :: "string \<Rightarrow> ('w controller_state, volumeStatus option) state" where
  "cs_readStatus vid = State (\<lambda>s. (readStatus vid (volumeStatusMap s), s))"

definition cs_writeStatus :: "string \<Rightarrow> volumeStatus \<Rightarrow> ('w controller_state, unit) state" where
  "cs_writeStatus vid st = State (\<lambda>s. ((), s\<lparr>volumeStatusMap := writeStatus vid st (volumeStatusMap s)\<rparr>))"

definition cs_obtainLock :: "string \<Rightarrow> ('w controller_state, bool) state" where
  "cs_obtainLock vid = State (\<lambda>s.
     case obtainLockOnString vid (volumeIDsInFlight s) of (ok, l) \<Rightarrow> (ok, s\<lparr>volumeIDsInFlight := l\<rparr>))"

definition cs_releaseLock :: "string \<Rightarrow> ('w controller_state, unit) state" where
  "cs_releaseLock vid = State (\<lambda>s. ((), s\<lparr>volumeIDsInFlight := releaseLockOnString vid (volumeIDsInFlight s)\<rparr>))"

subsection \<open>Processes\<close>

datatype ('w, 'a) process =
    Return 'a
  | ReadStatus string "volumeStatus option \<Rightarrow> ('w, 'a) process"
  | WriteStatus string volumeStatus "('w, 'a) process"
  | ObtainLock string "bool \<Rightarrow> ('w, 'a) process"
  | ReleaseLock string "('w, 'a) process"
  | OnWorld "('w, goerr + unit) state" "goerr + unit \<Rightarrow> ('w, 'a) process"

primrec andThen :: "('w, 'a) process \<Rightarrow> ('a \<Rightarrow> ('w, 'b) process) \<Rightarrow> ('w, 'b) process" where
  "andThen (Return x) k = k x"
| "andThen (ReadStatus vid c) k = ReadStatus vid (\<lambda>x. andThen (c x) k)"
| "andThen (WriteStatus vid st p) k = WriteStatus vid st (andThen p k)"
| "andThen (ObtainLock vid c) k = ObtainLock vid (\<lambda>x. andThen (c x) k)"
| "andThen (ReleaseLock vid p) k = ReleaseLock vid (andThen p k)"
| "andThen (OnWorld m c) k = OnWorld m (\<lambda>x. andThen (c x) k)"

text \<open>\<open>checked\<close> and \<open>guarded\<close> for processes.\<close>

definition checked_p :: "('w, goerr + 'a) process \<Rightarrow> (goerr \<Rightarrow> goerr) \<Rightarrow> ('a \<Rightarrow> ('w, goerr + 'b) process) \<Rightarrow> ('w, goerr + 'b) process" where
  "checked_p p wrap k = andThen p (\<lambda>r. case r of Inl e \<Rightarrow> Return (Inl (wrap e)) | Inr x \<Rightarrow> k x)"

definition guarded_p :: "goerr + 'a \<Rightarrow> (goerr \<Rightarrow> goerr) \<Rightarrow> ('a \<Rightarrow> ('w, goerr + 'b) process) \<Rightarrow> ('w, goerr + 'b) process" where
  "guarded_p r wrap k = (case r of Inl e \<Rightarrow> Return (Inl (wrap e)) | Inr x \<Rightarrow> k x)"

text \<open>\<open>defer\<close>: the deferred call runs when the body has returned or panicked, and may change the named results.\<close>

definition deferring :: "('w, goerr + 'a) process \<Rightarrow> (goerr + 'a \<Rightarrow> ('w, goerr + 'a) process) \<Rightarrow> ('w, goerr + 'a) process" where
  "deferring body d = andThen body (\<lambda>r. if diverges r then Return r else d r)"

abbreviation onWorld :: "('w, goerr + unit) state \<Rightarrow> ('w, goerr + unit) process" where
  "onWorld m \<equiv> OnWorld m Return"

subsection \<open>A process on its own\<close>

primrec exec :: "('w, 'a) process \<Rightarrow> ('w controller_state, 'a) state" where
  "exec (Return x) = ret x"
| "exec (ReadStatus vid k) = State_Monad.bind (cs_readStatus vid) (\<lambda>x. exec (k x))"
| "exec (WriteStatus vid st p) = State_Monad.bind (cs_writeStatus vid st) (\<lambda>_. exec p)"
| "exec (ObtainLock vid k) = State_Monad.bind (cs_obtainLock vid) (\<lambda>x. exec (k x))"
| "exec (ReleaseLock vid p) = State_Monad.bind (cs_releaseLock vid) (\<lambda>_. exec p)"
| "exec (OnWorld m k) = State_Monad.bind (on_world m) (\<lambda>x. exec (k x))"

lemma diverges_simps [simp]: "\<not> diverges (Inr x)" "diverges (Inl e) = diverges_err e"
  by (simp_all add: diverges_def)

lemma run_cs [go_run]:
  "run_state (on_world m) s = (case run_state m (world s) of (x, w) \<Rightarrow> (x, s\<lparr>world := w\<rparr>))"
  "run_state (cs_readStatus vid) s = (readStatus vid (volumeStatusMap s), s)"
  "run_state (cs_writeStatus vid st) s = ((), s\<lparr>volumeStatusMap := writeStatus vid st (volumeStatusMap s)\<rparr>)"
  "run_state (cs_releaseLock vid) s = ((), s\<lparr>volumeIDsInFlight := releaseLockOnString vid (volumeIDsInFlight s)\<rparr>)"
  by (simp_all add: on_world_def cs_readStatus_def cs_writeStatus_def cs_releaseLock_def)

lemma run_cs_obtainLock [go_run]:
  "run_state (cs_obtainLock vid) s =
     (vid \<notin> lock_items (volumeIDsInFlight s),
      s\<lparr>volumeIDsInFlight := snd (obtainLockOnString vid (volumeIDsInFlight s))\<rparr>)"
  by (simp add: cs_obtainLock_def split_beta volume_lock.obtain_result)

lemma run_exec_andThen [go_run]:
  "run_state (exec (andThen p k)) s = (case run_state (exec p) s of (x, s') \<Rightarrow> run_state (exec (k x)) s')"
  by (induction p arbitrary: s) (simp_all split: prod.splits)

lemma run_exec_checked_p [go_run]:
  "run_state (exec (checked_p p wrap k)) s =
     (case run_state (exec p) s of (Inl e, s') \<Rightarrow> (Inl (wrap e), s') | (Inr x, s') \<Rightarrow> run_state (exec (k x)) s')"
  by (simp add: checked_p_def run_exec_andThen split: prod.splits sum.splits)

lemma run_exec_deferring [go_run]:
  "run_state (exec (deferring body d)) s =
     (case run_state (exec body) s of (r, s') \<Rightarrow> if diverges r then (r, s') else run_state (exec (d r)) s')"
  by (simp add: deferring_def run_exec_andThen split: prod.splits)

lemma exec_guarded_p: "exec (guarded_p r wrap k) = guarded r wrap (\<lambda>x. exec (k x))"
  by (simp add: guarded_p_def guarded_def split: sum.split)

lemma run_exec_onWorld [go_run]: "run_state (exec (onWorld m)) s = run_state (on_world m) s"
  by (simp split: prod.splits)

end
