(* ===== verification/Controller.thy ===== *)
theory Controller
  imports Ctl Params Process
begin

text \<open>
  pkg/beegfs/controllerserver.go: the controller service. Its mutable state is the set of volume IDs in flight,
  the status map and the world outside; the rest of \<open>controllerServer\<close> does not change. A handler is a
  process on that state. The parts of a handler that only act on the world are computations on the world, which are
  single actions of the process. A handler \<open>H_process\<close> is the code; \<open>H\<close> is what it computes when it runs alone.
\<close>

subsection \<open>Errors for the caller\<close>

text \<open>\<open>newGrpcErrorFromCause\<close> (server.go); \<open>None\<close> is a nil cause.\<close>

definition newGrpcErrorFromCause :: "grpc_code \<Rightarrow> goerr option \<Rightarrow> goerr" where
  "newGrpcErrorFromCause code cause =
     (let cause = (case cause of None \<Rightarrow> ErrorsNew '''' | Some e \<Rightarrow> e)
      in GrpcError (StatusError code (err_msg cause)) cause)"

abbreviation internal :: "goerr \<Rightarrow> goerr" where
  "internal e \<equiv> newGrpcErrorFromCause Internal (Some e)"

subsection \<open>The state\<close>

record 'w controllerServer =
  ctlExec :: "'w ctl_exec"
  cs_nodeID :: string
  cs_pluginConfig :: PluginConfig
  clientConfTemplatePath :: string
  csDataDir :: string
  nodeUnstageTimeout :: "64 word"

definition newControllerServer ::
  "'w os_env \<Rightarrow> string \<Rightarrow> PluginConfig \<Rightarrow> string \<Rightarrow> string \<Rightarrow> 64 word \<Rightarrow> ('w, goerr + 'w controllerServer \<times> 'w controller_state) state"
where
  "newControllerServer env nodeID pluginConfig templatePath dataDir timeout =
     checked (newBeeGFSCtlExecutor env) id (\<lambda>executor.
     State_Monad.bind State_Monad.get (\<lambda>w.
     ret (Inr (\<lparr> ctlExec = executor, cs_nodeID = nodeID, cs_pluginConfig = pluginConfig,
                 clientConfTemplatePath = templatePath, csDataDir = dataDir, nodeUnstageTimeout = timeout \<rparr>,
               \<lparr> volumeIDsInFlight = newThreadSafeStringLock, volumeStatusMap = newThreadSafeStatusMap, world = w \<rparr>))))"

definition newControllerServerSanity ::
  "string \<Rightarrow> PluginConfig \<Rightarrow> string \<Rightarrow> string \<Rightarrow> 64 word \<Rightarrow> 'w \<Rightarrow> 'w controllerServer \<times> 'w controller_state"
where
  "newControllerServerSanity nodeID pluginConfig templatePath dataDir timeout w =
     (\<lparr> ctlExec = fakeBeegfsCtlExecutor, cs_nodeID = nodeID, cs_pluginConfig = pluginConfig,
        clientConfTemplatePath = templatePath, csDataDir = dataDir, nodeUnstageTimeout = timeout \<rparr>,
      \<lparr> volumeIDsInFlight = newThreadSafeStringLock, volumeStatusMap = newThreadSafeStatusMap, world = w \<rparr>)"

text \<open>Obtain exclusive control over a volume, or give up; release it in a deferred call.\<close>

definition exclusively :: "string \<Rightarrow> ('w, goerr + 'a) process \<Rightarrow> ('w, goerr + 'a) process" where
  "exclusively vid body =
     ObtainLock vid (\<lambda>ok.
     if \<not> ok then
       Return (Inl (StatusError Aborted (''volumeID '' @ vid @ '' is in use by another request; check BeeGFS network ''
         @ ''configuration if this problem persists'')))
     else deferring body (\<lambda>r. ReleaseLock vid (Return r)))"

subsection \<open>Volumes\<close>

definition cs_newBeegfsVolume :: "'w controllerServer \<Rightarrow> string \<Rightarrow> string \<Rightarrow> string \<Rightarrow> goerr + beegfsVolume" where
  "cs_newBeegfsVolume cs host base volName =
     (let volDirPathRoot = path_Join [base, volName];
          volID = NewBeegfsURL host volDirPathRoot;
          mountDir = path_Join [csDataDir cs, sanitizeVolumeID volID]
      in newBeegfsVolume mountDir host volDirPathRoot (cs_pluginConfig cs))"

definition cs_newBeegfsVolumeFromID :: "'w controllerServer \<Rightarrow> string \<Rightarrow> goerr + beegfsVolume" where
  "cs_newBeegfsVolumeFromID cs volID =
     newBeegfsVolumeFromID (path_Join [csDataDir cs, sanitizeVolumeID volID]) volID (cs_pluginConfig cs)"

subsection \<open>CreateVolume\<close>

record CreateVolumeRequest =
  Name :: string
  cv_VolumeCapabilities :: "volume_capability list"
  cv_Parameters :: gomap

text \<open>Special permissions need a mount.\<close>

definition applySpecialPermissions :: "'w os_env \<Rightarrow> beegfsVolume \<Rightarrow> permissionsConfig \<Rightarrow> ('w, goerr + unit) state" where
  "applySpecialPermissions env vol perms =
     (if hasSpecialPermissions perms then
        checked (mountIfNecessary env vol []) internal (\<lambda>_.
        checked (os_Chmod env (volDirPath vol) (goFileMode perms)) internal (\<lambda>_. ret (Inr ())))
      else ret (Inr ()))"

text \<open>Node tracking is best effort.\<close>

definition createNodesDir :: "'w controllerServer \<Rightarrow> beegfsVolume \<Rightarrow> ('w, goerr + unit) state" where
  "createNodesDir cs vol =
     (if nodeUnstageTimeout cs > 0 then
        State_Monad.bind (createDirectoryForVolume (ctlExec cs) vol (path_Join [csiDirPathBeegfsRoot vol, ''nodes''])
            \<lparr> uid = 0, gid = 0, mode = 0x1E8 \<rparr>) (\<lambda>r.
        if diverges r then ret r else ret (Inr ()))
      else ret (Inr ()))"

definition createOnWorld ::
  "'w os_env \<Rightarrow> 'i ini_lib \<Rightarrow> 'w controllerServer \<Rightarrow> beegfsVolume \<Rightarrow> reqParameters \<Rightarrow> ('w, goerr + unit) state"
where
  "createOnWorld env lib cs vol params =
     checked (os_MkdirAll env (mountDirPath vol) 0x1E8) (\<lambda>e. internal (WithStack e)) (\<lambda>_.
     checked (writeClientFiles env lib vol (clientConfTemplatePath cs)) internal (\<lambda>_.
     checked (createDirectoryForVolume (ctlExec cs) vol (volDirPathBeegfsRoot vol) (volPermissionsConfig params)) internal (\<lambda>_.
     checked (setPatternForVolume (ctlExec cs) vol (volStripePatternConfig params)) internal (\<lambda>_.
     checked (applySpecialPermissions env vol (volPermissionsConfig params)) id (\<lambda>_.
     createNodesDir cs vol)))))"

text \<open>What happens under the lock: the deferred clean-up runs whatever the outcome, and its error is only logged.\<close>

definition createAttempt ::
  "'w os_env \<Rightarrow> 'i ini_lib \<Rightarrow> 'w controllerServer \<Rightarrow> beegfsVolume \<Rightarrow> reqParameters \<Rightarrow> ('w, goerr + string) process"
where
  "createAttempt env lib cs vol params =
     deferring
       (checked_p (onWorld (createOnWorld env lib cs vol params)) id (\<lambda>_.
        WriteStatus (volumeID vol) statusCreated
          (Return (Inr (volumeID vol)))))
       (\<lambda>r. OnWorld (unmountAndCleanUpIfNecessary env vol True) (\<lambda>c.
          if diverges c then Return (Inl Diverged) else Return r))"

definition CreateVolume_process ::
  "'w os_env \<Rightarrow> 'i ini_lib \<Rightarrow> 'w controllerServer \<Rightarrow> CreateVolumeRequest \<Rightarrow> ('w, goerr + string) process"
where
  "CreateVolume_process env lib cs req =
     (if length (Name req) = 0 then Return (Inl (StatusError InvalidArgument ''Volume name not provided''))
      else if length (cv_VolumeCapabilities req) = 0 then Return (Inl (StatusError InvalidArgument ''Volume capabilities not provided''))
      else case isValidVolumeCapabilities (cv_VolumeCapabilities req) of (valid, reason) \<Rightarrow>
      if \<not> valid then Return (Inl (StatusError InvalidArgument (''Volume capabilities not supported: '' @ reason)))
      else if length (cv_Parameters req) = 0 then Return (Inl (StatusError InvalidArgument ''Parameters not provided''))
      else guarded_p (validateReqParams (cv_Parameters req)) (\<lambda>err. newGrpcErrorFromCause InvalidArgument (Some err)) (\<lambda>(params, _).
      guarded_p (cs_newBeegfsVolume cs (rp_sysMgmtdHost params) (rp_volDirBasePathBeegfsRoot params) (Name req)) id (\<lambda>vol.
      ReadStatus (volumeID vol) (\<lambda>status.
      if status = Some statusCreated then Return (Inr (volumeID vol))
      else exclusively (volumeID vol)
        (createAttempt env lib cs vol params)))))"

text \<open>The handler without company.\<close>

definition CreateVolume ::
  "'w os_env \<Rightarrow> 'i ini_lib \<Rightarrow> 'w controllerServer \<Rightarrow> CreateVolumeRequest \<Rightarrow> ('w controller_state, goerr + string) state"
where
  "CreateVolume env lib cs req = exec (CreateVolume_process env lib cs req)"

subsection \<open>DeleteVolume\<close>

text \<open>\<open>time.Duration\<close> counts nanoseconds in an \<open>int64\<close>: the product wraps, the difference of two times saturates.\<close>

definition wait_limit :: "64 word \<Rightarrow> int" where
  "wait_limit waitTime = sint (waitTime * 1000000000)"

definition time_since :: "int \<Rightarrow> int \<Rightarrow> int" where
  "time_since start now = max (- (2 ^ 63)) (min (2 ^ 63 - 1) (now - start))"

definition removeCsiDir :: "'w os_env \<Rightarrow> beegfsVolume \<Rightarrow> ('w, goerr + unit) state" where
  "removeCsiDir env vol = checked (os_RemoveAll env (csiDirPath vol)) WithStack (\<lambda>_. ret (Inr ()))"

text \<open>The loop that waits for the nodes to unstage the volume; \<open>fuel\<close> bounds its rounds.\<close>

fun waitUnstaged :: "'w os_env \<Rightarrow> beegfsVolume \<Rightarrow> string \<Rightarrow> int \<Rightarrow> int \<Rightarrow> nat \<Rightarrow> ('w, goerr + unit) state" where
  "waitUnstaged env vol nodesPath limit start 0 = ret (Inl Diverged)"
| "waitUnstaged env vol nodesPath limit start (Suc fuel) =
     checked (os_DirExists env nodesPath) WithStack (\<lambda>dirExists.
     if dirExists then
       checked (os_IsEmpty env nodesPath) WithStack (\<lambda>isEmpty.
       if \<not> isEmpty then
         State_Monad.bind (time_Now env) (\<lambda>now.
         if time_since start now < limit then
           State_Monad.bind (time_Now env) (\<lambda>_.
           State_Monad.bind (time_Sleep env 2000000000) (\<lambda>_.
           waitUnstaged env vol nodesPath limit start fuel))
         else State_Monad.bind (os_ReadDir env nodesPath) (\<lambda>_. removeCsiDir env vol))
       else removeCsiDir env vol)
     else ret (Inr ()))"

definition deleteVolumeUntilWait :: "'w os_env \<Rightarrow> nat \<Rightarrow> beegfsVolume \<Rightarrow> 64 word \<Rightarrow> ('w, goerr + unit) state" where
  "deleteVolumeUntilWait env fuel vol waitTime =
     State_Monad.bind (time_Now env) (\<lambda>start.
     checked (waitUnstaged env vol (path_Join [csiDirPath vol, ''nodes'']) (wait_limit waitTime) start fuel) id (\<lambda>_.
     checked (os_RemoveAll env (volDirPath vol)) WithStack (\<lambda>_. ret (Inr ()))))"

definition deleteOnWorld ::
  "'w os_env \<Rightarrow> 'i ini_lib \<Rightarrow> nat \<Rightarrow> 'w controllerServer \<Rightarrow> beegfsVolume \<Rightarrow> ('w, goerr + unit) state"
where
  "deleteOnWorld env lib fuel cs vol =
     checked (os_MkdirAll env (mountDirPath vol) 0x1E8) (\<lambda>e. internal (WithStack e)) (\<lambda>_.
     checked (writeClientFiles env lib vol (clientConfTemplatePath cs)) internal (\<lambda>_.
     checked (mountIfNecessary env vol []) internal (\<lambda>_.
     checked (deleteVolumeUntilWait env fuel vol (nodeUnstageTimeout cs)) internal (\<lambda>_.
     ret (Inr ())))))"

text \<open>The deferred function changes the named results when the clean-up fails, and records the deletion only when
  both succeeded.\<close>

definition deleteAttempt ::
  "'w os_env \<Rightarrow> 'i ini_lib \<Rightarrow> nat \<Rightarrow> 'w controllerServer \<Rightarrow> beegfsVolume \<Rightarrow> ('w, goerr + unit) process"
where
  "deleteAttempt env lib fuel cs vol =
     deferring
       (onWorld (deleteOnWorld env lib fuel cs vol))
       (\<lambda>r. OnWorld (unmountAndCleanUpIfNecessary env vol True) (\<lambda>c.
          if diverges c then Return (Inl Diverged)
          else
            let r = (case c of Inl cleanupErr \<Rightarrow> (case r of Inl e \<Rightarrow> Inl e | Inr _ \<Rightarrow> Inl (internal cleanupErr)) | Inr _ \<Rightarrow> r)
            in (case r of
                  Inl e \<Rightarrow> Return r
                | Inr _ \<Rightarrow> WriteStatus (volumeID vol) statusDeleted (Return r))))"

definition DeleteVolume_process ::
  "'w os_env \<Rightarrow> 'i ini_lib \<Rightarrow> nat \<Rightarrow> 'w controllerServer \<Rightarrow> string \<Rightarrow> ('w, goerr + unit) process"
where
  "DeleteVolume_process env lib fuel cs volID =
     (if length volID = 0 then Return (Inl (StatusError InvalidArgument ''Volume ID not provided''))
      else case cs_newBeegfsVolumeFromID cs volID of
        Inl err \<Rightarrow> if is_panic err then Return (Inl err) else Return (Inr ())
      | Inr vol \<Rightarrow>
          ReadStatus (volumeID vol) (\<lambda>status.
          if status = Some statusDeleted then Return (Inr ())
          else exclusively (volumeID vol)
            (deleteAttempt env lib fuel cs vol)))"

definition DeleteVolume ::
  "'w os_env \<Rightarrow> 'i ini_lib \<Rightarrow> nat \<Rightarrow> 'w controllerServer \<Rightarrow> string \<Rightarrow> ('w controller_state, goerr + unit) state"
where
  "DeleteVolume env lib fuel cs volID = exec (DeleteVolume_process env lib fuel cs volID)"

subsection \<open>ValidateVolumeCapabilities and the rest of the service\<close>

record ValidateVolumeCapabilitiesRequest =
  vc_VolumeId :: string
  vc_VolumeCapabilities :: "volume_capability list"
  vc_Parameters :: gomap

datatype ValidateVolumeCapabilitiesResponse =
    Confirmed "volume_capability list" gomap
  | Message string

definition statOnWorld ::
  "'w os_env \<Rightarrow> 'i ini_lib \<Rightarrow> 'w controllerServer \<Rightarrow> beegfsVolume \<Rightarrow> ('w, goerr + unit) state"
where
  "statOnWorld env lib cs vol =
     checked (os_MkdirAll env (mountDirPath vol) 0x1E8) (\<lambda>e. internal (WithStack e)) (\<lambda>_.
     checked (writeClientFiles env lib vol (clientConfTemplatePath cs)) internal (\<lambda>_.
     State_Monad.bind (statDirectoryForVolume (ctlExec cs) vol (volDirPathBeegfsRoot vol)) (\<lambda>(_, err).
     case err of
       Some e \<Rightarrow>
         if errors_As is_ctlNotExistError e then ret (Inl (newGrpcErrorFromCause NotFound (Some e)))
         else ret (Inl (internal e))
     | None \<Rightarrow> ret (Inr ()))))"

definition validateAttempt ::
  "'w os_env \<Rightarrow> 'i ini_lib \<Rightarrow> 'w controllerServer \<Rightarrow> beegfsVolume \<Rightarrow> volume_capability list \<Rightarrow> gomap
    \<Rightarrow> ('w, goerr + ValidateVolumeCapabilitiesResponse) process"
where
  "validateAttempt env lib cs vol volCaps params =
     deferring
       (checked_p (onWorld (statOnWorld env lib cs vol)) id (\<lambda>_.
        Return (Inr (case isValidVolumeCapabilities volCaps of (confirmed, reason) \<Rightarrow>
          if confirmed then Confirmed volCaps params else Message reason))))
       (\<lambda>r. OnWorld (cleanUpIfNecessary env vol True) (\<lambda>c.
          if diverges c then Return (Inl Diverged) else Return r))"

definition ValidateVolumeCapabilities_process ::
  "'w os_env \<Rightarrow> 'i ini_lib \<Rightarrow> 'w controllerServer \<Rightarrow> ValidateVolumeCapabilitiesRequest
    \<Rightarrow> ('w, goerr + ValidateVolumeCapabilitiesResponse) process"
where
  "ValidateVolumeCapabilities_process env lib cs req =
     (if length (vc_VolumeId req) = 0 then Return (Inl (StatusError InvalidArgument ''Volume ID not provided''))
      else if length (vc_VolumeCapabilities req) = 0 then Return (Inl (StatusError InvalidArgument ''Volume capabilities not provided''))
      else guarded_p (if length (vc_Parameters req) \<noteq> 0 then bindE (validateReqParams (vc_Parameters req)) (\<lambda>(_, rest). Inr rest)
                    else Inr (vc_Parameters req))
        (\<lambda>err. StatusError InvalidArgument (err_msg err)) (\<lambda>params.
      guarded_p (cs_newBeegfsVolumeFromID cs (vc_VolumeId req))
        (\<lambda>err. if is_panic err then err
               else newGrpcErrorFromCause NotFound (Some (WithMessage err ''volume ID is invalid or the volume does not exist''))) (\<lambda>vol.
      exclusively (volumeID vol)
        (validateAttempt env lib cs vol (vc_VolumeCapabilities req) params))))"

definition ValidateVolumeCapabilities ::
  "'w os_env \<Rightarrow> 'i ini_lib \<Rightarrow> 'w controllerServer \<Rightarrow> ValidateVolumeCapabilitiesRequest
    \<Rightarrow> ('w controller_state, goerr + ValidateVolumeCapabilitiesResponse) state"
where
  "ValidateVolumeCapabilities env lib cs req = exec (ValidateVolumeCapabilities_process env lib cs req)"

datatype controller_capability = CREATE_DELETE_VOLUME | EXPAND_VOLUME

definition controllerCaps :: "controller_capability list" where
  "controllerCaps = [CREATE_DELETE_VOLUME, EXPAND_VOLUME]"

text \<open>A capability is wrapped into the message type of the service.\<close>

datatype ControllerServiceCapability = Rpc controller_capability

fun getControllerServiceCapabilities :: "controller_capability list \<Rightarrow> ControllerServiceCapability list" where
  "getControllerServiceCapabilities [] = []"
| "getControllerServiceCapabilities (cap # cl) = Rpc cap # getControllerServiceCapabilities cl"

definition ControllerGetCapabilities :: "ControllerServiceCapability list" where
  "ControllerGetCapabilities = getControllerServiceCapabilities controllerCaps"

text \<open>The requests that the driver does not implement.\<close>

definition controller_unimplemented :: "goerr + unit" where
  "controller_unimplemented = Inl (StatusError Unimplemented '''')"

text \<open>The request carries an optional capacity range; the code reads it without looking whether it is there.\<close>

definition ControllerExpandVolume :: "string \<Rightarrow> int option \<Rightarrow> goerr + int \<times> bool" where
  "ControllerExpandVolume volID capacityRange =
     (if length volID = 0 then Inl (StatusError InvalidArgument ''Volume ID not provided'')
      else case capacityRange of
        None \<Rightarrow> Inl (Panic ''invalid memory address or nil pointer dereference'')
      | Some requiredBytes \<Rightarrow> Inr (requiredBytes, False))"

subsection \<open>How a handler runs\<close>

lemma newGrpcErrorFromCause_Some: "newGrpcErrorFromCause c (Some e) = GrpcError (StatusError c (err_msg e)) e"
  by (simp add: newGrpcErrorFromCause_def)

lemma diverges_internal [simp]: "diverges_err (internal e) = diverges_err e"
  by (simp add: newGrpcErrorFromCause_Some)

lemma lock_eqI: "lock_items l = lock_items l' \<Longrightarrow> l = (l' :: threadSafeStringLock)"
  by simp

lemma obtain_busy: "vid \<in> lock_items l \<Longrightarrow> snd (obtainLockOnString vid l) = l"
  by (simp add: obtainLockOnString_def)

lemma release_obtained: "vid \<notin> lock_items l \<Longrightarrow> releaseLockOnString vid (snd (obtainLockOnString vid l)) = l"
  by (rule lock_eqI) (simp add: volume_lock.release_restores volume_lock.obtain_result)

abbreviation busy :: "string \<Rightarrow> goerr" where
  "busy vid \<equiv> StatusError Aborted (''volumeID '' @ vid @ '' is in use by another request; check BeeGFS network ''
     @ ''configuration if this problem persists'')"

lemma exclusively_busy: "vid \<in> lock_items (volumeIDsInFlight s) \<Longrightarrow> run_state (exec (exclusively vid body)) s = (Inl (busy vid), s)"
  by (simp add: exclusively_def go_run obtain_busy)

text \<open>The common shape of the three handlers: a computation on the world, a deferred clean-up of the world, and a
  last step that sees both results.\<close>

lemma exclusively_shape:
  assumes free: "vid \<notin> lock_items (volumeIDsInFlight s)"
    and body: "\<And>s. run_state (exec body) s =
       (case run_state m (world s) of (b, w1) \<Rightarrow>
          if diverges b then (Inl (g b), s\<lparr>world := w1\<rparr>)
          else case run_state cleanup w1 of (c, w2) \<Rightarrow>
            if diverges c then (Inl Diverged, k b w2 s)
            else (f b c, s\<lparr>world := w2, volumeStatusMap := h b c (volumeStatusMap s)\<rparr>))"
    and g: "\<And>b. diverges b \<Longrightarrow> diverges_err (g b)"
    and run: "run_state (exec (exclusively vid body)) s = (r, s')" "\<not> diverges r"
  obtains b w1 c w2 where "run_state m (world s) = (b, w1)" "\<not> diverges b" "run_state cleanup w1 = (c, w2)" "\<not> diverges c"
    "r = f b c" "s' = s\<lparr>world := w2, volumeStatusMap := h b c (volumeStatusMap s)\<rparr>"
proof -
  obtain b w1 where m: "run_state m (world s) = (b, w1)" by fastforce
  obtain c w2 where cl: "run_state cleanup w1 = (c, w2)" by fastforce
  have "\<not> diverges b \<and> \<not> diverges c \<and> r = f b c \<and> s' = s\<lparr>world := w2, volumeStatusMap := h b c (volumeStatusMap s)\<rparr>"
    using run free g [of b]
    by (auto simp: exclusively_def go_run body m cl release_obtained split: if_splits)
  then show ?thesis using that m cl by blast
qed

text \<open>The checks of a CreateVolume request, and the volume it asks for.\<close>

definition checkCreate :: "'w controllerServer \<Rightarrow> CreateVolumeRequest \<Rightarrow> goerr + reqParameters \<times> beegfsVolume" where
  "checkCreate cs req =
     (if Name req = '''' then Inl (StatusError InvalidArgument ''Volume name not provided'')
      else if cv_VolumeCapabilities req = [] then Inl (StatusError InvalidArgument ''Volume capabilities not provided'')
      else if \<not> fst (isValidVolumeCapabilities (cv_VolumeCapabilities req))
        then Inl (StatusError InvalidArgument (''Volume capabilities not supported: '' @ snd (isValidVolumeCapabilities (cv_VolumeCapabilities req))))
      else if cv_Parameters req = [] then Inl (StatusError InvalidArgument ''Parameters not provided'')
      else case validateReqParams (cv_Parameters req) of
             Inl err \<Rightarrow> Inl (newGrpcErrorFromCause InvalidArgument (Some err))
           | Inr (params, _) \<Rightarrow>
               bindE (cs_newBeegfsVolume cs (rp_sysMgmtdHost params) (rp_volDirBasePathBeegfsRoot params) (Name req))
                 (\<lambda>vol. Inr (params, vol)))"

lemma CreateVolume_process_eq:
  "CreateVolume_process env lib cs req =
     guarded_p (checkCreate cs req) id (\<lambda>(params, vol).
       ReadStatus (volumeID vol) (\<lambda>status.
       if status = Some statusCreated then Return (Inr (volumeID vol))
       else exclusively (volumeID vol) (createAttempt env lib cs vol params)))"
  unfolding CreateVolume_process_def checkCreate_def
  by (simp add: split_beta guarded_p_def bindE_def split: sum.split cong: if_cong)

lemma CreateVolume_eq:
  "CreateVolume env lib cs req =
     guarded (checkCreate cs req) id (\<lambda>(params, vol).
       State_Monad.bind (cs_readStatus (volumeID vol)) (\<lambda>status.
       if status = Some statusCreated then ret (Inr (volumeID vol))
       else exec (exclusively (volumeID vol) (createAttempt env lib cs vol params))))"
  by (simp add: CreateVolume_def CreateVolume_process_eq exec_guarded_p split_beta' if_distrib [of exec] cong: if_cong)

lemma DeleteVolume_eq:
  "DeleteVolume env lib fuel cs volID =
     (if volID = [] then ret (Inl (StatusError InvalidArgument ''Volume ID not provided''))
      else case cs_newBeegfsVolumeFromID cs volID of
        Inl err \<Rightarrow> if is_panic err then ret (Inl err) else ret (Inr ())
      | Inr vol \<Rightarrow>
          State_Monad.bind (cs_readStatus (volumeID vol)) (\<lambda>status.
          if status = Some statusDeleted then ret (Inr ())
          else exec (exclusively (volumeID vol) (deleteAttempt env lib fuel cs vol))))"
  by (simp add: DeleteVolume_def DeleteVolume_process_def if_distrib [of exec] split: sum.split cong: if_cong)

lemma createAttempt_run:
  "run_state (exec (createAttempt env lib cs vol params)) s =
     (case run_state (createOnWorld env lib cs vol params) (world s) of (b, w1) \<Rightarrow>
        if diverges b then (Inl (projl b), s\<lparr>world := w1\<rparr>)
        else case run_state (unmountAndCleanUpIfNecessary env vol True) w1 of (c, w2) \<Rightarrow>
          if diverges c then (Inl Diverged, (if isl b then s\<lparr>world := w2\<rparr> else s\<lparr>world := w2, volumeStatusMap := writeStatus (volumeID vol) statusCreated (volumeStatusMap s)\<rparr>))
          else (map_sum id (\<lambda>_. volumeID vol) b, s\<lparr>world := w2, volumeStatusMap := (if isl b then id else writeStatus (volumeID vol) statusCreated) (volumeStatusMap s)\<rparr>))"
proof -
  obtain b w1 where m: "run_state (createOnWorld env lib cs vol params) (world s) = (b, w1)" by fastforce
  obtain c w2 where cl: "run_state (unmountAndCleanUpIfNecessary env vol True) w1 = (c, w2)" by fastforce
  show ?thesis
    by (cases b; cases "diverges b"; cases "diverges c") (simp_all add: createAttempt_def run_exec_deferring run_exec_checked_p run_cs m cl)
qed

lemma diverges_projl: "diverges b \<Longrightarrow> diverges_err (projl b)"
  by (cases b) simp_all

lemma CreateVolume_cases:
  assumes "run_state (CreateVolume env lib cs req) s = (r, s')" and "\<not> diverges r"
  obtains (rejected) e where "checkCreate cs req = Inl e" "r = Inl e" "s' = s"
  | (known) params vol where "checkCreate cs req = Inr (params, vol)"
      "readStatus (volumeID vol) (volumeStatusMap s) = Some statusCreated" "r = Inr (volumeID vol)" "s' = s"
  | (in_use) params vol where "checkCreate cs req = Inr (params, vol)"
      "readStatus (volumeID vol) (volumeStatusMap s) \<noteq> Some statusCreated"
      "volumeID vol \<in> lock_items (volumeIDsInFlight s)" "r = Inl (busy (volumeID vol))" "s' = s"
  | (tried) params vol b w1 c w2 where "checkCreate cs req = Inr (params, vol)"
      "readStatus (volumeID vol) (volumeStatusMap s) \<noteq> Some statusCreated"
      "volumeID vol \<notin> lock_items (volumeIDsInFlight s)"
      "run_state (createOnWorld env lib cs vol params) (world s) = (b, w1)" "\<not> diverges b"
      "run_state (unmountAndCleanUpIfNecessary env vol True) w1 = (c, w2)" "\<not> diverges c"
      "r = map_sum id (\<lambda>_. volumeID vol) b"
      "s' = s\<lparr>world := w2, volumeStatusMap := (if isl b then id else writeStatus (volumeID vol) statusCreated) (volumeStatusMap s)\<rparr>"
proof (cases "checkCreate cs req")
  case (Inl e)
  then have "r = Inl e" "s' = s" using assms(1) by (simp_all add: CreateVolume_eq)
  then show ?thesis by (rule that(1) [OF Inl])
next
  case (Inr p)
  then obtain params vol where ok: "checkCreate cs req = Inr (params, vol)" by (cases p) simp
  show ?thesis
  proof (cases "readStatus (volumeID vol) (volumeStatusMap s) = Some statusCreated")
    case True
    then have "r = Inr (volumeID vol)" "s' = s" using assms(1) ok by (simp_all add: CreateVolume_eq run_cs)
    then show ?thesis by (rule that(2) [OF ok True])
  next
    case False
    then have run: "run_state (exec (exclusively (volumeID vol) (createAttempt env lib cs vol params))) s = (r, s')"
      using assms(1) ok by (simp add: CreateVolume_eq run_cs)
    show ?thesis
    proof (cases "volumeID vol \<in> lock_items (volumeIDsInFlight s)")
      case True
      have "r = Inl (busy (volumeID vol))" "s' = s" using run unfolding exclusively_busy [OF True] by simp_all
      then show ?thesis by (rule that(3) [OF ok False True])
    next
      case free: False
      show ?thesis
        by (rule exclusively_shape [OF free createAttempt_run diverges_projl run assms(2)], assumption) (rule that(4) [OF ok False free])
    qed
  qed
qed

text \<open>DeleteVolume: the result of the deletion and of the deferred clean-up together.\<close>

fun delete_result :: "goerr + unit \<Rightarrow> goerr + unit \<Rightarrow> goerr + unit" where
  "delete_result (Inl e) c = Inl e"
| "delete_result (Inr _) (Inl e) = Inl (internal e)"
| "delete_result (Inr _) (Inr _) = Inr ()"

lemma deleteAttempt_run:
  "run_state (exec (deleteAttempt env lib fuel cs vol)) s =
     (case run_state (deleteOnWorld env lib fuel cs vol) (world s) of (b, w1) \<Rightarrow>
        if diverges b then (Inl (projl b), s\<lparr>world := w1\<rparr>)
        else case run_state (unmountAndCleanUpIfNecessary env vol True) w1 of (c, w2) \<Rightarrow>
          if diverges c then (Inl Diverged, s\<lparr>world := w2\<rparr>)
          else (delete_result b c, s\<lparr>world := w2, volumeStatusMap := (if isl (delete_result b c) then id else writeStatus (volumeID vol) statusDeleted) (volumeStatusMap s)\<rparr>))"
proof -
  obtain b w1 where m: "run_state (deleteOnWorld env lib fuel cs vol) (world s) = (b, w1)" by fastforce
  obtain c w2 where cl: "run_state (unmountAndCleanUpIfNecessary env vol True) w1 = (c, w2)" by fastforce
  show ?thesis
    by (cases b; cases c; cases "diverges b"; cases "diverges c") (simp_all add: deleteAttempt_def run_exec_deferring run_cs m cl)
qed

lemma DeleteVolume_cases:
  assumes "run_state (DeleteVolume env lib fuel cs volID) s = (r, s')" and "\<not> diverges r"
  obtains (rejected) "volID = []" "r = Inl (StatusError InvalidArgument ''Volume ID not provided'')" "s' = s"
  | (not_ours) e where "volID \<noteq> []" "cs_newBeegfsVolumeFromID cs volID = Inl e" "r = (if is_panic e then Inl e else Inr ())" "s' = s"
  | (known) vol where "volID \<noteq> []" "cs_newBeegfsVolumeFromID cs volID = Inr vol"
      "readStatus (volumeID vol) (volumeStatusMap s) = Some statusDeleted" "r = Inr ()" "s' = s"
  | (in_use) vol where "volID \<noteq> []" "cs_newBeegfsVolumeFromID cs volID = Inr vol"
      "readStatus (volumeID vol) (volumeStatusMap s) \<noteq> Some statusDeleted"
      "volumeID vol \<in> lock_items (volumeIDsInFlight s)" "r = Inl (busy (volumeID vol))" "s' = s"
  | (tried) vol b w1 c w2 where "volID \<noteq> []" "cs_newBeegfsVolumeFromID cs volID = Inr vol"
      "readStatus (volumeID vol) (volumeStatusMap s) \<noteq> Some statusDeleted"
      "volumeID vol \<notin> lock_items (volumeIDsInFlight s)"
      "run_state (deleteOnWorld env lib fuel cs vol) (world s) = (b, w1)" "\<not> diverges b"
      "run_state (unmountAndCleanUpIfNecessary env vol True) w1 = (c, w2)" "\<not> diverges c"
      "r = delete_result b c"
      "s' = s\<lparr>world := w2, volumeStatusMap := (if isl (delete_result b c) then id else writeStatus (volumeID vol) statusDeleted) (volumeStatusMap s)\<rparr>"
proof (cases "volID = []")
  case True
  then show ?thesis using assms(1) by (intro that(1)) (simp_all add: DeleteVolume_eq)
next
  case nonempty: False
  show ?thesis
  proof (cases "cs_newBeegfsVolumeFromID cs volID")
    case (Inl e)
    with assms(1) nonempty have "r = (if is_panic e then Inl e else Inr ())" "s' = s" by (auto simp: DeleteVolume_eq split: if_splits)
    then show ?thesis by (rule that(2) [OF nonempty Inl])
  next
    case (Inr vol)
    show ?thesis
    proof (cases "readStatus (volumeID vol) (volumeStatusMap s) = Some statusDeleted")
      case True
      then have "r = Inr ()" "s' = s" using assms(1) nonempty Inr by (simp_all add: DeleteVolume_eq run_cs)
      then show ?thesis by (rule that(3) [OF nonempty Inr True])
    next
      case False
      show ?thesis
      proof (cases "volumeID vol \<in> lock_items (volumeIDsInFlight s)")
        case True
        have "r = Inl (busy (volumeID vol))" "s' = s"
          using assms(1) nonempty False unfolding DeleteVolume_eq Inr sum.case
          by (simp_all add: run_cs exclusively_busy [OF True])
        then show ?thesis by (rule that(4) [OF nonempty Inr False True])
      next
        case free: False
        have run: "run_state (exec (exclusively (volumeID vol) (deleteAttempt env lib fuel cs vol))) s = (r, s')"
          using assms(1) nonempty Inr False by (simp add: DeleteVolume_eq run_cs)
        show ?thesis
          by (rule exclusively_shape [OF free deleteAttempt_run diverges_projl run assms(2)], assumption)
            (rule that(5) [OF nonempty Inr False free])
      qed
    qed
  qed
qed

text \<open>ValidateVolumeCapabilities: the checks of the request, and the answer once the volume is known to exist.\<close>

definition checkValidate :: "'w controllerServer \<Rightarrow> ValidateVolumeCapabilitiesRequest \<Rightarrow> goerr + gomap \<times> beegfsVolume" where
  "checkValidate cs req =
     (if vc_VolumeId req = '''' then Inl (StatusError InvalidArgument ''Volume ID not provided'')
      else if vc_VolumeCapabilities req = [] then Inl (StatusError InvalidArgument ''Volume capabilities not provided'')
      else case (if vc_Parameters req \<noteq> [] then bindE (validateReqParams (vc_Parameters req)) (\<lambda>(_, rest). Inr rest) else Inr []) of
             Inl err \<Rightarrow> Inl (StatusError InvalidArgument (err_msg err))
           | Inr params \<Rightarrow>
               (case cs_newBeegfsVolumeFromID cs (vc_VolumeId req) of
                  Inl err \<Rightarrow> Inl (if is_panic err then err
                    else newGrpcErrorFromCause NotFound (Some (WithMessage err ''volume ID is invalid or the volume does not exist'')))
                | Inr vol \<Rightarrow> Inr (params, vol)))"

definition validate_answer :: "volume_capability list \<Rightarrow> gomap \<Rightarrow> ValidateVolumeCapabilitiesResponse" where
  "validate_answer volCaps params =
     (if fst (isValidVolumeCapabilities volCaps) then Confirmed volCaps params else Message (snd (isValidVolumeCapabilities volCaps)))"

lemma Validate_process_eq:
  "ValidateVolumeCapabilities_process env lib cs req =
     guarded_p (checkValidate cs req) id (\<lambda>(params, vol).
       exclusively (volumeID vol) (validateAttempt env lib cs vol (vc_VolumeCapabilities req) params))"
  unfolding ValidateVolumeCapabilities_process_def checkValidate_def
  by (auto simp: guarded_p_def bindE_def split: sum.split prod.split)

lemma Validate_eq:
  "ValidateVolumeCapabilities env lib cs req =
     guarded (checkValidate cs req) id (\<lambda>(params, vol).
       exec (exclusively (volumeID vol) (validateAttempt env lib cs vol (vc_VolumeCapabilities req) params)))"
  by (simp add: ValidateVolumeCapabilities_def Validate_process_eq exec_guarded_p split_beta')

lemma validateAttempt_run:
  "run_state (exec (validateAttempt env lib cs vol caps params)) s =
     (case run_state (statOnWorld env lib cs vol) (world s) of (b, w1) \<Rightarrow>
        if diverges b then (Inl (projl b), s\<lparr>world := w1\<rparr>)
        else case run_state (cleanUpIfNecessary env vol True) w1 of (c, w2) \<Rightarrow>
          if diverges c then (Inl Diverged, s\<lparr>world := w2\<rparr>)
          else (map_sum id (\<lambda>_. validate_answer caps params) b, s\<lparr>world := w2, volumeStatusMap := id (volumeStatusMap s)\<rparr>))"
proof -
  obtain b w1 where m: "run_state (statOnWorld env lib cs vol) (world s) = (b, w1)" by fastforce
  obtain c w2 where cl: "run_state (cleanUpIfNecessary env vol True) w1 = (c, w2)" by fastforce
  show ?thesis
    by (cases b; cases "diverges b"; cases "diverges c")
      (simp_all add: validateAttempt_def validate_answer_def run_exec_deferring run_exec_checked_p run_cs m cl split_beta)
qed

lemma Validate_cases:
  assumes "run_state (ValidateVolumeCapabilities env lib cs req) s = (r, s')" and "\<not> diverges r"
  obtains (rejected) e where "checkValidate cs req = Inl e" "r = Inl e" "s' = s"
  | (in_use) params vol where "checkValidate cs req = Inr (params, vol)"
      "volumeID vol \<in> lock_items (volumeIDsInFlight s)" "r = Inl (busy (volumeID vol))" "s' = s"
  | (tried) params vol b w1 c w2 where "checkValidate cs req = Inr (params, vol)"
      "volumeID vol \<notin> lock_items (volumeIDsInFlight s)"
      "run_state (statOnWorld env lib cs vol) (world s) = (b, w1)" "\<not> diverges b"
      "run_state (cleanUpIfNecessary env vol True) w1 = (c, w2)" "\<not> diverges c"
      "r = map_sum id (\<lambda>_. validate_answer (vc_VolumeCapabilities req) params) b" "s' = s\<lparr>world := w2\<rparr>"
proof (cases "checkValidate cs req")
  case (Inl e)
  then have "r = Inl e" "s' = s" using assms(1) by (simp_all add: Validate_eq)
  then show ?thesis by (rule that(1) [OF Inl])
next
  case (Inr p)
  then obtain params vol where ok: "checkValidate cs req = Inr (params, vol)" by (cases p) simp
  then have run: "run_state (exec (exclusively (volumeID vol) (validateAttempt env lib cs vol (vc_VolumeCapabilities req) params))) s = (r, s')"
    using assms(1) by (simp add: Validate_eq)
  show ?thesis
  proof (cases "volumeID vol \<in> lock_items (volumeIDsInFlight s)")
    case True
    have "r = Inl (busy (volumeID vol))" "s' = s" using run unfolding exclusively_busy [OF True] by simp_all
    then show ?thesis by (rule that(2) [OF ok True])
  next
    case free: False
    show ?thesis
      by (rule exclusively_shape [OF free validateAttempt_run diverges_projl run assms(2)], assumption)
        (rule that(3) [OF ok free], assumption+, simp)
  qed
qed

subsection \<open>A controller in a calm world\<close>

text \<open>A controller whose world answers every call with success, used to show that the hypotheses of the properties
  can be met.\<close>

definition succeeds :: "('s, goerr + 'a) state \<Rightarrow> bool" where
  "succeeds m = (\<forall>s. \<exists>x s'. run_state m s = (Inr x, s'))"

lemma succeeds_checked:
  assumes "succeeds m" and "\<And>x. succeeds (k x)"
  shows "succeeds (checked m wrap k)"
  unfolding succeeds_def
proof
  fix s
  obtain x s1 where 1: "run_state m s = (Inr x, s1)" using assms(1) unfolding succeeds_def by blast
  obtain y s2 where "run_state (k x) s1 = (Inr y, s2)" using assms(2) unfolding succeeds_def by blast
  with 1 show "\<exists>y s'. run_state (checked m wrap k) s = (Inr y, s')" by (simp add: run_checked)
qed

lemma succeeds_intros:
  "succeeds (ret (Inr x))"
  "succeeds (logged (ret (Inr y)) ev)"
  "(b \<Longrightarrow> succeeds n) \<Longrightarrow> (\<not> b \<Longrightarrow> succeeds n') \<Longrightarrow> succeeds (if b then n else n')"
  by (simp_all add: succeeds_def split_paired_all run_logged)

definition sample_cs :: "(unit \<times> event list) controllerServer" where
  "sample_cs =
     \<lparr> ctlExec = beegfsCtlDispatcher (traced (calm_env [])), cs_nodeID = ''node1'', cs_pluginConfig = zeroPluginConfig,
       clientConfTemplatePath = ''/tmpl'', csDataDir = ''/data'', nodeUnstageTimeout = 60 \<rparr>"

definition sample_req :: CreateVolumeRequest where
  "sample_req =
     \<lparr> Name = ''vol1'', cv_VolumeCapabilities = [\<lparr>access = AccessMount []\<rparr>], cv_Parameters = sample_params \<rparr>"

definition sample_state :: "(unit \<times> event list) controller_state" where
  "sample_state =
     \<lparr> volumeIDsInFlight = newThreadSafeStringLock, volumeStatusMap = newThreadSafeStatusMap, world = ((), []) \<rparr>"

lemma calm_writeClientFiles:
  "config vol = NewBeegfsConfig \<Longrightarrow> succeeds (writeClientFiles (traced (calm_env [])) sample_lib vol tmpl)"
  by (simp add: succeeds_def split_paired_all writeClientFiles_def getEphemeralPortUDP_def writeListFile_def writeConnAuth_def writeTLSCert_def
      go_run sample_lib_def section_lib_def setConfigValueIfKeyExists_def setClientPort_def
      NewBeegfsConfig_def zeroBeegfsConfig_def client_conf_def)

lemma calm_mount:
  "succeeds (mountIfNecessary (traced (calm_env [])) vol opts)"
  "succeeds (unmountAndCleanUpIfNecessary (traced (calm_env [])) vol True)"
  "succeeds (cleanUpIfNecessary (traced (calm_env [])) vol True)"
  by (simp_all add: succeeds_def split_paired_all mountIfNecessary_def constructMountOptions_def ensureMountPoint_def
      unmountAndCleanUpIfNecessary_def cleanUpIfNecessary_def go_run Let_def)

lemma calm_execute: "run_state (execBeeGFSCmd (traced (calm_env [])) args h) (w, t) = (([], None), w, t @ [E_Run args (None, [], [])])"
  by (simp add: execBeeGFSCmd_def go_run ctl_error_def)

lemma calm_V8: "\<exists>s'. run_state (V8_execute (traced (calm_env [])) vol args) s = (([], None), s')"
  by (cases s) (simp add: V8_execute_def Let_def calm_execute)

lemma calm_detect:
  "\<exists>s'. run_state (detectCTLVersion (traced (calm_env [])) vol) s = (Inr (beegfsCtlExecutorV8 (traced (calm_env []))), s')"
proof -
  obtain s' where "run_state (V8_execute (traced (calm_env [])) vol [''node'', ''list'']) s = (([], None), s')"
    using calm_V8 by blast
  then show ?thesis by (simp add: detectCTLVersion_def del: split_paired_Ex)
qed

lemma calm_ctl:
  "succeeds (createDirectoryForVolume (beegfsCtlDispatcher (traced (calm_env []))) vol path cfg)"
  "succeeds (setPatternForVolume (beegfsCtlDispatcher (traced (calm_env []))) vol stripes)"
  "\<exists>s'. run_state (statDirectoryForVolume (beegfsCtlDispatcher (traced (calm_env []))) vol path) s = (([], None), s')"
proof -
  have 1: "\<exists>s'. run_state (createDirectoryForVolume (beegfsCtlDispatcher (traced (calm_env []))) vol path cfg) s = (Inr (), s')" for s
  proof -
    obtain s1 where "run_state (detectCTLVersion (traced (calm_env [])) vol) s = (Inr (beegfsCtlExecutorV8 (traced (calm_env []))), s1)"
      using calm_detect by blast
    moreover obtain s2 where "run_state (V8_execute (traced (calm_env [])) vol [''--mount=none'', ''entry'', ''info'', path]) s1 = (([], None), s2)"
      using calm_V8 by blast
    ultimately show ?thesis
      by (simp add: dispatch_defs beegfsCtlExecutorV8_def V8_createDirectoryForVolume_def V8_statDirectoryForVolume_def del: split_paired_Ex)
  qed
  have 2: "\<exists>s'. run_state (setPatternForVolume (beegfsCtlDispatcher (traced (calm_env []))) vol stripes) s = (Inr (), s')" for s
  proof -
    obtain s1 where "run_state (detectCTLVersion (traced (calm_env [])) vol) s = (Inr (beegfsCtlExecutorV8 (traced (calm_env []))), s1)"
      using calm_detect by blast
    moreover obtain s2 where "run_state (V8_execute (traced (calm_env [])) vol
        (fst (constructSetPatternForVolumeArgs stripes True) @ [volDirPathBeegfsRoot vol])) s1 = (([], None), s2)"
      using calm_V8 by blast
    ultimately show ?thesis
      by (simp add: dispatch_defs beegfsCtlExecutorV8_def V8_setPatternForVolume_def split_beta del: split_paired_Ex)
  qed
  have 3: "\<exists>s'. run_state (statDirectoryForVolume (beegfsCtlDispatcher (traced (calm_env []))) vol path) s = (([], None), s')"
  proof -
    obtain s1 where "run_state (detectCTLVersion (traced (calm_env [])) vol) s = (Inr (beegfsCtlExecutorV8 (traced (calm_env []))), s1)"
      using calm_detect by blast
    moreover obtain s2 where "run_state (V8_execute (traced (calm_env [])) vol [''--mount=none'', ''entry'', ''info'', path]) s1 = (([], None), s2)"
      using calm_V8 by blast
    ultimately show ?thesis by (simp add: dispatch_defs beegfsCtlExecutorV8_def V8_statDirectoryForVolume_def del: split_paired_Ex)
  qed
  show "succeeds (createDirectoryForVolume (beegfsCtlDispatcher (traced (calm_env []))) vol path cfg)"
    "succeeds (setPatternForVolume (beegfsCtlDispatcher (traced (calm_env []))) vol stripes)"
    "\<exists>s'. run_state (statDirectoryForVolume (beegfsCtlDispatcher (traced (calm_env []))) vol path) s = (([], None), s')"
    using 1 2 3 unfolding succeeds_def by blast+
qed

lemma sample_check:
  "\<exists>params vol. checkCreate sample_cs sample_req = Inr (params, vol) \<and> config vol = NewBeegfsConfig
     \<and> volumeID vol = NewBeegfsURL ''10.0.0.1'' ''/scratch/vol1''
     \<and> cs_newBeegfsVolumeFromID sample_cs (volumeID vol) = Inr vol
     \<and> volPermissionsConfig params = \<lparr> uid = 0, gid = 0, mode = 0x3ED \<rparr>"
proof -
  obtain params where params: "validateReqParams sample_params = Inr (params, [])"
      "rp_sysMgmtdHost params = ''10.0.0.1''" "rp_volDirBasePathBeegfsRoot params = ''/scratch''"
      "volPermissionsConfig params = \<lparr> uid = 0, gid = 0, mode = 0x3ED \<rparr>"
    using sample_params_valid by (metis reqParameters.select_convs(1,2,4))
  let ?url = "NewBeegfsURL ''10.0.0.1'' ''/scratch/vol1''"
  let ?dir = "path_Join [''/data'', sanitizeVolumeID ?url]"
  obtain vol where vol: "newBeegfsVolume ?dir ''10.0.0.1'' ''/scratch/vol1'' zeroPluginConfig = Inr vol" "config vol = NewBeegfsConfig"
    by (simp add: newBeegfsVolume_def squashConfigForSysMgmtdHost_def zeroPluginConfig_def overWriteBeegfsConfig_def
        client_conf_def NewBeegfsConfig_def zeroBeegfsConfig_def Let_def)
  have join: "path_Join [''/scratch'', ''vol1''] = ''/scratch/vol1''" by (simp add: path_defs)
  have host: "valid_host ''10.0.0.1''" by code_simp
  have id: "volumeID vol = ?url" using newBeegfsVolume_fields(12) [OF vol(1)] .
  have "cs_newBeegfsVolumeFromID sample_cs ?url = Inr vol"
    using newBeegfsVolumeFromID_volumeID [OF vol(1) host]
    by (simp add: cs_newBeegfsVolumeFromID_def sample_cs_def printed_path_def id)
  moreover have "checkCreate sample_cs sample_req = Inr (params, vol)"
    using vol params sample_params_nonempty
    by (simp add: checkCreate_def sample_req_def cs_newBeegfsVolume_def sample_cs_def join Let_def)
  ultimately show ?thesis using vol(2) id params(4) by (intro exI [of _ params] exI [of _ vol]) simp
qed

abbreviation sample_id :: string where
  "sample_id \<equiv> NewBeegfsURL ''10.0.0.1'' ''/scratch/vol1''"

lemma calm_createNodesDir: "succeeds (createNodesDir sample_cs vol)"
  unfolding succeeds_def
proof
  fix s :: "unit \<times> event list"
  obtain x s' where "run_state (createDirectoryForVolume (beegfsCtlDispatcher (traced (calm_env []))) vol
      (path_Join [csiDirPathBeegfsRoot vol, ''nodes'']) \<lparr> uid = 0, gid = 0, mode = 0x1E8 \<rparr>) s = (Inr x, s')"
    using calm_ctl(1) unfolding succeeds_def by blast
  then show "\<exists>x s'. run_state (createNodesDir sample_cs vol) s = (Inr x, s')"
    by (simp add: createNodesDir_def sample_cs_def del: split_paired_Ex)
qed

lemma calm_worlds:
  assumes "config vol = NewBeegfsConfig"
  shows "succeeds (createOnWorld (traced (calm_env [])) sample_lib sample_cs vol params)"
    and "succeeds (deleteOnWorld (traced (calm_env [])) sample_lib 1 sample_cs vol)"
    and "succeeds (statOnWorld (traced (calm_env [])) sample_lib sample_cs vol)"
proof -
  have ctl: "ctlExec sample_cs = beegfsCtlDispatcher (traced (calm_env []))" by (simp add: sample_cs_def)
  show "succeeds (createOnWorld (traced (calm_env [])) sample_lib sample_cs vol params)"
    unfolding createOnWorld_def applySpecialPermissions_def ctl traced_ops calm_ops
    by (intro succeeds_checked succeeds_intros calm_writeClientFiles calm_mount calm_ctl calm_createNodesDir assms)
  have "succeeds (deleteVolumeUntilWait (traced (calm_env [])) 1 vol n)" for n
    by (simp add: succeeds_def split_paired_all deleteVolumeUntilWait_def go_run)
  then show "succeeds (deleteOnWorld (traced (calm_env [])) sample_lib 1 sample_cs vol)"
    unfolding deleteOnWorld_def traced_ops calm_ops
    by (intro succeeds_checked succeeds_intros calm_writeClientFiles calm_mount assms)
  have "\<exists>x s'. run_state (State_Monad.bind (statDirectoryForVolume (ctlExec sample_cs) vol (volDirPathBeegfsRoot vol)) (\<lambda>(_, err).
     case err of
       Some e \<Rightarrow>
         if errors_As is_ctlNotExistError e then ret (Inl (newGrpcErrorFromCause NotFound (Some e)))
         else ret (Inl (internal e))
     | None \<Rightarrow> ret (Inr ()))) s = (Inr x, s')" for s
  proof -
    obtain s' where "run_state (statDirectoryForVolume (beegfsCtlDispatcher (traced (calm_env []))) vol (volDirPathBeegfsRoot vol)) s = (([], None), s')"
      using calm_ctl(3) by blast
    then show ?thesis by (simp add: ctl del: split_paired_Ex)
  qed
  then show "succeeds (statOnWorld (traced (calm_env [])) sample_lib sample_cs vol)"
    unfolding statOnWorld_def traced_ops calm_ops
    by (intro succeeds_checked succeeds_intros calm_writeClientFiles assms) (simp add: succeeds_def)
qed

lemma sample_free:
  "vid \<notin> lock_items (volumeIDsInFlight sample_state)" "readStatus vid (volumeStatusMap sample_state) = None"
  by (simp_all add: sample_state_def newThreadSafeStringLock_def volume_status.read_new)

text \<open>In this world the requests go through.\<close>

lemma sample_create:
  "\<exists>s'. run_state (CreateVolume (traced (calm_env [])) sample_lib sample_cs sample_req) sample_state = (Inr sample_id, s')"
proof -
  obtain params vol where ok: "checkCreate sample_cs sample_req = Inr (params, vol)" "config vol = NewBeegfsConfig" "volumeID vol = sample_id"
    using sample_check by blast
  obtain x w1 where 1: "run_state (createOnWorld (traced (calm_env [])) sample_lib sample_cs vol params) (world sample_state) = (Inr x, w1)"
    using calm_worlds(1) [OF ok(2)] unfolding succeeds_def by blast
  obtain y w2 where 2: "run_state (unmountAndCleanUpIfNecessary (traced (calm_env [])) vol True) w1 = (Inr y, w2)"
    using calm_mount(2) unfolding succeeds_def by blast
  show ?thesis
    by (simp add: CreateVolume_eq ok exclusively_def run_exec_deferring run_cs run_cs_obtainLock sample_free createAttempt_run 1 2)
qed

lemma NewBeegfsURL_not_Nil: "rooted path \<Longrightarrow> NewBeegfsURL host path \<noteq> []"
  by (simp add: NewBeegfsURL_def url_String_beegfs printed_path_def)

lemma sample_delete:
  "\<exists>s'. run_state (DeleteVolume (traced (calm_env [])) sample_lib 1 sample_cs sample_id) sample_state = (Inr (), s')"
proof -
  obtain vol where ok: "cs_newBeegfsVolumeFromID sample_cs sample_id = Inr vol" "config vol = NewBeegfsConfig"
    using sample_check by metis
  obtain x w1 where 1: "run_state (deleteOnWorld (traced (calm_env [])) sample_lib 1 sample_cs vol) (world sample_state) = (Inr x, w1)"
    using calm_worlds(2) [OF ok(2)] unfolding succeeds_def by blast
  obtain y w2 where 2: "run_state (unmountAndCleanUpIfNecessary (traced (calm_env [])) vol True) w1 = (Inr y, w2)"
    using calm_mount(2) unfolding succeeds_def by blast
  have "sample_id \<noteq> []" by (rule NewBeegfsURL_not_Nil) simp
  then show ?thesis
    by (simp add: DeleteVolume_eq ok exclusively_def run_exec_deferring run_cs run_cs_obtainLock sample_free deleteAttempt_run 1 2 del: One_nat_def)
qed

subsection \<open>Locks\<close>

text \<open>C8. No request leaks its lock: whenever a handler returns, with whatever result, the set of volumes in flight
  is the one it found.\<close>

theorem handlers_release_locks:
  "(\<forall>r s'. run_state (CreateVolume env lib cs creq) s = (r, s') \<longrightarrow> \<not> diverges r \<longrightarrow> volumeIDsInFlight s' = volumeIDsInFlight s)
   \<and> (\<forall>r s'. run_state (DeleteVolume env lib fuel cs volID) s = (r, s') \<longrightarrow> \<not> diverges r \<longrightarrow> volumeIDsInFlight s' = volumeIDsInFlight s)
   \<and> (\<forall>r s'. run_state (ValidateVolumeCapabilities env lib cs vreq) s = (r, s') \<longrightarrow> \<not> diverges r \<longrightarrow> volumeIDsInFlight s' = volumeIDsInFlight s)"
proof (intro conjI allI impI)
  fix r s' assume "run_state (CreateVolume env lib cs creq) s = (r, s')" "\<not> diverges r"
  then show "volumeIDsInFlight s' = volumeIDsInFlight s" by (cases rule: CreateVolume_cases) simp_all
next
  fix r s' assume "run_state (DeleteVolume env lib fuel cs volID) s = (r, s')" "\<not> diverges r"
  then show "volumeIDsInFlight s' = volumeIDsInFlight s" by (cases rule: DeleteVolume_cases) simp_all
next
  fix r s' assume "run_state (ValidateVolumeCapabilities env lib cs vreq) s = (r, s')" "\<not> diverges r"
  then show "volumeIDsInFlight s' = volumeIDsInFlight s" by (cases rule: Validate_cases) simp_all
qed

theorem handlers_release_locks_witness:
  "\<exists>s'. run_state (CreateVolume (traced (calm_env [])) sample_lib sample_cs sample_req) sample_state = (Inr sample_id, s')
     \<and> volumeIDsInFlight s' = volumeIDsInFlight sample_state"
proof -
  obtain s' where "run_state (CreateVolume (traced (calm_env [])) sample_lib sample_cs sample_req) sample_state = (Inr sample_id, s')"
    using sample_create by blast
  then show ?thesis
    using handlers_release_locks [THEN conjunct1, rule_format, of "traced (calm_env [])" sample_lib sample_cs sample_req sample_state]
    by (intro exI [of _ s']) simp
qed

text \<open>C13. The status map tells the truth: a volume is recorded as created, or as deleted, only by a request that
  succeeded, and a request that fails leaves the map as it was; no request touches the entry of another
  volume.\<close>

theorem status_records_success:
  "(\<forall>r s'. run_state (CreateVolume env lib cs creq) s = (r, s') \<longrightarrow> \<not> diverges r \<longrightarrow>
      (case r of
         Inl _ \<Rightarrow> volumeStatusMap s' = volumeStatusMap s
       | Inr vid \<Rightarrow> readStatus vid (volumeStatusMap s') = Some statusCreated
           \<and> (\<forall>v. v \<noteq> vid \<longrightarrow> readStatus v (volumeStatusMap s') = readStatus v (volumeStatusMap s))))
   \<and> (\<forall>r s' vol. run_state (DeleteVolume env lib fuel cs volID) s = (r, s') \<longrightarrow> \<not> diverges r \<longrightarrow>
        cs_newBeegfsVolumeFromID cs volID = Inr vol \<longrightarrow>
      (case r of
         Inl _ \<Rightarrow> volumeStatusMap s' = volumeStatusMap s
       | Inr _ \<Rightarrow> readStatus (volumeID vol) (volumeStatusMap s') = Some statusDeleted
           \<and> (\<forall>v. v \<noteq> volumeID vol \<longrightarrow> readStatus v (volumeStatusMap s') = readStatus v (volumeStatusMap s))))"
proof (intro conjI allI impI, goal_cases)
  case (1 r s')
  then show ?case
  proof (cases rule: CreateVolume_cases)
    case (tried params vol b w1 c w2)
    then show ?thesis by (cases b) (simp_all add: volume_status.read_write)
  qed simp_all
next
  case (2 r s' vol)
  from 2(1,2) show ?case
  proof (cases rule: DeleteVolume_cases)
    case (tried vol' b w1 c w2)
    then show ?thesis using 2(3) by (cases "delete_result b c") (simp_all add: volume_status.read_write)
  qed (use 2(3) in simp_all)
qed

theorem status_records_success_witness:
  "\<exists>s'. run_state (CreateVolume (traced (calm_env [])) sample_lib sample_cs sample_req) sample_state = (Inr sample_id, s')
     \<and> readStatus sample_id (volumeStatusMap s') = Some statusCreated"
proof -
  obtain s' where "run_state (CreateVolume (traced (calm_env [])) sample_lib sample_cs sample_req) sample_state = (Inr sample_id, s')"
    using sample_create by blast
  then show ?thesis
    using status_records_success [THEN conjunct1, rule_format, of "traced (calm_env [])" sample_lib sample_cs sample_req sample_state "Inr sample_id" s']
    by (intro exI [of _ s']) simp
qed

text \<open>C27. Retries are free: once a volume has been created, or deleted, the same request succeeds again, at once, with
  the same answer, and changes nothing, in whatever state the world is by then.\<close>

theorem retry_does_nothing:
  "(\<forall>vid s'. run_state (CreateVolume env lib cs creq) s = (Inr vid, s') \<longrightarrow>
      run_state (CreateVolume env' lib' cs creq) (s'\<lparr>world := w\<rparr>) = (Inr vid, s'\<lparr>world := w\<rparr>))
   \<and> (\<forall>s'. run_state (DeleteVolume env lib fuel cs volID) s = (Inr (), s') \<longrightarrow>
      run_state (DeleteVolume env' lib' fuel' cs volID) (s'\<lparr>world := w\<rparr>) = (Inr (), s'\<lparr>world := w\<rparr>))"
proof (intro conjI allI impI, goal_cases)
  case (1 vid s')
  from this diverges_simps(1) show ?case
  proof (cases rule: CreateVolume_cases)
    case (tried params vol b w1 c w2)
    then show ?thesis by (cases b) (simp_all add: CreateVolume_eq run_cs volume_status.read_written)
  qed (simp_all add: CreateVolume_eq run_cs)
next
  case (2 s')
  from this diverges_simps(1) show ?case
  proof (cases rule: DeleteVolume_cases)
    case (tried vol b w1 c w2)
    then show ?thesis by (cases "delete_result b c") (simp_all add: DeleteVolume_eq run_cs volume_status.read_written)
  qed (simp_all add: DeleteVolume_eq run_cs split: if_splits)
qed

theorem retry_does_nothing_witness:
  "\<exists>s'. run_state (DeleteVolume (traced (calm_env [])) sample_lib 1 sample_cs sample_id) sample_state = (Inr (), s')
     \<and> run_state (DeleteVolume (traced (calm_env ''x'')) sample_lib 7 sample_cs sample_id) (s'\<lparr>world := ((), [])\<rparr>) = (Inr (), s'\<lparr>world := ((), [])\<rparr>)"
proof -
  obtain s' where "run_state (DeleteVolume (traced (calm_env [])) sample_lib 1 sample_cs sample_id) sample_state = (Inr (), s')"
    using sample_delete by blast
  then show ?thesis
    using retry_does_nothing [THEN conjunct2, rule_format, of "traced (calm_env [])" sample_lib 1 sample_cs sample_id sample_state s'] by blast
qed

end
