(* ===== verification/Controller_Steps.thy ===== *)
theory Controller_Steps
  imports Controller
begin

text \<open>
  What the controller asks the world to do: which paths its handlers can change, in which order a volume is
  created and deleted, that waiting for the nodes ends, and which status codes the caller sees.
\<close>

subsection \<open>Containment\<close>

lemma within_trans: "within a b \<Longrightarrow> within b c \<Longrightarrow> within a c"
  by (auto simp: within_def HasPrefix_iff_prefix prefix_def)

lemma confined_mono: "within d d' \<Longrightarrow> confined d' e \<Longrightarrow> confined d e"
  by (auto simp: confined_def list_all_iff intro: within_trans)

context ctl_contract
begin

lemma createOnWorld_confined:
  assumes "ctlExec cs = ctl" "mounted_below ms vol" "within (abs_path ms) (volDirPath vol)"
  shows "emits (confined (abs_path ms)) (createOnWorld (traced env) lib cs vol params)"
  unfolding createOnWorld_def applySpecialPermissions_def createNodesDir_def assms(1) traced_ops
  by (intro emits_intros runs_confined writeClientFiles_confined mountIfNecessary_confined assms(2))
    (simp_all add: confined_def mounted_belowD [OF assms(2)] assms(3))

lemma statOnWorld_confined:
  assumes "ctlExec cs = ctl" "mounted_below ms vol"
  shows "emits (confined (abs_path ms)) (statOnWorld (traced env) lib cs vol)"
  unfolding statOnWorld_def assms(1) traced_ops
  by (intro emits_intros runs_confined writeClientFiles_confined assms(2))
    (simp_all add: confined_def mounted_belowD [OF assms(2)])

end

lemma removeCsiDir_confined:
  "within d (csiDirPath vol) \<Longrightarrow> emits (confined d) (removeCsiDir (traced env) vol)"
  unfolding removeCsiDir_def traced_ops by (intro emits_intros) (simp add: confined_def)

lemma waitUnstaged_confined:
  assumes "within d (csiDirPath vol)"
  shows "emits (confined d) (waitUnstaged (traced env) vol np limit start fuel)"
proof (induction fuel)
  case (Suc fuel)
  show ?case unfolding waitUnstaged.simps traced_ops
    by (intro emits_intros Suc removeCsiDir_confined assms) (simp_all add: confined_def)
qed (simp add: emits_intros)

lemma deleteOnWorld_confined:
  assumes "mounted_below ms vol" "within (abs_path ms) (volDirPath vol)" "within (abs_path ms) (csiDirPath vol)"
  shows "emits (confined (abs_path ms)) (deleteOnWorld (traced env) lib fuel cs vol)"
  unfolding deleteOnWorld_def deleteVolumeUntilWait_def traced_ops
  by (intro emits_intros writeClientFiles_confined mountIfNecessary_confined waitUnstaged_confined assms)
    (simp_all add: confined_def mounted_belowD [OF assms(1)] assms(2))

text \<open>The volumes of the controller lie below its data directory.\<close>

lemma volume_below:
  assumes "newBeegfsVolume (abs_path ms) host (abs_path ps) cfg = Inr vol"
    and "list_all proper ms" "ms \<noteq> []" "list_all proper ps"
  shows "mounted_below ms vol" "within (abs_path ms) (volDirPath vol)" "within (abs_path ms) (csiDirPath vol)"
proof -
  show "mounted_below ms vol" using assms by (intro newBeegfsVolume_mounted_below)
  note f = newBeegfsVolume_fields [OF assms(1)]
  have vd: "volDirPath vol = abs_path (ms @ [''mount''] @ ps)"
    using assms by (simp add: f path_Join_abs2 path_simps)
  then show "within (abs_path ms) (volDirPath vol)" using assms by (simp add: within_abs_path)
  show "within (abs_path ms) (csiDirPath vol)"
  proof (cases ps rule: rev_cases)
    case Nil
    have "path_Dir (volDirPath vol) = abs_path ms" unfolding vd Nil using assms path_Dir_abs_path [of ms "''mount''"] by simp
    moreover have "path_Base (abs_path ps) = ''/''" by (simp add: Nil path_defs abs_path_def)
    moreover have "resolve cs ''/'' = cs" for cs by (simp add: resolve_def)
    ultimately show ?thesis unfolding f(3) using assms by (simp add: path_Join_abs_list path_simps within_abs_path)
  next
    case (snoc bs n)
    then show ?thesis using assms volume_paths(7) [of ms host bs n cfg vol] by (simp add: within_abs_path)
  qed
qed

definition data_dir :: "'w controllerServer \<Rightarrow> string list \<Rightarrow> bool" where
  "data_dir cs ds \<longleftrightarrow> csDataDir cs = abs_path ds \<and> list_all proper ds \<and> ds \<noteq> []"

lemma volume_dir:
  assumes "data_dir cs ds"
  obtains d where "path_Join [csDataDir cs, sanitizeVolumeID (NewBeegfsURL host (abs_path ps))] = abs_path (ds @ [d])"
    "list_all proper (ds @ [d])" "within (csDataDir cs) (abs_path (ds @ [d]))"
  using assms sanitized_URL_proper [of "abs_path ps" host]
  by (intro that [of "sanitizeVolumeID (NewBeegfsURL host (abs_path ps))"])
    (auto simp: data_dir_def path_Join_abs2 path_simps within_abs_path)

lemma validated_base_rooted:
  assumes "validateReqParams m = Inr (params, rest)"
  obtains bs where "list_all proper bs" "rp_volDirBasePathBeegfsRoot params = abs_path bs"
proof -
  obtain b where "rp_volDirBasePathBeegfsRoot params = path_Clean (path_Join [''/'', b])"
    using assms by (auto simp: validateReqParams_def Let_def bindE_Inr split: option.splits if_splits)
  also have "path_Join [''/'', b] = abs_path (resolve [] b)" using path_Join_abs2 [of "[]" b] by (simp add: abs_path_def)
  finally show ?thesis using that [of "resolve [] b"] list_all_proper_resolve [of "[]" b] by (simp add: path_simps)
qed

lemma checkCreate_volume:
  assumes "checkCreate cs req = Inr (params, vol)" and "data_dir cs ds"
  obtains ms ps where "newBeegfsVolume (abs_path ms) (rp_sysMgmtdHost params) (abs_path ps) (cs_pluginConfig cs) = Inr vol"
    "list_all proper ms" "ms \<noteq> []" "list_all proper ps" "within (csDataDir cs) (abs_path ms)"
    "volumeID vol = NewBeegfsURL (rp_sysMgmtdHost params) (abs_path ps)"
    "abs_path ms = path_Join [csDataDir cs, sanitizeVolumeID (volumeID vol)]"
proof -
  obtain rest where v: "validateReqParams (cv_Parameters req) = Inr (params, rest)"
    and vol: "cs_newBeegfsVolume cs (rp_sysMgmtdHost params) (rp_volDirBasePathBeegfsRoot params) (Name req) = Inr vol"
    using assms(1) by (auto simp: checkCreate_def bindE_Inr split: if_splits sum.splits)
  obtain bs where bs: "list_all proper bs" "rp_volDirBasePathBeegfsRoot params = abs_path bs"
    using validated_base_rooted [OF v] .
  have ps: "list_all proper (resolve bs (Name req))" using bs(1) by (rule list_all_proper_resolve)
  obtain d where d: "path_Join [csDataDir cs, sanitizeVolumeID (NewBeegfsURL (rp_sysMgmtdHost params) (abs_path (resolve bs (Name req))))] = abs_path (ds @ [d])"
      "list_all proper (ds @ [d])" "within (csDataDir cs) (abs_path (ds @ [d]))"
    using volume_dir [OF assms(2)] .
  have new: "newBeegfsVolume (abs_path (ds @ [d])) (rp_sysMgmtdHost params) (abs_path (resolve bs (Name req))) (cs_pluginConfig cs) = Inr vol"
    using vol bs d by (simp add: cs_newBeegfsVolume_def path_Join_abs2 Let_def)
  show ?thesis
    by (rule that [OF new d(2) _ ps d(3)]) (simp_all add: newBeegfsVolume_fields(12) [OF new] d(1))
qed

lemma emits_runD:
  assumes "emits P m" and "run_state m (w, t) = (x, w', t')"
  shows "\<exists>u. t' = t @ u \<and> list_all P u"
  using doesD [OF assms(1) [unfolded emits_def] assms(2)] .

lemma two_runs_confined:
  assumes "emits (confined d) m" "run_state m (w, []) = (b, w1)" "emits (confined d) cl" "run_state cl w1 = (c, w', t)"
  shows "list_all (confined d) t"
proof -
  obtain v t1 where w1: "w1 = (v, t1)" by fastforce
  then have "list_all (confined d) t1" using emits_runD [OF assms(1)] assms(2) by fastforce
  then show ?thesis using emits_runD [OF assms(3)] assms(4) unfolding w1 by fastforce
qed

lemma list_all_confined_mono: "within d d' \<Longrightarrow> list_all (confined d') t \<Longrightarrow> list_all (confined d) t"
  by (auto simp: list_all_iff intro: confined_mono)

text \<open>C5. Creating a volume never reaches outside the controller's data directory: whatever a CreateVolume request
  asks for, and whatever the world answers, every file or directory that the handler creates, writes, changes,
  mounts on, unmounts or deletes is the data directory or lies below it. The commands of BeeGFS, which act on paths of the
  BeeGFS file system, are not counted.\<close>

theorem CreateVolume_contained:
  assumes "ctlExec cs = beegfsCtlDispatcher (traced env)" and "data_dir cs ds"
    and "run_state (CreateVolume (traced env) lib cs req) s = (r, s')" "\<not> diverges r"
    and "world s = (w, [])" "world s' = (w', t)"
  shows "list_all (confined (csDataDir cs)) t"
  using assms(3,4)
proof (cases rule: CreateVolume_cases)
  case (tried params vol b w1 c w2)
  obtain ms ps where v: "newBeegfsVolume (abs_path ms) (rp_sysMgmtdHost params) (abs_path ps) (cs_pluginConfig cs) = Inr vol"
    "list_all proper ms" "ms \<noteq> []" "list_all proper ps" "within (csDataDir cs) (abs_path ms)"
    using checkCreate_volume [OF tried(1) assms(2)] .
  note below = volume_below [OF v(1-4)]
  have "list_all (confined (abs_path ms)) t"
  proof (rule two_runs_confined)
    show "run_state (createOnWorld (traced env) lib cs vol params) (w, []) = (b, w1)" using tried(4) assms(5) by simp
    show "run_state (unmountAndCleanUpIfNecessary (traced env) vol True) w1 = (c, w', t)" using tried(6,9) assms(6) by simp
  qed (use below assms(1) in \<open>simp_all add: dispatcher_ctl.createOnWorld_confined unmountAndCleanUpIfNecessary_confined\<close>)
  then show ?thesis using v(5) by (rule list_all_confined_mono [rotated])
qed (use assms(5,6) in simp_all)

theorem CreateVolume_contained_witness:
  "\<exists>s'. run_state (CreateVolume (traced (calm_env [])) sample_lib sample_cs sample_req) sample_state = (Inr sample_id, s')
     \<and> list_all (confined ''/data'') (snd (world s'))"
proof -
  obtain s' where run: "run_state (CreateVolume (traced (calm_env [])) sample_lib sample_cs sample_req) sample_state = (Inr sample_id, s')"
    using sample_create by blast
  have "ctlExec sample_cs = beegfsCtlDispatcher (traced (calm_env []))" "data_dir sample_cs [''data'']"
    "world sample_state = ((), [])" "world s' = ((), snd (world s'))" "csDataDir sample_cs = ''/data''"
    by (simp_all add: sample_cs_def data_dir_def abs_path_def proper_def sample_state_def prod_eq_iff)
  then show ?thesis using CreateVolume_contained [OF _ _ run] run by fastforce
qed

text \<open>C23. Deleting a volume never reaches outside the data directory either, for every volume ID that names a host
  and an absolute path without \<open>..\<close> elements, as all volume IDs do that CreateVolume returns.\<close>

theorem DeleteVolume_contained:
  assumes "data_dir cs ds" and "volID = NewBeegfsURL host (abs_path ps)" "valid_host host" "list_all proper ps"
    and "run_state (DeleteVolume (traced env) lib fuel cs volID) s = (r, s')" "\<not> diverges r"
    and "world s = (w, [])" "world s' = (w', t)"
  shows "list_all (confined (csDataDir cs)) t"
  using assms(5,6)
proof (cases rule: DeleteVolume_cases)
  case (tried vol b w1 c w2)
  obtain d where d: "path_Join [csDataDir cs, sanitizeVolumeID volID] = abs_path (ds @ [d])"
      "list_all proper (ds @ [d])" "within (csDataDir cs) (abs_path (ds @ [d]))"
    unfolding assms(2) using volume_dir [OF assms(1)] .
  have "newBeegfsVolume (abs_path (ds @ [d])) host (abs_path ps) (cs_pluginConfig cs) = Inr vol"
    using tried(2) d(1) parse_NewBeegfsURL [of host "abs_path ps"] assms(2,3)
    by (simp add: cs_newBeegfsVolumeFromID_def newBeegfsVolumeFromID_def printed_path_def)
  note below = volume_below [OF this d(2) _ assms(4)]
  have "list_all (confined (abs_path (ds @ [d]))) t"
  proof (rule two_runs_confined)
    show "run_state (deleteOnWorld (traced env) lib fuel cs vol) (w, []) = (b, w1)" using tried(5) assms(7) by simp
    show "run_state (unmountAndCleanUpIfNecessary (traced env) vol True) w1 = (c, w', t)" using tried(7,10) assms(8) by simp
  qed (use below in \<open>simp_all add: deleteOnWorld_confined unmountAndCleanUpIfNecessary_confined\<close>)
  then show ?thesis using d(3) by (rule list_all_confined_mono [rotated])
qed (use assms(7,8) in simp_all)

theorem DeleteVolume_contained_witness:
  "\<exists>s'. run_state (DeleteVolume (traced (calm_env [])) sample_lib 1 sample_cs sample_id) sample_state = (Inr (), s')
     \<and> list_all (confined ''/data'') (snd (world s'))"
proof -
  obtain s' where run: "run_state (DeleteVolume (traced (calm_env [])) sample_lib 1 sample_cs sample_id) sample_state = (Inr (), s')"
    using sample_delete by blast
  have "data_dir sample_cs [''data'']" "''/scratch/vol1'' = abs_path [''scratch'', ''vol1'']" "list_all proper [''scratch'', ''vol1'']"
    "world sample_state = ((), [])" "world s' = ((), snd (world s'))" "csDataDir sample_cs = ''/data''"
    by (simp_all add: sample_cs_def data_dir_def abs_path_def proper_def sample_state_def prod_eq_iff)
  moreover have "valid_host ''10.0.0.1''" by code_simp
  ultimately show ?thesis using DeleteVolume_contained [OF _ _ _ _ run] run by fastforce
qed

subsection \<open>Deleting\<close>

text \<open>What the driver saw before it gave up waiting: there is no directory with node names; or it is empty, or the
  time is up, and then the tracking directory of the volume is deleted; or it waited and looked again.\<close>

inductive wait_trace :: "beegfsVolume \<Rightarrow> string \<Rightarrow> int \<Rightarrow> int \<Rightarrow> event list \<Rightarrow> bool"
  for vol :: beegfsVolume and np :: string and limit :: int and start :: int
where
  gone: "wait_trace vol np limit start [E_DirExists np (Inr False)]"
| empty: "wait_trace vol np limit start [E_DirExists np (Inr True), E_IsEmpty np (Inr True), E_RemoveAll (csiDirPath vol) (Inr ())]"
| late: "limit \<le> time_since start now \<Longrightarrow>
    wait_trace vol np limit start [E_DirExists np (Inr True), E_IsEmpty np (Inr False), E_Now now, E_ReadDir np names,
      E_RemoveAll (csiDirPath vol) (Inr ())]"
| again: "time_since start now < limit \<Longrightarrow> wait_trace vol np limit start u \<Longrightarrow>
    wait_trace vol np limit start ([E_DirExists np (Inr True), E_IsEmpty np (Inr False), E_Now now, E_Now now', E_Sleep 2000000000] @ u)"

lemma removeCsiDir_does:
  "does (removeCsiDir (traced env) vol) (\<lambda>r u. r = Inr () \<longrightarrow> u = [E_RemoveAll (csiDirPath vol) (Inr ())])"
  unfolding removeCsiDir_def traced_ops by (rule does_checked_logged) (auto intro: does_ret)

lemma waitUnstaged_does:
  "does (waitUnstaged (traced env) vol np limit start fuel) (\<lambda>r u. r = Inr () \<longrightarrow> wait_trace vol np limit start u)"
proof (induction fuel)
  case 0
  show ?case by (simp add: does_ret)
next
  case (Suc fuel)
  have rm: "does (removeCsiDir (traced env) vol) (\<lambda>r u. r = Inr () \<longrightarrow> Q u)"
    if "Q [E_RemoveAll (csiDirPath vol) (Inr ())]" for Q
    using that by (auto intro: does_mono [OF removeCsiDir_does])
  have more: "does (waitUnstaged (traced env) vol np limit start fuel)
      (\<lambda>r u. r = Inr () \<longrightarrow> wait_trace vol np limit start (E_DirExists np (Inr True) # E_IsEmpty np (Inr False) # E_Now now # E_Now now' # E_Sleep 2000000000 # u))"
    if "time_since start now < limit" for now now'
    using again [OF that] by (auto intro: does_mono [OF Suc])
  show ?case unfolding waitUnstaged.simps traced_ops
    by (intro does_checked_logged does_if does_bind_logged rm impI does_ret) (auto intro: wait_trace.intros more)
qed

text \<open>What the driver saw last, when it stopped waiting: no directory, an empty directory, or one that was not empty when
  the time was up.\<close>

definition last_look :: "string \<Rightarrow> string \<Rightarrow> int \<Rightarrow> int \<Rightarrow> event list \<Rightarrow> bool" where
  "last_look np csi limit start look \<longleftrightarrow>
     look = [E_DirExists np (Inr False)]
     \<or> look = [E_DirExists np (Inr True), E_IsEmpty np (Inr True), E_RemoveAll csi (Inr ())]
     \<or> (\<exists>now names. limit \<le> time_since start now
          \<and> look = [E_DirExists np (Inr True), E_IsEmpty np (Inr False), E_Now now, E_ReadDir np names, E_RemoveAll csi (Inr ())])"

lemma wait_trace_last_look: "wait_trace vol np limit start v \<Longrightarrow> \<exists>u look. v = u @ look \<and> last_look np (csiDirPath vol) limit start look"
proof (induction rule: wait_trace.induct)
  case (again now u now')
  then obtain u' look where "u = u' @ look" "last_look np (csiDirPath vol) limit start look" by blast
  then show ?case
    by (intro exI [of _ "[E_DirExists np (Inr True), E_IsEmpty np (Inr False), E_Now now, E_Now now', E_Sleep 2000000000] @ u'"] exI [of _ look]) simp
qed (fastforce simp: last_look_def intro: exI [of _ "[] :: event list"])+

lemma deleteVolumeUntilWait_does:
  "does (deleteVolumeUntilWait (traced env) fuel vol waitTime)
     (\<lambda>r u. r = Inr () \<longrightarrow> (\<exists>start v. u = E_Now start # v @ [E_RemoveAll (volDirPath vol) (Inr ())]
        \<and> wait_trace vol (path_Join [csiDirPath vol, ''nodes'']) (wait_limit waitTime) start v))"
  unfolding deleteVolumeUntilWait_def traced_ops
  by (rule does_bind_logged, rule does_checked [OF waitUnstaged_does], simp, rule does_checked_logged, simp)
    (auto intro: does_ret)

text \<open>Neither a mount nor a change of permissions.\<close>

fun mount_free :: "event \<Rightarrow> bool" where
  "mount_free (E_Mount _ _ _ _ _) = False"
| "mount_free (E_Chmod _ _ _) = False"
| "mount_free _ = True"

lemma writeClientFiles_mount_free: "emits mount_free (writeClientFiles (traced env) lib vol tmpl)"
  unfolding writeClientFiles_def writeListFile_def writeConnAuth_def writeTLSCert_def getEphemeralPortUDP_def traced_ops
  by (intro emits_intros) simp_all

lemma deleteOnWorld_does:
  "does (deleteOnWorld (traced env) lib fuel cs vol)
     (\<lambda>r u. r = Inr () \<longrightarrow> (\<exists>a m start v. u = E_MkdirAll (mountDirPath vol) 0x1E8 (Inr ()) # a @ m @ E_Now start # v @ [E_RemoveAll (volDirPath vol) (Inr ())]
        \<and> mounting env vol [] (Inr ()) m
        \<and> wait_trace vol (path_Join [csiDirPath vol, ''nodes'']) (wait_limit (nodeUnstageTimeout cs)) start v))"
proof -
  have files: "does (writeClientFiles (traced env) lib vol tmpl) (\<lambda>_ _. True)" for tmpl
    by (rule does_any, rule emits_mono [OF writeClientFiles_mount_free]) simp
  show ?thesis
    unfolding deleteOnWorld_def traced_ops
    apply (rule does_checked_logged, simp)
    apply (rule does_checked [OF files], simp)
    apply (rule does_checked [OF mountIfNecessary_does], simp)
    apply (rule does_checked [OF deleteVolumeUntilWait_does], simp)
    apply (rule does_ret)
    apply fastforce
    done
qed

lemma delete_result_Inr: "delete_result b c = Inr () \<longleftrightarrow> b = Inr () \<and> c = Inr ()"
  by (cases b; cases c) simp_all

text \<open>C2. A deletion that succeeds has deleted the volume, in this order: the file system was mounted with the
  driver's configuration; the nodes had unstaged the volume, or nobody tracked them, or the waiting time had
  passed; the directory of the volume was removed without an error; and the mount was cleaned up without an
  error.\<close>

theorem DeleteVolume_order:
  assumes "run_state (DeleteVolume (traced env) lib fuel cs volID) s = (Inr (), s')"
    and "cs_newBeegfsVolumeFromID cs volID = Inr vol" "readStatus (volumeID vol) (volumeStatusMap s) \<noteq> Some statusDeleted"
    and "world s = (w, [])" "world s' = (w', t)"
  shows "\<exists>a m start v c. t = E_MkdirAll (mountDirPath vol) 0x1E8 (Inr ()) # a @ m @ E_Now start # v @ [E_RemoveAll (volDirPath vol) (Inr ())] @ c
    \<and> mounting env vol [] (Inr ()) m
    \<and> wait_trace vol (path_Join [csiDirPath vol, ''nodes'']) (wait_limit (nodeUnstageTimeout cs)) start v
    \<and> unmount_steps vol True (Inr ()) c"
  using assms(1) diverges_simps(1)
proof (cases rule: DeleteVolume_cases)
  case (tried vol' b w1 c w2)
  have same: "vol' = vol" using tried(2) assms(2) by simp
  have "b = Inr () \<and> c = Inr ()" using delete_result_Inr tried(9) by metis
  then have bc: "b = Inr ()" "c = Inr ()" by blast+
  obtain v1 t1 where w1: "w1 = (v1, t1)" by fastforce
  have "run_state (deleteOnWorld (traced env) lib fuel cs vol) (w, []) = (Inr (), v1, t1)"
    using tried(5) assms(4) by (simp add: same bc w1)
  from doesD [OF deleteOnWorld_does this] obtain a m start v where
    t1: "t1 = E_MkdirAll (mountDirPath vol) 0x1E8 (Inr ()) # a @ m @ E_Now start # v @ [E_RemoveAll (volDirPath vol) (Inr ())]"
    "mounting env vol [] (Inr ()) m"
    "wait_trace vol (path_Join [csiDirPath vol, ''nodes'']) (wait_limit (nodeUnstageTimeout cs)) start v" by auto
  have "run_state (unmountAndCleanUpIfNecessary (traced env) vol True) (v1, t1) = (Inr (), w', t)"
    using tried(7,10) assms(5) by (simp add: same bc w1)
  from doesD [OF unmount_does this] obtain u where "t = t1 @ u" "unmount_steps vol True (Inr ()) u" by blast
  with t1 show ?thesis by (intro exI [of _ a] exI [of _ m] exI [of _ start] exI [of _ v] exI [of _ u]) simp
qed (use assms(2,3) in simp_all)

theorem DeleteVolume_order_witness:
  "\<exists>s' vol a m start v c. run_state (DeleteVolume (traced (calm_env [])) sample_lib 1 sample_cs sample_id) sample_state = (Inr (), s')
    \<and> snd (world s') = E_MkdirAll (mountDirPath vol) 0x1E8 (Inr ()) # a @ m @ E_Now start # v @ [E_RemoveAll (volDirPath vol) (Inr ())] @ c
    \<and> mounting (calm_env [] :: unit os_env) vol [] (Inr ()) m"
proof -
  obtain s' where run: "run_state (DeleteVolume (traced (calm_env [])) sample_lib 1 sample_cs sample_id) sample_state = (Inr (), s')"
    using sample_delete by blast
  obtain vol where vol: "cs_newBeegfsVolumeFromID sample_cs sample_id = Inr vol"
    using sample_check by metis
  have "readStatus (volumeID vol) (volumeStatusMap sample_state) \<noteq> Some statusDeleted" "world sample_state = ((), [])"
    "world s' = ((), snd (world s'))"
    using sample_free(2) by (simp_all add: sample_state_def prod_eq_iff)
  from DeleteVolume_order [OF run vol this] run show ?thesis by blast
qed

subsection \<open>Creating\<close>

lemma found_between:
  assumes "list_all P a" "Q m" "list_all P c" "t = a @ m @ x # c"
  shows "\<exists>a m c. t = a @ m @ x # c \<and> list_all P a \<and> Q m \<and> list_all P c"
  using assms by blast

context ctl_contract
begin

lemma run_mount_free: "is_run e \<Longrightarrow> mount_free e"
  by (cases e) simp_all

lemma runs_mount_free:
  "emits mount_free (createDirectoryForVolume ctl vol path cfg)"
  "emits mount_free (statDirectoryForVolume ctl vol path)"
  "emits mount_free (setPatternForVolume ctl vol stripes)"
  by (blast intro: emits_mono run_mount_free create_runs stat_runs pattern_runs)+

lemma createOnWorld_permissions:
  assumes "ctlExec cs = ctl"
  shows "does (createOnWorld (traced env) lib cs vol params)
    (\<lambda>r u. if hasSpecialPermissions (volPermissionsConfig params)
       then r = Inr () \<longrightarrow> (\<exists>a m c. u = a @ m @ [E_Chmod (volDirPath vol) (goFileMode (volPermissionsConfig params)) (Inr ())] @ c
         \<and> list_all mount_free a \<and> mounting env vol [] (Inr ()) m \<and> list_all mount_free c)
       else list_all mount_free u)"
proof (cases "hasSpecialPermissions (volPermissionsConfig params)")
  case False
  have "emits mount_free (createOnWorld (traced env) lib cs vol params)"
    unfolding createOnWorld_def applySpecialPermissions_def if_not_P [OF False] createNodesDir_def assms traced_ops
    by (intro emits_intros runs_mount_free writeClientFiles_mount_free) simp
  then show ?thesis using False by (simp add: emits_def)
next
  case True
  let ?chmod = "E_Chmod (volDirPath vol) (goFileMode (volPermissionsConfig params)) (Inr ())"
  have nodes: "emits mount_free (createNodesDir cs vol)"
    unfolding createNodesDir_def assms by (intro emits_intros runs_mount_free)
  have special: "does (applySpecialPermissions (traced env) vol (volPermissionsConfig params))
      (\<lambda>r u. r = Inr () \<longrightarrow> (\<exists>m. u = m @ [?chmod] \<and> mounting env vol [] (Inr ()) m))"
    unfolding applySpecialPermissions_def if_P [OF True] traced_ops
    by (rule does_checked [OF mountIfNecessary_does], simp, rule does_checked_logged, simp) (auto intro: does_ret)
  note free = writeClientFiles_mount_free [unfolded emits_def] runs_mount_free [unfolded emits_def] nodes [unfolded emits_def]
  show ?thesis
    unfolding createOnWorld_def assms traced_ops if_P [OF True]
    apply (rule does_checked_logged, simp)
    apply (rule does_checked [OF free(1)], simp)
    apply (rule does_checked [OF free(2)], simp)
    apply (rule does_checked [OF free(4)], simp)
    apply (rule does_checked [OF special], simp)
    apply (rule does_mono [OF free(5)])
    subgoal for x _ u _ ua _ ub _ uc _ ud
      by clarsimp (rule found_between [of mount_free "E_MkdirAll (mountDirPath vol) 0x1E8 (Inr ()) # u @ ua @ ub" _ _ ud], auto)
    done
qed

end

text \<open>C26. Permissions. A volume that asks for no special permission bits is created without any mount or change of
  mode. For one that does, success means that its file system was mounted and that the mode of its directory
  was then set, without an error, to the mode that the request asked for.\<close>

theorem CreateVolume_permissions:
  assumes "ctlExec cs = beegfsCtlDispatcher (traced env)"
    and "run_state (CreateVolume (traced env) lib cs req) s = (r, s')" "\<not> diverges r"
    and "world s = (w, [])" "world s' = (w', t)" and "checkCreate cs req = Inr (params, vol)"
  shows "if hasSpecialPermissions (volPermissionsConfig params)
    then r = Inr vid \<and> readStatus vid (volumeStatusMap s) \<noteq> Some statusCreated \<longrightarrow>
      (\<exists>a m c. t = a @ m @ [E_Chmod (volDirPath vol) (goFileMode (volPermissionsConfig params)) (Inr ())] @ c
        \<and> mounting env vol [] (Inr ()) m \<and> list_all mount_free c)
    else list_all mount_free t"
  using assms(2,3)
proof (cases rule: CreateVolume_cases)
  case (tried params' vol' b w1 c w2)
  have same: "params' = params" "vol' = vol" using tried(1) assms(6) by simp_all
  obtain v1 t1 where w1: "w1 = (v1, t1)" by fastforce
  have "run_state (createOnWorld (traced env) lib cs vol params) (w, []) = (b, v1, t1)"
    using tried(4) assms(4) by (simp add: same w1)
  note first = doesD [OF dispatcher_ctl.createOnWorld_permissions [OF assms(1)] this]
  have second: "run_state (unmountAndCleanUpIfNecessary (traced env) vol True) (v1, t1) = (c, w', t)"
    using tried(6,9) assms(5) by (simp add: same w1)
  have "emits mount_free (unmountAndCleanUpIfNecessary (traced env) vol True)"
    unfolding unmountAndCleanUpIfNecessary_def cleanUpIfNecessary_def traced_ops
    by (intro emits_intros) simp_all
  from emits_runD [OF this second] obtain u where u: "t = t1 @ u" "list_all mount_free u" by blast
  show ?thesis
  proof (cases "hasSpecialPermissions (volPermissionsConfig params)")
    case False
    with first u show ?thesis by simp
  next
    case True
    have "\<exists>a m c. t = a @ m @ [E_Chmod (volDirPath vol) (goFileMode (volPermissionsConfig params)) (Inr ())] @ c
        \<and> mounting env vol [] (Inr ()) m \<and> list_all mount_free c" if "b = Inr ()"
    proof -
      from first True that obtain a m d where
        "t1 = a @ m @ [E_Chmod (volDirPath vol) (goFileMode (volPermissionsConfig params)) (Inr ())] @ d"
        "mounting env vol [] (Inr ()) m" "list_all mount_free d" by auto
      with u show ?thesis by (intro exI [of _ a] exI [of _ m] exI [of _ "d @ u"]) simp
    qed
    moreover have "b = Inr ()" if "r = Inr vid" using that tried(8) by (cases b) simp_all
    ultimately show ?thesis using True by auto
  qed
qed (use assms(4-6) in auto)

theorem CreateVolume_permissions_witness:
  "\<exists>s' vol a m c. run_state (CreateVolume (traced (calm_env [])) sample_lib sample_cs sample_req) sample_state = (Inr sample_id, s')
     \<and> snd (world s') = a @ m @ [E_Chmod (volDirPath vol) (goFileMode \<lparr> uid = 0, gid = 0, mode = 0x3ED \<rparr>) (Inr ())] @ c
     \<and> mounting (calm_env [] :: unit os_env) vol [] (Inr ()) m"
proof -
  obtain s' where run: "run_state (CreateVolume (traced (calm_env [])) sample_lib sample_cs sample_req) sample_state = (Inr sample_id, s')"
    using sample_create by blast
  obtain params vol where ok: "checkCreate sample_cs sample_req = Inr (params, vol)"
    "volPermissionsConfig params = \<lparr> uid = 0, gid = 0, mode = 0x3ED \<rparr>"
    using sample_check by blast
  have "hasSpecialPermissions (volPermissionsConfig params)" by (simp add: ok hasSpecialPermissions_def)
  moreover have "ctlExec sample_cs = beegfsCtlDispatcher (traced (calm_env []))" by (simp add: sample_cs_def)
  moreover have "world sample_state = ((), [])" "world s' = ((), snd (world s'))" by (simp_all add: sample_state_def prod_eq_iff)
  moreover have "readStatus sample_id (volumeStatusMap sample_state) \<noteq> Some statusCreated" by (simp add: sample_free)
  ultimately have "\<exists>a m c. snd (world s') = a @ m @ [E_Chmod (volDirPath vol) (goFileMode (volPermissionsConfig params)) (Inr ())] @ c
        \<and> mounting (calm_env [] :: unit os_env) vol [] (Inr ()) m \<and> list_all mount_free c"
    using CreateVolume_permissions [OF _ run _ _ _ ok(1)] diverges_simps(1) by metis
  then show ?thesis using run unfolding ok(2) by blast
qed

subsection \<open>Waiting ends\<close>

text \<open>A clock that never runs backwards, that every look at the time reads, and that a sleep advances by at least
  the time slept. The other assumption is that the file system answers.\<close>

definition clocked :: "'w os_env \<Rightarrow> ('w \<Rightarrow> int) \<Rightarrow> bool" where
  "clocked env clock \<longleftrightarrow>
     (\<forall>w. fst (run_state (time_Now env) w) = clock w \<and> clock w \<le> clock (snd (run_state (time_Now env) w)))
     \<and> (\<forall>w d. clock w + d \<le> clock (snd (run_state (time_Sleep env d) w)))
     \<and> (\<forall>w p. clock w \<le> clock (snd (run_state (os_DirExists env p) w)))
     \<and> (\<forall>w p. clock w \<le> clock (snd (run_state (os_IsEmpty env p) w)))"

definition answers :: "'w os_env \<Rightarrow> bool" where
  "answers env \<longleftrightarrow>
     (\<forall>w p. \<not> diverges (fst (run_state (os_DirExists env p) w)))
     \<and> (\<forall>w p. \<not> diverges (fst (run_state (os_IsEmpty env p) w)))
     \<and> (\<forall>w p. \<not> diverges (fst (run_state (os_RemoveAll env p) w)))"

lemma time_since_limit: "limit < 2 ^ 63 \<Longrightarrow> start + limit \<le> now \<Longrightarrow> \<not> time_since start now < limit"
  by (auto simp: time_since_def)

lemma removeCsiDir_answers: "answers env \<Longrightarrow> \<not> diverges (fst (run_state (removeCsiDir env vol) w))"
  by (auto simp: answers_def removeCsiDir_def run_checked split: prod.split sum.split)
    (metis diverges_simps(2) fst_conv)

lemma waitUnstaged_step:
  assumes clk: "clocked env clock" and ans: "answers env"
    and more: "\<And>w' now. clock w \<le> now \<Longrightarrow> time_since start now < limit \<Longrightarrow> clock w + 2000000000 \<le> clock w' \<Longrightarrow>
      \<not> diverges (fst (run_state (waitUnstaged env vol np limit start fuel) w'))"
  shows "\<not> diverges (fst (run_state (waitUnstaged env vol np limit start (Suc fuel)) w))"
proof -
  obtain d w1 where 1: "run_state (os_DirExists env np) w = (d, w1)" by fastforce
  obtain e w2 where 2: "run_state (os_IsEmpty env np) w1 = (e, w2)" by fastforce
  obtain now w3 where 3: "run_state (time_Now env) w2 = (now, w3)" by fastforce
  obtain x w4 where 4: "run_state (time_Now env) w3 = (x, w4)" by fastforce
  obtain w5 where 5: "run_state (time_Sleep env 2000000000) w4 = ((), w5)"
    by (metis old.unit.exhaust prod.exhaust)
  have nd: "\<not> diverges d" "\<not> diverges e" using ans 1 2 unfolding answers_def by (metis fst_conv)+
  have "clock w \<le> clock w1" "clock w1 \<le> clock w2" "now = clock w2" "clock w2 \<le> clock w3" "clock w3 \<le> clock w4"
    "clock w4 + 2000000000 \<le> clock w5"
    using clk 1 2 3 4 5 unfolding clocked_def by (metis fst_conv snd_conv)+
  then have "clock w \<le> now" "clock w + 2000000000 \<le> clock w5" by linarith+
  note sleep = more [OF this(1) _ this(2)]
  have late: "\<not> diverges (fst (run_state (State_Monad.bind (os_ReadDir env np) (\<lambda>_. removeCsiDir env vol)) w3))"
    using removeCsiDir_answers [OF ans] by (simp split: prod.split)
  show ?thesis
    using nd sleep late removeCsiDir_answers [OF ans, of vol w2]
    by (cases d; cases e) (auto simp: run_checked 1 2 3 4 5)
qed

lemma waitUnstaged_ends:
  assumes "clocked env clock" "answers env" "limit < 2 ^ 63"
    and "start + limit \<le> clock w + 2000000000 * int fuel"
  shows "\<not> diverges (fst (run_state (waitUnstaged env vol np limit start (Suc fuel)) w))"
  using assms(4)
proof (induction fuel arbitrary: w)
  case 0
  then show ?case using time_since_limit [OF assms(3)] by (intro waitUnstaged_step [OF assms(1,2)]) force
next
  case (Suc fuel)
  then show ?case by (intro waitUnstaged_step [OF assms(1,2)] Suc.IH) simp
qed

lemma wait_limit_bound: "wait_limit waitTime < 2 ^ 63"
  using sint_lt [of "waitTime * 1000000000"] by (simp add: wait_limit_def)

text \<open>C14. Waiting ends: as long as the clock keeps running while the driver sleeps and the file system answers,
  \<open>deleteVolumeUntilWait\<close> returns, after at most one look per two seconds of the waiting time and two more,
  whatever the nodes do.\<close>

theorem deleteVolumeUntilWait_returns:
  assumes "clocked env clock" "answers env"
    and "nat (wait_limit waitTime div 2000000000) + 2 \<le> fuel"
  shows "\<not> diverges (fst (run_state (deleteVolumeUntilWait env fuel vol waitTime) w))"
proof -
  obtain start w1 where 1: "run_state (time_Now env) w = (start, w1)" by fastforce
  then have start: "start \<le> clock w1" using assms(1) unfolding clocked_def by (metis fst_conv snd_conv)
  obtain n where fuel: "fuel = Suc n" "nat (wait_limit waitTime div 2000000000) + 1 \<le> n"
    using assms(3) by (cases fuel) auto
  have "wait_limit waitTime \<le> 2000000000 * int n" using fuel(2) by linarith
  with start have "start + wait_limit waitTime \<le> clock w1 + 2000000000 * int n" by linarith
  note wait = waitUnstaged_ends [OF assms(1,2) wait_limit_bound this]
  obtain x w2 where 2: "run_state (waitUnstaged env vol (path_Join [csiDirPath vol, ''nodes'']) (wait_limit waitTime) start fuel) w1 = (x, w2)"
    by fastforce
  obtain y w3 where 3: "run_state (os_RemoveAll env (volDirPath vol)) w2 = (y, w3)" by fastforce
  have "\<not> diverges x" "\<not> diverges y"
    using wait [of vol "path_Join [csiDirPath vol, ''nodes'']"] 2 3 assms(2) unfolding fuel(1) answers_def by (metis fst_conv)+
  then show ?thesis by (cases x; cases y) (simp_all add: deleteVolumeUntilWait_def run_checked 1 2 3)
qed

text \<open>A world that is only a clock, in which the directory with the node names never becomes empty.\<close>

definition ticking_env :: "int os_env" where
  "ticking_env = (calm_env [])\<lparr> time_Now := State (\<lambda>c. (c, c)), time_Sleep := (\<lambda>d. State (\<lambda>c. ((), c + d))),
     os_DirExists := (\<lambda>p. ret (Inr True)), os_IsEmpty := (\<lambda>p. ret (Inr False)) \<rparr>"

theorem deleteVolumeUntilWait_returns_witness:
  "\<not> diverges (fst (run_state (deleteVolumeUntilWait ticking_env 5 sample_vol 6) 1000))"
proof (rule deleteVolumeUntilWait_returns)
  show "clocked ticking_env id" by (simp add: clocked_def ticking_env_def)
  show "answers ticking_env" by (simp add: answers_def ticking_env_def)
  show "nat (wait_limit 6 div 2000000000) + 2 \<le> 5" by (simp add: wait_limit_def)
qed

text \<open>The product with a second wraps: a timeout of 9223372037 seconds is a negative duration, so nobody is waited
  for.\<close>

theorem wait_limit_wraps: "wait_limit 9223372036 = 9223372036000000000 \<and> wait_limit 9223372037 < 0"
  by (simp add: wait_limit_def)

subsection \<open>Volume IDs\<close>



text \<open>Neither the name of a requested volume nor a volume ID is searched for \<open>..\<close>: with the name \<open>..\<close> the volume
  is the parent of the base directory, and with a volume ID whose path starts with enough of them the
  directory that DeleteVolume removes is not below the mount point.\<close>

lemma zero_plugin_ok: "plugin_ok zeroPluginConfig"
  by (simp add: plugin_ok_def fs_ok_def config_ok_def zeroPluginConfig_def zeroBeegfsConfig_def client_conf_def)

theorem volume_name_leaves_base:
  "\<exists>vol. cs_newBeegfsVolume sample_cs ''h'' ''/a/b'' ''..'' = Inr vol \<and> volDirPathBeegfsRoot vol = ''/a''"
proof -
  have join: "path_Join [''/a/b'', ''..''] = ''/a''" by (simp add: path_defs)
  obtain vol where vol: "newBeegfsVolume (path_Join [''/data'', sanitizeVolumeID (NewBeegfsURL ''h'' ''/a'')]) ''h'' ''/a'' zeroPluginConfig = Inr vol"
    using newBeegfsVolume_result [OF zero_plugin_ok] by blast
  then have "cs_newBeegfsVolume sample_cs ''h'' ''/a/b'' ''..'' = Inr vol"
    by (simp only: cs_newBeegfsVolume_def join Let_def) (simp add: sample_cs_def)
  then show ?thesis using newBeegfsVolume_fields(10) [OF vol] by blast
qed

theorem volume_ID_leaves_mount:
  "\<exists>vol. newBeegfsVolumeFromID ''/data/v'' ''beegfs://h/../../../etc'' zeroPluginConfig = Inr vol
     \<and> mountPath vol = ''/data/v/mount'' \<and> volDirPath vol = ''/etc''"
proof -
  have parse: "parseBeegfsURL ''beegfs://h/../../../etc'' = Inr (''h'', ''/../../../etc'')" by code_simp
  obtain vol where vol: "newBeegfsVolume ''/data/v'' ''h'' ''/../../../etc'' zeroPluginConfig = Inr vol"
    using newBeegfsVolume_result [OF zero_plugin_ok] by blast
  have j: "path_Join [''/data/v'', ''mount''] = ''/data/v/mount''" by code_simp
  have k: "path_Join [''/data/v/mount'', ''/../../../etc''] = ''/etc''"
  proof -
    have "path_Join [abs_path [''data'', ''v'', ''mount''], ''/../../../etc''] = abs_path (resolve [''data'', ''v'', ''mount''] ''/../../../etc'')"
      by (rule path_Join_abs2) (simp add: proper_def)
    moreover have "resolve [''data'', ''v'', ''mount''] ''/../../../etc'' = [''etc'']" by (simp add: resolve_def)
    ultimately show ?thesis by (simp add: abs_path_def)
  qed
  have m: "mountPath vol = ''/data/v/mount''" using newBeegfsVolume_fields(6) [OF vol] unfolding j .
  have d: "volDirPath vol = ''/etc''" using newBeegfsVolume_fields(11) [OF vol] unfolding m k .
  show ?thesis unfolding newBeegfsVolumeFromID_def parse bindE_simps prod.case vol using m d by blast
qed

text \<open>An IPv6 address without brackets is accepted as a management host, and the volume gets an ID that is no URL: the
  controller does not know the volume again, and a request to delete it succeeds without doing anything.\<close>

definition IPv6_req :: CreateVolumeRequest where
  "IPv6_req = sample_req\<lparr>cv_Parameters := [(sysMgmtdHostKey, ''fd00::a''), (volDirBasePathKey, ''/scratch'')]\<rparr>"

lemma IPv6_params: "\<exists>params rest. validateReqParams (cv_Parameters IPv6_req) = Inr (params, rest)
    \<and> rp_sysMgmtdHost params = ''fd00::a'' \<and> rp_volDirBasePathBeegfsRoot params = ''/scratch''"
proof -
  have "case validateReqParams (cv_Parameters IPv6_req) of Inl _ \<Rightarrow> False
      | Inr (params, rest) \<Rightarrow> rp_sysMgmtdHost params = ''fd00::a'' \<and> rp_volDirBasePathBeegfsRoot params = ''/scratch''"
    by code_simp
  then show ?thesis by (auto split: sum.splits prod.splits)
qed

theorem unbracketed_IPv6_is_lost:
  "\<exists>params vol e. checkCreate sample_cs IPv6_req = Inr (params, vol) \<and> volumeID vol = ''beegfs://fd00::a/scratch/vol1''
     \<and> cs_newBeegfsVolumeFromID sample_cs (volumeID vol) = Inl e
     \<and> run_state (DeleteVolume (traced env) lib fuel sample_cs (volumeID vol)) s = (Inr (), s)"
proof -
  obtain params rest where ps: "validateReqParams (cv_Parameters IPv6_req) = Inr (params, rest)"
      "rp_sysMgmtdHost params = ''fd00::a''" "rp_volDirBasePathBeegfsRoot params = ''/scratch''"
    using IPv6_params by blast
  have url: "NewBeegfsURL ''fd00::a'' ''/scratch/vol1'' = ''beegfs://fd00::a/scratch/vol1''" by code_simp
  have join: "path_Join [''/scratch'', ''vol1''] = ''/scratch/vol1''" by (simp add: path_defs)
  obtain vol where vol: "newBeegfsVolume (path_Join [''/data'', sanitizeVolumeID (NewBeegfsURL ''fd00::a'' ''/scratch/vol1'')]) ''fd00::a'' ''/scratch/vol1'' zeroPluginConfig = Inr vol"
    using newBeegfsVolume_result [OF zero_plugin_ok] by blast
  have "cs_newBeegfsVolume sample_cs ''fd00::a'' ''/scratch'' ''vol1'' = Inr vol"
    using vol by (simp only: cs_newBeegfsVolume_def join Let_def) (simp add: sample_cs_def)
  moreover have "Name IPv6_req = ''vol1''" "cv_VolumeCapabilities IPv6_req = cv_VolumeCapabilities sample_req" "cv_Parameters IPv6_req \<noteq> []"
      "fst (isValidVolumeCapabilities (cv_VolumeCapabilities sample_req))" "cv_VolumeCapabilities sample_req \<noteq> []"
    by (simp_all add: IPv6_req_def sample_req_def)
  ultimately have ok: "checkCreate sample_cs IPv6_req = Inr (params, vol)" using ps by (simp add: checkCreate_def)
  have id: "volumeID vol = ''beegfs://fd00::a/scratch/vol1''" using newBeegfsVolume_fields(12) [OF vol] unfolding url .
  have "case parseBeegfsURL ''beegfs://fd00::a/scratch/vol1'' of Inl e \<Rightarrow> \<not> is_panic e | Inr _ \<Rightarrow> False" by code_simp
  then obtain e where e: "parseBeegfsURL ''beegfs://fd00::a/scratch/vol1'' = Inl e" "\<not> is_panic e" by (auto split: sum.splits)
  then have lost: "cs_newBeegfsVolumeFromID sample_cs ''beegfs://fd00::a/scratch/vol1'' = Inl e"
    by (simp add: cs_newBeegfsVolumeFromID_def newBeegfsVolumeFromID_def)
  have "run_state (DeleteVolume (traced env) lib fuel sample_cs ''beegfs://fd00::a/scratch/vol1'') s = (Inr (), s)"
    using e(2) by (simp add: DeleteVolume_eq lost)
  with ok id lost show ?thesis by (intro exI [of _ params] exI [of _ vol] exI [of _ e]) simp
qed

end
