(* ===== verification/Concurrency.thy ===== *)
theory Concurrency
  imports Controller_Steps
begin

text \<open>
  Requests at the same time. gRPC runs every request in a goroutine of its own; what they share is the controller's
  state. The requests are the processes of Controller.thy, and the step relation runs them: the methods of the lock and
  of the status map hold a mutex for their whole body and are one step each, by the operations of Thread_Safe.thy. While
  a process is calling the world, the world may change in any way and at any time, since the calls of several requests
  (and the nodes) are interleaved there, and the calls may come back with any result; a call that does not return leaves
  its process where it is. Nothing else is known of a process than what its handler does, so what is proved here of
  the lock is proved of the handlers.
\<close>

subsection \<open>The step relation\<close>

record ('w, 'a) system =
  shared :: "'w controller_state"
  running :: "nat \<Rightarrow> ('w, goerr + 'a) process"

definition proceed :: "nat \<Rightarrow> ('w, goerr + 'a) process \<Rightarrow> 'w controller_state \<Rightarrow> ('w, 'a) system \<Rightarrow> ('w, 'a) system" where
  "proceed i p s S = S\<lparr>shared := s, running := (running S)(i := p)\<rparr>"

text \<open>\<open>step i S T\<close>: request \<open>i\<close> makes a step.\<close>

inductive step :: "nat \<Rightarrow> ('w, 'a) system \<Rightarrow> ('w, 'a) system \<Rightarrow> bool" where
  reads: "running S i = ReadStatus v k \<Longrightarrow> run_state (cs_readStatus v) (shared S) = (x, s) \<Longrightarrow> step i S (proceed i (k x) s S)"
| writes: "running S i = WriteStatus v st p \<Longrightarrow> run_state (cs_writeStatus v st) (shared S) = (u, s) \<Longrightarrow> step i S (proceed i p s S)"
| obtains_lock: "running S i = ObtainLock v k \<Longrightarrow> run_state (cs_obtainLock v) (shared S) = (ok, s) \<Longrightarrow> step i S (proceed i (k ok) s S)"
| releases: "running S i = ReleaseLock v p \<Longrightarrow> run_state (cs_releaseLock v) (shared S) = (u, s) \<Longrightarrow> step i S (proceed i p s S)"
| acts: "running S i = OnWorld m k \<Longrightarrow> step i S (proceed i (OnWorld m k) ((shared S)\<lparr>world := w\<rparr>) S)"
| finishes: "running S i = OnWorld m k \<Longrightarrow> \<not> diverges b \<Longrightarrow> step i S (proceed i (k b) (shared S) S)"

inductive_cases stepE: "step i S T"

definition any_step :: "('w, 'a) system \<Rightarrow> ('w, 'a) system \<Rightarrow> bool" where
  "any_step S T \<longleftrightarrow> (\<exists>i. step i S T)"

lemma proceed_simps [simp]:
  "shared (proceed i p s S) = s"
  "running (proceed i p s S) j = (if j = i then p else running S j)"
  "proceed i p s (proceed i q t S) = proceed i p s S"
  by (simp_all add: proceed_def)

lemma proceed_same: "running S i = p \<Longrightarrow> proceed i p (shared S) S = S"
  by (simp add: proceed_def fun_upd_idem)

subsection \<open>What is asked of a process\<close>

text \<open>The next thing that the process does to a lock is to release it.\<close>

primrec holding :: "('w, 'a) process \<Rightarrow> bool" where
  "holding (Return x) = False"
| "holding (ReadStatus v k) = holding (k None)"
| "holding (WriteStatus v st p) = holding p"
| "holding (ObtainLock v k) = False"
| "holding (ReleaseLock v p) = True"
| "holding (OnWorld m k) = holding (k (Inr ()))"

text \<open>The process is about to change the world or the record of a volume.\<close>

fun working :: "('w, 'a) process \<Rightarrow> bool" where
  "working (WriteStatus v st p) = True"
| "working (OnWorld m k) = True"
| "working p = False"

text \<open>The protocol. Whatever the answers it gets, a process for the volume \<open>v\<close> looks at, records, locks and releases no
  volume but \<open>v\<close>; it acts on the world, by computations in \<open>A\<close> only, and on the record only while it has the lock; it obtains the lock only while it
  does not have it, and then begins its work, it fails at once when the lock is refused, and it has given it back when it
  returns. When a call to the
  world does not return, neither does the process.\<close>

primrec disciplined :: "('w, goerr + unit) state set \<Rightarrow> string option \<Rightarrow> ('w, goerr + 'a) process \<Rightarrow> bool \<Rightarrow> bool" where
  "disciplined A v (Return x) h = (\<not> h)"
| "disciplined A v (ReadStatus u k) h = (v = Some u \<and> (\<forall>x. disciplined A v (k x) h))"
| "disciplined A v (WriteStatus u st p) h = (v = Some u \<and> h \<and> disciplined A v p h)"
| "disciplined A v (ObtainLock u k) h = (v = Some u \<and> \<not> h \<and> disciplined A v (k True) True \<and> working (k True) \<and> (\<exists>e. k False = Return (Inl e)))"
| "disciplined A v (ReleaseLock u p) h = (v = Some u \<and> h \<and> disciplined A v p False)"
| "disciplined A v (OnWorld m k) h = (h \<and> m \<in> A \<and> (\<forall>b. if diverges b then \<exists>r. k b = Return r \<and> diverges r else disciplined A v (k b) h))"

lemma disciplined_holding: "disciplined A v p h \<Longrightarrow> h = holding p"
proof (induction p arbitrary: h)
  case (OnWorld m k)
  then have "disciplined A v (k (Inr ())) h" by (auto dest: spec [of _ "Inr ()"])
  with OnWorld.IH show ?case by simp
qed auto

lemma disciplined_volume: "disciplined A v p True \<Longrightarrow> \<exists>u. v = Some u"
proof (induction p)
  case (OnWorld m k)
  then have "disciplined A v (k (Inr ())) True" by (auto dest: spec [of _ "Inr ()"])
  with OnWorld.IH [OF rangeI] show ?case by blast
qed auto

lemma disciplined_None: "disciplined A None p h \<Longrightarrow> \<exists>x. p = Return x"
proof (cases h)
  case True
  then show "disciplined A None p h \<Longrightarrow> ?thesis" using disciplined_volume [of A None p] by simp
next
  case False
  then show "disciplined A None p h \<Longrightarrow> ?thesis" by (cases p) simp_all
qed

lemma disciplined_working: "disciplined A v p h \<Longrightarrow> working p \<Longrightarrow> h"
  by (cases p) auto

lemma working_andThen: "working p \<Longrightarrow> working (andThen p k)"
  by (cases p) simp_all

lemma disciplined_andThen:
  "disciplined A v p h \<Longrightarrow> disciplined A v (andThen p (\<lambda>r. Return (map_sum id f r))) h"
proof (induction p arbitrary: h)
  case (OnWorld m k)
  show ?case
  proof (simp only: andThen.simps disciplined.simps, intro conjI allI)
    show h "m \<in> A" using OnWorld.prems by simp_all
    fix b
    have b: "if diverges b then \<exists>r. k b = Return r \<and> diverges r else disciplined A v (k b) h"
      using OnWorld.prems unfolding disciplined.simps by blast
    show "if diverges b then \<exists>r. andThen (k b) (\<lambda>r. Return (map_sum id f r)) = Return r \<and> diverges r
      else disciplined A v (andThen (k b) (\<lambda>r. Return (map_sum id f r))) h"
    proof (cases "diverges b")
      case True
      then show ?thesis using b by (auto simp: diverges_def split: sum.splits)
    next
      case False
      then show ?thesis using b OnWorld.IH [OF rangeI, of b h] by (simp only: if_False)
    qed
  qed
qed (auto intro: working_andThen)

subsection \<open>A process on its own\<close>

text \<open>A disciplined process that runs alone, and returns, makes steps of its own and gives back what it held.\<close>

lemma exec_steps:
  assumes "disciplined A v p h" "running S i = p" "run_state (exec p) (shared S) = (r, s)" "\<not> diverges r"
  shows "(step i)\<^sup>*\<^sup>* S (proceed i (Return r) s S)"
  using assms
proof (induction p arbitrary: h S)
  case (Return x)
  then show ?case using proceed_same [of S i "Return r"] by auto
next
  case (ReadStatus u k)
  let ?x = "readStatus u (volumeStatusMap (shared S))"
  have 1: "step i S (proceed i (k ?x) (shared S) S)" by (rule reads [OF ReadStatus.prems(2)]) (simp add: run_cs)
  have "(step i)\<^sup>*\<^sup>* (proceed i (k ?x) (shared S) S) (proceed i (Return r) s (proceed i (k ?x) (shared S) S))"
    by (rule ReadStatus.IH [of _ h]) (use ReadStatus.prems in \<open>auto simp: run_cs\<close>)
  with 1 show ?case by (simp add: converse_rtranclp_into_rtranclp)
next
  case (WriteStatus u st p)
  let ?s = "(shared S)\<lparr>volumeStatusMap := writeStatus u st (volumeStatusMap (shared S))\<rparr>"
  have 1: "step i S (proceed i p ?s S)" by (rule writes [OF WriteStatus.prems(2)]) (simp add: run_cs)
  have "(step i)\<^sup>*\<^sup>* (proceed i p ?s S) (proceed i (Return r) s (proceed i p ?s S))"
    by (rule WriteStatus.IH [of h]) (use WriteStatus.prems in \<open>auto simp: run_cs\<close>)
  with 1 show ?case by (simp add: converse_rtranclp_into_rtranclp)
next
  case (ObtainLock u k)
  obtain ok s1 where ok: "run_state (cs_obtainLock u) (shared S) = (ok, s1)" by fastforce
  have 1: "step i S (proceed i (k ok) s1 S)" by (rule obtains_lock [OF ObtainLock.prems(2) ok])
  have d: "disciplined A v (k ok) ok" using ObtainLock.prems(1) by (cases ok) auto
  have run: "run_state (exec (k ok)) s1 = (r, s)" using ObtainLock.prems(3) ok by simp
  have "(step i)\<^sup>*\<^sup>* (proceed i (k ok) s1 S) (proceed i (Return r) s (proceed i (k ok) s1 S))"
    by (rule ObtainLock.IH [OF rangeI d]) (simp_all add: run ObtainLock.prems(4))
  with 1 show ?case by (simp add: converse_rtranclp_into_rtranclp)
next
  case (ReleaseLock u p)
  let ?s = "(shared S)\<lparr>volumeIDsInFlight := releaseLockOnString u (volumeIDsInFlight (shared S))\<rparr>"
  have 1: "step i S (proceed i p ?s S)" by (rule releases [OF ReleaseLock.prems(2)]) (simp add: run_cs)
  have "(step i)\<^sup>*\<^sup>* (proceed i p ?s S) (proceed i (Return r) s (proceed i p ?s S))"
    by (rule ReleaseLock.IH [of False]) (use ReleaseLock.prems in \<open>auto simp: run_cs\<close>)
  with 1 show ?case by (simp add: converse_rtranclp_into_rtranclp)
next
  case (OnWorld m k)
  obtain b w where b: "run_state m (world (shared S)) = (b, w)" by fastforce
  let ?s = "(shared S)\<lparr>world := w\<rparr>"
  have run: "run_state (exec (k b)) ?s = (r, s)" using OnWorld.prems(3) b by (simp add: run_cs)
  have returns: "\<not> diverges b" using OnWorld.prems(1,4) run by (auto dest!: spec [of _ b])
  have "step i S (proceed i (OnWorld m k) ?s S)" by (rule acts [OF OnWorld.prems(2)])
  moreover have "step i (proceed i (OnWorld m k) ?s S) (proceed i (k b) ?s S)"
    using finishes [of "proceed i (OnWorld m k) ?s S" i m k b] returns by simp
  moreover have "(step i)\<^sup>*\<^sup>* (proceed i (k b) ?s S) (proceed i (Return r) s (proceed i (k b) ?s S))"
    by (rule OnWorld.IH [of _ h]) (use OnWorld.prems run returns in \<open>auto dest: spec [of _ b]\<close>)
  ultimately show ?case by (simp add: converse_rtranclp_into_rtranclp)
qed

lemma exec_locks:
  assumes "disciplined A (Some v) p h" "h \<Longrightarrow> v \<in> lock_items (volumeIDsInFlight s)"
    "run_state (exec p) s = (r, s')" "\<not> diverges r"
  shows "lock_items (volumeIDsInFlight s') = (if h then lock_items (volumeIDsInFlight s) - {v} else lock_items (volumeIDsInFlight s))"
  using assms
proof (induction p arbitrary: h s)
  case (ObtainLock u k)
  then have u: "u = v" and d: "disciplined A (Some v) (k True) True" "disciplined A (Some v) (k False) False" and h: "\<not> h" by auto
  let ?l = "volumeIDsInFlight s"
  show ?case
  proof (cases "v \<in> lock_items ?l")
    case True
    then have run: "run_state (exec (k False)) s = (r, s')" using ObtainLock.prems(3) u by (simp add: run_cs_obtainLock obtain_busy)
    from ObtainLock.IH [OF rangeI d(2) _ run ObtainLock.prems(4)] h show ?thesis by simp
  next
    case False
    let ?s = "s\<lparr>volumeIDsInFlight := snd (obtainLockOnString v ?l)\<rparr>"
    from False have run: "run_state (exec (k True)) ?s = (r, s')" using ObtainLock.prems(3) u by (simp add: run_cs_obtainLock)
    have held: "lock_items (volumeIDsInFlight ?s) = insert v (lock_items ?l)" by (simp add: volume_lock.obtain_held)
    from ObtainLock.IH [OF rangeI d(1) _ run ObtainLock.prems(4)] h False show ?thesis unfolding held by simp
  qed
next
  case (ReleaseLock u p)
  show ?case
    using ReleaseLock.prems ReleaseLock.IH [of False "s\<lparr>volumeIDsInFlight := releaseLockOnString v (volumeIDsInFlight s)\<rparr>"]
    by (auto simp: run_cs volume_lock.release_held)
next
  case (OnWorld m k)
  obtain b w where b: "run_state m (world s) = (b, w)" by fastforce
  have run: "run_state (exec (k b)) (s\<lparr>world := w\<rparr>) = (r, s')" using OnWorld.prems(3) b by (simp add: run_cs)
  have returns: "\<not> diverges b" using OnWorld.prems(1,4) run by (auto dest!: spec [of _ b])
  have "disciplined A (Some v) (k b) h" using OnWorld.prems(1) returns by (auto dest: spec [of _ b])
  from OnWorld.IH [OF rangeI this _ run OnWorld.prems(4)] show ?case using OnWorld.prems(2) by simp
next
  case (ReadStatus u k)
  show ?case
    by (rule ReadStatus.IH [OF rangeI _ ReadStatus.prems(2), of "readStatus u (volumeStatusMap s)"])
      (use ReadStatus.prems in \<open>auto simp: run_cs\<close>)
next
  case (WriteStatus u st p)
  show ?case
    using WriteStatus.IH [of h "s\<lparr>volumeStatusMap := writeStatus u st (volumeStatusMap s)\<rparr>"] WriteStatus.prems by (auto simp: run_cs)
qed simp

subsection \<open>The invariant\<close>

text \<open>Every process keeps to the protocol from where it is, the volumes in flight are those of the processes that have the
  lock, and no two of these have the same volume.\<close>

definition protocol :: "(nat \<Rightarrow> ('w, goerr + unit) state set) \<Rightarrow> (nat \<Rightarrow> string option) \<Rightarrow> ('w, 'a) system \<Rightarrow> bool" where
  "protocol A vol T \<longleftrightarrow>
     (\<forall>i. disciplined (A i) (vol i) (running T i) (holding (running T i)))
     \<and> lock_items (volumeIDsInFlight (shared T)) = {v. \<exists>i. holding (running T i) \<and> vol i = Some v}
     \<and> (\<forall>i j. holding (running T i) \<and> holding (running T j) \<and> vol i = vol j \<longrightarrow> i = j)"

lemma protocol_disciplined: "protocol A vol T \<Longrightarrow> disciplined (A i) (vol i) (running T i) (holding (running T i))"
  by (simp add: protocol_def)

lemma protocol_unique: "protocol A vol T \<Longrightarrow> holding (running T i) \<Longrightarrow> holding (running T j) \<Longrightarrow> vol i = vol j \<Longrightarrow> i = j"
  by (simp add: protocol_def)

lemma protocol_keeps:
  assumes "protocol A vol S" "disciplined (A i) (vol i) p h" "holding (running S i) = h"
    "lock_items (volumeIDsInFlight s) = lock_items (volumeIDsInFlight (shared S))"
  shows "protocol A vol (proceed i p s S)"
proof -
  have h: "holding p = holding (running S i)" using disciplined_holding [OF assms(2)] assms(3) by simp
  then have "holding (running (proceed i p s S) j) = holding (running S j)" for j by simp
  with assms h show ?thesis unfolding protocol_def by (auto simp: split: if_splits)
qed

lemma protocol_obtains:
  assumes "protocol A vol S" "disciplined (A i) (vol i) p True" "\<not> holding (running S i)" "vol i = Some v"
    "v \<notin> lock_items (volumeIDsInFlight (shared S))"
    "lock_items (volumeIDsInFlight s) = insert v (lock_items (volumeIDsInFlight (shared S)))"
  shows "protocol A vol (proceed i p s S)"
proof -
  have p: "holding p" using disciplined_holding [OF assms(2)] by simp
  have fresh: "\<And>j. holding (running S j) \<Longrightarrow> vol j \<noteq> Some v" using assms(1,5) unfolding protocol_def by auto
  show ?thesis
    unfolding protocol_def
  proof (intro conjI allI impI)
    show "disciplined (A j) (vol j) (running (proceed i p s S) j) (holding (running (proceed i p s S) j))" for j
      using assms(1,2) p unfolding protocol_def by auto
    show "lock_items (volumeIDsInFlight (shared (proceed i p s S))) = {v. \<exists>j. holding (running (proceed i p s S) j) \<and> vol j = Some v}"
      using assms(1,3,4,6) p unfolding protocol_def by auto
    show "j = k" if "holding (running (proceed i p s S) j) \<and> holding (running (proceed i p s S) k) \<and> vol j = vol k" for j k
      using that assms(1,4) fresh [of j] fresh [of k] unfolding protocol_def by (auto split: if_splits)
  qed
qed

lemma protocol_releases:
  assumes "protocol A vol S" "disciplined (A i) (vol i) p False" "holding (running S i)" "vol i = Some v"
    "lock_items (volumeIDsInFlight s) = lock_items (volumeIDsInFlight (shared S)) - {v}"
  shows "protocol A vol (proceed i p s S)"
proof -
  have p: "\<not> holding p" using disciplined_holding [OF assms(2)] by simp
  have only: "\<And>j. holding (running S j) \<Longrightarrow> vol j = Some v \<Longrightarrow> j = i" using assms(1,3,4) unfolding protocol_def by auto
  show ?thesis
    unfolding protocol_def
  proof (intro conjI allI impI)
    show "disciplined (A j) (vol j) (running (proceed i p s S) j) (holding (running (proceed i p s S) j))" for j
      using assms(1,2) p unfolding protocol_def by auto
    have "{u. \<exists>j. holding (running (proceed i p s S) j) \<and> vol j = Some u} = {u. \<exists>j. j \<noteq> i \<and> holding (running S j) \<and> vol j = Some u}"
      using p by auto
    also have "\<dots> = {u. \<exists>j. holding (running S j) \<and> vol j = Some u} - {v}"
      using assms(4) only by (intro set_eqI iffI) (simp_all, blast, metis option.inject)
    finally show "lock_items (volumeIDsInFlight (shared (proceed i p s S))) = {u. \<exists>j. holding (running (proceed i p s S) j) \<and> vol j = Some u}"
      using assms(1,5) unfolding protocol_def by simp
    show "j = k" if "holding (running (proceed i p s S) j) \<and> holding (running (proceed i p s S) k) \<and> vol j = vol k" for j k
      using that assms(1) p unfolding protocol_def by (auto split: if_splits)
  qed
qed

lemma step_protocol:
  assumes "step i S T" "protocol A vol S"
  shows "protocol A vol T"
proof -
  have d: "disciplined (A i) (vol i) (running S i) (holding (running S i))" using assms(2) by (simp add: protocol_def)
  from assms(1) show ?thesis
  proof cases
    case (reads v k x s)
    then show ?thesis using d by (auto intro!: protocol_keeps [OF assms(2) _ refl] simp: run_cs)
  next
    case (writes v st p u s)
    then show ?thesis using d by (auto intro!: protocol_keeps [OF assms(2) _ refl] simp: run_cs)
  next
    case (obtains_lock v k ok s)
    then have k: "vol i = Some v" "disciplined (A i) (vol i) (k ok) ok" "\<not> holding (running S i)" using d by (cases ok; auto)+
    show ?thesis
    proof (cases ok)
      case True
      then show ?thesis unfolding obtains_lock(1) using obtains_lock(3) k
        by (intro protocol_obtains [OF assms(2), where v = v]) (auto simp: run_cs_obtainLock volume_lock.obtain_held)
    next
      case False
      then show ?thesis unfolding obtains_lock(1) using obtains_lock(3) k
        by (intro protocol_keeps [OF assms(2), where h = False]) (auto simp: run_cs_obtainLock obtain_busy)
    qed
  next
    case (releases v p u s)
    then have "vol i = Some v" "disciplined (A i) (vol i) p False" "holding (running S i)" using d by auto
    then show ?thesis unfolding releases(1) using releases(3)
      by (intro protocol_releases [OF assms(2), where v = v]) (auto simp: run_cs volume_lock.release_held)
  next
    case (acts m k w)
    then have "disciplined (A i) (vol i) (OnWorld m k) (holding (running S i))" using d by metis
    then show ?thesis unfolding acts(1) by (rule protocol_keeps [OF assms(2) _ refl]) simp
  next
    case (finishes m k b)
    then have "disciplined (A i) (vol i) (k b) (holding (running S i))" using d by (auto dest: spec [of _ b])
    then show ?thesis unfolding finishes(1) by (intro protocol_keeps [OF assms(2) _ refl]) simp_all
  qed
qed

lemma steps_protocol: "any_step\<^sup>*\<^sup>* S T \<Longrightarrow> protocol A vol S \<Longrightarrow> protocol A vol T"
  by (induction rule: rtranclp_induct) (auto simp: any_step_def intro: step_protocol)

lemma steps_of_one: "(step i)\<^sup>*\<^sup>* S T \<Longrightarrow> any_step\<^sup>*\<^sup>* S T"
  by (induction rule: rtranclp_induct) (auto simp: any_step_def intro: rtranclp.rtrancl_into_rtrancl)

text \<open>The volumes in flight are empty, and every request is at its start. A request that has not arrived yet is one that
  has not made its first step.\<close>

definition initial :: "('q \<Rightarrow> ('w, goerr + 'a) process) \<Rightarrow> (nat \<Rightarrow> 'q) \<Rightarrow> ('w, 'a) system \<Rightarrow> bool" where
  "initial start qs S \<longleftrightarrow> lock_items (volumeIDsInFlight (shared S)) = {} \<and> (\<forall>i. running S i = start (qs i))"

subsection \<open>A service that keeps to the protocol\<close>

locale locking_service =
  fixes start :: "'q \<Rightarrow> ('w, goerr + 'a) process"
    and volume_of :: "'q \<Rightarrow> string option"
    and sections :: "'q \<Rightarrow> ('w, goerr + unit) state set"
  assumes start_disciplined: "disciplined (sections q) (volume_of q) (start q) False"
begin

lemma initial_protocol: "initial start qs S \<Longrightarrow> protocol (\<lambda>i. sections (qs i)) (\<lambda>i. volume_of (qs i)) S"
  using start_disciplined by (simp add: initial_def protocol_def disciplined_holding [OF start_disciplined, symmetric])

lemma reachable_protocol:
  "initial start qs S \<Longrightarrow> any_step\<^sup>*\<^sup>* S T \<Longrightarrow> protocol (\<lambda>i. sections (qs i)) (\<lambda>i. volume_of (qs i)) T"
  using steps_protocol initial_protocol by blast

lemma locked:
  assumes "initial start qs S" "any_step\<^sup>*\<^sup>* S T"
  shows "lock_items (volumeIDsInFlight (shared T)) = {v. \<exists>i. holding (running T i) \<and> volume_of (qs i) = Some v}"
  using reachable_protocol [OF assms] by (simp add: protocol_def)

lemma exclusive:
  assumes "initial start qs S" "any_step\<^sup>*\<^sup>* S T" "holding (running T i)" "holding (running T j)" "i \<noteq> j"
  shows "volume_of (qs i) \<noteq> volume_of (qs j)"
  using protocol_unique [OF reachable_protocol [OF assms(1,2)] assms(3,4)] assms(5) by blast

lemma holder_volume:
  assumes "initial start qs S" "any_step\<^sup>*\<^sup>* S T" "holding (running T i)"
  obtains v where "volume_of (qs i) = Some v" "v \<in> lock_items (volumeIDsInFlight (shared T))"
proof -
  have "disciplined (sections (qs i)) (volume_of (qs i)) (running T i) True"
    using protocol_disciplined [OF reachable_protocol [OF assms(1,2)], of i] assms(3) by simp
  then obtain v where "volume_of (qs i) = Some v" using disciplined_volume by blast
  moreover from this have "v \<in> lock_items (volumeIDsInFlight (shared T))"
    unfolding locked [OF assms(1,2)] using assms(3) by blast
  ultimately show ?thesis by (rule that)
qed

lemma worker_holds:
  assumes "initial start qs S" "any_step\<^sup>*\<^sup>* S T" "working (running T i)"
  shows "holding (running T i)"
  by (rule disciplined_working [OF protocol_disciplined [OF reachable_protocol [OF assms(1,2)]] assms(3)])

lemma worker_section:
  assumes "initial start qs S" "any_step\<^sup>*\<^sup>* S T" "running T i = OnWorld m k"
  shows "m \<in> sections (qs i)"
proof -
  have "disciplined (sections (qs i)) (volume_of (qs i)) (OnWorld m k) (holding (OnWorld m k))"
    using protocol_disciplined [OF reachable_protocol [OF assms(1,2)], of i] unfolding assms(3) .
  then show ?thesis by simp
qed

lemma runs_to_its_end:
  assumes "initial start qs S" "any_step\<^sup>*\<^sup>* S T" "run_state (exec (running T i)) (shared T) = (r, s)" "\<not> diverges r"
  shows "(step i)\<^sup>*\<^sup>* T (proceed i (Return r) s T)
    \<and> lock_items (volumeIDsInFlight s) =
        lock_items (volumeIDsInFlight (shared T)) - {v. holding (running T i) \<and> volume_of (qs i) = Some v}"
proof
  let ?h = "holding (running T i)"
  have d: "disciplined (sections (qs i)) (volume_of (qs i)) (running T i) ?h"
    by (rule protocol_disciplined [OF reachable_protocol [OF assms(1,2)]])
  show "(step i)\<^sup>*\<^sup>* T (proceed i (Return r) s T)" by (rule exec_steps [OF d refl assms(3,4)])
  show "lock_items (volumeIDsInFlight s) = lock_items (volumeIDsInFlight (shared T)) - {v. ?h \<and> volume_of (qs i) = Some v}"
  proof (cases "volume_of (qs i)")
    case None
    obtain x where "running T i = Return x" using disciplined_None [OF d [unfolded None]] by blast
    then show ?thesis using assms(3) None by simp
  next
    case (Some v)
    have "?h \<Longrightarrow> v \<in> lock_items (volumeIDsInFlight (shared T))" unfolding locked [OF assms(1,2)] using Some by blast
    from exec_locks [OF d [unfolded Some] this assms(3,4)] Some show ?thesis by auto
  qed
qed

lemma free_volume_obtained:
  assumes "initial start qs S" "any_step\<^sup>*\<^sup>* S T" "running T i = ObtainLock v k"
    "\<And>j. holding (running T j) \<Longrightarrow> volume_of (qs j) \<noteq> Some v"
  shows "\<exists>U. step i T U \<and> working (running U i) \<and> v \<in> lock_items (volumeIDsInFlight (shared U))"
proof -
  have "disciplined (sections (qs i)) (volume_of (qs i)) (ObtainLock v k) (holding (ObtainLock v k))"
    using protocol_disciplined [OF reachable_protocol [OF assms(1,2)], of i] unfolding assms(3) .
  then have work: "working (k True)" by simp
  have "v \<notin> lock_items (volumeIDsInFlight (shared T))" unfolding locked [OF assms(1,2)] using assms(4) by blast
  then have "step i T (proceed i (k True) ((shared T)\<lparr>volumeIDsInFlight := snd (obtainLockOnString v (volumeIDsInFlight (shared T)))\<rparr>) T)"
    (is "step i T ?U") by (intro obtains_lock [OF assms(3)]) (simp add: run_cs_obtainLock)
  then show ?thesis by (intro exI [of _ ?U]) (simp add: work volume_lock.obtain_held)
qed

end

subsection \<open>The requests of the controller service\<close>

datatype controller_request =
    Create CreateVolumeRequest
  | Delete string
  | Validate ValidateVolumeCapabilitiesRequest

datatype controller_response =
    Created string
  | Deleted
  | Validated ValidateVolumeCapabilitiesResponse

definition handler ::
  "'w os_env \<Rightarrow> 'i ini_lib \<Rightarrow> nat \<Rightarrow> 'w controllerServer \<Rightarrow> controller_request \<Rightarrow> ('w, goerr + controller_response) process"
where
  "handler env lib fuel cs q =
     (case q of
        Create req \<Rightarrow> andThen (CreateVolume_process env lib cs req) (\<lambda>r. Return (map_sum id Created r))
      | Delete volID \<Rightarrow> andThen (DeleteVolume_process env lib fuel cs volID) (\<lambda>r. Return (map_sum id (\<lambda>_. Deleted) r))
      | Validate req \<Rightarrow> andThen (ValidateVolumeCapabilities_process env lib cs req) (\<lambda>r. Return (map_sum id Validated r)))"

text \<open>The volume that a request is about, if its arguments are in order.\<close>

definition request_target :: "'w controllerServer \<Rightarrow> controller_request \<Rightarrow> beegfsVolume option" where
  "request_target cs q =
     (case q of
        Create req \<Rightarrow> (case checkCreate cs req of Inl _ \<Rightarrow> None | Inr (_, vol) \<Rightarrow> Some vol)
      | Delete volID \<Rightarrow> if volID = [] then None else (case cs_newBeegfsVolumeFromID cs volID of Inl _ \<Rightarrow> None | Inr vol \<Rightarrow> Some vol)
      | Validate req \<Rightarrow> (case checkValidate cs req of Inl _ \<Rightarrow> None | Inr (_, vol) \<Rightarrow> Some vol))"

abbreviation request_volume :: "'w controllerServer \<Rightarrow> controller_request \<Rightarrow> string option" where
  "request_volume cs q \<equiv> map_option volumeID (request_target cs q)"

text \<open>What the service does to the world for a volume.\<close>

definition sections_on :: "'w os_env \<Rightarrow> 'i ini_lib \<Rightarrow> nat \<Rightarrow> 'w controllerServer \<Rightarrow> beegfsVolume \<Rightarrow> ('w, goerr + unit) state set" where
  "sections_on env lib fuel cs vol =
     {createOnWorld env lib cs vol params | params. True}
     \<union> {deleteOnWorld env lib fuel cs vol, statOnWorld env lib cs vol,
         unmountAndCleanUpIfNecessary env vol True, cleanUpIfNecessary env vol True}"

definition request_sections ::
  "'w os_env \<Rightarrow> 'i ini_lib \<Rightarrow> nat \<Rightarrow> 'w controllerServer \<Rightarrow> controller_request \<Rightarrow> ('w, goerr + unit) state set"
where
  "request_sections env lib fuel cs q = (case request_target cs q of None \<Rightarrow> {} | Some vol \<Rightarrow> sections_on env lib fuel cs vol)"

lemma all_sum: "(\<forall>x. P x) \<longleftrightarrow> (\<forall>a. P (Inl a)) \<and> (\<forall>b. P (Inr b))"
  by (metis sum.exhaust)

lemma sections_on_intros [simp]:
  "createOnWorld env lib cs vol params \<in> sections_on env lib fuel cs vol"
  "deleteOnWorld env lib fuel cs vol \<in> sections_on env lib fuel cs vol"
  "statOnWorld env lib cs vol \<in> sections_on env lib fuel cs vol"
  "unmountAndCleanUpIfNecessary env vol True \<in> sections_on env lib fuel cs vol"
  "cleanUpIfNecessary env vol True \<in> sections_on env lib fuel cs vol"
  by (auto simp: sections_on_def)

lemma createAttempt_disciplined:
  "disciplined (sections_on env lib fuel cs vol) (Some (volumeID vol)) (exclusively (volumeID vol) (createAttempt env lib cs vol params)) False"
  by (simp add: exclusively_def createAttempt_def deferring_def checked_p_def all_sum)

lemma deleteAttempt_disciplined:
  "disciplined (sections_on env lib fuel cs vol) (Some (volumeID vol)) (exclusively (volumeID vol) (deleteAttempt env lib fuel cs vol)) False"
  by (simp add: exclusively_def deleteAttempt_def deferring_def Let_def all_sum)

lemma validateAttempt_disciplined:
  "disciplined (sections_on env lib fuel cs vol) (Some (volumeID vol)) (exclusively (volumeID vol) (validateAttempt env lib cs vol caps ps)) False"
  by (simp add: exclusively_def validateAttempt_def deferring_def checked_p_def all_sum)

lemma handler_disciplined:
  "disciplined (request_sections env lib fuel cs q) (request_volume cs q) (handler env lib fuel cs q) False"
proof (cases q)
  case (Create req)
  have "disciplined (request_sections env lib fuel cs q) (request_volume cs q) (CreateVolume_process env lib cs req) False"
    using createAttempt_disciplined
    by (auto simp: Create request_sections_def request_target_def CreateVolume_process_eq guarded_p_def split: sum.split)
  then show ?thesis unfolding handler_def using disciplined_andThen by (simp only: Create controller_request.case)
next
  case (Delete volID)
  have "disciplined (request_sections env lib fuel cs q) (request_volume cs q) (DeleteVolume_process env lib fuel cs volID) False"
    using deleteAttempt_disciplined
    by (auto simp: Delete request_sections_def request_target_def DeleteVolume_process_def split: sum.split)
  then show ?thesis unfolding handler_def using disciplined_andThen by (simp only: Delete controller_request.case)
next
  case (Validate req)
  have "disciplined (request_sections env lib fuel cs q) (request_volume cs q) (ValidateVolumeCapabilities_process env lib cs req) False"
    using validateAttempt_disciplined
    by (auto simp: Validate request_sections_def request_target_def Validate_process_eq guarded_p_def split: sum.split)
  then show ?thesis unfolding handler_def using disciplined_andThen by (simp only: Validate controller_request.case)
qed

interpretation controller: locking_service "handler env lib fuel cs" "request_volume cs" "request_sections env lib fuel cs"
  for env lib fuel cs
  by unfold_locales (rule handler_disciplined)

text \<open>C1. Mutual exclusion. However the requests of the controller service are interleaved, the volumes in flight are
  exactly those of the requests that have taken the lock and have not released it; a request acts on the world, or
  records a status, only between the two, and what it does to the world is done for the volume that it has locked. No two
  requests are there with the same volume at the same time, and the mount directories of two have different names, if
  their volume IDs are short and have no slash next to another one or to an underscore. When all requests have
  returned, no volume is locked.\<close>

theorem mutual_exclusion:
  assumes "initial (handler env lib fuel cs) qs S" "any_step\<^sup>*\<^sup>* S T"
  shows "lock_items (volumeIDsInFlight (shared T)) = {v. \<exists>i. holding (running T i) \<and> request_volume cs (qs i) = Some v}
    \<and> (\<forall>i. working (running T i) \<longrightarrow> holding (running T i))
    \<and> (\<forall>i m k. running T i = OnWorld m k \<longrightarrow>
        (\<exists>vol. request_target cs (qs i) = Some vol \<and> m \<in> sections_on env lib fuel cs vol
           \<and> volumeID vol \<in> lock_items (volumeIDsInFlight (shared T))))
    \<and> (\<forall>i j x y. holding (running T i) \<and> holding (running T j) \<and> i \<noteq> j
        \<and> request_volume cs (qs i) = Some x \<and> request_volume cs (qs j) = Some y \<longrightarrow>
        x \<noteq> y
        \<and> (\<forall>u v. x = ''beegfs://'' @ u \<and> y = ''beegfs://'' @ v \<and> unambiguous u \<and> unambiguous v
            \<and> length (concat (map sanitized u)) \<le> 255 \<and> length (concat (map sanitized v)) \<le> 255
            \<longrightarrow> sanitizeVolumeID x \<noteq> sanitizeVolumeID y))
    \<and> ((\<forall>i. \<exists>r. running T i = Return r) \<longrightarrow> lock_items (volumeIDsInFlight (shared T)) = {})"
proof (intro conjI)
  let ?locked = "lock_items (volumeIDsInFlight (shared T))"
  show locks: "?locked = {v. \<exists>i. holding (running T i) \<and> request_volume cs (qs i) = Some v}"
    by (rule controller.locked [OF assms])
  show holds: "\<forall>i. working (running T i) \<longrightarrow> holding (running T i)" using controller.worker_holds [OF assms] by blast
  show "\<forall>i m k. running T i = OnWorld m k \<longrightarrow>
        (\<exists>vol. request_target cs (qs i) = Some vol \<and> m \<in> sections_on env lib fuel cs vol \<and> volumeID vol \<in> ?locked)"
  proof (intro allI impI)
    fix i m k assume at: "running T i = OnWorld m k"
    have "working (running T i)" unfolding at by simp
    then have "holding (running T i)" by (rule holds [rule_format])
    moreover obtain vol where "request_target cs (qs i) = Some vol" "m \<in> sections_on env lib fuel cs vol"
      using controller.worker_section [OF assms at] by (auto simp: request_sections_def split: option.splits)
    ultimately show "\<exists>vol. request_target cs (qs i) = Some vol \<and> m \<in> sections_on env lib fuel cs vol \<and> volumeID vol \<in> ?locked"
      unfolding locks by auto
  qed
  have dirs: "u = v" if "unambiguous u" "unambiguous v" "length (concat (map sanitized u)) \<le> 255" "length (concat (map sanitized v)) \<le> 255"
      "sanitizeVolumeID (''beegfs://'' @ u) = sanitizeVolumeID (''beegfs://'' @ v)" for u v
    using that sanitized_inject unfolding sanitizeVolumeID_eq by simp
  show "\<forall>i j x y. holding (running T i) \<and> holding (running T j) \<and> i \<noteq> j
        \<and> request_volume cs (qs i) = Some x \<and> request_volume cs (qs j) = Some y \<longrightarrow>
        x \<noteq> y \<and> (\<forall>u v. x = ''beegfs://'' @ u \<and> y = ''beegfs://'' @ v \<and> unambiguous u \<and> unambiguous v
            \<and> length (concat (map sanitized u)) \<le> 255 \<and> length (concat (map sanitized v)) \<le> 255 \<longrightarrow> sanitizeVolumeID x \<noteq> sanitizeVolumeID y)"
  proof (intro allI impI; elim conjE; intro conjI allI impI notI; (elim conjE)?)
    fix i j x y
    assume h: "holding (running T i)" "holding (running T j)" "i \<noteq> j" "request_volume cs (qs i) = Some x" "request_volume cs (qs j) = Some y"
    have ne: "x \<noteq> y" using controller.exclusive [OF assms h(1-3)] h(4,5) by simp
    then show "x = y \<Longrightarrow> False" by blast
    fix u v
    assume "x = ''beegfs://'' @ u" "y = ''beegfs://'' @ v" "unambiguous u" "unambiguous v"
      "length (concat (map sanitized u)) \<le> 255" "length (concat (map sanitized v)) \<le> 255" "sanitizeVolumeID x = sanitizeVolumeID y"
    then show False using ne dirs [of u v] by blast
  qed
  show "(\<forall>i. \<exists>r. running T i = Return r) \<longrightarrow> ?locked = {}"
  proof
    assume "\<forall>i. \<exists>r. running T i = Return r"
    then have "\<not> holding (running T i)" for i using holding.simps(1) by metis
    then show "?locked = {}" unfolding locks by blast
  qed
qed

text \<open>C7. The handlers keep to the locking protocol, and the functions from states to states that describe them are runs of
  the step relation. Whatever the answers of the lock, the status map and the world, a handler looks at, records, locks
  and releases only the volume its request is about; it acts on the world and on the record only while it has the
  lock, and on the world only for that volume; it fails at once when the lock is refused, and it has released the lock
  when it returns. Whenever CreateVolume, DeleteVolume or ValidateVolumeCapabilities returns, what it did to the shared
  state is a sequence of steps of that request alone, which ends with its answer.\<close>

theorem handlers_are_steps:
  "disciplined (request_sections env lib fuel cs q) (request_volume cs q) (handler env lib fuel cs q) False
   \<and> (running S i = handler env lib fuel cs (Create creq) \<and> run_state (CreateVolume env lib cs creq) (shared S) = (r, s) \<and> \<not> diverges r
       \<longrightarrow> (step i)\<^sup>*\<^sup>* S (proceed i (Return (map_sum id Created r)) s S))
   \<and> (running S i = handler env lib fuel cs (Delete volID) \<and> run_state (DeleteVolume env lib fuel cs volID) (shared S) = (r', s) \<and> \<not> diverges r'
       \<longrightarrow> (step i)\<^sup>*\<^sup>* S (proceed i (Return (map_sum id (\<lambda>_. Deleted) r')) s S))
   \<and> (running S i = handler env lib fuel cs (Validate vreq) \<and> run_state (ValidateVolumeCapabilities env lib cs vreq) (shared S) = (r'', s)
         \<and> \<not> diverges r''
       \<longrightarrow> (step i)\<^sup>*\<^sup>* S (proceed i (Return (map_sum id Validated r'')) s S))"
proof (intro conjI impI handler_disciplined; elim conjE)
  have keep: "\<not> diverges (map_sum id f x)" if "\<not> diverges x" for f :: "'x \<Rightarrow> 'y" and x using that by (cases x) simp_all
  note run = exec_steps [OF handler_disciplined]
  show "(step i)\<^sup>*\<^sup>* S (proceed i (Return (map_sum id Created r)) s S)"
    if "running S i = handler env lib fuel cs (Create creq)" "run_state (CreateVolume env lib cs creq) (shared S) = (r, s)" "\<not> diverges r"
    by (rule run [OF that(1)]) (use that in \<open>simp_all add: handler_def CreateVolume_def run_exec_andThen keep del: id_apply\<close>)
  show "(step i)\<^sup>*\<^sup>* S (proceed i (Return (map_sum id (\<lambda>_. Deleted) r')) s S)"
    if "running S i = handler env lib fuel cs (Delete volID)" "run_state (DeleteVolume env lib fuel cs volID) (shared S) = (r', s)" "\<not> diverges r'"
    by (rule run [OF that(1)]) (use that in \<open>simp_all add: handler_def DeleteVolume_def run_exec_andThen keep del: id_apply\<close>)
  show "(step i)\<^sup>*\<^sup>* S (proceed i (Return (map_sum id Validated r'')) s S)"
    if "running S i = handler env lib fuel cs (Validate vreq)" "run_state (ValidateVolumeCapabilities env lib cs vreq) (shared S) = (r'', s)" "\<not> diverges r''"
    by (rule run [OF that(1)]) (use that in \<open>simp_all add: handler_def ValidateVolumeCapabilities_def run_exec_andThen keep del: id_apply\<close>)
qed


subsection \<open>An interleaving\<close>

text \<open>Three requests: to create a volume, to delete the same one and to delete another. While the first works, the second
  is refused and the third gets to work.\<close>

definition sample_requests :: "nat \<Rightarrow> controller_request" where
  "sample_requests i =
     (if i = 0 then Create sample_req else if i = 1 then Delete sample_id else Delete (NewBeegfsURL ''10.0.0.1'' ''/scratch/vol2''))"

definition sample_system :: "(unit \<times> event list, controller_response) system" where
  "sample_system =
     \<lparr> shared = sample_state, running = (\<lambda>i. handler (traced (calm_env [])) sample_lib 1 sample_cs (sample_requests i)) \<rparr>"

lemma sample_initial: "initial (handler (traced (calm_env [])) sample_lib 1 sample_cs) sample_requests sample_system"
  by (simp add: initial_def sample_system_def sample_state_def newThreadSafeStringLock_def)

lemma handler_to_lock:
  assumes "request_volume cs q = Some v" "\<And>req. q \<noteq> Validate req"
  shows "\<exists>c k. handler env lib fuel cs q = ReadStatus v c \<and> c None = ObtainLock v k"
proof (cases q)
  case (Create req)
  then show ?thesis using assms(1)
    by (auto simp: handler_def request_target_def CreateVolume_process_eq guarded_p_def exclusively_def split: sum.splits)
next
  case (Delete volID)
  then show ?thesis using assms(1)
    by (auto simp: handler_def request_target_def DeleteVolume_process_def exclusively_def split: sum.splits if_splits)
qed (use assms in auto)

lemma reach_lock:
  assumes "running S i = handler env lib fuel cs q" "request_volume cs q = Some v" "\<And>req. q \<noteq> Validate req"
    "readStatus v (volumeStatusMap (shared S)) = None"
  obtains k where "any_step\<^sup>*\<^sup>* S (proceed i (ObtainLock v k) (shared S) S)" "working (k True)" "\<exists>e. k False = Return (Inl e)"
proof -
  obtain c k where c: "handler env lib fuel cs q = ReadStatus v c" "c None = ObtainLock v k"
    using handler_to_lock [OF assms(2,3)] by blast
  have "step i S (proceed i (c None) (shared S) S)" by (rule reads [of _ _ v]) (simp_all add: assms c run_cs)
  then have "any_step\<^sup>*\<^sup>* S (proceed i (ObtainLock v k) (shared S) S)" unfolding c(2) any_step_def by blast
  moreover have "disciplined (request_sections env lib fuel cs q) (request_volume cs q) (c None) False"
    using handler_disciplined [of env lib fuel cs q] unfolding c(1) by simp
  then have "working (k True)" "\<exists>e. k False = Return (Inl e)" by (simp_all add: c(2))
  ultimately show ?thesis by (rule that)
qed

lemma reach_answer:
  assumes "running S i = handler env lib fuel cs q" "request_volume cs q = Some v" "\<And>req. q \<noteq> Validate req"
    "readStatus v (volumeStatusMap (shared S)) = None"
  obtains p l where "any_step\<^sup>*\<^sup>* S (proceed i p ((shared S)\<lparr>volumeIDsInFlight := l\<rparr>) S)" "lock_items l = insert v (lock_items (volumeIDsInFlight (shared S)))"
    "if v \<in> lock_items (volumeIDsInFlight (shared S)) then \<exists>e. p = Return (Inl e) else working p"
proof -
  let ?l = "volumeIDsInFlight (shared S)"
  obtain k where k: "any_step\<^sup>*\<^sup>* S (proceed i (ObtainLock v k) (shared S) S)" "working (k True)" "\<exists>e. k False = Return (Inl e)"
    using reach_lock [OF assms] by metis
  let ?ok = "v \<notin> lock_items ?l" and ?l' = "snd (obtainLockOnString v ?l)"
  have "step i (proceed i (ObtainLock v k) (shared S) S) (proceed i (k ?ok) ((shared S)\<lparr>volumeIDsInFlight := ?l'\<rparr>) S)"
    using obtains_lock [of "proceed i (ObtainLock v k) (shared S) S" i v k ?ok "(shared S)\<lparr>volumeIDsInFlight := ?l'\<rparr>"]
    by (simp add: run_cs_obtainLock)
  then have "any_step (proceed i (ObtainLock v k) (shared S) S) (proceed i (k ?ok) ((shared S)\<lparr>volumeIDsInFlight := ?l'\<rparr>) S)"
    unfolding any_step_def by blast
  from rtranclp.rtrancl_into_rtrancl [OF k(1) this]
  have "any_step\<^sup>*\<^sup>* S (proceed i (k ?ok) ((shared S)\<lparr>volumeIDsInFlight := ?l'\<rparr>) S)" .
  moreover have "lock_items ?l' = insert v (lock_items ?l)" by (simp add: volume_lock.obtain_held)
  moreover have "if v \<in> lock_items ?l then \<exists>e. k ?ok = Return (Inl e) else working (k ?ok)" using k(2,3) by simp
  ultimately show ?thesis by (rule that)
qed

lemma sample_volumes:
  "request_volume sample_cs (sample_requests i) = Some (NewBeegfsURL ''10.0.0.1'' (if i < 2 then ''/scratch/vol1'' else ''/scratch/vol2''))"
proof -
  obtain params vol where one: "checkCreate sample_cs sample_req = Inr (params, vol)" "cs_newBeegfsVolumeFromID sample_cs sample_id = Inr vol"
      "volumeID vol = sample_id"
    using sample_check by metis
  let ?url = "NewBeegfsURL ''10.0.0.1'' ''/scratch/vol2''"
  obtain vol2 where vol2: "newBeegfsVolume (path_Join [''/data'', sanitizeVolumeID ?url]) ''10.0.0.1'' ''/scratch/vol2'' zeroPluginConfig = Inr vol2"
    by (simp add: newBeegfsVolume_def squashConfigForSysMgmtdHost_def zeroPluginConfig_def overWriteBeegfsConfig_def
        client_conf_def NewBeegfsConfig_def zeroBeegfsConfig_def Let_def)
  have host: "valid_host ''10.0.0.1''" by code_simp
  have id: "volumeID vol2 = ?url" using newBeegfsVolume_fields(12) [OF vol2] .
  have two: "cs_newBeegfsVolumeFromID sample_cs ?url = Inr vol2"
    using newBeegfsVolumeFromID_volumeID [OF vol2 host] by (simp add: cs_newBeegfsVolumeFromID_def sample_cs_def printed_path_def id)
  have nonempty: "NewBeegfsURL ''10.0.0.1'' ''/scratch/vol1'' \<noteq> []" "?url \<noteq> []" by (rule NewBeegfsURL_not_Nil, simp)+
  consider "i = 0" | "i = 1" | "\<not> i < 2" by linarith
  then show ?thesis by cases (use one two id nonempty in \<open>simp_all add: sample_requests_def request_target_def\<close>)
qed

lemma sample_ids: "sample_id = ''beegfs://10.0.0.1/scratch/vol1''" "NewBeegfsURL ''10.0.0.1'' ''/scratch/vol2'' = ''beegfs://10.0.0.1/scratch/vol2''"
  by code_simp+

lemma sample_interleaving:
  "\<exists>T. any_step\<^sup>*\<^sup>* sample_system T \<and> working (running T 0) \<and> (\<exists>e. running T 1 = Return (Inl e)) \<and> working (running T 2)"
proof -
  let ?start = "handler (traced (calm_env [])) sample_lib 1 sample_cs" and ?s = "shared sample_system"
  let ?other = "NewBeegfsURL ''10.0.0.1'' ''/scratch/vol2''"
  have start: "running sample_system i = ?start (sample_requests i)" for i by (simp add: sample_system_def)
  have vols: "request_volume sample_cs (sample_requests 0) = Some sample_id" "request_volume sample_cs (sample_requests 1) = Some sample_id"
      "request_volume sample_cs (sample_requests 2) = Some ?other"
    by (simp_all add: sample_volumes)
  have kind: "sample_requests i \<noteq> Validate req" for i req by (simp add: sample_requests_def)
  have status: "readStatus v (volumeStatusMap ?s) = None" and free: "lock_items (volumeIDsInFlight ?s) = {}" for v
    by (simp_all add: sample_system_def sample_free(2)) (simp add: sample_state_def newThreadSafeStringLock_def)
  have differ: "?other \<noteq> sample_id" by (simp add: sample_ids)
  obtain p l where a: "any_step\<^sup>*\<^sup>* sample_system (proceed 0 p (?s\<lparr>volumeIDsInFlight := l\<rparr>) sample_system)" (is "any_step\<^sup>*\<^sup>* _ ?A")
      "lock_items l = {sample_id}" "working p"
    by (rule reach_answer [OF start vols(1) kind status]) (simp add: free)
  have A: "running ?A 1 = ?start (sample_requests 1)" "running ?A 2 = ?start (sample_requests 2)"
      "readStatus v (volumeStatusMap (shared ?A)) = None" "volumeIDsInFlight (shared ?A) = l" for v
    by (simp_all add: start status)
  obtain q l' where b: "any_step\<^sup>*\<^sup>* ?A (proceed 1 q ((shared ?A)\<lparr>volumeIDsInFlight := l'\<rparr>) ?A)" (is "any_step\<^sup>*\<^sup>* _ ?B")
      "lock_items l' = {sample_id}" "\<exists>e. q = Return (Inl e)"
    by (rule reach_answer [OF A(1) vols(2) kind A(3)]) (simp only: A(4) a(2) insert_absorb2 insertI1 if_True)
  have B: "running ?B 2 = ?start (sample_requests 2)" "readStatus v (volumeStatusMap (shared ?B)) = None" "volumeIDsInFlight (shared ?B) = l'" for v
    using A(2,3) by simp_all
  obtain r l'' where c: "any_step\<^sup>*\<^sup>* ?B (proceed 2 r ((shared ?B)\<lparr>volumeIDsInFlight := l''\<rparr>) ?B)" (is "any_step\<^sup>*\<^sup>* _ ?C") "working r"
    by (rule reach_answer [OF B(1) vols(3) kind B(2)]) (simp only: B(3) b(2) singleton_iff differ if_False)
  have "any_step\<^sup>*\<^sup>* sample_system ?C" by (rule rtranclp_trans [OF a(1) rtranclp_trans [OF b(1) c(1)]])
  then show ?thesis using a(3) b(3) c(2) by (intro exI [of _ ?C]) simp
qed

theorem mutual_exclusion_witness:
  "\<exists>T. any_step\<^sup>*\<^sup>* sample_system T \<and> working (running T 0) \<and> working (running T 2)
     \<and> ''beegfs://10.0.0.1/scratch/vol1'' \<in> lock_items (volumeIDsInFlight (shared T))
     \<and> ''beegfs://10.0.0.1/scratch/vol2'' \<in> lock_items (volumeIDsInFlight (shared T))
     \<and> sanitizeVolumeID ''beegfs://10.0.0.1/scratch/vol1'' \<noteq> sanitizeVolumeID ''beegfs://10.0.0.1/scratch/vol2''"
proof -
  obtain T where T: "any_step\<^sup>*\<^sup>* sample_system T" "working (running T 0)" "working (running T 2)"
    using sample_interleaving by blast
  note ex = mutual_exclusion [OF sample_initial T(1)]
  have h: "holding (running T 0)" "holding (running T 2)" using ex [THEN conjunct2, THEN conjunct1] T(2,3) by blast+
  have vols: "request_volume sample_cs (sample_requests 0) = Some (''beegfs://10.0.0.1/scratch/vol1'')"
      "request_volume sample_cs (sample_requests 2) = Some (''beegfs://10.0.0.1/scratch/vol2'')"
    by (simp_all only: sample_volumes) (simp_all add: sample_ids)
  have short: "unambiguous ''10.0.0.1/scratch/vol1''" "unambiguous ''10.0.0.1/scratch/vol2''"
      "length (concat (map sanitized ''10.0.0.1/scratch/vol1'')) \<le> 255" "length (concat (map sanitized ''10.0.0.1/scratch/vol2'')) \<le> 255"
    by (simp_all add: sanitized_def)
  have "sanitizeVolumeID ''beegfs://10.0.0.1/scratch/vol1'' \<noteq> sanitizeVolumeID ''beegfs://10.0.0.1/scratch/vol2''"
    by (rule ex [THEN conjunct2, THEN conjunct2, THEN conjunct2, THEN conjunct1, rule_format, THEN conjunct2, rule_format,
          of 0 2 _ _ "''10.0.0.1/scratch/vol1''" "''10.0.0.1/scratch/vol2''"])
      (use h vols short in simp_all)
  then show ?thesis using ex [THEN conjunct1] T h vols by (intro exI [of _ T]) auto
qed

theorem handlers_are_steps_witness:
  "\<exists>s. run_state (CreateVolume (traced (calm_env [])) sample_lib sample_cs sample_req) sample_state = (Inr sample_id, s)
     \<and> (step 0)\<^sup>*\<^sup>* sample_system (proceed 0 (Return (Inr (Created sample_id))) s sample_system)"
proof -
  obtain s where run: "run_state (CreateVolume (traced (calm_env [])) sample_lib sample_cs sample_req) (shared sample_system) = (Inr sample_id, s)"
    using sample_create by (auto simp: sample_system_def)
  have start: "running sample_system 0 = handler (traced (calm_env [])) sample_lib 1 sample_cs (Create sample_req)"
    by (simp add: sample_system_def sample_requests_def)
  have "(step 0)\<^sup>*\<^sup>* sample_system (proceed 0 (Return (map_sum id Created (Inr sample_id))) s sample_system)"
    by (rule handlers_are_steps [THEN conjunct2, THEN conjunct1, THEN mp, OF conjI [OF start conjI [OF run diverges_simps(1)]]])
  then show ?thesis using run by (simp add: sample_system_def)
qed


end
