(* ===== verification/Node.thy ===== *)
theory Node
  imports Controller_Steps
begin

text \<open>
  pkg/beegfs/nodeserver.go: the node service. It has no state of its own; a handler is a computation on the world.
  The theorems describe each handler by all the calls it makes, in order, for every answer of the world: a file
  system is mounted only after BeeGFS has confirmed that the directory of the volume exists, the tracking of
  nodes never decides a result, and nothing outside the staging directory changes.
\<close>

subsection \<open>The service\<close>

record 'w nodeServer =
  ns_ctlExec :: "'w ctl_exec"
  ns_nodeID :: string
  ns_pluginConfig :: PluginConfig
  ns_clientConfTemplatePath :: string

definition newNodeServer :: "'w os_env \<Rightarrow> string \<Rightarrow> PluginConfig \<Rightarrow> string \<Rightarrow> ('w, goerr + 'w nodeServer) state" where
  "newNodeServer env nodeID pluginConfig templatePath =
     checked (newBeeGFSCtlExecutor env) id (\<lambda>executor.
     ret (Inr \<lparr> ns_ctlExec = executor, ns_nodeID = nodeID, ns_pluginConfig = pluginConfig,
                ns_clientConfTemplatePath = templatePath \<rparr>))"

definition newNodeServerSanity :: "string \<Rightarrow> PluginConfig \<Rightarrow> string \<Rightarrow> 'w nodeServer" where
  "newNodeServerSanity nodeID pluginConfig templatePath =
     \<lparr> ns_ctlExec = fakeBeegfsCtlExecutor, ns_nodeID = nodeID, ns_pluginConfig = pluginConfig,
       ns_clientConfTemplatePath = templatePath \<rparr>"

text \<open>An error becomes an internal error for the caller; a panic is no error.\<close>

definition internal_unless_panic :: "goerr \<Rightarrow> goerr" where
  "internal_unless_panic err = (if is_panic err then err else internal err)"

text \<open>Only continue if BeeGFS knows the directory of the volume.\<close>

definition requireDirectory :: "'w nodeServer \<Rightarrow> beegfsVolume \<Rightarrow> ('w, goerr + unit) state" where
  "requireDirectory ns vol =
     State_Monad.bind (statDirectoryForVolume (ns_ctlExec ns) vol (volDirPathBeegfsRoot vol)) (\<lambda>(_, err).
     case err of
       Some e \<Rightarrow>
         if errors_As is_ctlNotExistError e then ret (Inl (newGrpcErrorFromCause NotFound (Some e)))
         else ret (Inl (newGrpcErrorFromCause Internal (Some e)))
     | None \<Rightarrow> ret (Inr ()))"

subsection \<open>NodePublishVolume\<close>

record NodePublishVolumeRequest =
  np_VolumeId :: string
  np_StagingTargetPath :: string
  np_TargetPath :: string
  np_VolumeCapability :: "volume_capability option"
  np_Readonly :: bool

definition checkTarget :: "'w os_env \<Rightarrow> string \<Rightarrow> goerr + bool \<Rightarrow> ('w, goerr + bool) state" where
  "checkTarget env targetPath r =
     (case r of
        Inl err \<Rightarrow>
          if os_IsNotExist err
          then checked (os_MkdirAll env targetPath 0x1E8) (\<lambda>e. internal (WithStack e)) (\<lambda>_. ret (Inr False))
          else ret (Inl (internal (WithStack err)))
      | Inr isMnt \<Rightarrow> ret (Inr isMnt))"

definition publishOptions :: "volume_capability \<Rightarrow> bool \<Rightarrow> string list" where
  "publishOptions volCap readOnly =
     (let opts = mountFlags volCap;
          opts = opts @ [''bind''];
          opts = (if readOnly then opts @ [''ro''] else opts)
      in removeInvalidMountOptions opts)"

definition publishOnWorld ::
  "'w os_env \<Rightarrow> 'w nodeServer \<Rightarrow> beegfsVolume \<Rightarrow> string \<Rightarrow> volume_capability \<Rightarrow> bool \<Rightarrow> ('w, goerr + unit) state"
where
  "publishOnWorld env ns vol targetPath volCap readOnly =
     checked (requireDirectory ns vol) id (\<lambda>_.
     State_Monad.bind (mnt_IsMountPoint env targetPath) (\<lambda>r.
     checked (checkTarget env targetPath r) id (\<lambda>isMnt.
     if isMnt then ret (Inr ())
     else checked (mnt_Mount env (volDirPath vol) targetPath ''beegfs'' (publishOptions volCap readOnly))
            (\<lambda>e. internal (WithStack e)) (\<lambda>_. ret (Inr ())))))"

definition NodePublishVolume :: "'w os_env \<Rightarrow> 'w nodeServer \<Rightarrow> NodePublishVolumeRequest \<Rightarrow> ('w, goerr + unit) state" where
  "NodePublishVolume env ns req =
     (if length (np_VolumeId req) = 0 then ret (Inl (StatusError InvalidArgument ''Volume ID not provided''))
      else if length (np_StagingTargetPath req) = 0 then ret (Inl (StatusError InvalidArgument ''Staging target path not provided''))
      else if length (np_TargetPath req) = 0 then ret (Inl (StatusError InvalidArgument ''Target path not provided''))
      else case np_VolumeCapability req of
        None \<Rightarrow> ret (Inl (StatusError InvalidArgument ''Volume capability not provided''))
      | Some volCap \<Rightarrow>
          (case isValidVolumeCapability volCap of (valid, reason) \<Rightarrow>
           if \<not> valid then ret (Inl (StatusError InvalidArgument (''Volume capability not supported: '' @ reason)))
           else guarded (newBeegfsVolumeFromID (np_StagingTargetPath req) (np_VolumeId req) (ns_pluginConfig ns))
                  internal_unless_panic (\<lambda>vol.
                publishOnWorld env ns vol (np_TargetPath req) volCap (np_Readonly req))))"

subsection \<open>NodeUnpublishVolume\<close>

definition NodeUnpublishVolume :: "'w os_env \<Rightarrow> string \<Rightarrow> string \<Rightarrow> ('w, goerr + unit) state" where
  "NodeUnpublishVolume env volID targetPath =
     (if length volID = 0 then ret (Inl (StatusError InvalidArgument ''Volume ID not provided''))
      else if length targetPath = 0 then ret (Inl (StatusError InvalidArgument ''Target path not provided''))
      else checked (mnt_CleanupMountPoint env targetPath True) (\<lambda>e. internal (WithStack e)) (\<lambda>_. ret (Inr ())))"

subsection \<open>NodeStageVolume\<close>

record NodeStageVolumeRequest =
  st_VolumeId :: string
  st_StagingTargetPath :: string
  st_VolumeCapability :: "volume_capability option"

definition nodesPath :: "beegfsVolume \<Rightarrow> string" where
  "nodesPath vol = path_Join [csiDirPath vol, ''nodes'']"

definition nodePath :: "'w nodeServer \<Rightarrow> beegfsVolume \<Rightarrow> string" where
  "nodePath ns vol = path_Join [nodesPath vol, ns_nodeID ns]"

text \<open>Tracking is best effort: whatever goes wrong is logged.\<close>

definition trackNode :: "'w os_env \<Rightarrow> 'w nodeServer \<Rightarrow> beegfsVolume \<Rightarrow> ('w, unit) state" where
  "trackNode env ns vol =
     State_Monad.bind (os_DirExists env (nodesPath vol)) (\<lambda>r.
     case r of
       Inl err \<Rightarrow> ret ()
     | Inr dirExists \<Rightarrow>
         if \<not> dirExists then ret ()
         else State_Monad.bind (os_WriteFile env (nodePath ns vol) '''' 0x1A0) (\<lambda>_. ret ()))"

definition stageOnWorld ::
  "'w os_env \<Rightarrow> 'i ini_lib \<Rightarrow> 'w nodeServer \<Rightarrow> beegfsVolume \<Rightarrow> volume_capability \<Rightarrow> ('w, goerr + unit) state"
where
  "stageOnWorld env lib ns vol volCap =
     checked (os_Stat env (mountDirPath vol)) (\<lambda>e. internal (WithStack e)) (\<lambda>_.
     checked (writeClientFiles env lib vol (ns_clientConfTemplatePath ns)) internal (\<lambda>_.
     checked (requireDirectory ns vol) id (\<lambda>_.
     checked (mountIfNecessary env vol (mountFlags volCap)) internal (\<lambda>_.
     State_Monad.bind (trackNode env ns vol) (\<lambda>_.
     ret (Inr ()))))))"

definition NodeStageVolume ::
  "'w os_env \<Rightarrow> 'i ini_lib \<Rightarrow> 'w nodeServer \<Rightarrow> NodeStageVolumeRequest \<Rightarrow> ('w, goerr + unit) state"
where
  "NodeStageVolume env lib ns req =
     (if length (st_VolumeId req) = 0 then ret (Inl (StatusError InvalidArgument ''Volume ID not provided''))
      else if length (st_StagingTargetPath req) = 0 then ret (Inl (StatusError InvalidArgument ''Staging target path not provided''))
      else case st_VolumeCapability req of
        None \<Rightarrow> ret (Inl (StatusError InvalidArgument ''Volume capability not provided''))
      | Some volCap \<Rightarrow>
          (case isValidVolumeCapability volCap of (valid, reason) \<Rightarrow>
           if \<not> valid then ret (Inl (StatusError InvalidArgument (''Volume capability not supported: '' @ reason)))
           else guarded (newBeegfsVolumeFromID (st_StagingTargetPath req) (st_VolumeId req) (ns_pluginConfig ns))
                  internal_unless_panic (\<lambda>vol.
                stageOnWorld env lib ns vol volCap)))"

subsection \<open>NodeUnstageVolume and the rest of the service\<close>

definition untrackNode :: "'w os_env \<Rightarrow> 'w nodeServer \<Rightarrow> beegfsVolume \<Rightarrow> ('w, unit) state" where
  "untrackNode env ns vol =
     State_Monad.bind (os_Exists env (nodePath ns vol)) (\<lambda>r.
     case r of
       Inl err \<Rightarrow> ret ()
     | Inr fileExists \<Rightarrow>
         if \<not> fileExists then ret ()
         else State_Monad.bind (os_Remove env (nodePath ns vol)) (\<lambda>_. ret ()))"

definition unstageOnWorld :: "'w os_env \<Rightarrow> 'w nodeServer \<Rightarrow> beegfsVolume \<Rightarrow> ('w, goerr + unit) state" where
  "unstageOnWorld env ns vol =
     State_Monad.bind (untrackNode env ns vol) (\<lambda>_.
     checked (unmountAndCleanUpIfNecessary env vol False) internal (\<lambda>_. ret (Inr ())))"

definition NodeUnstageVolume :: "'w os_env \<Rightarrow> 'w nodeServer \<Rightarrow> string \<Rightarrow> string \<Rightarrow> ('w, goerr + unit) state" where
  "NodeUnstageVolume env ns volID stagingTargetPath =
     (if length volID = 0 then ret (Inl (StatusError InvalidArgument ''Volume ID not provided''))
      else if length stagingTargetPath = 0 then ret (Inl (StatusError InvalidArgument ''Staging target path not provided''))
      else guarded (newBeegfsVolumeFromID stagingTargetPath volID (ns_pluginConfig ns)) internal_unless_panic (\<lambda>vol.
           unstageOnWorld env ns vol))"

definition NodeGetInfo :: "'w nodeServer \<Rightarrow> string" where
  "NodeGetInfo ns = ns_nodeID ns"

datatype node_capability = STAGE_UNSTAGE_VOLUME

definition nodeCaps :: "node_capability list" where
  "nodeCaps = [STAGE_UNSTAGE_VOLUME]"

datatype NodeServiceCapability = NodeRpc node_capability

fun collectNodeCaps :: "NodeServiceCapability list \<Rightarrow> node_capability list \<Rightarrow> NodeServiceCapability list" where
  "collectNodeCaps caps [] = caps"
| "collectNodeCaps caps (c # cs) = collectNodeCaps (caps @ [NodeRpc c]) cs"

definition NodeGetCapabilities :: "NodeServiceCapability list" where
  "NodeGetCapabilities = collectNodeCaps [] nodeCaps"

definition node_unimplemented :: "goerr + unit" where
  "node_unimplemented = Inl (StatusError Unimplemented '''')"

subsection \<open>The steps of a handler\<close>

text \<open>Asking BeeGFS for a directory: find out the version, then one command of that version.\<close>

definition stat_steps :: "beegfsVolume \<Rightarrow> string \<Rightarrow> goerr option \<Rightarrow> event list \<Rightarrow> bool" where
  "stat_steps vol path err u \<longleftrightarrow>
     (\<exists>v d. detect_steps vol v d \<and>
       (case v of
          None \<Rightarrow> u = d \<and> (\<exists>m. err = Some (FmtErrorf m []))
        | Some v \<Rightarrow> \<exists>x. u = d @ [E_Run (command_line v vol (stat_args v path)) x] \<and> err = ctl_error x))"

lemma does_exec_last:
  "does (execBeeGFSCmd (traced env) args h) (\<lambda>r u. \<exists>x. u = [E_Run args x] \<and> snd r = ctl_error x)"
  unfolding execBeeGFSCmd_def traced_ops by (rule does_bind_logged) (auto intro!: does_ret)

lemma stat_does:
  "does (statDirectoryForVolume (beegfsCtlDispatcher (traced env)) vol path) (\<lambda>r u. stat_steps vol path (snd r) u)"
proof -
  have exec: "does (statDirectoryForVolume ctl vol path)
      (\<lambda>r u. \<exists>x. u = [E_Run (command_line v vol (stat_args v path)) x] \<and> snd r = ctl_error x)"
    if "ctl = (case v of CtlV8 \<Rightarrow> beegfsCtlExecutorV8 (traced env) | CtlV7 \<Rightarrow> beegfsCtlExecutorV7 (traced env))" for ctl v
    using that does_exec_last
    by (cases v) (simp_all add: beegfsCtlExecutorV8_def beegfsCtlExecutorV7_def V8_statDirectoryForVolume_def
        V7_statDirectoryForVolume_def V8_execute_eq V7_execute_eq)
  show ?thesis
    unfolding beegfsCtlDispatcher_def ctl_exec.select_convs dispatch_statDirectoryForVolume_def
  proof (rule does_bind [OF detect_does], elim exE conjE, goal_cases)
    case (1 r d v)
    show ?case
    proof (cases v)
      case None
      with 1(2) obtain m where "r = Inl (FmtErrorf m [])" by auto
      with 1(1) None show ?thesis
        by (simp only: sum.case stat_steps_def, intro does_ret exI [of _ None] exI [of _ d]) simp
    next
      case (Some x)
      with 1(2) have r: "r = Inr (case x of CtlV8 \<Rightarrow> beegfsCtlExecutorV8 (traced env) | CtlV7 \<Rightarrow> beegfsCtlExecutorV7 (traced env))"
        by (cases x) simp_all
      show ?thesis unfolding r sum.case
        by (rule does_mono [OF exec [OF refl]]) (use 1(1) Some in \<open>auto simp: stat_steps_def intro!: exI [of _ v] exI [of _ d]\<close>)
    qed
  qed
qed

text \<open>What a caller learns of a failed look for the directory.\<close>

definition stat_failure :: "goerr \<Rightarrow> goerr" where
  "stat_failure e = GrpcError (StatusError (if errors_As is_ctlNotExistError e then NotFound else Internal) (err_msg e)) e"

lemma requireDirectory_does:
  assumes "ns_ctlExec ns = beegfsCtlDispatcher (traced env)"
  shows "does (requireDirectory ns vol)
    (\<lambda>r u. \<exists>err. stat_steps vol (volDirPathBeegfsRoot vol) err u \<and> r = (case err of None \<Rightarrow> Inr () | Some e \<Rightarrow> Inl (stat_failure e)))"
  unfolding requireDirectory_def assms
  by (rule does_bind [OF stat_does])
    (auto intro!: does_ret simp: stat_failure_def newGrpcErrorFromCause_Some split: prod.split option.split)

text \<open>The calls that keep track of a node.\<close>

definition track_steps :: "'w nodeServer \<Rightarrow> beegfsVolume \<Rightarrow> event list \<Rightarrow> bool" where
  "track_steps ns vol u \<longleftrightarrow>
     (\<exists>x v. u = E_DirExists (nodesPath vol) x # v
       \<and> (if x = Inr True then \<exists>y. v = [E_WriteFile (nodePath ns vol) '''' 0x1A0 y] else v = []))"

definition untrack_steps :: "'w nodeServer \<Rightarrow> beegfsVolume \<Rightarrow> event list \<Rightarrow> bool" where
  "untrack_steps ns vol u \<longleftrightarrow>
     (\<exists>x v. u = E_Exists (nodePath ns vol) x # v
       \<and> (if x = Inr True then \<exists>y. v = [E_Remove (nodePath ns vol) y] else v = []))"

lemma track_does: "does (trackNode (traced env) ns vol) (\<lambda>_. track_steps ns vol)"
  unfolding trackNode_def traced_ops
  by (intro does_bind_logged does_case_sum does_if does_ret) (auto simp: track_steps_def)

lemma untrack_does: "does (untrackNode (traced env) ns vol) (\<lambda>_. untrack_steps ns vol)"
  unfolding untrackNode_def traced_ops
  by (intro does_bind_logged does_case_sum does_if does_ret) (auto simp: untrack_steps_def)

subsection \<open>Staging\<close>

text \<open>The whole of NodeStageVolume for a volume: its results and the calls that lead to them.\<close>

inductive stage_trace ::
  "'w os_env \<Rightarrow> 'i ini_lib \<Rightarrow> ('w \<times> event list) nodeServer \<Rightarrow> beegfsVolume \<Rightarrow> string list \<Rightarrow> goerr + unit \<Rightarrow> event list \<Rightarrow> bool"
  for env :: "'w os_env" and lib :: "'i ini_lib" and ns :: "('w \<times> event list) nodeServer" and vol :: beegfsVolume and flags :: "string list"
where
  no_directory: "stage_trace env lib ns vol flags (Inl (internal (WithStack e))) [E_Stat (mountDirPath vol) (Inl e)]"
| no_files: "list_all mount_free a \<Longrightarrow>
    stage_trace env lib ns vol flags (Inl (internal e)) (E_Stat (mountDirPath vol) (Inr ()) # a)"
| no_volume: "files_written lib vol (ns_clientConfTemplatePath ns) a \<Longrightarrow> list_all mount_free a \<Longrightarrow> stat_steps vol (volDirPathBeegfsRoot vol) (Some e) s \<Longrightarrow>
    stage_trace env lib ns vol flags (Inl (stat_failure e)) (E_Stat (mountDirPath vol) (Inr ()) # a @ s)"
| not_mounted: "files_written lib vol (ns_clientConfTemplatePath ns) a \<Longrightarrow> list_all mount_free a \<Longrightarrow> stat_steps vol (volDirPathBeegfsRoot vol) None s \<Longrightarrow> mounting env vol flags (Inl e) m \<Longrightarrow>
    stage_trace env lib ns vol flags (Inl (internal e)) (E_Stat (mountDirPath vol) (Inr ()) # a @ s @ m)"
| staged: "files_written lib vol (ns_clientConfTemplatePath ns) a \<Longrightarrow> list_all mount_free a \<Longrightarrow> stat_steps vol (volDirPathBeegfsRoot vol) None s \<Longrightarrow> mounting env vol flags (Inr ()) m \<Longrightarrow>
    track_steps ns vol u \<Longrightarrow>
    stage_trace env lib ns vol flags (Inr ()) (E_Stat (mountDirPath vol) (Inr ()) # a @ s @ m @ u)"

inductive_cases stage_okE: "stage_trace env lib ns vol flags (Inr ()) t"

lemma stageOnWorld_does:
  assumes "ns_ctlExec ns = beegfsCtlDispatcher (traced env)"
  shows "does (stageOnWorld (traced env) lib ns vol volCap) (stage_trace env lib ns vol (mountFlags volCap))"
  unfolding stageOnWorld_def traced_ops
proof (rule does_checked_logged, rule no_directory,
    rule does_checked [OF does_conj [OF writeClientFiles_writes writeClientFiles_mount_free [unfolded emits_def]]], goal_cases)
  case (1 x e u)
  then show ?case by (auto intro: no_files)
next
  case (2 x y a)
  then have a: "files_written lib vol (ns_clientConfTemplatePath ns) a" "list_all mount_free a" by simp_all
  show ?case
  proof (rule does_checked [OF requireDirectory_does [OF assms]], goal_cases)
    case (1 e s)
    then show ?case using a by (auto intro: no_volume split: option.splits)
  next
    case (2 z s)
    then have s: "stat_steps vol (volDirPathBeegfsRoot vol) None s" by (auto split: option.splits)
    show ?case
    proof (rule does_checked [OF mountIfNecessary_does], goal_cases)
      case (1 e m)
      then show ?case using a s by (auto intro: not_mounted)
    next
      case (2 z m)
      then show ?case using a s
        by (intro does_bind [OF track_does] does_ret) (auto intro: staged)
    qed
  qed
qed

text \<open>The checks of a request, and the volume it is about.\<close>

definition checkStage :: "'w nodeServer \<Rightarrow> NodeStageVolumeRequest \<Rightarrow> goerr + beegfsVolume \<times> volume_capability" where
  "checkStage ns req =
     (if st_VolumeId req = '''' then Inl (StatusError InvalidArgument ''Volume ID not provided'')
      else if st_StagingTargetPath req = '''' then Inl (StatusError InvalidArgument ''Staging target path not provided'')
      else case st_VolumeCapability req of
        None \<Rightarrow> Inl (StatusError InvalidArgument ''Volume capability not provided'')
      | Some volCap \<Rightarrow>
          if \<not> fst (isValidVolumeCapability volCap)
          then Inl (StatusError InvalidArgument (''Volume capability not supported: '' @ snd (isValidVolumeCapability volCap)))
          else (case newBeegfsVolumeFromID (st_StagingTargetPath req) (st_VolumeId req) (ns_pluginConfig ns) of
                  Inl e \<Rightarrow> Inl (internal_unless_panic e) | Inr vol \<Rightarrow> Inr (vol, volCap)))"

lemma NodeStageVolume_eq:
  "NodeStageVolume env lib ns req = guarded (checkStage ns req) id (\<lambda>(vol, volCap). stageOnWorld env lib ns vol volCap)"
  unfolding NodeStageVolume_def checkStage_def
  by (simp add: split_beta guarded_def split: sum.split option.split cong: if_cong)



subsection \<open>Publishing\<close>

definition bind_result :: "goerr + unit \<Rightarrow> goerr + unit" where
  "bind_result x = (case x of Inl e \<Rightarrow> Inl (internal (WithStack e)) | Inr _ \<Rightarrow> Inr ())"

inductive publish_trace ::
  "beegfsVolume \<Rightarrow> string \<Rightarrow> string list \<Rightarrow> goerr + unit \<Rightarrow> event list \<Rightarrow> bool"
  for vol :: beegfsVolume and target :: string and opts :: "string list"
where
  no_volume: "stat_steps vol (volDirPathBeegfsRoot vol) (Some e) s \<Longrightarrow> publish_trace vol target opts (Inl (stat_failure e)) s"
| published_before: "stat_steps vol (volDirPathBeegfsRoot vol) None s \<Longrightarrow>
    publish_trace vol target opts (Inr ()) (s @ [E_IsMountPoint target (Inr True)])"
| unknown_target: "stat_steps vol (volDirPathBeegfsRoot vol) None s \<Longrightarrow> \<not> os_IsNotExist e \<Longrightarrow>
    publish_trace vol target opts (Inl (internal (WithStack e))) (s @ [E_IsMountPoint target (Inl e)])"
| no_target: "stat_steps vol (volDirPathBeegfsRoot vol) None s \<Longrightarrow> os_IsNotExist e \<Longrightarrow>
    publish_trace vol target opts (Inl (internal (WithStack k))) (s @ [E_IsMountPoint target (Inl e), E_MkdirAll target 0x1E8 (Inl k)])"
| bound: "stat_steps vol (volDirPathBeegfsRoot vol) None s \<Longrightarrow>
    publish_trace vol target opts (bind_result x)
      (s @ [E_IsMountPoint target (Inr False), E_Mount (volDirPath vol) target ''beegfs'' opts x])"
| created_and_bound: "stat_steps vol (volDirPathBeegfsRoot vol) None s \<Longrightarrow> os_IsNotExist e \<Longrightarrow>
    publish_trace vol target opts (bind_result x)
      (s @ [E_IsMountPoint target (Inl e), E_MkdirAll target 0x1E8 (Inr ()), E_Mount (volDirPath vol) target ''beegfs'' opts x])"

lemma bind_does:
  "does (checked (logged m (E_Mount src target ''beegfs'' opts)) (\<lambda>e. internal (WithStack e)) (\<lambda>_. ret (Inr ())))
     (\<lambda>r u. \<exists>x. u = [E_Mount src target ''beegfs'' opts x] \<and> r = bind_result x)"
  by (rule does_checked_logged) (auto intro!: does_ret simp: bind_result_def)

lemma checkTarget_does:
  "does (checkTarget (traced env) target x)
     (\<lambda>r u. case x of
        Inl e \<Rightarrow> if os_IsNotExist e
                 then (\<exists>k. u = [E_MkdirAll target 0x1E8 (Inl k)] \<and> r = Inl (internal (WithStack k))) \<or> u = [E_MkdirAll target 0x1E8 (Inr ())] \<and> r = Inr False
                 else u = [] \<and> r = Inl (internal (WithStack e))
      | Inr b \<Rightarrow> u = [] \<and> r = Inr b)"
  unfolding checkTarget_def traced_ops
  by (intro does_case_sum does_if does_checked_logged does_ret) auto

lemma publishOnWorld_does:
  assumes "ns_ctlExec ns = beegfsCtlDispatcher (traced env)"
  shows "does (publishOnWorld (traced env) ns vol target volCap ro) (publish_trace vol target (publishOptions volCap ro))"
  unfolding publishOnWorld_def traced_ops
proof (rule does_checked [OF requireDirectory_does [OF assms]], goal_cases)
  case (1 e s)
  then show ?case by (auto intro: publish_trace.no_volume split: option.splits)
next
  case (2 z s)
  then have s: "stat_steps vol (volDirPathBeegfsRoot vol) None s" by (auto split: option.splits)
  note intros = publish_trace.intros(2-6) [OF s]
  show ?case
  proof (rule does_bind_logged, rule does_checked [OF checkTarget_does], goal_cases)
    case (1 x e u)
    then show ?case by (cases x) (auto intro: intros split: if_splits)
  next
    case (2 x isMnt u)
    then show ?case
      by (cases x) (auto intro!: does_ret intros does_mono [OF bind_does] split: if_splits)
  qed
qed

definition checkPublish :: "'w nodeServer \<Rightarrow> NodePublishVolumeRequest \<Rightarrow> goerr + beegfsVolume \<times> volume_capability" where
  "checkPublish ns req =
     (if np_VolumeId req = '''' then Inl (StatusError InvalidArgument ''Volume ID not provided'')
      else if np_StagingTargetPath req = '''' then Inl (StatusError InvalidArgument ''Staging target path not provided'')
      else if np_TargetPath req = '''' then Inl (StatusError InvalidArgument ''Target path not provided'')
      else case np_VolumeCapability req of
        None \<Rightarrow> Inl (StatusError InvalidArgument ''Volume capability not provided'')
      | Some volCap \<Rightarrow>
          if \<not> fst (isValidVolumeCapability volCap)
          then Inl (StatusError InvalidArgument (''Volume capability not supported: '' @ snd (isValidVolumeCapability volCap)))
          else (case newBeegfsVolumeFromID (np_StagingTargetPath req) (np_VolumeId req) (ns_pluginConfig ns) of
                  Inl e \<Rightarrow> Inl (internal_unless_panic e) | Inr vol \<Rightarrow> Inr (vol, volCap)))"

lemma NodePublishVolume_eq:
  "NodePublishVolume env ns req =
     guarded (checkPublish ns req) id (\<lambda>(vol, volCap). publishOnWorld env ns vol (np_TargetPath req) volCap (np_Readonly req))"
  unfolding NodePublishVolume_def checkPublish_def
  by (simp add: split_beta guarded_def split: sum.split option.split cong: if_cong)

lemma publishOptions_props:
  "distinct (publishOptions volCap ro)"
  "set (publishOptions volCap ro) = {opt \<in> set (mountFlags volCap). \<not> is_cfgFile opt} \<union> {''bind''} \<union> (if ro then {''ro''} else {})"
proof -
  have plain: "\<not> is_cfgFile ''bind''" "\<not> is_cfgFile ''ro''" by code_simp+
  show "distinct (publishOptions volCap ro)"
    "set (publishOptions volCap ro) = {opt \<in> set (mountFlags volCap). \<not> is_cfgFile opt} \<union> {''bind''} \<union> (if ro then {''ro''} else {})"
    using plain by (auto simp: publishOptions_def Let_def removeInvalidMountOptions_def collectMountOptions_eq)
qed

text \<open>C19. Publishing a volume. BeeGFS must confirm that the directory of the volume exists; a target that is a mount
  point already is left alone; otherwise the directory of the volume in the staged file system, and nothing else, is
  bind mounted once on the target, which is created first if it does not exist. The options are exactly
  those of the request but any \<open>cfgFile\<close>, and \<open>bind\<close>, and \<open>ro\<close> for a read-only volume, each of them once.\<close>

theorem NodePublishVolume_steps:
  assumes "ns_ctlExec ns = beegfsCtlDispatcher (traced env)"
    and "run_state (NodePublishVolume (traced env) ns req) (w, []) = (r, w', t)"
  shows "case checkPublish ns req of
      Inl e \<Rightarrow> r = Inl e \<and> t = [] \<and> w' = w
    | Inr (vol, volCap) \<Rightarrow> \<exists>opts. publish_trace vol (np_TargetPath req) opts r t
        \<and> distinct opts
        \<and> set opts = {opt \<in> set (mountFlags volCap). \<not> is_cfgFile opt} \<union> {''bind''} \<union> (if np_Readonly req then {''ro''} else {})"
proof (cases "checkPublish ns req")
  case (Inl e)
  then show ?thesis using assms(2) by (auto simp: NodePublishVolume_eq)
next
  case (Inr vc)
  obtain vol volCap where vc: "vc = (vol, volCap)" by fastforce
  with Inr assms(2) have "run_state (publishOnWorld (traced env) ns vol (np_TargetPath req) volCap (np_Readonly req)) (w, []) = (r, w', t)"
    by (simp add: NodePublishVolume_eq)
  from doesD [OF publishOnWorld_does [OF assms(1)] this]
  have "publish_trace vol (np_TargetPath req) (publishOptions volCap (np_Readonly req)) r t" by simp
  then show ?thesis unfolding Inr vc sum.case prod.case
    by (intro exI [of _ "publishOptions volCap (np_Readonly req)"] conjI publishOptions_props)
qed

subsection \<open>Unstaging\<close>

definition checkUnstage :: "'w nodeServer \<Rightarrow> string \<Rightarrow> string \<Rightarrow> goerr + beegfsVolume" where
  "checkUnstage ns volID staging =
     (if volID = '''' then Inl (StatusError InvalidArgument ''Volume ID not provided'')
      else if staging = '''' then Inl (StatusError InvalidArgument ''Staging target path not provided'')
      else case newBeegfsVolumeFromID staging volID (ns_pluginConfig ns) of
             Inl e \<Rightarrow> Inl (internal_unless_panic e) | Inr vol \<Rightarrow> Inr vol)"

lemma NodeUnstageVolume_eq:
  "NodeUnstageVolume env ns volID staging = guarded (checkUnstage ns volID staging) id (unstageOnWorld env ns)"
  unfolding NodeUnstageVolume_def checkUnstage_def
  by (simp add: guarded_def split: sum.split cong: if_cong)

lemma unstageOnWorld_does:
  "does (unstageOnWorld (traced env) ns vol)
     (\<lambda>r t. \<exists>u v q. t = u @ v \<and> untrack_steps ns vol u \<and> unmount_steps vol False q v \<and> r = map_sum internal id q)"
  unfolding unstageOnWorld_def
proof (rule does_bind [OF untrack_does], rule does_checked [OF unmount_does], goal_cases)
  case (1 x u e v)
  then show ?case by (intro exI [of _ u] exI [of _ v] exI [of _ "Inl e"]) simp
next
  case (2 x u y v)
  then show ?case by (intro does_ret exI [of _ u] exI [of _ v] exI [of _ "Inr ()"]) simp
qed

text \<open>C20. Unstaging a volume. The node first takes itself off the list of nodes that use the volume; whether that works
  does not matter to the rest. Then the file system is unmounted unless it is still bind mounted somewhere, in which
  case the request fails and nothing else happens; only after it has been unmounted are the client files deleted, and
  the staging directory itself is left to the orchestrator. The result is that of unmounting and deleting.\<close>

theorem NodeUnstageVolume_steps:
  assumes "run_state (NodeUnstageVolume (traced env) ns volID staging) (w, []) = (r, w', t)"
  shows "case checkUnstage ns volID staging of
      Inl e \<Rightarrow> r = Inl e \<and> t = [] \<and> w' = w
    | Inr vol \<Rightarrow> \<exists>u v q. t = u @ v \<and> untrack_steps ns vol u \<and> unmount_steps vol False q v \<and> r = map_sum internal id q"
proof (cases "checkUnstage ns volID staging")
  case (Inl e)
  then show ?thesis using assms by (auto simp: NodeUnstageVolume_eq)
next
  case (Inr vol)
  with assms have "run_state (unstageOnWorld (traced env) ns vol) (w, []) = (r, w', t)" by (simp add: NodeUnstageVolume_eq)
  from doesD [OF unstageOnWorld_does this] show ?thesis using Inr by simp
qed

subsection \<open>Containment\<close>

text \<open>A directory listing holds names, not paths.\<close>

definition lists_names :: "'w os_env \<Rightarrow> bool" where
  "lists_names env \<longleftrightarrow> (\<forall>p w. case fst (run_state (os_ReadDir env p) w) of Inl _ \<Rightarrow> True | Inr ds \<Rightarrow> list_all proper ds)"

lemma removeEntries_confined:
  assumes "list_all proper ms" "ms \<noteq> []" "list_all proper ds"
  shows "emits (confined (abs_path ms)) (removeEntries (traced env) (abs_path ms) ds)"
  using assms(3)
proof (induction ds)
  case (Cons d ds)
  then have "within (abs_path ms) (path_Join [abs_path ms, d])"
    using assms by (simp add: path_Join_abs2 path_simps within_abs_path)
  with Cons show ?case unfolding removeEntries.simps traced_ops
    by (intro emits_intros) (simp_all add: confined_def)
qed (simp add: emits_intros)

lemma cleanUp_entries_confined:
  assumes "lists_names env" "mounted_below ms vol"
  shows "emits (confined (abs_path ms)) (cleanUpIfNecessary (traced env) vol False)"
proof -
  have m: "mountDirPath vol = abs_path ms" "list_all proper ms" "ms \<noteq> []" using assms(2) by (simp_all add: mounted_below_def)
  have names: "does (logged (os_ReadDir env p) (E_ReadDir p))
      (\<lambda>r u. list_all (confined (abs_path ms)) u \<and> (\<forall>ds. r = Inr ds \<longrightarrow> list_all proper ds))" for p
  proof (rule doesI, goal_cases)
    case (1 w t x w' t')
    obtain y v where y: "run_state (os_ReadDir env p) w = (y, v)" by fastforce
    have "case y of Inl _ \<Rightarrow> True | Inr ds \<Rightarrow> list_all proper ds" using assms(1) y unfolding lists_names_def by (metis fst_conv)
    with 1 y show ?case by (auto simp: run_logged confined_def)
  qed
  show ?thesis
    unfolding cleanUpIfNecessary_def traced_ops m(1) emits_def
    by (simp, rule does_checked [OF names], simp)
      (use removeEntries_confined [OF m(2,3), unfolded emits_def] in \<open>auto elim: does_mono\<close>)
qed

lemma unmount_entries_confined:
  assumes "lists_names env" "mounted_below ms vol"
  shows "emits (confined (abs_path ms)) (unmountAndCleanUpIfNecessary (traced env) vol False)"
  unfolding unmountAndCleanUpIfNecessary_def traced_ops
  by (intro emits_intros cleanUp_entries_confined assms) (simp_all add: confined_def mounted_belowD [OF assms(2)])

lemma tracking_file_path:
  assumes "newBeegfsVolume (abs_path ms) host (abs_path (bs @ [n])) cfg = Inr vol"
    and "list_all proper ms" "list_all proper (bs @ [n])" "proper (ns_nodeID ns)"
  shows "nodesPath vol = abs_path (ms @ [''mount''] @ bs @ [''.csi'', ''volumes'', n, ''nodes''])"
    "nodePath ns vol = abs_path (ms @ [''mount''] @ bs @ [''.csi'', ''volumes'', n, ''nodes'', ns_nodeID ns])"
proof -
  have csi: "csiDirPath vol = abs_path (ms @ [''mount''] @ bs @ [''.csi'', ''volumes'', n])"
    using assms(3) by (intro volume_paths(7) [OF assms(1,2)]) simp_all
  show nodes: "nodesPath vol = abs_path (ms @ [''mount''] @ bs @ [''.csi'', ''volumes'', n, ''nodes''])"
    unfolding nodesPath_def csi using assms(2,3) by (simp add: path_Join_abs2 path_simps)
  show "nodePath ns vol = abs_path (ms @ [''mount''] @ bs @ [''.csi'', ''volumes'', n, ''nodes'', ns_nodeID ns])"
    unfolding nodePath_def nodes using assms(2-4) by (simp add: path_Join_abs2 path_simps)
qed

lemma tracking_confined:
  assumes "within d (nodePath ns vol)"
  shows "emits (confined d) (trackNode (traced env) ns vol)" "emits (confined d) (untrackNode (traced env) ns vol)"
  unfolding trackNode_def untrackNode_def traced_ops
  by (intro emits_intros; simp add: confined_def assms)+

lemma requireDirectory_confined:
  assumes "ns_ctlExec ns = beegfsCtlDispatcher (traced env)"
  shows "emits (confined d) (requireDirectory ns vol)"
  unfolding requireDirectory_def assms by (intro emits_intros dispatcher_ctl.runs_confined)

text \<open>C24. A node changes nothing outside the staging directory of a volume when it stages or unstages it: every file
  that is written, created or deleted, and every mount and unmount, lies below the directory that the
  orchestrator named. The volume ID has to be one that the controller makes, the name of the node a name.\<close>

theorem staging_contained:
  assumes "ns_ctlExec ns = beegfsCtlDispatcher (traced env)" "lists_names env" "proper (ns_nodeID ns)"
    and "volID = NewBeegfsURL host (abs_path (bs @ [n]))" "valid_host host" "list_all proper (bs @ [n])"
    and "list_all proper ms" "ms \<noteq> []"
  shows "(\<forall>volCap w r w' t. run_state (NodeStageVolume (traced env) lib ns
        \<lparr> st_VolumeId = volID, st_StagingTargetPath = abs_path ms, st_VolumeCapability = volCap \<rparr>) (w, []) = (r, w', t)
        \<longrightarrow> list_all (confined (abs_path ms)) t)
    \<and> (\<forall>w r w' t. run_state (NodeUnstageVolume (traced env) ns volID (abs_path ms)) (w, []) = (r, w', t)
        \<longrightarrow> list_all (confined (abs_path ms)) t)"
proof -
  have vol: "newBeegfsVolume (abs_path ms) host (abs_path (bs @ [n])) (ns_pluginConfig ns) = Inr vol"
    if "newBeegfsVolumeFromID (abs_path ms) volID (ns_pluginConfig ns) = Inr vol" for vol
    using that parse_NewBeegfsURL [of host "abs_path (bs @ [n])"] assms(4,5)
    by (simp add: newBeegfsVolumeFromID_def printed_path_def)
  have below: "mounted_below ms vol" "within (abs_path ms) (nodePath ns vol)"
    if "newBeegfsVolumeFromID (abs_path ms) volID (ns_pluginConfig ns) = Inr vol" for vol
    using volume_below(1) [OF vol [OF that]] tracking_file_path(2) [OF vol [OF that], where ns = ns] assms(3,6-8)
    by (simp_all add: within_abs_path)
  have 1: "emits (confined (abs_path ms)) (NodeStageVolume (traced env) lib ns
      \<lparr> st_VolumeId = volID, st_StagingTargetPath = abs_path ms, st_VolumeCapability = volCap \<rparr>)" for volCap
    unfolding NodeStageVolume_def stageOnWorld_def traced_ops
    by (intro emits_intros writeClientFiles_confined mountIfNecessary_confined tracking_confined requireDirectory_confined [OF assms(1)])
      (use below in \<open>simp_all add: confined_def\<close>)
  have 2: "emits (confined (abs_path ms)) (NodeUnstageVolume (traced env) ns volID (abs_path ms))"
    unfolding NodeUnstageVolume_def unstageOnWorld_def
    by (intro emits_intros tracking_confined unmount_entries_confined assms(2)) (use below in simp_all)
  show ?thesis using emits_run [OF 1] emits_run [OF 2] by blast
qed

subsection \<open>A node in a calm world\<close>

definition sample_ns :: "(unit \<times> event list) nodeServer" where
  "sample_ns =
     \<lparr> ns_ctlExec = beegfsCtlDispatcher (traced (calm_env [])), ns_nodeID = ''node1'', ns_pluginConfig = zeroPluginConfig,
       ns_clientConfTemplatePath = ''/tmpl'' \<rparr>"

abbreviation sample_stage :: NodeStageVolumeRequest where
  "sample_stage \<equiv> \<lparr> st_VolumeId = sample_id, st_StagingTargetPath = ''/stage'', st_VolumeCapability = Some \<lparr>access = AccessMount [''noatime'']\<rparr> \<rparr>"

abbreviation sample_publish :: NodePublishVolumeRequest where
  "sample_publish \<equiv> \<lparr> np_VolumeId = sample_id, np_StagingTargetPath = ''/stage'', np_TargetPath = ''/pod'',
     np_VolumeCapability = Some \<lparr>access = AccessMount [''noatime'']\<rparr>, np_Readonly = True \<rparr>"

lemma sample_ns_ctl: "ns_ctlExec sample_ns = beegfsCtlDispatcher (traced (calm_env []))"
  by (simp add: sample_ns_def)

lemma sample_node_volume:
  "\<exists>vol. newBeegfsVolumeFromID ''/stage'' sample_id zeroPluginConfig = Inr vol \<and> config vol = NewBeegfsConfig"
proof -
  obtain vol where vol: "newBeegfsVolume ''/stage'' ''10.0.0.1'' ''/scratch/vol1'' zeroPluginConfig = Inr vol" "config vol = NewBeegfsConfig"
    by (simp add: newBeegfsVolume_def squashConfigForSysMgmtdHost_def zeroPluginConfig_def overWriteBeegfsConfig_def
        client_conf_def NewBeegfsConfig_def zeroBeegfsConfig_def Let_def)
  have "valid_host ''10.0.0.1''" by code_simp
  then show ?thesis
    using newBeegfsVolumeFromID_volumeID [OF vol(1)] newBeegfsVolume_fields(12) [OF vol(1)] vol(2) by (simp add: printed_path_def)
qed

lemma sample_id_not_Nil: "sample_id \<noteq> ''''"
  by (rule NewBeegfsURL_not_Nil) simp

lemma sample_node_checks:
  "\<exists>vol. config vol = NewBeegfsConfig \<and> checkStage sample_ns sample_stage = Inr (vol, \<lparr>access = AccessMount [''noatime'']\<rparr>)
     \<and> checkPublish sample_ns sample_publish = Inr (vol, \<lparr>access = AccessMount [''noatime'']\<rparr>)
     \<and> checkUnstage sample_ns sample_id ''/stage'' = Inr vol"
  using sample_node_volume sample_id_not_Nil
  by (auto simp: checkStage_def checkPublish_def checkUnstage_def sample_ns_def isValidVolumeCapability_def)

lemma calm_requireDirectory: "succeeds (requireDirectory sample_ns vol)"
  unfolding succeeds_def
proof
  fix s :: "unit \<times> event list"
  obtain s' where "run_state (statDirectoryForVolume (beegfsCtlDispatcher (traced (calm_env []))) vol (volDirPathBeegfsRoot vol)) s = (([], None), s')"
    using calm_ctl(3) by blast
  then show "\<exists>x s'. run_state (requireDirectory sample_ns vol) s = (Inr x, s')"
    by (simp add: requireDirectory_def sample_ns_ctl del: split_paired_Ex)
qed

lemma calm_node:
  assumes "config vol = NewBeegfsConfig"
  shows "succeeds (stageOnWorld (traced (calm_env [])) sample_lib sample_ns vol volCap)"
    "succeeds (publishOnWorld (traced (calm_env [])) sample_ns vol target volCap ro)"
    "succeeds (unstageOnWorld (traced (calm_env [])) sample_ns vol)"
proof -
  have "succeeds (State_Monad.bind (trackNode (traced (calm_env [])) sample_ns vol) (\<lambda>_. ret (Inr ())))"
    by (simp add: succeeds_def split_paired_all trackNode_def go_run)
  then show "succeeds (stageOnWorld (traced (calm_env [])) sample_lib sample_ns vol volCap)"
    unfolding stageOnWorld_def traced_ops calm_ops
    by (intro succeeds_checked succeeds_intros calm_writeClientFiles calm_mount calm_requireDirectory assms)
  have "succeeds (State_Monad.bind (mnt_IsMountPoint (traced (calm_env [])) target) (\<lambda>r.
      checked (checkTarget (traced (calm_env [])) target r) id (\<lambda>isMnt. if isMnt then ret (Inr ())
        else checked (mnt_Mount (traced (calm_env [])) (volDirPath vol) target ''beegfs'' (publishOptions volCap ro))
            (\<lambda>e. internal (WithStack e)) (\<lambda>_. ret (Inr ())))))"
    by (simp add: succeeds_def split_paired_all checkTarget_def go_run)
  then show "succeeds (publishOnWorld (traced (calm_env [])) sample_ns vol target volCap ro)"
    unfolding publishOnWorld_def by (intro succeeds_checked calm_requireDirectory)
  show "succeeds (unstageOnWorld (traced (calm_env [])) sample_ns vol)"
    by (simp add: succeeds_def split_paired_all unstageOnWorld_def untrackNode_def unmountAndCleanUpIfNecessary_def
        cleanUpIfNecessary_def go_run)
qed

lemma succeeds_from:
  assumes "succeeds (m :: (unit \<times> event list, goerr + unit) state)"
  obtains t where "run_state m ((), []) = (Inr (), (), t)"
proof -
  obtain x s' where "run_state m ((), []) = (Inr x, s')" using assms unfolding succeeds_def by blast
  then show thesis using that by (cases s') simp
qed


theorem NodePublishVolume_steps_witness:
  "\<exists>vol t opts. run_state (NodePublishVolume (traced (calm_env [])) sample_ns sample_publish) ((), []) = (Inr (), (), t)
     \<and> publish_trace vol ''/pod'' opts (Inr ()) t \<and> set opts = {''noatime'', ''bind'', ''ro''}"
proof -
  obtain vol where vol: "config vol = NewBeegfsConfig" "checkPublish sample_ns sample_publish = Inr (vol, \<lparr>access = AccessMount [''noatime'']\<rparr>)"
    using sample_node_checks by blast
  obtain t where "run_state (publishOnWorld (traced (calm_env [])) sample_ns vol ''/pod'' \<lparr>access = AccessMount [''noatime'']\<rparr> True) ((), []) = (Inr (), (), t)"
    using succeeds_from [OF calm_node(2) [OF vol(1)]] .
  then have run: "run_state (NodePublishVolume (traced (calm_env [])) sample_ns sample_publish) ((), []) = (Inr (), (), t)"
    unfolding NodePublishVolume_eq vol(2) by simp
  have flags: "{opt \<in> set (mountFlags \<lparr>access = AccessMount [''noatime'']\<rparr>). \<not> is_cfgFile opt} = {''noatime''}" by code_simp
  from NodePublishVolume_steps [OF sample_ns_ctl run] run show ?thesis
    unfolding vol(2) sum.case prod.case flags by auto
qed

theorem NodeUnstageVolume_steps_witness:
  "\<exists>vol t u v. run_state (NodeUnstageVolume (traced (calm_env [])) sample_ns sample_id ''/stage'') ((), []) = (Inr (), (), t)
     \<and> t = u @ v \<and> untrack_steps sample_ns vol u \<and> unmount_steps vol False (Inr ()) v"
proof -
  obtain vol where vol: "config vol = NewBeegfsConfig" "checkUnstage sample_ns sample_id ''/stage'' = Inr vol"
    using sample_node_checks by blast
  obtain t where "run_state (unstageOnWorld (traced (calm_env [])) sample_ns vol) ((), []) = (Inr (), (), t)"
    using succeeds_from [OF calm_node(3) [OF vol(1)]] .
  then have run: "run_state (NodeUnstageVolume (traced (calm_env [])) sample_ns sample_id ''/stage'') ((), []) = (Inr (), (), t)"
    unfolding NodeUnstageVolume_eq vol(2) by simp
  from NodeUnstageVolume_steps [OF run] obtain u v q where
    "t = u @ v" "untrack_steps sample_ns vol u" "unmount_steps vol False q v" "Inr () = map_sum internal id q"
    unfolding vol(2) by auto
  moreover from this(4) have "q = Inr ()" by (cases q) simp_all
  ultimately show ?thesis using run by blast
qed

theorem staging_contained_witness:
  "list_all (confined ''/stage'') (snd (snd (run_state (NodeUnstageVolume (traced (calm_env [])) sample_ns sample_id ''/stage'') ((), []))))"
proof -
  have path: "abs_path [''stage''] = ''/stage''" "abs_path ([''scratch''] @ [''vol1'']) = ''/scratch/vol1''" by (simp_all add: abs_path_def)
  have "list_all (confined (abs_path [''stage'']))
      (snd (snd (run_state (NodeUnstageVolume (traced (calm_env [])) sample_ns sample_id (abs_path [''stage''])) ((), []))))"
  proof (rule staging_contained [THEN conjunct2, rule_format, OF sample_ns_ctl _ _ _ _ _ _ _ run_parts])
    show "lists_names (calm_env [])" "proper (ns_nodeID sample_ns)" "list_all proper ([''scratch''] @ [''vol1''])"
      "list_all proper [''stage'']" by (simp_all add: lists_names_def sample_ns_def proper_def)
    show "sample_id = NewBeegfsURL ''10.0.0.1'' (abs_path ([''scratch''] @ [''vol1'']))" by (simp only: path)
    show "valid_host ''10.0.0.1''" by code_simp
  qed simp
  then show ?thesis unfolding path .
qed

end
