(* ===== verification/Server.thy ===== *)
theory Server
  imports Node
begin

text \<open>
  pkg/beegfs/server.go: the endpoint, the request IDs, the interceptor \<open>logGRPC\<close> around every handler, and what
  \<open>serve\<close> does before it answers requests. The network and the gRPC library are parameters. What the server
  relies on in a handler is the locale \<open>status_handler\<close>: an error that the handler returns carries a gRPC status.
\<close>

subsection \<open>Errors of the service\<close>

text \<open>The methods of \<open>grpcError\<close>.\<close>

fun grpcError_Error :: "goerr \<Rightarrow> string" where
  "grpcError_Error (GrpcError statusErr cause) = err_msg statusErr"
| "grpcError_Error e = err_msg e"

text \<open>\<open>errors.As(err, &grpcErr)\<close>, and then \<open>grpcErr.GetStatusErr()\<close>: the status of the first \<open>grpcError\<close> of the chain.\<close>

fun as_grpcError :: "goerr \<Rightarrow> goerr option" where
  "as_grpcError (GrpcError statusErr cause) = Some statusErr"
| "as_grpcError (WithStack e) = as_grpcError e"
| "as_grpcError (WithMessage e m) = as_grpcError e"
| "as_grpcError (FmtErrorf m es) = (case filter (\<lambda>x. x \<noteq> None) (map as_grpcError es) of [] \<Rightarrow> None | x # xs \<Rightarrow> x)"
| "as_grpcError _ = None"

definition forwarded :: "goerr \<Rightarrow> goerr" where
  "forwarded err = (case as_grpcError err of Some statusErr \<Rightarrow> statusErr | None \<Rightarrow> err)"

subsection \<open>Request IDs and logging\<close>

definition logLevelDebug :: nat where "logLevelDebug = 3"
definition logLevelVerbose :: nat where "logLevelVerbose = 5"

datatype log_line =
    LogInfo nat string string string
  | LogErr goerr string string string

record server_state =
  requestIDCounter :: "32 word"
  log_lines :: "log_line list"

definition generateRequestContext :: "server_state \<Rightarrow> string \<times> server_state" where
  "generateRequestContext s =
     (let counter = requestIDCounter s + 1
      in (zero_pad 4 (fmt_uint 16 (unat (counter mod 0x10000))), s\<lparr>requestIDCounter := counter\<rparr>))"

definition log_line :: "log_line \<Rightarrow> server_state \<Rightarrow> server_state" where
  "log_line l s = s\<lparr>log_lines := log_lines s @ [l]\<rparr>"

text \<open>The interceptor. A handler that panics or does not return never comes back to it.\<close>

definition logGRPC ::
  "string \<Rightarrow> (string \<Rightarrow> ('s, goerr + 'r) state) \<Rightarrow> (server_state \<times> 's, goerr + 'r) state"
where
  "logGRPC fullMethod handler = State (\<lambda>(s, x).
     let (reqID, s) = generateRequestContext s;
         level = (if fullMethod = ''/csi.v1.Identity/Probe'' \<or> fullMethod = ''/csi.v1.Node/NodeGetCapabilities''
                  then logLevelVerbose else logLevelDebug);
         s = log_line (LogInfo level reqID ''GRPC call'' fullMethod) s;
         (r, x) = run_state (handler reqID) x
     in case r of
          Inl err \<Rightarrow>
            if \<not> returns_err err then (r, s, x)
            else (Inl (forwarded err), log_line (LogErr err reqID ''GRPC error'' fullMethod) s, x)
        | Inr resp \<Rightarrow> (Inr resp, log_line (LogInfo level reqID ''GRPC response'' fullMethod) s, x))"

subsection \<open>The endpoint\<close>

definition parseEndpoint :: "string \<Rightarrow> goerr + string \<times> string" where
  "parseEndpoint ep =
     (if (HasPrefix (ToLower ep) ''unix://'' \<or> HasPrefix (ToLower ep) ''tcp://'') then
        (case SplitN2 ep ''://'' of
           [p, addr] \<Rightarrow> if addr \<noteq> '''' then Inr (p, addr) else Inl (ErrorsNew (''invalid endpoint: '' @ ep))
         | _ \<Rightarrow> Inl (Panic ''index out of range''))
      else Inl (ErrorsNew (''invalid endpoint: '' @ ep)))"

datatype grpc_service = IdentityService | ControllerService | NodeService

text \<open>How \<open>serve\<close> ends: \<open>LogFatal\<close> exits the process with a message.\<close>

datatype serve_end = Fatal goerr string | Served "goerr option"

definition serve ::
  "'w os_env \<Rightarrow> (string \<Rightarrow> string \<Rightarrow> ('w, goerr + unit) state) \<Rightarrow> (grpc_service list \<Rightarrow> ('w, goerr option) state)
    \<Rightarrow> (goerr \<Rightarrow> bool) \<Rightarrow> string \<Rightarrow> bool \<Rightarrow> bool \<Rightarrow> bool \<Rightarrow> ('w, serve_end) state"
where
  "serve env net_Listen server_Serve isErrServerStopped endpoint hasIds hasCs hasNs =
     (case parseEndpoint endpoint of
        Inl err \<Rightarrow> ret (Fatal err ''Error parsing endpoint'')
      | Inr (p, addr) \<Rightarrow>
          let listen = (\<lambda>addr.
                State_Monad.bind (net_Listen p addr) (\<lambda>r.
                case r of
                  Inl err \<Rightarrow> ret (Fatal (WithStack err) ''Failed to listen'')
                | Inr _ \<Rightarrow>
                    State_Monad.bind (server_Serve ((if hasIds then [IdentityService] else [])
                        @ (if hasCs then [ControllerService] else []) @ (if hasNs then [NodeService] else []))) (\<lambda>err.
                    case err of
                      None \<Rightarrow> ret (Served None)
                    | Some e \<Rightarrow> if isErrServerStopped e then ret (Served (Some (WithStack e))) else ret (Fatal e ''Fatal error''))))
          in if p = ''unix'' then
               let addr = ''/'' @ addr
               in State_Monad.bind (os_Remove env addr) (\<lambda>r.
                  case r of
                    Inl err \<Rightarrow> if \<not> os_IsNotExist err then ret (Fatal (WithStack err) ''Failed to remove address'') else listen addr
                  | Inr _ \<Rightarrow> listen addr)
             else listen addr)"

subsection \<open>The endpoint that is parsed\<close>

lemma ToLower_unix: "ToLower (''unix://'' @ s) = ''unix://'' @ ToLower s" and ToLower_tcp: "ToLower (''tcp://'' @ s) = ''tcp://'' @ ToLower s"
  by (cases s; cases "tl s"; simp add: lower_byte_def)+

lemma parseEndpoint_Inr:
  "parseEndpoint ep = Inr (p, addr) \<Longrightarrow> ep = p @ ''://'' @ addr \<and> addr \<noteq> ''''"
  by (auto simp: parseEndpoint_def SplitN2_def dest: Cut_Some split: if_splits option.splits)

lemma lower_byte_special: "c = CHR '':'' \<or> c = CHR ''/'' \<Longrightarrow> lower_byte x = c \<longleftrightarrow> x = c"
proof -
  assume c: "c = CHR '':'' \<or> c = CHR ''/''"
  have "char_of (n + 32) \<noteq> c" if "65 \<le> n" "n \<le> 90" for n :: nat
  proof
    assume "char_of (n + 32) = c"
    then have "of_char (char_of (n + 32) :: char) = (of_char c :: nat)" by simp
    then show False using that c by (auto simp: of_char_of)
  qed
  moreover have "\<not> (65 \<le> (of_char c :: nat) \<and> (of_char c :: nat) \<le> 90)" using c by auto
  ultimately show ?thesis unfolding lower_byte_def by (metis (full_types))
qed

lemma ToLower_special:
  assumes "ToLower s = c # t" "c = CHR '':'' \<or> c = CHR ''/''"
  obtains s' where "s = c # s'" "ToLower s' = t"
  using assms by (cases s rule: ToLower.cases) (auto simp: lower_byte_special split: if_splits)

lemma ToLower_scheme_end: "HasPrefix (ToLower s) ''://'' \<Longrightarrow> HasPrefix s ''://''"
proof -
  assume "HasPrefix (ToLower s) ''://''"
  then obtain t where "ToLower s = CHR '':'' # CHR ''/'' # CHR ''/'' # t" by (auto simp: HasPrefix_iff_prefix prefix_def)
  then show ?thesis by (auto elim!: ToLower_special)
qed

lemma Contains_ToLower: "Contains (ToLower s) ''://'' \<Longrightarrow> Contains s ''://''"
proof (induction s rule: ToLower.induct)
  case (1 a b c cs)
  show ?case
  proof (cases "HasPrefix (ToLower (a # b # c # cs)) ''://''")
    case True
    then have "HasPrefix (a # b # c # cs) ''://''" by (rule ToLower_scheme_end)
    then show ?thesis by (simp only: Contains.simps simp_thms)
  next
    case False
    then show ?thesis using 1 by (auto split: if_splits simp del: HasPrefix_Cons)
  qed
qed (auto split: if_splits)

lemma Cut_unix: "Cut (''unix://'' @ s) ''://'' = Some (''unix'', s)" and Cut_tcp: "Cut (''tcp://'' @ s) ''://'' = Some (''tcp'', s)"
  by simp_all

text \<open>The endpoint. \<open>parseEndpoint\<close> takes an endpoint apart at the first \<open>://\<close> into two parts that make it up
  again; it accepts every \<open>unix://\<close> and \<open>tcp://\<close> endpoint with a non-empty address, and it never panics.\<close>

theorem parseEndpoint_parts:
  "(\<forall>p addr. parseEndpoint ep = Inr (p, addr) \<longrightarrow> ep = p @ ''://'' @ addr \<and> addr \<noteq> '''')
   \<and> (addr' \<noteq> '''' \<longrightarrow> parseEndpoint (''unix://'' @ addr') = Inr (''unix'', addr') \<and> parseEndpoint (''tcp://'' @ addr') = Inr (''tcp'', addr'))
   \<and> returns (parseEndpoint ep)"
proof (intro conjI impI allI)
  fix p addr
  assume "parseEndpoint ep = Inr (p, addr)"
  then show "ep = p @ ''://'' @ addr" "addr \<noteq> ''''" using parseEndpoint_Inr by blast+
next
  assume "addr' \<noteq> ''''"
  then show "parseEndpoint (''unix://'' @ addr') = Inr (''unix'', addr')" "parseEndpoint (''tcp://'' @ addr') = Inr (''tcp'', addr')"
    unfolding parseEndpoint_def ToLower_unix ToLower_tcp SplitN2_def Cut_unix Cut_tcp by simp_all
next
  have "Contains (ToLower ep) ''://''" if "HasPrefix (ToLower ep) (sch @ ''://'')" for sch
    using that by (auto simp: HasPrefix_iff_prefix prefix_def Contains_iff_sublist sublist_def)
  from this [of "''unix''"] this [of "''tcp''"]
  have "Cut ep ''://'' \<noteq> None" if "HasPrefix (ToLower ep) ''unix://'' \<or> HasPrefix (ToLower ep) ''tcp://''"
    using that Contains_ToLower [of ep] Cut_None [of ep "''://''"] by auto
  then show "returns (parseEndpoint ep)" by (auto simp: parseEndpoint_def SplitN2_def)
qed

theorem parseEndpoint_parts_witness: "parseEndpoint ''unix://csi/csi.sock'' = Inr (''unix'', ''csi/csi.sock'')"
  using parseEndpoint_parts [of "''x''" "''csi/csi.sock''"] by simp

text \<open>The scheme is compared in lower case but returned as it was written, so that a socket with the scheme \<open>UNIX\<close> is
  accepted and then not treated as one.\<close>

theorem parseEndpoint_keeps_case: "parseEndpoint ''UNIX://csi/csi.sock'' = Inr (''UNIX'', ''csi/csi.sock'')"
  by code_simp

subsection \<open>Request IDs\<close>

fun request_ids :: "nat \<Rightarrow> server_state \<Rightarrow> string list" where
  "request_ids 0 s = []"
| "request_ids (Suc n) s = (case generateRequestContext s of (i, s') \<Rightarrow> i # request_ids n s')"

definition request_id :: "32 word \<Rightarrow> string" where
  "request_id c = zero_pad 4 (fmt_uint 16 (unat (c mod 0x10000)))"

lemma request_ids_eq: "request_ids n s = map (\<lambda>k. request_id (requestIDCounter s + of_nat (Suc k))) [0..<n]"
proof (induction n arbitrary: s)
  case (Suc n)
  have "map (\<lambda>k. request_id (requestIDCounter s + of_nat (Suc k))) [0..<Suc n] =
      request_id (requestIDCounter s + 1) # map (\<lambda>k. request_id (requestIDCounter s + of_nat (Suc (Suc k)))) [0..<n]"
    by (simp add: map_Suc_upt [symmetric] upt_conv_Cons comp_def del: upt_Suc)
  with Suc show ?case by (simp add: generateRequestContext_def request_id_def Let_def add.assoc)
qed simp

lemma low_bits: "unat (c mod 0x10000 :: 32 word) = unat c mod 65536"
  by (simp add: unat_mod)

lemma request_id_inject: "request_id c = request_id d \<longleftrightarrow> unat c mod 65536 = unat d mod 65536"
proof
  assume "request_id c = request_id d"
  moreover have "ParseUint (request_id x) 16 16 = Inr (unat x mod 65536)" for x
    unfolding request_id_def low_bits by (rule ParseUint_fmt_uint) simp_all
  ultimately show "unat c mod 65536 = unat d mod 65536" by (metis sum.inject(2))
qed (simp add: request_id_def low_bits)

lemma request_id_length: "length (request_id c) = 4"
proof -
  have "length (fmt_uint 16 (unat c mod 65536)) \<le> Suc 3" by (rule length_fmt_uint_le) simp_all
  then show ?thesis by (simp add: request_id_def low_bits length_zero_pad)
qed

lemma mod_close: "i \<le> j \<Longrightarrow> j < i + q \<Longrightarrow> (a + Suc j) mod q = (a + Suc i) mod q \<Longrightarrow> i = j" for i j q a :: nat
  using mod_eq_dvd_iff_nat [of "a + Suc i" "a + Suc j" q] by (auto dest: dvd_imp_le)

lemma consecutive_distinct:
  assumes "i < 65536" "j < 65536" "unat (c + of_nat (Suc i) :: 32 word) mod 65536 = unat (c + of_nat (Suc j)) mod 65536"
  shows "i = j"
proof -
  have "unat (c + of_nat (Suc k) :: 32 word) mod 65536 = (unat c + Suc k) mod 65536" for k
  proof -
    have "unat (c + of_nat (Suc k) :: 32 word) = (unat c + Suc k) mod 2 ^ 32"
      by (simp add: unat_word_ariths unat_of_nat mod_add_right_eq del: of_nat_Suc)
    moreover have "(65536 :: nat) dvd 2 ^ 32" by simp
    ultimately show ?thesis by (simp only: mod_mod_cancel)
  qed
  with assms(3) have "(unat c + Suc i) mod 65536 = (unat c + Suc j) mod 65536" by simp
  then show ?thesis using assms(1,2) mod_close [of i j 65536 "unat c"] mod_close [of j i 65536 "unat c"]
    by (cases "i \<le> j") simp_all
qed

text \<open>C40. Request IDs. The IDs of any 65536 consecutive requests are different from each other and four characters long,
  also where the 32 bit counter behind them wraps around.\<close>

theorem request_ids_distinct:
  assumes "n \<le> 65536"
  shows "distinct (request_ids n s) \<and> list_all (\<lambda>i. length i = 4) (request_ids n s)"
  using assms unfolding request_ids_eq
  by (auto simp: distinct_map inj_on_def request_id_inject list_all_iff request_id_length intro: consecutive_distinct)

theorem request_ids_distinct_witness:
  "distinct (request_ids 5 \<lparr> requestIDCounter = 0xFFFFFFFE, log_lines = [] \<rparr>)"
  by (rule request_ids_distinct [THEN conjunct1]) simp

subsection \<open>What a handler may answer\<close>

definition status_in :: "grpc_code set \<Rightarrow> goerr \<Rightarrow> bool" where
  "status_in codes e \<longleftrightarrow> \<not> returns_err e \<or> (\<exists>c m. forwarded e = StatusError c m \<and> c \<in> codes)"

definition fails_with :: "(goerr \<Rightarrow> bool) \<Rightarrow> ('s, goerr + 'a) state \<Rightarrow> bool" where
  "fails_with P m \<longleftrightarrow> (\<forall>s e s'. run_state m s = (Inl e, s') \<longrightarrow> P e)"

lemma status_in_simps [simp]:
  "c \<in> codes \<Longrightarrow> status_in codes (StatusError c m)"
  "c \<in> codes \<Longrightarrow> status_in codes (newGrpcErrorFromCause c (Some e))"
  "status_in codes Diverged"
  by (simp_all add: status_in_def forwarded_def newGrpcErrorFromCause_Some)

lemma diverges_returns: "diverges_err e \<Longrightarrow> \<not> returns_err e"
  by (induction e rule: diverges_err.induct) simp_all

lemma panic_returns: "is_panic e \<Longrightarrow> \<not> returns_err e"
  by (cases e) simp_all

lemma status_in_lost [simp]: "diverges_err e \<Longrightarrow> status_in codes e" "is_panic e \<Longrightarrow> status_in codes e"
  by (simp_all add: status_in_def diverges_returns panic_returns)

lemma status_in_internal_unless_panic [simp]: "Internal \<in> codes \<Longrightarrow> status_in codes (internal_unless_panic e)"
  by (simp add: internal_unless_panic_def)

named_theorems fails_intros \<open>introduction rules for fails_with, along the text of a handler\<close>

lemma fails_basic [fails_intros]:
  "P e \<Longrightarrow> fails_with P (ret (Inl e))"
  "fails_with P (ret (Inr x))"
  "(\<And>x. fails_with P (k x)) \<Longrightarrow> fails_with P (State_Monad.bind m k)"
  "(b \<Longrightarrow> fails_with P n) \<Longrightarrow> (\<not> b \<Longrightarrow> fails_with P n') \<Longrightarrow> fails_with P (if b then n else n')"
  "(\<And>e. r = Inl e \<Longrightarrow> P (wrap e)) \<Longrightarrow> (\<And>x. r = Inr x \<Longrightarrow> fails_with P (k' x)) \<Longrightarrow> fails_with P (guarded r wrap k')"
  "(\<And>a. q = Inl a \<Longrightarrow> fails_with P (f a)) \<Longrightarrow> (\<And>b. q = Inr b \<Longrightarrow> fails_with P (g b)) \<Longrightarrow> fails_with P (case_sum f g q)"
  "(z = None \<Longrightarrow> fails_with P h) \<Longrightarrow> (\<And>y. z = Some y \<Longrightarrow> fails_with P (l y)) \<Longrightarrow> fails_with P (case_option h l z)"
  "(\<And>u v. pr = (u, v) \<Longrightarrow> fails_with P (j u v)) \<Longrightarrow> fails_with P (case_prod j pr)"
  by (auto simp: fails_with_def guarded_def split: prod.splits sum.splits option.splits)

lemma fails_checked:
  assumes "fails_with Q m" "\<And>e. Q e \<Longrightarrow> P (wrap e)" "\<And>x. fails_with P (k x)"
  shows "fails_with P (checked m wrap k)"
  using assms by (auto simp: fails_with_def run_checked split: prod.splits sum.splits)

lemma fails_checked_wrapped [fails_intros]:
  "(\<And>e. P (wrap e)) \<Longrightarrow> (\<And>x. fails_with P (k x)) \<Longrightarrow> fails_with P (checked m wrap k)"
  by (rule fails_checked [where Q = "\<lambda>_. True"]) (simp_all add: fails_with_def)

lemma fails_exec [fails_intros]:
  "P e \<Longrightarrow> fails_with P (exec (Return (Inl e)))"
  "fails_with P (exec (Return (Inr x)))"
  "(\<And>a. fails_with P (exec (k a))) \<Longrightarrow> fails_with P (exec (OnWorld m k))"
  "fails_with P (exec p) \<Longrightarrow> fails_with P (exec (WriteStatus vid st p))"
  "(b \<Longrightarrow> fails_with P (exec p)) \<Longrightarrow> (\<not> b \<Longrightarrow> fails_with P (exec q)) \<Longrightarrow> fails_with P (exec (if b then p else q))"
  by (auto simp: fails_with_def go_run split: prod.splits)

lemma fails_onWorld: "fails_with P m \<Longrightarrow> fails_with P (exec (onWorld m))"
  by (auto simp: fails_with_def go_run split: prod.splits)

lemma fails_checked_p:
  assumes "fails_with P (exec p)" "\<And>x. fails_with P (exec (k x))"
  shows "fails_with P (exec (checked_p p id k))"
  using assms by (auto simp: fails_with_def run_exec_checked_p split: prod.splits sum.splits)

lemma fails_deferring:
  assumes "fails_with P (exec body)" "\<And>r. (\<forall>e. r = Inl e \<longrightarrow> P e) \<Longrightarrow> fails_with P (exec (d r))"
  shows "fails_with P (exec (deferring body d))"
  unfolding fails_with_def
proof (intro allI impI)
  fix s e s'
  assume run: "run_state (exec (deferring body d)) s = (Inl e, s')"
  obtain r s1 where 1: "run_state (exec body) s = (r, s1)" by fastforce
  have "\<forall>e. r = Inl e \<longrightarrow> P e" using 1 assms(1) unfolding fails_with_def by blast
  with assms(2) have "fails_with P (exec (d r))" by blast
  with run 1 \<open>\<forall>e. r = Inl e \<longrightarrow> P e\<close> show "P e"
    by (auto simp: run_exec_deferring fails_with_def split: if_splits)
qed

lemma fails_exclusively:
  assumes "fails_with P (exec body)" "P (busy vid)"
  shows "fails_with P (exec (exclusively vid body))"
proof -
  have "fails_with P (exec (deferring body (\<lambda>r. ReleaseLock vid (Return r))))"
    by (rule fails_deferring [OF assms(1)]) (auto simp: fails_with_def go_run)
  with assms(2) show ?thesis unfolding exclusively_def by (auto simp: fails_with_def go_run split: if_splits)
qed

lemma set_entries_panics: "set_entries m es = Inl e \<Longrightarrow> is_panic e"
  by (induction m es rule: set_entries.induct) auto

lemma squash_panics: "squashConfigForSysMgmtdHost host cfg = Inl e \<Longrightarrow> is_panic e"
proof -
  have over: "is_panic e" if "overWriteBeegfsConfig a b = Inl e" for a b e
    using that by (auto simp: overWriteBeegfsConfig_def bindE_def split: sum.splits dest: set_entries_panics)
  have "is_panic e" if "squash_onto host c fs = Inl e" for c fs
    using that by (induction host c fs rule: squash_onto.induct) (auto simp: bindE_def split: sum.splits if_splits dest: over)
  then show "squashConfigForSysMgmtdHost host cfg = Inl e \<Longrightarrow> is_panic e"
    by (auto simp: squashConfigForSysMgmtdHost_def bindE_def split: sum.splits dest: over)
qed

lemma cs_newBeegfsVolume_panics: "cs_newBeegfsVolume cs host base name = Inl e \<Longrightarrow> is_panic e"
  by (auto simp: cs_newBeegfsVolume_def newBeegfsVolume_def Let_def bindE_def split: sum.splits dest: squash_panics)

abbreviation controller_codes :: "grpc_code set" where
  "controller_codes \<equiv> {InvalidArgument, Aborted, Internal}"

abbreviation node_codes :: "grpc_code set" where
  "node_codes \<equiv> {InvalidArgument, NotFound, Internal}"

lemma createOnWorld_status: "fails_with (status_in controller_codes) (createOnWorld env lib cs vol params)"
  unfolding createOnWorld_def applySpecialPermissions_def createNodesDir_def
  by (intro fails_intros fails_checked [where wrap = id]) (auto simp: fails_with_def split: if_splits)

lemma statOnWorld_status: "fails_with (status_in (insert NotFound controller_codes)) (statOnWorld env lib cs vol)"
  unfolding statOnWorld_def by (intro fails_intros) auto

lemma deleteOnWorld_status: "fails_with (status_in controller_codes) (deleteOnWorld env lib fuel cs vol)"
  unfolding deleteOnWorld_def by (intro fails_intros) auto

lemma createAttempt_status: "fails_with (status_in controller_codes) (exec (createAttempt env lib cs vol params))"
  unfolding createAttempt_def
  by (intro fails_deferring fails_checked_p fails_onWorld [OF createOnWorld_status] fails_intros) (auto simp: fails_with_def)

lemma deleteAttempt_status: "fails_with (status_in controller_codes) (exec (deleteAttempt env lib fuel cs vol))"
  unfolding deleteAttempt_def Let_def
  by (intro fails_deferring fails_onWorld [OF deleteOnWorld_status] fails_intros) (auto simp: fails_with_def go_run split: sum.splits)

lemma validateAttempt_status: "fails_with (status_in (insert NotFound controller_codes)) (exec (validateAttempt env lib cs vol caps params))"
  unfolding validateAttempt_def
  by (intro fails_deferring fails_checked_p fails_onWorld [OF statOnWorld_status] fails_intros) (auto simp: fails_with_def)

lemma checkCreate_status: "checkCreate cs req = Inl e \<Longrightarrow> status_in controller_codes e"
  by (auto simp: checkCreate_def bindE_def split: if_splits sum.splits intro: status_in_lost(2) [OF cs_newBeegfsVolume_panics])

lemma checkValidate_status: "checkValidate cs req = Inl e \<Longrightarrow> status_in (insert NotFound controller_codes) e"
  by (auto simp: checkValidate_def bindE_def split: if_splits sum.splits)

lemma create_status: "fails_with (status_in controller_codes) (CreateVolume env lib cs req)"
  unfolding CreateVolume_eq
  by (intro fails_intros fails_exclusively createAttempt_status) (auto dest: checkCreate_status)

lemma delete_status: "fails_with (status_in controller_codes) (DeleteVolume env lib fuel cs volID)"
  unfolding DeleteVolume_eq
  by (intro fails_intros fails_exclusively deleteAttempt_status) auto

lemma validate_status: "fails_with (status_in (insert NotFound controller_codes)) (ValidateVolumeCapabilities env lib cs req)"
  unfolding Validate_eq
  by (intro fails_intros fails_exclusively validateAttempt_status) (auto dest: checkValidate_status)

lemma requireDirectory_status: "fails_with (status_in node_codes) (requireDirectory ns vol)"
  unfolding requireDirectory_def by (intro fails_intros) auto

lemma checkTarget_status: "fails_with (status_in node_codes) (checkTarget env target r)"
  unfolding checkTarget_def by (intro fails_intros) auto

lemma stage_status: "fails_with (status_in node_codes) (NodeStageVolume env lib ns req)"
  unfolding NodeStageVolume_def stageOnWorld_def
  by (intro fails_intros fails_checked [OF requireDirectory_status]) auto

lemma publish_status: "fails_with (status_in node_codes) (NodePublishVolume env ns req)"
  unfolding NodePublishVolume_def publishOnWorld_def
  by (intro fails_intros fails_checked [OF requireDirectory_status] fails_checked [OF checkTarget_status]) auto

lemma unstage_status: "fails_with (status_in {InvalidArgument, Internal}) (NodeUnstageVolume env ns volID staging)"
  unfolding NodeUnstageVolume_def unstageOnWorld_def by (intro fails_intros) auto

lemma unpublish_status: "fails_with (status_in {InvalidArgument, Internal}) (NodeUnpublishVolume env volID target)"
  unfolding NodeUnpublishVolume_def by (intro fails_intros) auto

subsection \<open>The interceptor and the handlers\<close>

locale status_handler =
  fixes handler :: "('s, goerr + 'r) state" and codes :: "grpc_code set"
  assumes status: "fails_with (status_in codes) handler"
begin

text \<open>The caller sees the response of the handler, or a bare gRPC status with one of the codes; the interceptor
  changes nothing else, and writes two lines with the ID of the request.\<close>

lemma intercepted:
  assumes "run_state (logGRPC fullMethod (\<lambda>_. handler)) (s, x) = (r, s', x')" "returns r"
  shows "x' = snd (run_state handler x)"
    "case r of Inr y \<Rightarrow> fst (run_state handler x) = Inr y | Inl e \<Rightarrow> \<exists>c m. e = StatusError c m \<and> c \<in> codes"
    "\<exists>l i. log_lines s' = log_lines s @ [LogInfo l i ''GRPC call'' fullMethod,
        (case fst (run_state handler x) of Inl e \<Rightarrow> LogErr e i ''GRPC error'' fullMethod
         | Inr _ \<Rightarrow> LogInfo l i ''GRPC response'' fullMethod)]
      \<and> i = fst (generateRequestContext s)"
proof -
  obtain y z where h: "run_state handler x = (y, z)" by fastforce
  obtain i t where g: "generateRequestContext s = (i, t)" "log_lines t = log_lines s"
    by (simp add: generateRequestContext_def Let_def)
  have st: "\<exists>c m. forwarded e = StatusError c m \<and> c \<in> codes" if "y = Inl e" "returns_err e" for e
    using status h that unfolding fails_with_def status_in_def by blast
  show "x' = snd (run_state handler x)"
    "case r of Inr y \<Rightarrow> fst (run_state handler x) = Inr y | Inl e \<Rightarrow> \<exists>c m. e = StatusError c m \<and> c \<in> codes"
    "\<exists>l i. log_lines s' = log_lines s @ [LogInfo l i ''GRPC call'' fullMethod,
        (case fst (run_state handler x) of Inl e \<Rightarrow> LogErr e i ''GRPC error'' fullMethod
         | Inr _ \<Rightarrow> LogInfo l i ''GRPC response'' fullMethod)]
      \<and> i = fst (generateRequestContext s)"
    using assms st by (auto simp: logGRPC_def g h log_line_def Let_def split: sum.splits if_splits)
qed

lemma answer:
  assumes "run_state (logGRPC fullMethod (\<lambda>_. handler)) sx = (Inl e, sx')" "returns_err e"
  shows "\<exists>c m. e = StatusError c m \<and> c \<in> codes"
  using intercepted(2) [of fullMethod "fst sx" "snd sx" "Inl e" "fst sx'" "snd sx'"] assms by simp

end

interpretation create_handler: status_handler "CreateVolume env lib cs req" controller_codes for env lib cs req
  by unfold_locales (rule create_status)

interpretation delete_handler: status_handler "DeleteVolume env lib fuel cs volID" controller_codes for env lib fuel cs volID
  by unfold_locales (rule delete_status)

interpretation validate_handler: status_handler "ValidateVolumeCapabilities env lib cs req" "insert NotFound controller_codes" for env lib cs req
  by unfold_locales (rule validate_status)

interpretation stage_handler: status_handler "NodeStageVolume env lib ns req" node_codes for env lib ns req
  by unfold_locales (rule stage_status)

interpretation publish_handler: status_handler "NodePublishVolume env ns req" node_codes for env ns req
  by unfold_locales (rule publish_status)

interpretation unstage_handler: status_handler "NodeUnstageVolume env ns volID staging" "{InvalidArgument, Internal}" for env ns volID staging
  by unfold_locales (rule unstage_status)

interpretation unpublish_handler: status_handler "NodeUnpublishVolume env volID target" "{InvalidArgument, Internal}" for env volID target
  by unfold_locales (rule unpublish_status)

text \<open>C12. What the orchestrator sees of an error. Whatever goes wrong in a handler, in whatever way the error was
  wrapped on its way up, the interceptor answers with a bare gRPC status; its code is one of those that the handler
  may use: InvalidArgument, Aborted or Internal for creating and deleting a volume, also NotFound for checking one, and
  InvalidArgument, Internal and, where the volume has to exist, NotFound on a node.\<close>

theorem errors_are_statuses:
  assumes "returns_err e"
  shows "(run_state (logGRPC method (\<lambda>_. CreateVolume env lib cs creq)) s = (Inl e, s1) \<longrightarrow> (\<exists>c m. e = StatusError c m \<and> c \<in> {InvalidArgument, Aborted, Internal}))
    \<and> (run_state (logGRPC method (\<lambda>_. DeleteVolume env lib fuel cs volID)) s = (Inl e, s2) \<longrightarrow> (\<exists>c m. e = StatusError c m \<and> c \<in> {InvalidArgument, Aborted, Internal}))
    \<and> (run_state (logGRPC method (\<lambda>_. ValidateVolumeCapabilities env lib cs vreq)) s = (Inl e, s3) \<longrightarrow> (\<exists>c m. e = StatusError c m \<and> c \<in> {NotFound, InvalidArgument, Aborted, Internal}))
    \<and> (run_state (logGRPC method (\<lambda>_. NodeStageVolume env lib ns sreq)) x = (Inl e, x1) \<longrightarrow> (\<exists>c m. e = StatusError c m \<and> c \<in> {InvalidArgument, NotFound, Internal}))
    \<and> (run_state (logGRPC method (\<lambda>_. NodePublishVolume env ns preq)) x = (Inl e, x2) \<longrightarrow> (\<exists>c m. e = StatusError c m \<and> c \<in> {InvalidArgument, NotFound, Internal}))
    \<and> (run_state (logGRPC method (\<lambda>_. NodeUnstageVolume env ns volID path)) x = (Inl e, x3) \<longrightarrow> (\<exists>c m. e = StatusError c m \<and> c \<in> {InvalidArgument, Internal}))
    \<and> (run_state (logGRPC method (\<lambda>_. NodeUnpublishVolume env volID path)) x = (Inl e, x4) \<longrightarrow> (\<exists>c m. e = StatusError c m \<and> c \<in> {InvalidArgument, Internal}))"
  by (intro conjI impI; erule create_handler.answer [OF _ assms] delete_handler.answer [OF _ assms] validate_handler.answer [OF _ assms]
      stage_handler.answer [OF _ assms] publish_handler.answer [OF _ assms] unstage_handler.answer [OF _ assms]
      unpublish_handler.answer [OF _ assms])

text \<open>A world in which nothing can be unmounted.\<close>

definition stuck_env :: "unit os_env" where
  "stuck_env = (calm_env [])\<lparr> mnt_CleanupMountPoint := (\<lambda>p b. ret (Inl (OsError OtherErrno ''busy''))) \<rparr>"

theorem errors_are_statuses_witness:
  "\<exists>e s'. run_state (logGRPC ''/csi.v1.Node/NodeUnpublishVolume'' (\<lambda>_. NodeUnpublishVolume stuck_env ''v'' ''/pod''))
       (\<lparr> requestIDCounter = 0, log_lines = [] \<rparr>, ()) = (Inl e, s')
     \<and> (\<exists>c m. e = StatusError c m \<and> c \<in> {InvalidArgument, Internal})"
proof -
  let ?h = "NodeUnpublishVolume stuck_env ''v'' ''/pod''"
  have "run_state ?h () = (Inl (internal (WithStack (OsError OtherErrno ''busy''))), ())"
    by (simp add: NodeUnpublishVolume_def stuck_env_def run_checked)
  then obtain s' where run: "run_state (logGRPC ''/csi.v1.Node/NodeUnpublishVolume'' (\<lambda>_. ?h)) (\<lparr> requestIDCounter = 0, log_lines = [] \<rparr>, ())
      = (Inl (StatusError Internal ''busy''), s')"
    by (simp add: logGRPC_def Let_def newGrpcErrorFromCause_Some forwarded_def split_beta)
  moreover have "returns_err (StatusError Internal ''busy'')" by simp
  from errors_are_statuses [OF this] run
  have "\<exists>c m. StatusError Internal ''busy'' = StatusError c m \<and> c \<in> {InvalidArgument, Internal}" by blast
  ultimately show ?thesis by blast
qed

end
