(* ===== verification/Driver.thy ===== *)
theory Driver
  imports Server
begin

text \<open>
  How the driver starts: the identity service (pkg/beegfs/identityserver.go), the look for the kernel module
  (pkg/beegfs/beegfs_util.go) and the construction of the driver with its services (pkg/beegfs/beegfs.go). The
  YAML library is a parameter. The global \<open>vendorVersion\<close> is the second component of the state.
\<close>

subsection \<open>The identity service\<close>

record identityServer =
  ids_name :: string
  ids_version :: string

definition newIdentityServer :: "string \<Rightarrow> string \<Rightarrow> identityServer" where
  "newIdentityServer name version = \<lparr> ids_name = name, ids_version = version \<rparr>"

definition GetPluginInfo :: "identityServer \<Rightarrow> goerr + string \<times> string" where
  "GetPluginInfo ids =
     (if ids_name ids = '''' then Inl (StatusError Unavailable ''Driver name not configured'')
      else if ids_version ids = '''' then Inl (StatusError Unavailable ''Driver is missing version'')
      else Inr (ids_name ids, ids_version ids))"

definition Probe :: "goerr + unit" where
  "Probe = Inr ()"

datatype plugin_capability = CONTROLLER_SERVICE | VOLUME_EXPANSION_ONLINE

definition GetPluginCapabilities :: "goerr + plugin_capability list" where
  "GetPluginCapabilities = Inr [CONTROLLER_SERVICE, VOLUME_EXPANSION_ONLINE]"

subsection \<open>The kernel module\<close>

definition isBeegfsClientModuleLoaded :: "'w os_env \<Rightarrow> ('w, goerr + bool) state" where
  "isBeegfsClientModuleLoaded env =
     State_Monad.bind (cmd_Run env [''lsmod'']) (\<lambda>(err, stdOut, stdErr).
     case err of
       Some e \<Rightarrow> ret (Inl (errors_Wrap e (''lsmod failed with stdOut: '' @ stdOut @ '' and stdErr: '' @ stdErr)))
     | None \<Rightarrow> if Contains stdOut ''beegfs'' then ret (Inr True) else ret (Inr False))"

definition isBeegfsClientModuleInstalled :: "'w os_env \<Rightarrow> ('w, goerr + bool) state" where
  "isBeegfsClientModuleInstalled env =
     State_Monad.bind (cmd_Run env [''modprobe'', ''-R'', ''beegfs'']) (\<lambda>(err, stdOut, stdErr).
     case err of
       Some e \<Rightarrow>
         if err_msg e = ''exit status 1'' then ret (Inr False)
         else ret (Inl (errors_Wrap e (''modprobe execution failed with stdOut: '' @ stdOut @ '' and stdErr: '' @ stdErr)))
     | None \<Rightarrow> ret (Inr True))"

definition verifyBeegfsClientModuleIsAvailable :: "'w os_env \<Rightarrow> ('w, goerr + unit) state" where
  "verifyBeegfsClientModuleIsAvailable env =
     State_Monad.bind (isBeegfsClientModuleLoaded env) (\<lambda>loaded.
     if loaded = Inr True then ret (Inr ())
     else checked (isBeegfsClientModuleInstalled env)
            (\<lambda>e. WithMessage e ''unable to determine if the beegfs module is installed'') (\<lambda>isInstalled.
          if isInstalled then ret (Inr ())
          else ret (Inl (ErrorsNew ''the BeeGFS client kernel module is not installed''))))"

subsection \<open>The driver\<close>

fun firstReadable :: "'w os_env \<Rightarrow> string list \<Rightarrow> ('w, string) state" where
  "firstReadable env [] = ret ''''"
| "firstReadable env (path # paths) =
     State_Monad.bind (os_ReadFile env path) (\<lambda>r. case r of Inr _ \<Rightarrow> ret path | Inl _ \<Rightarrow> firstReadable env paths)"

definition defaultTemplatePaths :: "string list" where
  "defaultTemplatePaths =
     [''/etc/beegfs/beegfs-client.conf'',
      ''/host/etc/beegfs/beegfs-client.conf'',
      ''/var/lib/kubelet/plugins/beegfs.csi.netapp.com/client/beegfs-client.conf'',
      ''/host/var/lib/kubelet/plugins/beegfs.csi.netapp.com/client/beegfs-client.conf'']"

definition getDefaultClientConfTemplatePath :: "'w os_env \<Rightarrow> ('w, string) state" where
  "getDefaultClientConfTemplatePath env = firstReadable env defaultTemplatePaths"

record driver_args =
  da_connAuthPath :: string
  da_tlsCertsPath :: string
  da_configPath :: string
  da_csDataDir :: string
  da_driverName :: string
  da_endpoint :: string
  da_nodeID :: string
  da_clientConfTemplatePath :: string
  da_version :: string
  da_nodeUnstageTimeout :: "64 word"

text \<open>The three documents that the YAML library reads.\<close>

record yaml_lib =
  unmarshal_config :: "string \<Rightarrow> goerr + PluginConfigFromFile"
  unmarshal_connAuth :: "string \<Rightarrow> goerr + ConnAuthConfig list"
  unmarshal_tlsCerts :: "string \<Rightarrow> goerr + TLSCertConfig list"

record beegfs =
  driverName :: string
  drv_nodeID :: string
  drv_version :: string
  drv_endpoint :: string
  drv_pluginConfig :: PluginConfig
  drv_clientConfTemplatePath :: string
  drv_csDataDir :: string
  drv_ids :: identityServer

record 'w running_driver =
  drv :: beegfs
  drv_ns :: "'w nodeServer"
  drv_cs :: "'w controllerServer \<times> 'w controller_state"

definition lift_world :: "('w, 'a) state \<Rightarrow> ('w \<times> string, 'a) state" where
  "lift_world m = State (\<lambda>(w, v). case run_state m w of (x, w') \<Rightarrow> (x, w', v))"

definition set_version :: "string \<Rightarrow> ('w \<times> string, unit) state" where
  "set_version version = State (\<lambda>(w, v). ((), w, if version \<noteq> '''' then version else v))"

definition get_version :: "('w \<times> string, string) state" where
  "get_version = State (\<lambda>(w, v). (v, w, v))"

definition chooseTemplate :: "'w os_env \<Rightarrow> string \<Rightarrow> ('w, goerr + string) state" where
  "chooseTemplate env path =
     (if path \<noteq> '''' then
        checked (os_ReadFile env path) (\<lambda>e. WithMessage e ''failed to read client configuration template file'') (\<lambda>_.
        ret (Inr path))
      else State_Monad.bind (getDefaultClientConfTemplatePath env) (\<lambda>p.
        if p = '''' then ret (Inl (ErrorsNew ''failed to get valid default client configuration template file''))
        else ret (Inr p)))"

definition readPluginConfig :: "'w os_env \<Rightarrow> yaml_lib \<Rightarrow> driver_args \<Rightarrow> ('w, goerr + PluginConfig) state" where
  "readPluginConfig env yaml a =
     checked (if da_configPath a \<noteq> '''' then parseConfigFromFile env (unmarshal_config yaml) (da_configPath a) (da_nodeID a)
              else ret (Inr zeroPluginConfig))
       (\<lambda>e. if is_panic e then e else WithMessage e ''failed to handle configuration file'') (\<lambda>cfg.
     checked (if da_connAuthPath a \<noteq> '''' then parseConnAuthFromFile env (unmarshal_connAuth yaml) (da_connAuthPath a) cfg
              else ret (Inr cfg)) (\<lambda>e. WithMessage e ''failed to handle connAuth file'') (\<lambda>cfg.
     checked (if da_tlsCertsPath a \<noteq> '''' then parseTLSCertsFromFile env (unmarshal_tlsCerts yaml) (da_tlsCertsPath a) cfg
              else ret (Inr cfg)) (\<lambda>e. WithMessage e ''failed to handle tlsCerts file'') (\<lambda>cfg.
     ret (Inr cfg))))"

definition newBeegfsDriver :: "'w os_env \<Rightarrow> yaml_lib \<Rightarrow> driver_args \<Rightarrow> ('w \<times> string, goerr + beegfs) state" where
  "newBeegfsDriver env yaml a =
     (if da_driverName a = '''' then ret (Inl (ErrorsNew ''no driver name provided''))
      else if da_nodeID a = '''' then ret (Inl (ErrorsNew ''no node id provided''))
      else if da_endpoint a = '''' then ret (Inl (ErrorsNew ''no driver endpoint provided''))
      else State_Monad.bind (set_version (da_version a)) (\<lambda>_.
      checked (lift_world (chooseTemplate env (da_clientConfTemplatePath a))) id (\<lambda>template.
      checked (lift_world (readPluginConfig env yaml a)) id (\<lambda>cfg.
      if da_csDataDir a = '''' then ret (Inl (ErrorsNew ''no controller service data directory path provided''))
      else checked (lift_world (os_MkdirAll env (da_csDataDir a) 0x1E8)) (\<lambda>e. errors_Wrap e ''failed to create csDataDir'') (\<lambda>_.
      State_Monad.bind get_version (\<lambda>version.
      ret (Inr \<lparr> driverName = da_driverName a, drv_nodeID = da_nodeID a, drv_version = version, drv_endpoint = da_endpoint a,
                 drv_pluginConfig = cfg, drv_clientConfTemplatePath = template, drv_csDataDir = da_csDataDir a,
                 drv_ids = newIdentityServer (da_driverName a) version \<rparr>)))))))"

definition NewBeegfsDriver :: "'w os_env \<Rightarrow> yaml_lib \<Rightarrow> driver_args \<Rightarrow> ('w \<times> string, goerr + 'w running_driver) state" where
  "NewBeegfsDriver env yaml a =
     checked (lift_world (verifyBeegfsClientModuleIsAvailable env)) id (\<lambda>_.
     checked (newBeegfsDriver env yaml a) id (\<lambda>d.
     checked (lift_world (newNodeServer env (drv_nodeID d) (drv_pluginConfig d) (drv_clientConfTemplatePath d))) id (\<lambda>ns.
     checked (lift_world (newControllerServer env (drv_nodeID d) (drv_pluginConfig d) (drv_clientConfTemplatePath d)
       (drv_csDataDir d) (da_nodeUnstageTimeout a))) id (\<lambda>cs.
     ret (Inr \<lparr> drv = d, drv_ns = ns, drv_cs = cs \<rparr>)))))"

definition NewBeegfsDriverSanity :: "'w os_env \<Rightarrow> yaml_lib \<Rightarrow> driver_args \<Rightarrow> ('w \<times> string, goerr + 'w running_driver) state" where
  "NewBeegfsDriverSanity env yaml a =
     checked (newBeegfsDriver env yaml a) id (\<lambda>d.
     State_Monad.bind State_Monad.get (\<lambda>(w, _).
     ret (Inr \<lparr> drv = d,
                drv_ns = newNodeServerSanity (drv_nodeID d) (drv_pluginConfig d) (drv_clientConfTemplatePath d),
                drv_cs = newControllerServerSanity (drv_nodeID d) (drv_pluginConfig d) (drv_clientConfTemplatePath d)
                  (drv_csDataDir d) (da_nodeUnstageTimeout a) w \<rparr>)))"

text \<open>\<open>Run\<close> starts the server with all three services in the background and waits on a wait group that nothing
  ever marks as done: it ends only when the process exits.\<close>

datatype run_end = Exits goerr string | BlocksForever

definition Run ::
  "'w os_env \<Rightarrow> (string \<Rightarrow> string \<Rightarrow> ('w, goerr + unit) state) \<Rightarrow> (grpc_service list \<Rightarrow> ('w, goerr option) state)
    \<Rightarrow> (goerr \<Rightarrow> bool) \<Rightarrow> 'w running_driver \<Rightarrow> ('w, run_end) state"
where
  "Run env net_Listen server_Serve isErrServerStopped d =
     State_Monad.bind (serve env net_Listen server_Serve isErrServerStopped (drv_endpoint (drv d)) True True True) (\<lambda>e.
     ret (case e of Fatal err msg \<Rightarrow> Exits err msg | Served _ \<Rightarrow> BlocksForever))"

subsection \<open>Runs that succeed\<close>

lemma checked_Inr:
  "run_state (checked m wrap k) s = (Inr y, s') \<longleftrightarrow> (\<exists>x s1. run_state m s = (Inr x, s1) \<and> run_state (k x) s1 = (Inr y, s'))"
  by (auto simp: run_checked split: prod.splits sum.splits)

lemma run_lift_world [go_run]: "run_state (lift_world m) (w, v) = (case run_state m w of (x, w') \<Rightarrow> (x, w', v))"
  by (simp add: lift_world_def)

lemma run_versions [go_run]:
  "run_state (set_version version) (w, v) = ((), w, if version \<noteq> '''' then version else v)"
  "run_state get_version (w, v) = (v, w, v)"
  by (simp_all add: set_version_def get_version_def)

lemma lift_world_result: "run_state (lift_world m) (w, v) = (x, w', v') \<longleftrightarrow> run_state m w = (x, w') \<and> v' = v"
  by (auto simp: run_lift_world split: prod.splits)

text \<open>What the driver saw of the kernel module: it is loaded, or it can be loaded.\<close>

definition module_seen :: "event list \<Rightarrow> bool" where
  "module_seen t \<longleftrightarrow>
     (\<exists>out err. E_Run [''lsmod''] (None, out, err) \<in> set t \<and> Contains out ''beegfs'')
     \<or> (\<exists>out err. E_Run [''modprobe'', ''-R'', ''beegfs''] (None, out, err) \<in> set t)"

lemma module_seen_append [simp]: "module_seen (u @ v) \<longleftrightarrow> module_seen u \<or> module_seen v"
  by (auto simp: module_seen_def)

lemma verify_does:
  "does (verifyBeegfsClientModuleIsAvailable (traced env)) (\<lambda>r u. r = Inr () \<longrightarrow> module_seen u)"
proof -
  have loaded: "does (isBeegfsClientModuleLoaded (traced env)) (\<lambda>r u. r = Inr True \<longrightarrow> module_seen u)"
    unfolding isBeegfsClientModuleLoaded_def traced_ops
    by (rule does_bind_logged) (auto intro!: does_ret does_case_prod does_case_option does_if simp: module_seen_def)
  have installed: "does (isBeegfsClientModuleInstalled (traced env)) (\<lambda>r u. r = Inr True \<longrightarrow> module_seen u)"
    unfolding isBeegfsClientModuleInstalled_def traced_ops
    by (rule does_bind_logged) (auto intro!: does_ret does_case_prod does_case_option does_if simp: module_seen_def)
  show ?thesis
    unfolding verifyBeegfsClientModuleIsAvailable_def
    by (rule does_bind [OF loaded], rule does_if, rule does_ret, simp, rule does_checked [OF installed], simp)
      (auto intro!: does_ret does_if)
qed

text \<open>The template that the driver uses was read without an error; without one in the arguments it is the first
  readable one of the default places.\<close>

definition template_chosen :: "string \<Rightarrow> string \<Rightarrow> event list \<Rightarrow> bool" where
  "template_chosen arg p t \<longleftrightarrow>
     p \<noteq> '''' \<and> (\<exists>c. E_ReadFile p (Inr c) \<in> set t)
     \<and> (if arg \<noteq> '''' then p = arg
        else \<exists>qs qs'. defaultTemplatePaths = qs @ p # qs' \<and> list_all (\<lambda>q. \<exists>e. E_ReadFile q (Inl e) \<in> set t) qs)"

lemma firstReadable_does:
  "does (firstReadable (traced env) ps)
     (\<lambda>p u. p = '''' \<or> (\<exists>c. E_ReadFile p (Inr c) \<in> set u)
        \<and> (\<exists>qs qs'. ps = qs @ p # qs' \<and> list_all (\<lambda>q. \<exists>e. E_ReadFile q (Inl e) \<in> set u) qs))"
proof (induction ps)
  case (Cons q ps)
  show ?case
    unfolding firstReadable.simps traced_ops
  proof (rule does_bind_logged, rule does_case_sum, goal_cases)
    case (1 x e)
    show ?case
    proof (rule does_mono [OF Cons], elim disjE, goal_cases)
      case (2 p u)
      then obtain c qs qs' where "E_ReadFile p (Inr c) \<in> set u" "ps = qs @ p # qs'" "list_all (\<lambda>q. \<exists>e. E_ReadFile q (Inl e) \<in> set u) qs"
        by blast
      then show ?case using 1 by (intro disjI2 conjI exI [of _ c] exI [of _ "q # qs"] exI [of _ qs']) (auto simp: list_all_iff)
    qed simp
  next
    case (2 x c)
    then show ?case by (intro does_ret disjI2 conjI exI [of _ c] exI [of _ "[]"] exI [of _ ps]) simp_all
  qed
qed (auto intro: does_ret)

lemma chooseTemplate_does:
  "does (chooseTemplate (traced env) arg) (\<lambda>r u. \<forall>p. r = Inr p \<longrightarrow> template_chosen arg p u)"
proof (cases "arg = ''''")
  case True
  then show ?thesis
    unfolding chooseTemplate_def getDefaultClientConfTemplatePath_def traced_ops
    by (simp, intro does_bind [OF firstReadable_does] does_if does_ret) (auto simp: template_chosen_def)
next
  case False
  then show ?thesis unfolding chooseTemplate_def traced_ops
    by simp (rule does_checked_logged, simp, rule does_ret, auto simp: template_chosen_def)
qed

lemma newBeegfsDriver_Inr:
  assumes "run_state (newBeegfsDriver env yaml a) (w, v) = (Inr d, w', v')"
  obtains template w1 cfg w2 where
    "da_driverName a \<noteq> ''''" "da_nodeID a \<noteq> ''''" "da_endpoint a \<noteq> ''''" "da_csDataDir a \<noteq> ''''"
    "v' = (if da_version a \<noteq> '''' then da_version a else v)"
    "run_state (chooseTemplate env (da_clientConfTemplatePath a)) w = (Inr template, w1)"
    "run_state (readPluginConfig env yaml a) w1 = (Inr cfg, w2)"
    "run_state (os_MkdirAll env (da_csDataDir a) 0x1E8) w2 = (Inr (), w')"
    "d = \<lparr> driverName = da_driverName a, drv_nodeID = da_nodeID a, drv_version = v', drv_endpoint = da_endpoint a,
           drv_pluginConfig = cfg, drv_clientConfTemplatePath = template, drv_csDataDir = da_csDataDir a,
           drv_ids = newIdentityServer (da_driverName a) v' \<rparr>"
proof -
  let ?v = "if da_version a \<noteq> '''' then da_version a else v"
  have given: "da_driverName a \<noteq> ''''" "da_nodeID a \<noteq> ''''" "da_endpoint a \<noteq> ''''"
    using assms by (auto simp: newBeegfsDriver_def split: if_splits)
  then obtain template w1 cfg w2 where
    1: "run_state (chooseTemplate env (da_clientConfTemplatePath a)) w = (Inr template, w1)"
    and 2: "run_state (readPluginConfig env yaml a) w1 = (Inr cfg, w2)"
    and rest: "run_state (if da_csDataDir a = '''' then ret (Inl (ErrorsNew ''no controller service data directory path provided''))
      else checked (lift_world (os_MkdirAll env (da_csDataDir a) 0x1E8)) (\<lambda>e. errors_Wrap e ''failed to create csDataDir'') (\<lambda>_.
      State_Monad.bind get_version (\<lambda>version.
      ret (Inr \<lparr> driverName = da_driverName a, drv_nodeID = da_nodeID a, drv_version = version, drv_endpoint = da_endpoint a,
                 drv_pluginConfig = cfg, drv_clientConfTemplatePath = template, drv_csDataDir = da_csDataDir a,
                 drv_ids = newIdentityServer (da_driverName a) version \<rparr>)))) (w2, ?v) = (Inr d, w', v')"
    using assms by (auto simp: newBeegfsDriver_def run_versions checked_Inr lift_world_result simp del: split_paired_Ex)
  have dir: "da_csDataDir a \<noteq> ''''" using rest by auto
  then have "run_state (os_MkdirAll env (da_csDataDir a) 0x1E8) w2 = (Inr (), w')" "v' = ?v"
    "d = \<lparr> driverName = da_driverName a, drv_nodeID = da_nodeID a, drv_version = ?v, drv_endpoint = da_endpoint a,
           drv_pluginConfig = cfg, drv_clientConfTemplatePath = template, drv_csDataDir = da_csDataDir a,
           drv_ids = newIdentityServer (da_driverName a) ?v \<rparr>"
    using rest by (auto simp: checked_Inr lift_world_result run_versions)
  then show thesis using that [OF given dir _ 1 2] by simp
qed

lemma emits_any:
  assumes "emits (\<lambda>_. True) m" "run_state m (w, t) = (x, w', t')"
  shows "set t \<subseteq> set t'"
  using emits_runD [OF assms] by auto

lemma readPluginConfig_emits: "emits (\<lambda>_. True) (readPluginConfig (traced env) yaml a)"
  unfolding readPluginConfig_def parseConfigFromFile_def parseConnAuthFromFile_def parseTLSCertsFromFile_def traced_ops
  by (intro emits_intros) simp_all

lemma newBeeGFSCtlExecutor_result:
  "run_state (newBeeGFSCtlExecutor env) w = (Inr ctl, w') \<Longrightarrow> ctl = beegfsCtlDispatcher env"
  by (auto simp: newBeeGFSCtlExecutor_def Let_def split: prod.splits option.splits if_splits)

lemma newBeeGFSCtlExecutor_emits: "emits (\<lambda>_. True) (newBeeGFSCtlExecutor (traced env))"
proof -
  have "emits (\<lambda>_. True) (V8_execute (traced env) vol args)" "emits (\<lambda>_. True) (V7_execute (traced env) conf args)" for vol conf args
    by (blast intro: emits_mono execute_runs)+
  then show ?thesis unfolding newBeeGFSCtlExecutor_def Let_def by (intro emits_intros)
qed

lemma servers_emit:
  "emits (\<lambda>_. True) (newNodeServer (traced env) nodeID cfg template)"
  "run_state (newControllerServer (traced env) nodeID cfg template dir timeout) (w, t) = (Inr cs, w', t') \<Longrightarrow> set t \<subseteq> set t'"
proof -
  show "emits (\<lambda>_. True) (newNodeServer (traced env) nodeID cfg template)"
    unfolding newNodeServer_def by (intro emits_intros newBeeGFSCtlExecutor_emits)
  assume "run_state (newControllerServer (traced env) nodeID cfg template dir timeout) (w, t) = (Inr cs, w', t')"
  then obtain ctl where "run_state (newBeeGFSCtlExecutor (traced env)) (w, t) = (Inr ctl, w', t')"
    by (auto simp: newControllerServer_def checked_Inr)
  then show "set t \<subseteq> set t'" by (rule emits_any [OF newBeeGFSCtlExecutor_emits])
qed

lemma module_seen_mono: "module_seen t \<Longrightarrow> set t \<subseteq> set t' \<Longrightarrow> module_seen t'"
  unfolding module_seen_def by blast

lemma template_chosen_mono: "template_chosen arg p t \<Longrightarrow> set t \<subseteq> set t' \<Longrightarrow> template_chosen arg p t'"
  unfolding template_chosen_def list_all_iff by (metis subsetD)

lemma driver_trace:
  assumes "run_state (verifyBeegfsClientModuleIsAvailable (traced env)) (w, []) = (Inr (), w1)"
    and "run_state (chooseTemplate (traced env) arg) w1 = (Inr template, x1)"
    and "run_state (readPluginConfig (traced env) yaml a) x1 = (Inr cfg, x2)"
    and "run_state (os_MkdirAll (traced env) dir 0x1E8) x2 = (Inr (), w2)"
    and "run_state (newNodeServer (traced env) n1 c1 p1) w2 = (Inr ns, w3)"
    and "run_state (newControllerServer (traced env) n2 c2 p2 d2 timeout) w3 = (Inr cs, (w', t))"
  shows "module_seen t" "template_chosen arg template t" "E_MkdirAll dir 0x1E8 (Inr ()) \<in> set t"
proof -
  obtain v1 t1 u1 s1 u2 s2 v2 t2 v3 t3 where ws: "w1 = (v1, t1)" "x1 = (u1, s1)" "x2 = (u2, s2)" "w2 = (v2, t2)" "w3 = (v3, t3)"
    by (metis prod.exhaust)
  have 1: "module_seen t1" using doesD [OF verify_does assms(1) [unfolded ws]] by simp
  obtain u where u: "s1 = t1 @ u" "template_chosen arg template u" using doesD [OF chooseTemplate_does assms(2) [unfolded ws]] by blast
  have 3: "set s1 \<subseteq> set s2" by (rule emits_any [OF readPluginConfig_emits assms(3) [unfolded ws]])
  have 4: "t2 = s2 @ [E_MkdirAll dir 0x1E8 (Inr ())]" using assms(4) by (auto simp: ws run_logged split: prod.splits)
  have 5: "set t2 \<subseteq> set t3" by (rule emits_any [OF servers_emit(1) assms(5) [unfolded ws]])
  have 6: "set t3 \<subseteq> set t" by (rule servers_emit(2) [OF assms(6) [unfolded ws]])
  have "set t1 \<subseteq> set t" "set u \<subseteq> set t" "E_MkdirAll dir 0x1E8 (Inr ()) \<in> set t" using u(1) 3 4 5 6 by auto
  then show "module_seen t" "template_chosen arg template t" "E_MkdirAll dir 0x1E8 (Inr ()) \<in> set t"
    using 1 u(2) by (auto intro: module_seen_mono template_chosen_mono)
qed

text \<open>C29. A driver that starts is well formed. The kernel module was loaded or could be loaded, the client
  configuration template was read without an error (the one asked for, else the first readable default), and the data
  directory was created. The driver has a name, a node ID and an endpoint; both services run the same commands with the
  same configuration, template and node ID, the controller with the data directory and the timeout that were asked for,
  with no volume in flight and none known as created or deleted.\<close>

theorem NewBeegfsDriver_well_formed:
  assumes "run_state (NewBeegfsDriver (traced env) yaml a) ((w, []), v) = (Inr d, (w', t), v')"
  shows "driverName (drv d) = da_driverName a \<and> da_driverName a \<noteq> '''' \<and> drv_nodeID (drv d) = da_nodeID a \<and> da_nodeID a \<noteq> ''''
    \<and> drv_endpoint (drv d) = da_endpoint a \<and> da_endpoint a \<noteq> ''''
    \<and> v' = (if da_version a \<noteq> '''' then da_version a else v)
    \<and> GetPluginInfo (drv_ids (drv d)) = (if v' = '''' then Inl (StatusError Unavailable ''Driver is missing version'') else Inr (da_driverName a, v'))
    \<and> drv_ns d = \<lparr> ns_ctlExec = beegfsCtlDispatcher (traced env), ns_nodeID = da_nodeID a,
        ns_pluginConfig = drv_pluginConfig (drv d), ns_clientConfTemplatePath = drv_clientConfTemplatePath (drv d) \<rparr>
    \<and> fst (drv_cs d) = \<lparr> ctlExec = beegfsCtlDispatcher (traced env), cs_nodeID = da_nodeID a, cs_pluginConfig = drv_pluginConfig (drv d),
        clientConfTemplatePath = drv_clientConfTemplatePath (drv d), csDataDir = da_csDataDir a, nodeUnstageTimeout = da_nodeUnstageTimeout a \<rparr>
    \<and> volumeIDsInFlight (snd (drv_cs d)) = newThreadSafeStringLock \<and> volumeStatusMap (snd (drv_cs d)) = newThreadSafeStatusMap
    \<and> da_csDataDir a \<noteq> '''' \<and> E_MkdirAll (da_csDataDir a) 0x1E8 (Inr ()) \<in> set t
    \<and> module_seen t \<and> template_chosen (da_clientConfTemplatePath a) (drv_clientConfTemplatePath (drv d)) t"
proof -
  obtain w1 d0 w2 v2 ns w3 cs where
    verify: "run_state (verifyBeegfsClientModuleIsAvailable (traced env)) (w, []) = (Inr (), w1)"
    and new: "run_state (newBeegfsDriver (traced env) yaml a) (w1, v) = (Inr d0, w2, v2)"
    and node: "run_state (newNodeServer (traced env) (drv_nodeID d0) (drv_pluginConfig d0) (drv_clientConfTemplatePath d0)) w2 = (Inr ns, w3)"
    and contr: "run_state (newControllerServer (traced env) (drv_nodeID d0) (drv_pluginConfig d0) (drv_clientConfTemplatePath d0)
       (drv_csDataDir d0) (da_nodeUnstageTimeout a)) w3 = (Inr cs, (w', t))"
    and d: "d = \<lparr> drv = d0, drv_ns = ns, drv_cs = cs \<rparr>" "v2 = v'"
    using assms unfolding NewBeegfsDriver_def by (auto simp: checked_Inr lift_world_result)
  obtain template x1 cfg x2 where parts:
    "da_driverName a \<noteq> ''''" "da_nodeID a \<noteq> ''''" "da_endpoint a \<noteq> ''''" "da_csDataDir a \<noteq> ''''"
    "v2 = (if da_version a \<noteq> '''' then da_version a else v)"
    "run_state (chooseTemplate (traced env) (da_clientConfTemplatePath a)) w1 = (Inr template, x1)"
    "run_state (readPluginConfig (traced env) yaml a) x1 = (Inr cfg, x2)"
    "run_state (os_MkdirAll (traced env) (da_csDataDir a) 0x1E8) x2 = (Inr (), w2)"
    "d0 = \<lparr> driverName = da_driverName a, drv_nodeID = da_nodeID a, drv_version = v2, drv_endpoint = da_endpoint a,
           drv_pluginConfig = cfg, drv_clientConfTemplatePath = template, drv_csDataDir = da_csDataDir a,
           drv_ids = newIdentityServer (da_driverName a) v2 \<rparr>"
    using newBeegfsDriver_Inr [OF new] .
  have ns: "ns = \<lparr> ns_ctlExec = beegfsCtlDispatcher (traced env), ns_nodeID = da_nodeID a,
        ns_pluginConfig = cfg, ns_clientConfTemplatePath = template \<rparr>"
    using node by (auto simp: parts(9) newNodeServer_def checked_Inr dest: newBeeGFSCtlExecutor_result)
  have cs: "fst cs = \<lparr> ctlExec = beegfsCtlDispatcher (traced env), cs_nodeID = da_nodeID a, cs_pluginConfig = cfg,
        clientConfTemplatePath = template, csDataDir = da_csDataDir a, nodeUnstageTimeout = da_nodeUnstageTimeout a \<rparr>"
      "volumeIDsInFlight (snd cs) = newThreadSafeStringLock" "volumeStatusMap (snd cs) = newThreadSafeStatusMap"
    using contr by (auto simp: parts(9) newControllerServer_def checked_Inr dest: newBeeGFSCtlExecutor_result)
  have trace: "module_seen t" "template_chosen (da_clientConfTemplatePath a) template t" "E_MkdirAll (da_csDataDir a) 0x1E8 (Inr ()) \<in> set t"
    by (rule driver_trace [OF verify parts(6-8) node contr])+
  show ?thesis
    using parts(1-5) ns cs trace by (simp add: d parts(9) newIdentityServer_def GetPluginInfo_def)
qed

text \<open>A machine on which the driver starts.\<close>

definition ready_env :: "unit os_env" where
  "ready_env = (calm_env [])\<lparr> cmd_Run := (\<lambda>as. ret (None, ''beegfs'', [])) \<rparr>"

definition sample_args :: driver_args where
  "sample_args =
     \<lparr> da_connAuthPath = '''', da_tlsCertsPath = '''', da_configPath = '''', da_csDataDir = ''/data'', da_driverName = ''beegfs.csi.netapp.com'',
       da_endpoint = ''unix://csi/csi.sock'', da_nodeID = ''node1'', da_clientConfTemplatePath = '''', da_version = ''v1.8.0'',
       da_nodeUnstageTimeout = 60 \<rparr>"

definition sample_yaml :: yaml_lib where
  "sample_yaml = \<lparr> unmarshal_config = (\<lambda>_. Inl (ErrorsNew '''')), unmarshal_connAuth = (\<lambda>_. Inr []), unmarshal_tlsCerts = (\<lambda>_. Inr []) \<rparr>"

lemma ready_ops [simp]:
  "cmd_Run ready_env as = ret (None, ''beegfs'', [])" "os_ReadFile ready_env p = ret (Inr [])" "os_MkdirAll ready_env p m = ret (Inr ())"
  by (simp_all add: ready_env_def)

lemma sample_start:
  "\<exists>d t. run_state (NewBeegfsDriver (traced ready_env) sample_yaml sample_args) (((), []), ''dev'') = (Inr d, ((), t), ''v1.8.0'')"
proof -
  have "Contains ''beegfs'' ''beegfs''" by simp
  then show ?thesis
    by (simp add: NewBeegfsDriver_def verifyBeegfsClientModuleIsAvailable_def isBeegfsClientModuleLoaded_def newBeegfsDriver_def
        sample_args_def chooseTemplate_def getDefaultClientConfTemplatePath_def defaultTemplatePaths_def readPluginConfig_def
        newNodeServer_def newControllerServer_def newBeeGFSCtlExecutor_def V8_execute_def V7_execute_def execBeeGFSCmd_def
        ctl_error_def Let_def go_run)
qed

theorem NewBeegfsDriver_well_formed_witness:
  "\<exists>d t. run_state (NewBeegfsDriver (traced ready_env) sample_yaml sample_args) (((), []), ''dev'') = (Inr d, ((), t), ''v1.8.0'')
     \<and> GetPluginInfo (drv_ids (drv d)) = Inr (''beegfs.csi.netapp.com'', ''v1.8.0'') \<and> module_seen t"
proof -
  obtain d t where run: "run_state (NewBeegfsDriver (traced ready_env) sample_yaml sample_args) (((), []), ''dev'') = (Inr d, ((), t), ''v1.8.0'')"
    using sample_start by blast
  from NewBeegfsDriver_well_formed [OF run] run show ?thesis
    by (intro exI [of _ d] exI [of _ t]) (simp add: sample_args_def)
qed

end
