(* ===== verification/Driver_Main.thy ===== *)
theory Driver_Main
  imports Driver
begin

text \<open>
  The rest of server.go (the format of an error, the log functions, the life cycle of the server) and
  cmd/beegfs-csi-driver/main.go. A log line is a value here; klog prints it. The lemmas say what can become of the
  process.
\<close>

subsection \<open>Errors in the log\<close>

text \<open>\<open>Format\<close> of \<open>grpcError\<close>; \<open>fmt_plus\<close> is \<open>%+v\<close> of the cause, which its own type prints.\<close>

fun grpcError_Cause :: "goerr \<Rightarrow> goerr option" where
  "grpcError_Cause (GrpcError statusErr cause) = Some cause"
| "grpcError_Cause e = None"

definition grpcError_Format :: "(goerr \<Rightarrow> string) \<Rightarrow> goerr \<Rightarrow> bool \<Rightarrow> char \<Rightarrow> string" where
  "grpcError_Format fmt_plus e flag verb =
     (if verb = CHR ''v'' \<and> flag
      then (case grpcError_Cause e of Some cause \<Rightarrow> fmt_plus cause | None \<Rightarrow> []) @ [CHR 0x0A] @ grpcError_Error e
      else if verb \<in> set ''vsq'' then grpcError_Error e
      else [])"

subsection \<open>Log lines\<close>

record log_entry =
  le_level :: "nat option"
  le_values :: "(string \<times> string) list"
  le_msg :: string
  le_keysAndValues :: "(string \<times> string) list"

text \<open>A context may be nil, and may lack a request ID. An error is logged without a level.\<close>

datatype log_context = NilContext | Context "string option"

fun logger :: "log_context \<Rightarrow> (string \<times> string) list" where
  "logger NilContext = [(''goroutine'', ''main'')]"
| "logger (Context (Some ctxRequestID)) = [(''reqID'', ctxRequestID)]"
| "logger (Context None) = []"

definition LogDebug :: "log_context \<Rightarrow> string \<Rightarrow> (string \<times> string) list \<Rightarrow> log_entry" where
  "LogDebug ctx msg kvs = \<lparr> le_level = Some logLevelDebug, le_values = logger ctx, le_msg = msg, le_keysAndValues = kvs \<rparr>"

definition LogVerbose :: "log_context \<Rightarrow> string \<Rightarrow> (string \<times> string) list \<Rightarrow> log_entry" where
  "LogVerbose ctx msg kvs = \<lparr> le_level = Some logLevelVerbose, le_values = logger ctx, le_msg = msg, le_keysAndValues = kvs \<rparr>"

definition LogError :: "(goerr \<Rightarrow> string) \<Rightarrow> log_context \<Rightarrow> goerr \<Rightarrow> string \<Rightarrow> (string \<times> string) list \<Rightarrow> log_entry" where
  "LogError fmt_plus ctx err msg kvs =
     \<lparr> le_level = None, le_values = logger ctx @ [(''fullError'', fmt_plus err)], le_msg = msg, le_keysAndValues = kvs \<rparr>"

text \<open>\<open>LogFatal\<close> exits the process with this status.\<close>

definition LogFatal :: "(goerr \<Rightarrow> string) \<Rightarrow> log_context \<Rightarrow> goerr \<Rightarrow> string \<Rightarrow> (string \<times> string) list \<Rightarrow> log_entry \<times> nat" where
  "LogFatal fmt_plus ctx err msg kvs = (LogError fmt_plus ctx err (''Fatal: '' @ msg) kvs, 255)"

subsection \<open>The life cycle of the server\<close>

text \<open>What the methods of \<open>nonBlockingGRPCServer\<close> do to its wait group. \<open>serve\<close> runs in a goroutine of its own;
  that it returns changes nothing.\<close>

record nonBlockingGRPCServer =
  wg :: nat

datatype server_event = Start | Stop | ForceStop | ServeReturns

definition newNonBlockingGRPCServer :: nonBlockingGRPCServer where
  "newNonBlockingGRPCServer = \<lparr> wg = 0 \<rparr>"

fun server_method :: "server_event \<Rightarrow> nonBlockingGRPCServer \<Rightarrow> nonBlockingGRPCServer" where
  "server_method Start s = s\<lparr>wg := wg s + 1\<rparr>"
| "server_method Stop s = s"
| "server_method ForceStop s = s"
| "server_method ServeReturns s = s"

definition Wait_returns :: "nonBlockingGRPCServer \<Rightarrow> bool" where
  "Wait_returns s \<longleftrightarrow> wg s = 0"

lemma wg_grows: "wg s \<le> wg (fold server_method es s)"
proof (induction es arbitrary: s)
  case (Cons e es)
  have "wg s \<le> wg (server_method e s)" by (cases e) simp_all
  then show ?case using Cons [of "server_method e s"] by simp
qed simp

text \<open>Once started, the server is never done: \<open>Wait\<close> does not return, even after \<open>Stop\<close>.\<close>

lemma Wait_never_returns: "\<not> Wait_returns (fold server_method (Start # es) newNonBlockingGRPCServer)"
  using wg_grows [of "server_method Start newNonBlockingGRPCServer" es] by (simp add: Wait_returns_def)

subsection \<open>The process\<close>

text \<open>The flags, with the defaults of main.go, and what becomes of the process.\<close>

definition default_flags :: "string \<Rightarrow> driver_args" where
  "default_flags version =
     \<lparr> da_connAuthPath = '''', da_tlsCertsPath = '''', da_configPath = '''', da_csDataDir = ''/tmp/beegfs-csi-data-dir'',
       da_driverName = ''beegfs.csi.netapp.com'', da_endpoint = ''unix://tmp/csi.sock'', da_nodeID = '''',
       da_clientConfTemplatePath = '''', da_version = version, da_nodeUnstageTimeout = 0 \<rparr>"

datatype process_end =
    PrintsVersion string string
  | ExitsWith nat goerr string
  | Panics goerr
  | RunsForever

definition handle ::
  "'w os_env \<Rightarrow> yaml_lib \<Rightarrow> (string \<Rightarrow> string \<Rightarrow> ('w, goerr + unit) state) \<Rightarrow> (grpc_service list \<Rightarrow> ('w, goerr option) state)
    \<Rightarrow> (goerr \<Rightarrow> bool) \<Rightarrow> driver_args \<Rightarrow> ('w \<times> string, process_end) state"
where
  "handle env yaml net_Listen server_Serve isErrServerStopped args =
     State_Monad.bind (NewBeegfsDriver env yaml args) (\<lambda>r.
     case r of
       Inl err \<Rightarrow> ret (if is_panic err then Panics err else ExitsWith 255 err ''Failed to initialize driver'')
     | Inr driver \<Rightarrow>
         State_Monad.bind (lift_world (Run env net_Listen server_Serve isErrServerStopped driver)) (\<lambda>e.
         ret (case e of Exits err msg \<Rightarrow> ExitsWith 255 err msg | BlocksForever \<Rightarrow> RunsForever)))"

definition driver_main ::
  "'w os_env \<Rightarrow> yaml_lib \<Rightarrow> (string \<Rightarrow> string \<Rightarrow> ('w, goerr + unit) state) \<Rightarrow> (grpc_service list \<Rightarrow> ('w, goerr option) state)
    \<Rightarrow> (goerr \<Rightarrow> bool) \<Rightarrow> string \<Rightarrow> bool \<Rightarrow> driver_args \<Rightarrow> ('w \<times> string, process_end) state"
where
  "driver_main env yaml net_Listen server_Serve isErrServerStopped arg0 showVersion args =
     (if showVersion then ret (PrintsVersion (path_Base arg0) (da_version args))
      else handle env yaml net_Listen server_Serve isErrServerStopped args)"

text \<open>The status 0 at the end of \<open>main\<close> is never reached: a process that serves exits with 255 or runs until it is
  killed.\<close>

lemma process_never_succeeds:
  assumes "run_state (driver_main env yaml net_Listen server_Serve isErrServerStopped arg0 False args) s = (e, s')"
  shows "(\<exists>err msg. e = ExitsWith 255 err msg) \<or> (\<exists>err. e = Panics err) \<or> e = RunsForever"
  using assms by (auto simp: driver_main_def handle_def split: prod.splits sum.splits if_splits run_end.splits)

text \<open>Without a node ID, which has no default, the driver does not start.\<close>

lemma node_id_required:
  assumes "run_state (driver_main env yaml net_Listen server_Serve isErrServerStopped arg0 False (default_flags version)) s = (e, s')"
  shows "\<exists>err msg. e = ExitsWith 255 err msg \<or> e = Panics err"
proof -
  have "\<exists>err s1. run_state (NewBeegfsDriver env yaml (default_flags version)) s = (Inl err, s1)"
    by (auto simp: NewBeegfsDriver_def run_checked newBeegfsDriver_def default_flags_def split: prod.splits sum.splits)
  then show ?thesis using assms by (auto simp: driver_main_def handle_def)
qed

end
