(* ===== verification/Chwrap.thy ===== *)
theory Chwrap
  imports Go_Env
begin

text \<open>
  cmd/chwrap/main.go: the wrapper under whose name the container finds the tools of the host. It looks the tool up
  in the host's file system, changes its root there and becomes the tool. The system calls are parameters.
\<close>

subsection \<open>The program\<close>

record 'w chwrap_sys =
  unix_Lstat :: "string \<Rightarrow> ('w, goerr + 32 word) state"
  unix_Chroot :: "string \<Rightarrow> ('w, goerr + unit) state"
  unix_Chdir :: "string \<Rightarrow> ('w, goerr + unit) state"
  unix_Exec :: "string \<Rightarrow> string list \<Rightarrow> string list \<Rightarrow> ('w, goerr option) state"

unbundle bit_operations_syntax

definition S_IFMT :: "32 word" where "S_IFMT = 0xF000"
definition S_IFREG :: "32 word" where "S_IFREG = 0x8000"
definition S_IFLNK :: "32 word" where "S_IFLNK = 0xA000"
definition S_IRUSR :: "32 word" where "S_IRUSR = 0x100"
definition S_IXUSR :: "32 word" where "S_IXUSR = 0x40"

definition validBinary :: "'w chwrap_sys \<Rightarrow> string \<Rightarrow> ('w, bool) state" where
  "validBinary sys path =
     State_Monad.bind (unix_Lstat sys path) (\<lambda>r.
     case r of
       Inl err \<Rightarrow> ret False
     | Inr Mode \<Rightarrow>
         if (Mode AND S_IFMT) \<noteq> S_IFREG \<and> (Mode AND S_IFMT) \<noteq> S_IFLNK then ret False
         else if Mode AND S_IRUSR = 0 \<or> Mode AND S_IXUSR = 0 then ret False
         else ret True)"

definition searchDirs :: "string list" where
  "searchDirs =
     concat (map (\<lambda>part1. map (\<lambda>part2. ''/'' @ part1 @ part2 @ ''/'') [''sbin'', ''bin''])
       [''var/lib/kubelet/plugins/beegfs.csi.netapp.com/client/'', ''usr/local/'', ''usr/'', ''''])"

fun findIn :: "'w chwrap_sys \<Rightarrow> string \<Rightarrow> string list \<Rightarrow> ('w, string) state" where
  "findIn sys hostPrefix [] = ret ''''"
| "findIn sys hostPrefix (path # paths) =
     State_Monad.bind (validBinary sys (hostPrefix @ path)) (\<lambda>valid. if valid then ret path else findIn sys hostPrefix paths)"

definition findBinary :: "'w chwrap_sys \<Rightarrow> string \<Rightarrow> string \<Rightarrow> ('w, string) state" where
  "findBinary sys hostPrefix binary = findIn sys hostPrefix (map (\<lambda>dir. dir @ binary) searchDirs)"

definition newPATH :: string where
  "newPATH = ''PATH=/var/lib/kubelet/plugins/beegfs.csi.netapp.com/client/sbin:''
     @ ''/usr/local/sbin:/usr/local/bin:/usr/sbin:/usr/bin:/sbin:/bin''"

fun keepOthers :: "string list \<Rightarrow> string list \<Rightarrow> string list" where
  "keepOthers newEnv [] = newEnv"
| "keepOthers newEnv (e # oldEnv) = (if \<not> HasPrefix e ''PATH='' then keepOthers (newEnv @ [e]) oldEnv else keepOthers newEnv oldEnv)"

definition modifyEnv :: "string list \<Rightarrow> string list" where
  "modifyEnv oldEnv = keepOthers [] oldEnv @ [newPATH]"

text \<open>How the process ends: it becomes the tool, exits with 127, or panics.\<close>

datatype chwrap_end = Becomes string "string list" "string list" | CommandNotFound string | ChwrapPanic goerr

definition chwrap_main :: "'w chwrap_sys \<Rightarrow> string list \<Rightarrow> string list \<Rightarrow> ('w, chwrap_end) state" where
  "chwrap_main sys argv environ =
     (case argv of
        [] \<Rightarrow> ret (ChwrapPanic (Panic ''index out of range''))
      | arg0 # _ \<Rightarrow>
          let binary = (case cut_last arg0 (CHR ''/'') of Some (_, name) \<Rightarrow> name | None \<Rightarrow> arg0)
          in State_Monad.bind (findBinary sys ''/host'' binary) (\<lambda>argv0.
             if argv0 = '''' then ret (CommandNotFound binary)
             else State_Monad.bind (unix_Chroot sys ''/host'') (\<lambda>r.
               case r of
                 Inl err \<Rightarrow> ret (ChwrapPanic err)
               | Inr _ \<Rightarrow> State_Monad.bind (unix_Chdir sys ''/'') (\<lambda>r.
                   case r of
                     Inl err \<Rightarrow> ret (ChwrapPanic err)
                   | Inr _ \<Rightarrow> State_Monad.bind (unix_Exec sys argv0 argv (modifyEnv environ)) (\<lambda>err.
                       case err of
                         Some e \<Rightarrow> ret (ChwrapPanic e)
                       | None \<Rightarrow> ret (Becomes argv0 argv (modifyEnv environ)))))))"

subsection \<open>Its calls\<close>

datatype chwrap_call =
    C_Lstat string "goerr + 32 word"
  | C_Chroot string "goerr + unit"
  | C_Chdir string "goerr + unit"
  | C_Exec string "string list" "string list" "goerr option"

definition traced_sys :: "'w chwrap_sys \<Rightarrow> ('w \<times> chwrap_call list) chwrap_sys" where
  "traced_sys sys =
     \<lparr> unix_Lstat = (\<lambda>p. logged (unix_Lstat sys p) (C_Lstat p)),
       unix_Chroot = (\<lambda>p. logged (unix_Chroot sys p) (C_Chroot p)),
       unix_Chdir = (\<lambda>p. logged (unix_Chdir sys p) (C_Chdir p)),
       unix_Exec = (\<lambda>p as es. logged (unix_Exec sys p as es) (C_Exec p as es)) \<rparr>"

lemma traced_sys_ops [simp]:
  "unix_Lstat (traced_sys sys) p = logged (unix_Lstat sys p) (C_Lstat p)"
  "unix_Chroot (traced_sys sys) p = logged (unix_Chroot sys p) (C_Chroot p)"
  "unix_Chdir (traced_sys sys) p = logged (unix_Chdir sys p) (C_Chdir p)"
  "unix_Exec (traced_sys sys) p as es = logged (unix_Exec sys p as es) (C_Exec p as es)"
  by (simp_all add: traced_sys_def)

text \<open>A regular file or a symbolic link that its owner can read and execute.\<close>

definition runnable :: "goerr + 32 word \<Rightarrow> bool" where
  "runnable r = (case r of Inl _ \<Rightarrow> False
     | Inr m \<Rightarrow> (m AND 0xF000 = 0x8000 \<or> m AND 0xF000 = 0xA000) \<and> m AND 0x100 \<noteq> 0 \<and> m AND 0x40 \<noteq> 0)"

lemma validBinary_does:
  "does (validBinary (traced_sys sys) path) (\<lambda>b u. \<exists>x. u = [C_Lstat path x] \<and> b = runnable x)"
  unfolding validBinary_def traced_sys_ops
  by (intro does_bind_logged does_case_sum does_if does_ret)
    (auto simp: runnable_def S_IFMT_def S_IFREG_def S_IFLNK_def S_IRUSR_def S_IXUSR_def)

fun search_steps :: "string \<Rightarrow> string list \<Rightarrow> string \<Rightarrow> chwrap_call list \<Rightarrow> bool" where
  "search_steps pre [] p u = (p = '''' \<and> u = [])"
| "search_steps pre (q # qs) p u =
     ((\<exists>x. u = [C_Lstat (pre @ q) x] \<and> runnable x \<and> p = q)
      \<or> (\<exists>x v. u = C_Lstat (pre @ q) x # v \<and> \<not> runnable x \<and> search_steps pre qs p v))"

lemma findIn_does: "does (findIn (traced_sys sys) pre qs) (search_steps pre qs)"
proof (induction qs)
  case (Cons q qs)
  show ?case unfolding findIn.simps
    by (rule does_bind [OF validBinary_does]) (auto intro!: does_ret does_mono [OF Cons])
qed (auto intro: does_ret)

lemma keepOthers_eq: "keepOthers acc es = acc @ filter (\<lambda>e. \<not> HasPrefix e ''PATH='') es"
  by (induction es arbitrary: acc) auto

lemma modifyEnv_eq: "modifyEnv es = filter (\<lambda>e. \<not> HasPrefix e ''PATH='') es @ [newPATH]"
  by (simp add: modifyEnv_def keepOthers_eq)

text \<open>The name without its directory.\<close>

definition base_name :: "string \<Rightarrow> string" where
  "base_name s = rev (takeWhile (\<lambda>c. c \<noteq> CHR ''/'') (rev s))"

lemma cut_last_name: "(case cut_last s (CHR ''/'') of Some (_, name) \<Rightarrow> name | None \<Rightarrow> s) = base_name s"
proof (cases "CHR ''/'' \<in> set s")
  case False
  then have tw: "takeWhile (\<lambda>c. c \<noteq> CHR ''/'') (rev s) = rev s" by (auto simp: takeWhile_eq_all_conv)
  show ?thesis unfolding base_name_def tw using False by (simp add: cut_last_def)
qed (simp add: cut_last_def base_name_def)

inductive chwrap_trace :: "string list \<Rightarrow> string list \<Rightarrow> chwrap_end \<Rightarrow> chwrap_call list \<Rightarrow> bool"
  for argv :: "string list" and environ :: "string list"
where
  not_found: "search_steps ''/host'' (map (\<lambda>d. d @ base_name (hd argv)) searchDirs) '''' s \<Longrightarrow>
    chwrap_trace argv environ (CommandNotFound (base_name (hd argv))) s"
| no_root: "search_steps ''/host'' (map (\<lambda>d. d @ base_name (hd argv)) searchDirs) p s \<Longrightarrow> p \<noteq> '''' \<Longrightarrow>
    chwrap_trace argv environ (ChwrapPanic e) (s @ [C_Chroot ''/host'' (Inl e)])"
| no_dir: "search_steps ''/host'' (map (\<lambda>d. d @ base_name (hd argv)) searchDirs) p s \<Longrightarrow> p \<noteq> '''' \<Longrightarrow>
    chwrap_trace argv environ (ChwrapPanic e) (s @ [C_Chroot ''/host'' (Inr ()), C_Chdir ''/'' (Inl e)])"
| no_exec: "search_steps ''/host'' (map (\<lambda>d. d @ base_name (hd argv)) searchDirs) p s \<Longrightarrow> p \<noteq> '''' \<Longrightarrow>
    es = filter (\<lambda>e. \<not> HasPrefix e ''PATH='') environ @ [newPATH] \<Longrightarrow>
    chwrap_trace argv environ (ChwrapPanic e) (s @ [C_Chroot ''/host'' (Inr ()), C_Chdir ''/'' (Inr ()), C_Exec p argv es (Some e)])"
| becomes: "search_steps ''/host'' (map (\<lambda>d. d @ base_name (hd argv)) searchDirs) p s \<Longrightarrow> p \<noteq> '''' \<Longrightarrow>
    es = filter (\<lambda>e. \<not> HasPrefix e ''PATH='') environ @ [newPATH] \<Longrightarrow>
    chwrap_trace argv environ (Becomes p argv es) (s @ [C_Chroot ''/host'' (Inr ()), C_Chdir ''/'' (Inr ()), C_Exec p argv es None])"

lemma chwrap_main_does:
  assumes "argv \<noteq> []"
  shows "does (chwrap_main (traced_sys sys) argv environ) (chwrap_trace argv environ)"
proof -
  obtain arg0 args where argv: "argv = arg0 # args" using assms by (cases argv) auto
  show ?thesis
    unfolding chwrap_main_def argv list.case cut_last_name findBinary_def Let_def traced_sys_ops modifyEnv_eq
  proof (rule does_bind [OF findIn_does], goal_cases)
    case (1 p s)
    then have s: "search_steps ''/host'' (map (\<lambda>d. d @ base_name (hd (arg0 # args))) searchDirs) p s" by simp
    show ?case
      by (intro does_if does_ret does_bind_logged does_case_sum does_case_option)
        (use s chwrap_trace.intros(1) [of "arg0 # args" s] chwrap_trace.intros(2-5) [OF s] in auto)
  qed
qed

text \<open>C33. The wrapper. It looks for the tool of its own name, without the directory, in the directories of the host in
  their order and takes the first that is a runnable file there; it changes the root and the working directory to the
  host's before it becomes that tool, with its own arguments and an environment with exactly one \<open>PATH\<close>, the other
  variables kept in order. If there is no such tool it exits and calls nothing else.\<close>

theorem chwrap_steps:
  assumes "argv \<noteq> []" and "run_state (chwrap_main (traced_sys sys) argv environ) (w, []) = (r, w', t)"
  shows "chwrap_trace argv environ r t \<and> filter (\<lambda>e. HasPrefix e ''PATH='') (modifyEnv environ) = [newPATH]"
  using doesD [OF chwrap_main_does [OF assms(1)] assms(2)] by (simp add: modifyEnv_eq filter_empty_conv newPATH_def)

text \<open>A host with the tool in \<open>/usr/sbin\<close>.\<close>

definition sample_sys :: "unit chwrap_sys" where
  "sample_sys =
     \<lparr> unix_Lstat = (\<lambda>p. ret (if p = ''/host/usr/sbin/beegfs-ctl'' then Inr 0x81ED else Inl (OsError ENOENT ''''))),
       unix_Chroot = (\<lambda>_. ret (Inr ())), unix_Chdir = (\<lambda>_. ret (Inr ())), unix_Exec = (\<lambda>_ _ _. ret None) \<rparr>"

theorem chwrap_steps_witness:
  "\<exists>t. run_state (chwrap_main (traced_sys sample_sys) [''/netapp/beegfs-ctl'', ''--help''] [''PATH=/x'', ''HOME=/'']) ((), [])
      = (Becomes ''/usr/sbin/beegfs-ctl'' [''/netapp/beegfs-ctl'', ''--help''] [''HOME=/'', newPATH], (), t)
     \<and> chwrap_trace [''/netapp/beegfs-ctl'', ''--help''] [''PATH=/x'', ''HOME=/''] (Becomes ''/usr/sbin/beegfs-ctl'' [''/netapp/beegfs-ctl'', ''--help''] [''HOME=/'', newPATH]) t"
proof -
  obtain t where run: "run_state (chwrap_main (traced_sys sample_sys) [''/netapp/beegfs-ctl'', ''--help''] [''PATH=/x'', ''HOME=/'']) ((), [])
      = (Becomes ''/usr/sbin/beegfs-ctl'' [''/netapp/beegfs-ctl'', ''--help''] [''HOME=/'', newPATH], (), t)"
    by (simp add: chwrap_main_def Let_def cut_last_def findBinary_def searchDirs_def validBinary_def sample_sys_def go_run modifyEnv_eq
        S_IFMT_def S_IFREG_def S_IFLNK_def S_IRUSR_def S_IXUSR_def)
  from chwrap_steps [OF _ run] run show ?thesis by blast
qed

end
