(* ===== verification/Operator_Pods.thy ===== *)
theory Operator_Pods
  imports Config
begin

text \<open>
  The operator's part of deploy/k8s/deploy.go and operator/controllers/beegfsdriver_controller.go that
  builds the objects to deploy: the names in the manifests, the types of a \<open>BeegfsDriver\<close> resource that
  override parts of the manifests, and the functions that apply these overrides to a pod template
  (annotations, images, log level, node affinity, resources). Of the Kubernetes types only the fields that
  the operator reads or writes are kept; a resource quantity and a node affinity are only copied, and are
  strings here.
\<close>

subsection \<open>Names of the manifests\<close>

definition ContainerNameBeegfsCsiDriver :: string where
  "ContainerNameBeegfsCsiDriver = ''beegfs''"

definition ContainerNameCsiNodeDriverRegistrar :: string where
  "ContainerNameCsiNodeDriverRegistrar = ''node-driver-registrar''"

definition ContainerNameCsiProvisioner :: string where
  "ContainerNameCsiProvisioner = ''csi-provisioner''"

definition ContainerNameCsiResizer :: string where
  "ContainerNameCsiResizer = ''csi-resizer''"

definition ContainerNameLivenessProbe :: string where
  "ContainerNameLivenessProbe = ''liveness-probe''"

lemmas container_names =
  ContainerNameBeegfsCsiDriver_def ContainerNameCsiNodeDriverRegistrar_def ContainerNameCsiProvisioner_def
  ContainerNameCsiResizer_def ContainerNameLivenessProbe_def

subsection \<open>Types\<close>

record ContainerImageOverride =
  Image :: string
  Tag :: string

record ContainerImageOverrides =
  BeegfsCsiDriver :: ContainerImageOverride
  CsiNodeDriverRegistrar :: ContainerImageOverride
  CsiProvisioner :: ContainerImageOverride
  CsiResizer :: ContainerImageOverride
  LivenessProbe :: ContainerImageOverride

text \<open>The resources of a container (\<open>corev1.ResourceRequirements\<close>) are two maps from resource names to
  quantities, either of which may be nil.\<close>

record resource_requirements =
  Limits :: "gomap option"
  Requests :: "gomap option"

record ContainerResourceOverrides =
  ControllerBeegfsResources :: resource_requirements
  ControllerCsiProvisionerResources :: resource_requirements
  NodeBeegfsResources :: resource_requirements
  NodeDriverRegistrarResources :: resource_requirements
  NodeLivenessProbeResources :: resource_requirements

record env_var =
  ev_Name :: string
  ev_Value :: string

record container =
  c_Name :: string
  c_Image :: string
  c_Env :: "env_var list"
  c_Resources :: resource_requirements

record affinity =
  aff_NodeAffinity :: "string option"
  aff_PodAffinity :: "string option"
  aff_PodAntiAffinity :: "string option"

record pod_template =
  pt_Annotations :: "gomap option"
  pt_Containers :: "container list"
  pt_Affinity :: "affinity option"

text \<open>The metadata that the operator reads or writes of an object.\<close>

record object_meta =
  m_Name :: string
  m_Namespace :: string
  m_ResourceVersion :: string
  m_Controller :: "string option"
  m_Finalizers :: "string list"
  m_Deleting :: bool

subsection \<open>Annotations\<close>

definition annotationConfigMapVersion :: string where
  "annotationConfigMapVersion = ''beegfs.csi.netapp.com/configMapVersion''"

definition annotationConnauthSecretVersion :: string where
  "annotationConnauthSecretVersion = ''beegfs.csi.netapp.com/connauthSecretVersion''"

definition annotationTLSCertsSecretVersion :: string where
  "annotationTLSCertsSecretVersion = ''beegfs.csi.netapp.com/tlscertsSecretVersion''"

lemma annotations_distinct [simp]:
  "annotationConfigMapVersion \<noteq> annotationConnauthSecretVersion"
  "annotationConfigMapVersion \<noteq> annotationTLSCertsSecretVersion"
  "annotationConnauthSecretVersion \<noteq> annotationTLSCertsSecretVersion"
  by (simp_all add: annotationConfigMapVersion_def annotationConnauthSecretVersion_def annotationTLSCertsSecretVersion_def)

definition name_and_version :: "object_meta \<Rightarrow> string" where
  "name_and_version m = m_Name m @ ''/'' @ m_ResourceVersion m"

text \<open>\<open>setResourceVersionAnnotations\<close>; of the config map and the secrets it reads the metadata, and a secret
  may be nil.\<close>

definition setResourceVersionAnnotations ::
  "object_meta \<Rightarrow> object_meta option \<Rightarrow> object_meta option \<Rightarrow> pod_template \<Rightarrow> pod_template"
where
  "setResourceVersionAnnotations cm s t podTemplate =
     (let annotations = (case pt_Annotations podTemplate of None \<Rightarrow> [] | Some m \<Rightarrow> m);
          annotations = AList.update annotationConfigMapVersion (name_and_version cm) annotations;
          annotations = (case s of None \<Rightarrow> annotations
                         | Some s \<Rightarrow> AList.update annotationConnauthSecretVersion (name_and_version s) annotations);
          annotations = (case t of None \<Rightarrow> annotations
                         | Some t \<Rightarrow> AList.update annotationTLSCertsSecretVersion (name_and_version t) annotations)
      in podTemplate\<lparr>pt_Annotations := Some annotations\<rparr>)"

subsection \<open>Images\<close>

definition getImageStringWithOverride :: "string \<Rightarrow> ContainerImageOverride \<Rightarrow> string" where
  "getImageStringWithOverride imageWithTag override =
     (let imageSlice = SplitN2 imageWithTag '':'';
          image = imageSlice ! 0;
          tag = (if length imageSlice > 1 then imageSlice ! 1 else []);
          image = (if length (Image override) > 0 then Image override else image);
          tag = (if length (Tag override) > 0 then Tag override else tag)
      in image @ '':'' @ tag)"

definition containerNameToImageOverrideMap :: "ContainerImageOverrides \<Rightarrow> (string \<times> ContainerImageOverride) list" where
  "containerNameToImageOverrideMap overrides =
     [(ContainerNameBeegfsCsiDriver, BeegfsCsiDriver overrides),
      (ContainerNameCsiNodeDriverRegistrar, CsiNodeDriverRegistrar overrides),
      (ContainerNameCsiProvisioner, CsiProvisioner overrides),
      (ContainerNameCsiResizer, CsiResizer overrides),
      (ContainerNameLivenessProbe, LivenessProbe overrides)]"

definition setImage :: "ContainerImageOverrides \<Rightarrow> container \<Rightarrow> container" where
  "setImage overrides container =
     (case map_of (containerNameToImageOverrideMap overrides) (c_Name container) of
        Some v \<Rightarrow>
          if length (Image v) > 0 \<or> length (Tag v) > 0
          then container\<lparr>c_Image := getImageStringWithOverride (c_Image container) v\<rparr>
          else container
      | None \<Rightarrow> container)"

definition setImages :: "container list \<Rightarrow> ContainerImageOverrides \<Rightarrow> container list" where
  "setImages containers overrides = map (setImage overrides) containers"

subsection \<open>Log level and node affinity\<close>

definition setLogLevel :: "int option \<Rightarrow> container list \<Rightarrow> container list" where
  "setLogLevel level containers =
     (case level of
        None \<Rightarrow> containers
      | Some level \<Rightarrow>
          map (\<lambda>container. container\<lparr>c_Env :=
                 map (\<lambda>envVar. if ev_Name envVar = ''LOG_LEVEL'' then envVar\<lparr>ev_Value := Itoa level\<rparr> else envVar)
                   (c_Env container)\<rparr>)
            containers)"

definition newAffinity :: affinity where
  "newAffinity = \<lparr> aff_NodeAffinity = None, aff_PodAffinity = None, aff_PodAntiAffinity = None \<rparr>"

definition setNodeAffinity :: "string option \<Rightarrow> pod_template \<Rightarrow> pod_template" where
  "setNodeAffinity affinity spec =
     (case affinity of
        None \<Rightarrow> spec
      | Some a \<Rightarrow>
          spec\<lparr>pt_Affinity := Some ((case pt_Affinity spec of None \<Rightarrow> newAffinity | Some x \<Rightarrow> x)\<lparr>aff_NodeAffinity := Some a\<rparr>)\<rparr>)"

subsection \<open>Resources\<close>

text \<open>One of the assignments \<open>if v, ok := overrides[k]; ok { current[k] = v }\<close>, the block on one of the two
  maps, and the block on both. An assignment into a nil map panics.\<close>

definition overrideEntry :: "string \<Rightarrow> gomap option \<Rightarrow> gomap option \<Rightarrow> goerr + gomap option" where
  "overrideEntry k overrides current =
     (case map_of (case overrides of None \<Rightarrow> [] | Some m \<Rightarrow> m) k of
        None \<Rightarrow> Inr current
      | Some v \<Rightarrow> set_entries current [(k, v)])"

definition overrideList :: "gomap option \<Rightarrow> gomap option \<Rightarrow> goerr + gomap option" where
  "overrideList overrides current =
     (if length (case overrides of None \<Rightarrow> [] | Some m \<Rightarrow> m) > 0
      then bindE (overrideEntry ''cpu'' overrides current) (overrideEntry ''memory'' overrides)
      else Inr current)"

definition overrideResources :: "resource_requirements \<Rightarrow> resource_requirements \<Rightarrow> goerr + resource_requirements" where
  "overrideResources overrides current =
     bindE (overrideList (Limits overrides) (Limits current)) (\<lambda>limits.
     bindE (overrideList (Requests overrides) (Requests current)) (\<lambda>requests.
       Inr (current\<lparr>Limits := limits, Requests := requests\<rparr>)))"

text \<open>The \<open>switch\<close> of each function on the name of a container, and its loop.\<close>

definition nodeResourceOverride :: "ContainerResourceOverrides \<Rightarrow> string \<Rightarrow> resource_requirements option" where
  "nodeResourceOverride overrides name =
     (if name = ''beegfs'' then Some (NodeBeegfsResources overrides)
      else if name = ''node-driver-registrar'' then Some (NodeDriverRegistrarResources overrides)
      else if name = ''liveness-probe'' then Some (NodeLivenessProbeResources overrides)
      else None)"

definition controllerResourceOverride :: "ContainerResourceOverrides \<Rightarrow> string \<Rightarrow> resource_requirements option" where
  "controllerResourceOverride overrides name =
     (if name = ''beegfs'' then Some (ControllerBeegfsResources overrides)
      else if name = ''csi-provisioner'' then Some (ControllerCsiProvisionerResources overrides)
      else None)"

fun setResources :: "(string \<Rightarrow> resource_requirements option) \<Rightarrow> container list \<Rightarrow> goerr + container list" where
  "setResources override [] = Inr []"
| "setResources override (container # containers) =
     bindE (case override (c_Name container) of
              None \<Rightarrow> Inr container
            | Some r \<Rightarrow> bindE (overrideResources r (c_Resources container)) (\<lambda>r'. Inr (container\<lparr>c_Resources := r'\<rparr>)))
       (\<lambda>container'. bindE (setResources override containers) (\<lambda>containers'. Inr (container' # containers')))"

definition setNodeResources :: "ContainerResourceOverrides \<Rightarrow> container list \<Rightarrow> goerr + container list" where
  "setNodeResources overrides containers = setResources (nodeResourceOverride overrides) containers"

definition setControllerResources :: "ContainerResourceOverrides \<Rightarrow> container list \<Rightarrow> goerr + container list" where
  "setControllerResources overrides containers = setResources (controllerResourceOverride overrides) containers"

subsection \<open>What the overrides change\<close>

text \<open>A reference reading of an image override: a part of the override that is present replaces the same part of
  the image.\<close>

lemma getImageStringWithOverride_parts:
  assumes "CHR '':'' \<notin> set name"
  shows "getImageStringWithOverride (name @ '':'' @ tag) v =
    (if Image v = [] then name else Image v) @ '':'' @ (if Tag v = [] then tag else Tag v)"
proof -
  have "Cut (name @ '':'' @ tag) '':'' = Some (name, tag)"
    using assms by (induction name) (auto simp: HasPrefix_def)
  then show ?thesis by (simp add: getImageStringWithOverride_def SplitN2_def)
qed

text \<open>A registry with a port has a colon of its own, and a tag override then cuts the image at the port.\<close>

lemma image_override_loses_port:
  "getImageStringWithOverride ''host:5000/csi:v1'' \<lparr> Image = [], Tag = ''v2'' \<rparr> = ''host:v2''"
  by (simp add: getImageStringWithOverride_def SplitN2_def HasPrefix_def)

abbreviation entry :: "gomap option \<Rightarrow> string \<Rightarrow> string option" where
  "entry m k \<equiv> map_of (case m of None \<Rightarrow> [] | Some e \<Rightarrow> e) k"

text \<open>The specification of an override of one of the two maps.\<close>

definition override_spec :: "gomap option \<Rightarrow> gomap option \<Rightarrow> string \<Rightarrow> string option" where
  "override_spec overrides current k =
     (if k \<in> {''cpu'', ''memory''} \<and> entry overrides k \<noteq> None then entry overrides k else entry current k)"

lemma overrideEntry_spec:
  "overrideEntry k overrides (Some m) = Inr (Some m') \<Longrightarrow>
   map_of m' = (case entry overrides k of None \<Rightarrow> map_of m | Some v \<Rightarrow> (map_of m)(k \<mapsto> v))"
  by (auto simp: overrideEntry_def update_conv' split: option.splits)

lemma overrideEntry_some: "\<exists>m'. overrideEntry k overrides (Some m) = Inr (Some m')"
  by (auto simp: overrideEntry_def split: option.splits)

lemma overrideList_spec:
  "\<exists>m'. overrideList overrides (Some m) = Inr (Some m') \<and> (\<forall>k. map_of m' k = override_spec overrides (Some m) k)"
proof (cases "overrides = None \<or> overrides = Some []")
  case True
  then show ?thesis by (auto simp: overrideList_def override_spec_def)
next
  case False
  obtain m1 where m1: "overrideEntry ''cpu'' overrides (Some m) = Inr (Some m1)"
    using overrideEntry_some by blast
  obtain m2 where m2: "overrideEntry ''memory'' overrides (Some m1) = Inr (Some m2)"
    using overrideEntry_some by blast
  have "overrideList overrides (Some m) = Inr (Some m2)"
    using False m1 m2 by (auto simp: overrideList_def split: option.splits)
  moreover have "map_of m2 k = override_spec overrides (Some m) k" for k
    using overrideEntry_spec [OF m1] overrideEntry_spec [OF m2]
    by (auto simp: override_spec_def split: option.splits)
  ultimately show ?thesis by blast
qed

text \<open>What an override of the resources of one container comes to.\<close>

definition overridden :: "(string \<Rightarrow> resource_requirements option) \<Rightarrow> container \<Rightarrow> container \<Rightarrow> bool" where
  "overridden override c c' \<longleftrightarrow>
     c' = c\<lparr>c_Resources := c_Resources c'\<rparr> \<and>
     (case override (c_Name c) of
        None \<Rightarrow> c_Resources c' = c_Resources c
      | Some r \<Rightarrow>
          (\<forall>k. entry (Limits (c_Resources c')) k = override_spec (Limits r) (Limits (c_Resources c)) k) \<and>
          (\<forall>k. entry (Requests (c_Resources c')) k = override_spec (Requests r) (Requests (c_Resources c)) k))"

definition has_resources :: "container \<Rightarrow> bool" where
  "has_resources c \<longleftrightarrow> Limits (c_Resources c) \<noteq> None \<and> Requests (c_Resources c) \<noteq> None"

lemma overrideResources_spec:
  assumes "Limits r \<noteq> None" "Requests r \<noteq> None"
  shows "\<exists>r'. overrideResources v r = Inr r' \<and>
    (\<forall>k. entry (Limits r') k = override_spec (Limits v) (Limits r) k) \<and>
    (\<forall>k. entry (Requests r') k = override_spec (Requests v) (Requests r) k)"
proof -
  obtain l q where lq: "Limits r = Some l" "Requests r = Some q" using assms by blast
  obtain l' q' where "overrideList (Limits v) (Some l) = Inr (Some l')" "\<forall>k. map_of l' k = override_spec (Limits v) (Some l) k"
    "overrideList (Requests v) (Some q) = Inr (Some q')" "\<forall>k. map_of q' k = override_spec (Requests v) (Some q) k"
    using overrideList_spec [of "Limits v" l] overrideList_spec [of "Requests v" q] by blast
  then show ?thesis by (simp add: overrideResources_def lq)
qed

lemma setResources_spec:
  "list_all has_resources cs \<Longrightarrow> \<exists>cs'. setResources override cs = Inr cs' \<and> list_all2 (overridden override) cs cs'"
proof (induction cs)
  case Nil
  then show ?case by simp
next
  case (Cons c cs)
  then obtain cs' where cs': "setResources override cs = Inr cs'" "list_all2 (overridden override) cs cs'" by auto
  show ?case
  proof (cases "override (c_Name c)")
    case None
    then have "overridden override c c" by (simp add: overridden_def)
    then show ?thesis using None cs' by auto
  next
    case (Some v)
    obtain r' where "overrideResources v (c_Resources c) = Inr r'"
      "\<forall>k. entry (Limits r') k = override_spec (Limits v) (Limits (c_Resources c)) k"
      "\<forall>k. entry (Requests r') k = override_spec (Requests v) (Requests (c_Resources c)) k"
      using overrideResources_spec [of "c_Resources c" v] Cons.prems by (auto simp: has_resources_def)
    moreover from this Some have "overridden override c (c\<lparr>c_Resources := r'\<rparr>)" by (simp add: overridden_def)
    ultimately show ?thesis using Some cs' by auto
  qed
qed

end
