(* ===== verification/Operator_Cluster.thy ===== *)
theory Operator_Cluster
  imports Operator_Pods Go_Env
begin

text \<open>
  The objects that the operator deploys, deploy/k8s/deploy.go, which reads them from the manifests, and what the
  operator uses of the Kubernetes libraries. The API server is a parameter (\<open>kube\<close>): for each kind of object
  the operations of controller-runtime's client, which answer from and change a world of any type. A successful
  create or update returns the object as the server stored it, which is what the client writes back into the
  caller's struct. The pure library functions are a parameter of their own (\<open>k8s_lib\<close>). \<open>traced_kube\<close> records
  every call with its answer.
\<close>

subsection \<open>Objects\<close>

definition ResourceNameConfigMap :: string where
  "ResourceNameConfigMap = ''csi-beegfs-config''"

definition ResourceNameSecret :: string where
  "ResourceNameSecret = ''csi-beegfs-connauth''"

definition ResourceNameTLS :: string where
  "ResourceNameTLS = ''csi-beegfs-tlscerts''"

definition KeyNameConfigMap :: string where
  "KeyNameConfigMap = ''csi-beegfs-config.yaml''"

definition KeyNameSecret :: string where
  "KeyNameSecret = ''csi-beegfs-connauth.yaml''"

definition KeyNameTLS :: string where
  "KeyNameTLS = ''csi-beegfs-tlscerts.yaml''"

record BeegfsDriverSpec =
  spec_ContainerImageOverrides :: ContainerImageOverrides
  spec_ContainerResourceOverrides :: ContainerResourceOverrides
  spec_LogLevel :: "int option"
  spec_NodeAffinityControllerService :: string
  spec_NodeAffinityNodeService :: string
  spec_PluginConfigFromFile :: PluginConfigFromFile

text \<open>A condition without its transition time: the library moves the time exactly when the status changes, so
  that two lists of conditions differ in their times only if they differ in a status.\<close>

record condition =
  cond_Type :: string
  cond_Status :: string
  cond_Reason :: string
  cond_Message :: string

record BeegfsDriver =
  drv_Meta :: object_meta
  drv_Spec :: BeegfsDriverSpec
  drv_Conditions :: "condition list"

record config_map =
  cm_Meta :: object_meta
  cm_Data :: gomap

record secret =
  sec_Meta :: object_meta
  sec_Data :: "(string \<times> string option) list"

text \<open>A policy rule and a role reference are only copied and compared.\<close>

record role =
  role_Meta :: object_meta
  role_Rules :: "string list"

record subject =
  sub_Kind :: string
  sub_Name :: string
  sub_Namespace :: string

record binding =
  bind_Meta :: object_meta
  bind_Subjects :: "subject list"
  bind_RoleRef :: string

record workload_spec =
  ws_Template :: pod_template
  ws_Rest :: string

record stateful_set =
  sts_Meta :: object_meta
  sts_Spec :: workload_spec
  sts_Replicas :: int
  sts_ReadyReplicas :: int

record daemon_set =
  ds_Meta :: object_meta
  ds_Spec :: workload_spec
  ds_DesiredNumberScheduled :: int
  ds_NumberReady :: int

text \<open>The values that \<open>GetRBAC\<close> returns as interfaces.\<close>

datatype rbac_object =
    ServiceAccount object_meta
  | ClusterRole role
  | ClusterRoleBinding binding
  | Role role
  | RoleBinding binding

definition new_meta :: "string \<Rightarrow> object_meta" where
  "new_meta name = \<lparr> m_Name = name, m_Namespace = [], m_ResourceVersion = [], m_Controller = None,
     m_Finalizers = [], m_Deleting = False \<rparr>"

subsection \<open>The libraries\<close>

text \<open>
  The comparisons are \<open>equality.Semantic.DeepEqual\<close> at the types at which the operator calls it. The unmarshal
  functions are \<open>yaml.UnmarshalStrict\<close> into a new object: the object is returned with the error.
\<close>

record k8s_lib =
  IsNotFound :: "goerr \<Rightarrow> bool"
  SetStatusCondition :: "condition list \<Rightarrow> condition \<Rightarrow> condition list"
  FindStatusCondition :: "condition list \<Rightarrow> string \<Rightarrow> condition option"
  conditionsEqual :: "condition list \<Rightarrow> condition list \<Rightarrow> bool"
  dataEqual :: "gomap \<Rightarrow> gomap \<Rightarrow> bool"
  rulesEqual :: "string list \<Rightarrow> string list \<Rightarrow> bool"
  subjectsEqual :: "subject list \<Rightarrow> subject list \<Rightarrow> bool"
  roleRefEqual :: "string \<Rightarrow> string \<Rightarrow> bool"
  DeepDerivative :: "workload_spec \<Rightarrow> workload_spec \<Rightarrow> bool"
  AddFinalizer :: "object_meta \<Rightarrow> string \<Rightarrow> object_meta"
  RemoveFinalizer :: "object_meta \<Rightarrow> string \<Rightarrow> object_meta"
  SetControllerReference :: "BeegfsDriver \<Rightarrow> object_meta \<Rightarrow> goerr + object_meta"
  yaml_Marshal :: "PluginConfigFromFile \<Rightarrow> goerr + string"
  unmarshalServiceAccount :: "string \<Rightarrow> object_meta \<times> goerr option"
  unmarshalRole :: "string \<Rightarrow> role \<times> goerr option"
  unmarshalBinding :: "string \<Rightarrow> binding \<times> goerr option"
  unmarshalStatefulSet :: "string \<Rightarrow> stateful_set \<times> goerr option"
  unmarshalDaemonSet :: "string \<Rightarrow> daemon_set \<times> goerr option"
  unmarshalCSIDriver :: "string \<Rightarrow> object_meta \<times> goerr option"

subsection \<open>Manifests\<close>

text \<open>The texts that deploy.go embeds.\<close>

record manifests =
  csBytes :: string
  driverBytes :: string
  dsBytes :: string
  rbacBytes :: string

text \<open>\<open>bytes.Split\<close> for a separator that is not empty\<close>

function Split :: "string \<Rightarrow> string \<Rightarrow> string list" where
  "Split s sep =
     (if sep = [] then [s]
      else case Cut s sep of None \<Rightarrow> [s] | Some (before, rest) \<Rightarrow> before # Split rest sep)"
  by pat_completeness auto
termination
  by (relation "measure (\<lambda>(s, _). length s)") (auto dest!: Cut_Some)

declare Split.simps [simp del]

text \<open>The document of one object, and the loop; an error ends the loop and is returned with the objects so far.\<close>

definition decoded :: "'a \<times> goerr option \<Rightarrow> ('a \<Rightarrow> 'b) \<Rightarrow> goerr + 'b" where
  "decoded r f = (case snd r of None \<Rightarrow> Inr (f (fst r)) | Some err \<Rightarrow> Inl err)"

definition readRBAC :: "k8s_lib \<Rightarrow> string \<Rightarrow> goerr + rbac_object" where
  "readRBAC lib doc =
     (if Contains doc ''kind: ClusterRoleBinding'' then decoded (unmarshalBinding lib doc) ClusterRoleBinding
      else if Contains doc ''kind: ClusterRole'' then decoded (unmarshalRole lib doc) ClusterRole
      else if Contains doc ''kind: RoleBinding'' then decoded (unmarshalBinding lib doc) RoleBinding
      else if Contains doc ''kind: Role'' then decoded (unmarshalRole lib doc) Role
      else if Contains doc ''kind: ServiceAccount'' then decoded (unmarshalServiceAccount lib doc) ServiceAccount
      else Inl (ErrorsNew ''unexpected document found in RBAC manifest''))"

fun readRBACs :: "k8s_lib \<Rightarrow> string list \<Rightarrow> rbac_object list \<times> goerr option" where
  "readRBACs lib [] = ([], None)"
| "readRBACs lib (doc # docs) =
     (case readRBAC lib doc of
        Inl err \<Rightarrow> ([], Some err)
      | Inr object \<Rightarrow> (case readRBACs lib docs of (objects, err) \<Rightarrow> (object # objects, err)))"

definition GetRBAC :: "k8s_lib \<Rightarrow> manifests \<Rightarrow> rbac_object list \<times> goerr option" where
  "GetRBAC lib mf = readRBACs lib (Split (rbacBytes mf) ''---'')"

definition GetControllerServiceStatefulSet :: "k8s_lib \<Rightarrow> manifests \<Rightarrow> stateful_set \<times> goerr option" where
  "GetControllerServiceStatefulSet lib mf = unmarshalStatefulSet lib (csBytes mf)"

definition GetCSIDriver :: "k8s_lib \<Rightarrow> manifests \<Rightarrow> object_meta \<times> goerr option" where
  "GetCSIDriver lib mf = unmarshalCSIDriver lib (driverBytes mf)"

definition GetNodeServiceDaemonSet :: "k8s_lib \<Rightarrow> manifests \<Rightarrow> daemon_set \<times> goerr option" where
  "GetNodeServiceDaemonSet lib mf = unmarshalDaemonSet lib (dsBytes mf)"

subsection \<open>The API server\<close>

text \<open>\<open>kGet\<close> takes a namespace, empty for a cluster-scoped kind, and a name.\<close>

record ('w, 'o) kind_api =
  kGet :: "string \<Rightarrow> string \<Rightarrow> ('w, goerr + 'o) state"
  kCreate :: "'o \<Rightarrow> ('w, goerr + 'o) state"
  kUpdate :: "'o \<Rightarrow> ('w, goerr + 'o) state"
  kDelete :: "'o \<Rightarrow> ('w, goerr + unit) state"

record 'w kube =
  drivers :: "('w, BeegfsDriver) kind_api"
  driver_status :: "BeegfsDriver \<Rightarrow> ('w, goerr + BeegfsDriver) state"
  configMaps :: "('w, config_map) kind_api"
  secrets :: "('w, secret) kind_api"
  serviceAccounts :: "('w, object_meta) kind_api"
  clusterRoles :: "('w, role) kind_api"
  clusterRoleBindings :: "('w, binding) kind_api"
  roles :: "('w, role) kind_api"
  roleBindings :: "('w, binding) kind_api"
  csiDrivers :: "('w, object_meta) kind_api"
  statefulSets :: "('w, stateful_set) kind_api"
  daemonSets :: "('w, daemon_set) kind_api"

datatype kobj =
    O_BeegfsDriver BeegfsDriver
  | O_ConfigMap config_map
  | O_Secret secret
  | O_Rbac rbac_object
  | O_CSIDriver object_meta
  | O_StatefulSet stateful_set
  | O_DaemonSet daemon_set

datatype kind =
    K_BeegfsDriver | K_ConfigMap | K_Secret | K_ServiceAccount | K_ClusterRole | K_ClusterRoleBinding | K_Role
  | K_RoleBinding | K_CSIDriver | K_StatefulSet | K_DaemonSet

datatype call =
    C_Get kind string string "goerr + kobj"
  | C_Create kobj "goerr + kobj"
  | C_Update kobj "goerr + kobj"
  | C_UpdateStatus kobj "goerr + kobj"
  | C_Delete kobj "goerr + unit"

definition traced_api :: "kind \<Rightarrow> ('o \<Rightarrow> kobj) \<Rightarrow> ('w, 'o) kind_api \<Rightarrow> ('w \<times> call list, 'o) kind_api" where
  "traced_api kind obj api =
     \<lparr> kGet = (\<lambda>ns name. logged (kGet api ns name) (\<lambda>r. C_Get kind ns name (map_sum id obj r))),
       kCreate = (\<lambda>x. logged (kCreate api x) (\<lambda>r. C_Create (obj x) (map_sum id obj r))),
       kUpdate = (\<lambda>x. logged (kUpdate api x) (\<lambda>r. C_Update (obj x) (map_sum id obj r))),
       kDelete = (\<lambda>x. logged (kDelete api x) (C_Delete (obj x))) \<rparr>"

definition traced_kube :: "'w kube \<Rightarrow> ('w \<times> call list) kube" where
  "traced_kube k =
     \<lparr> drivers = traced_api K_BeegfsDriver O_BeegfsDriver (drivers k),
       driver_status = (\<lambda>x. logged (driver_status k x) (\<lambda>r. C_UpdateStatus (O_BeegfsDriver x) (map_sum id O_BeegfsDriver r))),
       configMaps = traced_api K_ConfigMap O_ConfigMap (configMaps k),
       secrets = traced_api K_Secret O_Secret (secrets k),
       serviceAccounts = traced_api K_ServiceAccount (O_Rbac \<circ> ServiceAccount) (serviceAccounts k),
       clusterRoles = traced_api K_ClusterRole (O_Rbac \<circ> ClusterRole) (clusterRoles k),
       clusterRoleBindings = traced_api K_ClusterRoleBinding (O_Rbac \<circ> ClusterRoleBinding) (clusterRoleBindings k),
       roles = traced_api K_Role (O_Rbac \<circ> Role) (roles k),
       roleBindings = traced_api K_RoleBinding (O_Rbac \<circ> RoleBinding) (roleBindings k),
       csiDrivers = traced_api K_CSIDriver O_CSIDriver (csiDrivers k),
       statefulSets = traced_api K_StatefulSet O_StatefulSet (statefulSets k),
       daemonSets = traced_api K_DaemonSet O_DaemonSet (daemonSets k) \<rparr>"

lemma traced_api_ops [simp]:
  "kGet (traced_api kind obj api) ns name = logged (kGet api ns name) (\<lambda>r. C_Get kind ns name (map_sum id obj r))"
  "kCreate (traced_api kind obj api) x = logged (kCreate api x) (\<lambda>r. C_Create (obj x) (map_sum id obj r))"
  "kUpdate (traced_api kind obj api) x = logged (kUpdate api x) (\<lambda>r. C_Update (obj x) (map_sum id obj r))"
  "kDelete (traced_api kind obj api) x = logged (kDelete api x) (C_Delete (obj x))"
  by (simp_all add: traced_api_def)

lemma traced_kube_ops [simp]:
  "drivers (traced_kube k) = traced_api K_BeegfsDriver O_BeegfsDriver (drivers k)"
  "driver_status (traced_kube k) x = logged (driver_status k x) (\<lambda>r. C_UpdateStatus (O_BeegfsDriver x) (map_sum id O_BeegfsDriver r))"
  "configMaps (traced_kube k) = traced_api K_ConfigMap O_ConfigMap (configMaps k)"
  "secrets (traced_kube k) = traced_api K_Secret O_Secret (secrets k)"
  "serviceAccounts (traced_kube k) = traced_api K_ServiceAccount (O_Rbac \<circ> ServiceAccount) (serviceAccounts k)"
  "clusterRoles (traced_kube k) = traced_api K_ClusterRole (O_Rbac \<circ> ClusterRole) (clusterRoles k)"
  "clusterRoleBindings (traced_kube k) = traced_api K_ClusterRoleBinding (O_Rbac \<circ> ClusterRoleBinding) (clusterRoleBindings k)"
  "roles (traced_kube k) = traced_api K_Role (O_Rbac \<circ> Role) (roles k)"
  "roleBindings (traced_kube k) = traced_api K_RoleBinding (O_Rbac \<circ> RoleBinding) (roleBindings k)"
  "csiDrivers (traced_kube k) = traced_api K_CSIDriver O_CSIDriver (csiDrivers k)"
  "statefulSets (traced_kube k) = traced_api K_StatefulSet O_StatefulSet (statefulSets k)"
  "daemonSets (traced_kube k) = traced_api K_DaemonSet O_DaemonSet (daemonSets k)"
  by (simp_all add: traced_kube_def)

end
