(* ===== verification/Operator_Reconcile.thy ===== *)
theory Operator_Reconcile
  imports Operator_Cluster
begin

text \<open>
  \<open>Reconcile\<close> of operator/controllers/beegfsdriver_controller.go, in the order of its text: the status of the
  two services, the finalizer, and then the config map, the secrets, the RBAC objects, the CSI driver object, the
  stateful set and the daemon set. The \<open>ctrl.Result\<close> is empty on every path and is left out; so is logging. The
  lemmas follow every call to the API server.
\<close>

subsection \<open>Conditions\<close>

definition ConditionControllerServiceReady :: string where
  "ConditionControllerServiceReady = ''ControllerServiceReady''"

definition ConditionNodeServiceReady :: string where
  "ConditionNodeServiceReady = ''NodeServiceReady''"

definition ReasonServiceNotCreated :: string where
  "ReasonServiceNotCreated = ''ServiceNotCreated''"

definition ReasonPodsNotScheduled :: string where
  "ReasonPodsNotScheduled = ''PodsNotScheduled''"

definition ReasonPodsNotReady :: string where
  "ReasonPodsNotReady = ''PodsNotReady''"

definition ReasonPodsReady :: string where
  "ReasonPodsReady = ''PodsReady''"

text \<open>The condition for a service; \<^const>\<open>None\<close> is a set that the API server does not have.\<close>

definition controllerCondition :: "stateful_set option \<Rightarrow> condition" where
  "controllerCondition stsFromCluster =
     (case stsFromCluster of
        None \<Rightarrow>
          \<lparr> cond_Type = ConditionControllerServiceReady, cond_Status = ''False'', cond_Reason = ReasonServiceNotCreated,
            cond_Message = ''controller service stateful set has not been created'' \<rparr>
      | Some sts \<Rightarrow>
          if sts_Replicas sts < 1 then
            \<lparr> cond_Type = ConditionControllerServiceReady, cond_Status = ''False'', cond_Reason = ReasonPodsNotScheduled,
              cond_Message = ''0/1 controller service pods have been scheduled'' \<rparr>
          else if sts_ReadyReplicas sts < 1 then
            \<lparr> cond_Type = ConditionControllerServiceReady, cond_Status = ''False'', cond_Reason = ReasonPodsNotReady,
              cond_Message = ''0/1 controller service pods are ready'' \<rparr>
          else
            \<lparr> cond_Type = ConditionControllerServiceReady, cond_Status = ''True'', cond_Reason = ReasonPodsReady,
              cond_Message = ''1/1 controller service pods are ready'' \<rparr>)"

definition pods_ready_message :: "daemon_set \<Rightarrow> string" where
  "pods_ready_message ds = Itoa (ds_NumberReady ds) @ ''/'' @ Itoa (ds_DesiredNumberScheduled ds) @ '' node service pods are ready''"

definition nodeCondition :: "daemon_set option \<Rightarrow> condition" where
  "nodeCondition dsFromCluster =
     (case dsFromCluster of
        None \<Rightarrow>
          \<lparr> cond_Type = ConditionNodeServiceReady, cond_Status = ''False'', cond_Reason = ReasonServiceNotCreated,
            cond_Message = ''node service daemon set has not been created'' \<rparr>
      | Some ds \<Rightarrow>
          if ds_DesiredNumberScheduled ds < 1 then
            \<lparr> cond_Type = ConditionNodeServiceReady, cond_Status = ''False'', cond_Reason = ReasonPodsNotScheduled,
              cond_Message = ''0 node service pods have been scheduled'' \<rparr>
          else if ds_NumberReady ds < ds_DesiredNumberScheduled ds then
            \<lparr> cond_Type = ConditionNodeServiceReady, cond_Status = ''False'', cond_Reason = ReasonPodsNotReady,
              cond_Message = pods_ready_message ds \<rparr>
          else
            \<lparr> cond_Type = ConditionNodeServiceReady, cond_Status = ''True'', cond_Reason = ReasonPodsReady,
              cond_Message = pods_ready_message ds \<rparr>)"

text \<open>A \<open>Get\<close> for which an absent object is no error.\<close>

definition getIfPresent :: "k8s_lib \<Rightarrow> ('w, 'o) kind_api \<Rightarrow> string \<Rightarrow> string \<Rightarrow> ('w, goerr + 'o option) state" where
  "getIfPresent lib api ns name =
     State_Monad.bind (kGet api ns name) (\<lambda>r.
       case r of
         Inl err \<Rightarrow> if IsNotFound lib err then ret (Inr None) else ret (Inl err)
       | Inr x \<Rightarrow> ret (Inr (Some x)))"

text \<open>The update of the status of the driver, with both conditions set.\<close>

definition updateStatus ::
  "'w kube \<Rightarrow> k8s_lib \<Rightarrow> BeegfsDriver \<Rightarrow> stateful_set option \<Rightarrow> daemon_set option \<Rightarrow> ('w, goerr + BeegfsDriver) state"
where
  "updateStatus kube lib driver stsFromCluster dsFromCluster =
     (let conditions = SetStatusCondition lib
            (SetStatusCondition lib (drv_Conditions driver) (controllerCondition stsFromCluster))
            (nodeCondition dsFromCluster);
          driver' = driver\<lparr>drv_Conditions := conditions\<rparr>
      in if \<not> conditionsEqual lib conditions (drv_Conditions driver)
         then driver_status kube driver'
         else ret (Inr driver'))"

subsection \<open>Finalizers\<close>

definition finalizerClusterResourceDeletion :: string where
  "finalizerClusterResourceDeletion = ''beegfs.csi.netapp.com/clusterResourceDeletion''"

fun containsString :: "string list \<Rightarrow> string \<Rightarrow> bool" where
  "containsString [] s = False"
| "containsString (item # items) s = (if item = s then True else containsString items s)"

text \<open>A \<open>Delete\<close> for which an absent object is no error.\<close>

definition deleteIfPresent :: "k8s_lib \<Rightarrow> ('w, 'o) kind_api \<Rightarrow> 'o \<Rightarrow> ('w, goerr + unit) state" where
  "deleteIfPresent lib api x =
     State_Monad.bind (kDelete api x) (\<lambda>r.
       case r of
         Inl err \<Rightarrow> if IsNotFound lib err then ret (Inr ()) else ret (Inl err)
       | Inr _ \<Rightarrow> ret (Inr ()))"

fun deleteClusterScoped :: "'w kube \<Rightarrow> k8s_lib \<Rightarrow> rbac_object list \<Rightarrow> ('w, goerr + unit) state" where
  "deleteClusterScoped kube lib [] = ret (Inr ())"
| "deleteClusterScoped kube lib (i # rbacInterfaces) =
     checked (case i of
                ClusterRole x \<Rightarrow> deleteIfPresent lib (clusterRoles kube) x
              | ClusterRoleBinding x \<Rightarrow> deleteIfPresent lib (clusterRoleBindings kube) x
              | _ \<Rightarrow> ret (Inr ()))
       id (\<lambda>_. deleteClusterScoped kube lib rbacInterfaces)"

definition addFinalizerIfMissing :: "'w kube \<Rightarrow> k8s_lib \<Rightarrow> BeegfsDriver \<Rightarrow> ('w, goerr + BeegfsDriver) state" where
  "addFinalizerIfMissing kube lib driver =
     (if \<not> containsString (m_Finalizers (drv_Meta driver)) finalizerClusterResourceDeletion
      then kUpdate (drivers kube) (driver\<lparr>drv_Meta := AddFinalizer lib (drv_Meta driver) finalizerClusterResourceDeletion\<rparr>)
      else ret (Inr driver))"

definition runFinalizer ::
  "'w kube \<Rightarrow> k8s_lib \<Rightarrow> rbac_object list \<Rightarrow> object_meta \<Rightarrow> BeegfsDriver \<Rightarrow> ('w, goerr + unit) state"
where
  "runFinalizer kube lib rbacInterfaces d driver =
     (if containsString (m_Finalizers (drv_Meta driver)) finalizerClusterResourceDeletion
      then checked (deleteClusterScoped kube lib rbacInterfaces) id (\<lambda>_.
           checked (deleteIfPresent lib (csiDrivers kube) d) id (\<lambda>_.
           checked (kUpdate (drivers kube)
                      (driver\<lparr>drv_Meta := RemoveFinalizer lib (drv_Meta driver) finalizerClusterResourceDeletion\<rparr>))
             id (\<lambda>_. ret (Inr ()))))
      else ret (Inr ()))"

subsection \<open>Objects\<close>

definition newConfigMap :: "k8s_lib \<Rightarrow> BeegfsDriver \<Rightarrow> goerr + config_map" where
  "newConfigMap lib driver =
     bindE (yaml_Marshal lib (spec_PluginConfigFromFile (drv_Spec driver))) (\<lambda>data.
       Inr \<lparr> cm_Meta = new_meta ResourceNameConfigMap,
             cm_Data = [(KeyNameConfigMap,
               ''# This file is managed by the BeeGFS CSI driver operator. Do not modify it directly.'' @ [CHR 0x0A] @ data)] \<rparr>)"

definition newSecret :: secret where
  "newSecret = \<lparr> sec_Meta = new_meta ResourceNameSecret, sec_Data = [(KeyNameSecret, None)] \<rparr>"

definition newTLS :: secret where
  "newTLS = \<lparr> sec_Meta = new_meta ResourceNameTLS, sec_Data = [(KeyNameTLS, None)] \<rparr>"

text \<open>\<open>req\<close> is the namespace of the request.\<close>

definition setCommonObjectMetadata :: "k8s_lib \<Rightarrow> string \<Rightarrow> BeegfsDriver \<Rightarrow> object_meta \<Rightarrow> goerr + object_meta" where
  "setCommonObjectMetadata lib req driver object = SetControllerReference lib driver (object\<lparr>m_Namespace := req\<rparr>)"

text \<open>
  The pattern that \<open>Reconcile\<close> repeats for each kind of object: get the object, create it when it is absent,
  update it when the one on the cluster does not do. The value is the object as it is on the cluster afterwards.
\<close>

definition ensure ::
  "k8s_lib \<Rightarrow> ('w, 'o) kind_api \<Rightarrow> string \<Rightarrow> string \<Rightarrow> ('o \<Rightarrow> bool) \<Rightarrow> 'o \<Rightarrow> ('w, goerr + 'o) state"
where
  "ensure lib api ns name good object =
     State_Monad.bind (kGet api ns name) (\<lambda>r.
       case r of
         Inl err \<Rightarrow> if \<not> IsNotFound lib err then ret (Inl err) else kCreate api object
       | Inr fromCluster \<Rightarrow> if \<not> good fromCluster then kUpdate api object else ret (Inr fromCluster))"

definition ensureConfigMap :: "'w kube \<Rightarrow> k8s_lib \<Rightarrow> string \<Rightarrow> BeegfsDriver \<Rightarrow> ('w, goerr + config_map) state" where
  "ensureConfigMap kube lib req driver =
     guarded (newConfigMap lib driver) id (\<lambda>cm.
     guarded (setCommonObjectMetadata lib req driver (cm_Meta cm)) id (\<lambda>m.
       ensure lib (configMaps kube) req (m_Name m)
         (\<lambda>cmFromCluster. dataEqual lib (cm_Data cm) (cm_Data cmFromCluster)) (cm\<lparr>cm_Meta := m\<rparr>)))"

definition ensureSecret :: "'w kube \<Rightarrow> k8s_lib \<Rightarrow> string \<Rightarrow> BeegfsDriver \<Rightarrow> secret \<Rightarrow> ('w, goerr + secret) state" where
  "ensureSecret kube lib req driver s =
     guarded (setCommonObjectMetadata lib req driver (sec_Meta s)) id (\<lambda>m.
       ensure lib (secrets kube) req (m_Name m) (\<lambda>_. True) (s\<lparr>sec_Meta := m\<rparr>))"

definition setSubjects :: "string \<Rightarrow> binding \<Rightarrow> binding" where
  "setSubjects req object = object\<lparr>bind_Subjects := map (\<lambda>s. s\<lparr>sub_Namespace := req\<rparr>) (bind_Subjects object)\<rparr>"

definition sameBinding :: "k8s_lib \<Rightarrow> binding \<Rightarrow> binding \<Rightarrow> bool" where
  "sameBinding lib object fromCluster \<longleftrightarrow>
     subjectsEqual lib (bind_Subjects object) (bind_Subjects fromCluster) \<and>
     roleRefEqual lib (bind_RoleRef object) (bind_RoleRef fromCluster)"

abbreviation drop_result :: "('w, goerr + 'a) state \<Rightarrow> ('w, goerr + unit) state" where
  "drop_result m \<equiv> checked m id (\<lambda>_. ret (Inr ()))"

fun ensureRBAC :: "'w kube \<Rightarrow> k8s_lib \<Rightarrow> string \<Rightarrow> BeegfsDriver \<Rightarrow> rbac_object \<Rightarrow> ('w, goerr + unit) state" where
  "ensureRBAC kube lib req driver (ServiceAccount object) =
     guarded (setCommonObjectMetadata lib req driver object) id (\<lambda>m.
       drop_result (ensure lib (serviceAccounts kube) req (m_Name m) (\<lambda>_. True) m))"
| "ensureRBAC kube lib req driver (ClusterRole object) =
     drop_result (ensure lib (clusterRoles kube) [] (m_Name (role_Meta object))
       (\<lambda>crFromCluster. rulesEqual lib (role_Rules object) (role_Rules crFromCluster)) object)"
| "ensureRBAC kube lib req driver (ClusterRoleBinding object) =
     drop_result (ensure lib (clusterRoleBindings kube) [] (m_Name (bind_Meta object))
       (sameBinding lib (setSubjects req object)) (setSubjects req object))"
| "ensureRBAC kube lib req driver (Role object) =
     guarded (setCommonObjectMetadata lib req driver (role_Meta object)) id (\<lambda>m.
       drop_result (ensure lib (roles kube) req (m_Name m)
         (\<lambda>rFromCluster. rulesEqual lib (role_Rules object) (role_Rules rFromCluster)) (object\<lparr>role_Meta := m\<rparr>)))"
| "ensureRBAC kube lib req driver (RoleBinding object) =
     guarded (setCommonObjectMetadata lib req driver (bind_Meta object)) id (\<lambda>m.
       drop_result (ensure lib (roleBindings kube) req (m_Name m)
         (sameBinding lib (setSubjects req object)) ((setSubjects req object)\<lparr>bind_Meta := m\<rparr>)))"

fun ensureRBACs :: "'w kube \<Rightarrow> k8s_lib \<Rightarrow> string \<Rightarrow> BeegfsDriver \<Rightarrow> rbac_object list \<Rightarrow> ('w, goerr + unit) state" where
  "ensureRBACs kube lib req driver [] = ret (Inr ())"
| "ensureRBACs kube lib req driver (i # rbacInterfaces) =
     checked (ensureRBAC kube lib req driver i) id (\<lambda>_. ensureRBACs kube lib req driver rbacInterfaces)"

definition ensureCSIDriver :: "'w kube \<Rightarrow> k8s_lib \<Rightarrow> object_meta \<Rightarrow> ('w, goerr + unit) state" where
  "ensureCSIDriver kube lib d = drop_result (ensure lib (csiDrivers kube) [] (m_Name d) (\<lambda>_. True) d)"

subsection \<open>Workloads\<close>

text \<open>The five calls on the pod template of the stateful set or the daemon set.\<close>

definition prepareTemplate ::
  "object_meta \<Rightarrow> secret \<Rightarrow> secret \<Rightarrow> BeegfsDriverSpec \<Rightarrow> string \<Rightarrow>
   (ContainerResourceOverrides \<Rightarrow> container list \<Rightarrow> goerr + container list) \<Rightarrow> pod_template \<Rightarrow> goerr + pod_template"
where
  "prepareTemplate cm s t spec affinity resources template =
     (let template = setResourceVersionAnnotations cm (Some (sec_Meta s)) (Some (sec_Meta t)) template;
          template = template\<lparr>pt_Containers := setImages (pt_Containers template) (spec_ContainerImageOverrides spec)\<rparr>;
          template = template\<lparr>pt_Containers := setLogLevel (spec_LogLevel spec) (pt_Containers template)\<rparr>;
          template = setNodeAffinity (Some affinity) template
      in bindE (resources (spec_ContainerResourceOverrides spec) (pt_Containers template)) (\<lambda>containers.
           Inr (template\<lparr>pt_Containers := containers\<rparr>)))"

definition zeroSpec :: workload_spec where
  "zeroSpec = \<lparr> ws_Template = \<lparr> pt_Annotations = None, pt_Containers = [], pt_Affinity = None \<rparr>, ws_Rest = [] \<rparr>"

text \<open>The choice between creating a workload, updating it and leaving it alone. The condition is looked up in the
  status of the driver; \<open>FindStatusCondition\<close> returns a nil pointer when it is missing, and reading its reason then
  panics. \<open>spec\<close> is the specification on the cluster, the zero value when there is none.\<close>

definition placeWorkload ::
  "k8s_lib \<Rightarrow> ('w, 'o) kind_api \<Rightarrow> BeegfsDriver \<Rightarrow> string \<Rightarrow> ('o \<Rightarrow> workload_spec) \<Rightarrow> workload_spec \<Rightarrow> 'o \<Rightarrow> ('w, goerr + unit) state"
where
  "placeWorkload lib api driver conditionType spec_of specFromCluster object =
     (case FindStatusCondition lib (drv_Conditions driver) conditionType of
        None \<Rightarrow> ret (Inl (Panic ''nil pointer dereference''))
      | Some condition \<Rightarrow>
          if cond_Reason condition = ReasonServiceNotCreated then drop_result (kCreate api object)
          else if \<not> DeepDerivative lib (spec_of object) specFromCluster then drop_result (kUpdate api object)
          else ret (Inr ()))"

definition placeStatefulSet ::
  "'w kube \<Rightarrow> k8s_lib \<Rightarrow> string \<Rightarrow> BeegfsDriver \<Rightarrow> config_map \<Rightarrow> secret \<Rightarrow> secret \<Rightarrow> stateful_set option \<Rightarrow> stateful_set \<Rightarrow> ('w, goerr + unit) state"
where
  "placeStatefulSet kube lib req driver cm s t stsFromCluster sts =
     guarded (setCommonObjectMetadata lib req driver (sts_Meta sts)) id (\<lambda>m.
     guarded (prepareTemplate (cm_Meta cm) s t (drv_Spec driver) (spec_NodeAffinityControllerService (drv_Spec driver))
                setControllerResources (ws_Template (sts_Spec sts))) id (\<lambda>template.
       placeWorkload lib (statefulSets kube) driver ConditionControllerServiceReady sts_Spec
         (case stsFromCluster of None \<Rightarrow> zeroSpec | Some x \<Rightarrow> sts_Spec x)
         (sts\<lparr>sts_Meta := m, sts_Spec := (sts_Spec sts)\<lparr>ws_Template := template\<rparr>\<rparr>)))"

definition placeDaemonSet ::
  "'w kube \<Rightarrow> k8s_lib \<Rightarrow> string \<Rightarrow> BeegfsDriver \<Rightarrow> config_map \<Rightarrow> secret \<Rightarrow> secret \<Rightarrow> daemon_set option \<Rightarrow> daemon_set \<Rightarrow> ('w, goerr + unit) state"
where
  "placeDaemonSet kube lib req driver cm s t dsFromCluster ds =
     guarded (setCommonObjectMetadata lib req driver (ds_Meta ds)) id (\<lambda>m.
     guarded (prepareTemplate (cm_Meta cm) s t (drv_Spec driver) (spec_NodeAffinityNodeService (drv_Spec driver))
                setNodeResources (ws_Template (ds_Spec ds))) id (\<lambda>template.
       placeWorkload lib (daemonSets kube) driver ConditionNodeServiceReady ds_Spec
         (case dsFromCluster of None \<Rightarrow> zeroSpec | Some x \<Rightarrow> ds_Spec x)
         (ds\<lparr>ds_Meta := m, ds_Spec := (ds_Spec ds)\<lparr>ws_Template := template\<rparr>\<rparr>)))"

subsection \<open>The loop\<close>

text \<open>The second half of \<open>Reconcile\<close>, for a driver that is not being deleted.\<close>

definition deploy ::
  "'w kube \<Rightarrow> k8s_lib \<Rightarrow> manifests \<Rightarrow> string \<Rightarrow> BeegfsDriver \<Rightarrow> stateful_set option \<Rightarrow> daemon_set option \<Rightarrow> ('w, goerr + unit) state"
where
  "deploy kube lib mf req driver stsFromCluster dsFromCluster =
     checked (ensureConfigMap kube lib req driver) id (\<lambda>cm.
     checked (ensureSecret kube lib req driver newSecret) id (\<lambda>s.
     checked (ensureSecret kube lib req driver newTLS) id (\<lambda>t.
     checked (ensureRBACs kube lib req driver (fst (GetRBAC lib mf))) id (\<lambda>_.
     checked (ensureCSIDriver kube lib (fst (GetCSIDriver lib mf))) id (\<lambda>_.
     checked (placeStatefulSet kube lib req driver cm s t stsFromCluster (fst (GetControllerServiceStatefulSet lib mf))) id (\<lambda>_.
       placeDaemonSet kube lib req driver cm s t dsFromCluster (fst (GetNodeServiceDaemonSet lib mf))))))))"

definition Reconcile :: "'w kube \<Rightarrow> k8s_lib \<Rightarrow> manifests \<Rightarrow> string \<Rightarrow> string \<Rightarrow> ('w, goerr + unit) state" where
  "Reconcile kube lib mf req name =
     checked (getIfPresent lib (drivers kube) req name) id (\<lambda>found.
       case found of
         None \<Rightarrow> ret (Inr ())
       | Some driver \<Rightarrow>
           checked (getIfPresent lib (statefulSets kube) req (m_Name (sts_Meta (fst (GetControllerServiceStatefulSet lib mf))))) id (\<lambda>stsFromCluster.
           checked (getIfPresent lib (daemonSets kube) req (m_Name (ds_Meta (fst (GetNodeServiceDaemonSet lib mf))))) id (\<lambda>dsFromCluster.
           checked (updateStatus kube lib driver stsFromCluster dsFromCluster) id (\<lambda>driver.
             if \<not> m_Deleting (drv_Meta driver)
             then checked (addFinalizerIfMissing kube lib driver) id (\<lambda>driver.
                    deploy kube lib mf req driver stsFromCluster dsFromCluster)
             else runFinalizer kube lib (fst (GetRBAC lib mf)) (fst (GetCSIDriver lib mf)) driver))))"

subsection \<open>The calls of the parts\<close>

lemma containsString_iff [simp]: "containsString items s \<longleftrightarrow> s \<in> set items"
  by (induction items) auto

lemma does_logged_run:
  assumes "\<And>w x w'. run_state m w = (x, w') \<Longrightarrow> Q x [ev x]"
  shows "does (logged m ev) Q"
  using assms by (auto simp: does_def logged_def split: prod.splits)

text \<open>Deleting an object has worked when the object is gone.\<close>

definition gone :: "k8s_lib \<Rightarrow> goerr + unit \<Rightarrow> bool" where
  "gone lib y = (case y of Inl e \<Rightarrow> IsNotFound lib e | Inr _ \<Rightarrow> True)"

definition deletes :: "k8s_lib \<Rightarrow> kobj list \<Rightarrow> call list \<Rightarrow> bool" where
  "deletes lib objs u = list_all2 (\<lambda>x c. \<exists>y. c = C_Delete x y \<and> gone lib y) objs u"

lemma deletes_simps [simp]:
  "deletes lib [] u \<longleftrightarrow> u = []"
  "deletes lib (x # xs) u \<longleftrightarrow> (\<exists>y v. u = C_Delete x y # v \<and> gone lib y \<and> deletes lib xs v)"
  by (auto simp: deletes_def list_all2_Cons1)

lemma deletes_append: "deletes lib xs u \<Longrightarrow> deletes lib ys v \<Longrightarrow> deletes lib (xs @ ys) (u @ v)"
  by (simp add: deletes_def list_all2_appendI)

lemma deletes_snoc: "deletes lib xs u \<Longrightarrow> gone lib y \<Longrightarrow> deletes lib (xs @ [x]) (u @ [C_Delete x y])"
  by (simp add: deletes_append)

fun is_delete :: "call \<Rightarrow> bool" where
  "is_delete (C_Delete _ _) = True"
| "is_delete _ = False"

lemma deletes_is_delete: "deletes lib xs u \<Longrightarrow> list_all is_delete u"
  by (induction xs arbitrary: u) auto

lemma getIfPresent_does:
  "does (getIfPresent lib (traced_api K obj api) ns n) (\<lambda>r u.
     (\<exists>e. IsNotFound lib e \<and> u = [C_Get K ns n (Inl e)] \<and> r = Inr None) \<or>
     (\<exists>e. \<not> IsNotFound lib e \<and> u = [C_Get K ns n (Inl e)] \<and> r = Inl e) \<or>
     (\<exists>x. u = [C_Get K ns n (Inr (obj x))] \<and> r = Inr (Some x)))"
  unfolding getIfPresent_def traced_api_ops
  by (intro does_bind_logged does_case_sum does_if does_ret) auto

lemma deleteIfPresent_does:
  "does (deleteIfPresent lib (traced_api K obj api) x) (\<lambda>r u. \<exists>y. u = [C_Delete (obj x) y] \<and> (r = Inr () \<longleftrightarrow> gone lib y))"
  unfolding deleteIfPresent_def traced_api_ops
  by (intro does_bind_logged does_case_sum does_if does_ret) (auto simp: gone_def)

fun is_cluster_scoped :: "rbac_object \<Rightarrow> bool" where
  "is_cluster_scoped (ClusterRole _) = True"
| "is_cluster_scoped (ClusterRoleBinding _) = True"
| "is_cluster_scoped _ = False"

abbreviation cluster_scoped :: "rbac_object list \<Rightarrow> kobj list" where
  "cluster_scoped rbac \<equiv> map O_Rbac (filter is_cluster_scoped rbac)"

lemma deleteClusterScoped_does:
  "does (deleteClusterScoped (traced_kube kube) lib rbac) (\<lambda>r u.
     list_all is_delete u \<and> (r = Inr () \<longrightarrow> deletes lib (cluster_scoped rbac) u))"
proof (induction rbac)
  case Nil
  then show ?case by (auto intro: does_ret)
next
  case (Cons i rbac)
  have one: "does (case i of
                ClusterRole x \<Rightarrow> deleteIfPresent lib (clusterRoles (traced_kube kube)) x
              | ClusterRoleBinding x \<Rightarrow> deleteIfPresent lib (clusterRoleBindings (traced_kube kube)) x
              | _ \<Rightarrow> ret (Inr ())) (\<lambda>r u. list_all is_delete u \<and> (r = Inr () \<longrightarrow> deletes lib (cluster_scoped [i]) u))"
    by (cases i) (auto intro!: does_ret does_mono [OF deleteIfPresent_does])
  show ?case unfolding deleteClusterScoped.simps
    by (rule does_checked [OF one])
      (auto intro!: does_mono [OF Cons] dest: deletes_append [of lib "cluster_scoped [i]"])
qed

lemma runFinalizer_does:
  "does (runFinalizer (traced_kube kube) lib rbac d driver) (\<lambda>r u.
     list_all is_delete u \<or>
     (\<exists>v y. u = v @ [C_Update (O_BeegfsDriver (driver\<lparr>drv_Meta := RemoveFinalizer lib (drv_Meta driver) finalizerClusterResourceDeletion\<rparr>)) y]
        \<and> deletes lib (cluster_scoped rbac @ [O_CSIDriver d]) v))"
  unfolding runFinalizer_def traced_kube_ops traced_api_ops
  apply (rule does_if)
   apply (rule does_checked [OF deleteClusterScoped_does], simp)
   apply (rule does_checked [OF deleteIfPresent_does], force)
   apply (rule does_checked_logged)
    apply (auto intro!: does_ret deletes_snoc)
  done

subsection \<open>The order of a deletion\<close>

text \<open>The calls before the finalizer, and the calls that deploy.\<close>

fun is_preliminary :: "call \<Rightarrow> bool" where
  "is_preliminary (C_Get _ _ _ _) = True"
| "is_preliminary (C_UpdateStatus _ _) = True"
| "is_preliminary _ = False"

fun is_deploying :: "call \<Rightarrow> bool" where
  "is_deploying (C_Get _ _ _ _) = True"
| "is_deploying (C_Create _ _) = True"
| "is_deploying (C_Update (O_BeegfsDriver x) _) = (finalizerClusterResourceDeletion \<in> set (m_Finalizers (drv_Meta x)))"
| "is_deploying (C_Update _ _) = True"
| "is_deploying _ = False"

lemma ensure_emits [emits_intros]:
  assumes "\<And>x y. is_deploying (C_Update (obj x) y)"
  shows "emits is_deploying (ensure lib (traced_api K obj api) ns n good x)"
  unfolding ensure_def traced_api_ops using assms by (intro emits_intros) auto

lemma placeWorkload_emits [emits_intros]:
  assumes "\<And>x y. is_deploying (C_Update (obj x) y)"
  shows "emits is_deploying (placeWorkload lib (traced_api K obj api) driver ct spec_of spec x)"
  unfolding placeWorkload_def traced_api_ops using assms by (intro emits_intros) auto

lemma ensureRBACs_emits [emits_intros]: "emits is_deploying (ensureRBACs (traced_kube kube) lib req driver rbac)"
proof (induction rbac)
  case (Cons i rbac)
  have "emits is_deploying (ensureRBAC (traced_kube kube) lib req driver i)"
    by (cases i) (auto intro!: emits_intros)
  then show ?case unfolding ensureRBACs.simps by (intro emits_intros Cons)
qed (simp add: emits_intros)

lemma deploy_emits: "emits is_deploying (deploy (traced_kube kube) lib mf req driver sts ds)"
  unfolding deploy_def ensureConfigMap_def ensureSecret_def ensureCSIDriver_def placeStatefulSet_def placeDaemonSet_def
    traced_kube_ops
  by (intro emits_intros) simp_all

definition finalizing :: "k8s_lib \<Rightarrow> manifests \<Rightarrow> call list \<Rightarrow> bool" where
  "finalizing lib mf v \<longleftrightarrow> list_all is_delete v \<or>
     (\<exists>ds x y. v = ds @ [C_Update (O_BeegfsDriver x) y] \<and>
        deletes lib (cluster_scoped (fst (GetRBAC lib mf)) @ [O_CSIDriver (fst (GetCSIDriver lib mf))]) ds)"

definition adds_finalizer :: "k8s_lib \<Rightarrow> bool" where
  "adds_finalizer lib \<longleftrightarrow> (\<forall>m f. f \<in> set (m_Finalizers (AddFinalizer lib m f)))"

lemma updateStatus_emits: "emits is_preliminary (updateStatus (traced_kube kube) lib driver sts ds)"
  unfolding updateStatus_def traced_kube_ops Let_def by (intro emits_intros) simp_all

lemma getIfPresent_emits: "emits is_preliminary (getIfPresent lib (traced_api K obj api) ns n)"
  unfolding getIfPresent_def traced_api_ops by (intro emits_intros) simp_all

lemma addFinalizerIfMissing_emits:
  "adds_finalizer lib \<Longrightarrow> emits is_deploying (addFinalizerIfMissing (traced_kube kube) lib driver)"
  unfolding addFinalizerIfMissing_def traced_kube_ops traced_api_ops
  by (intro emits_intros) (simp_all add: adds_finalizer_def)

text \<open>A run is a status update, followed either by calls that deploy or by those of the finalizer.\<close>

lemma does_prefix:
  assumes "emits P m" and "\<And>e u. list_all P u \<Longrightarrow> Q (Inl (wrap e)) u"
    and "\<And>x. does (k x) (\<lambda>r u. \<forall>p. list_all P p \<longrightarrow> Q r (p @ u))"
  shows "does (checked m wrap k) Q"
  by (rule does_checked [OF assms(1) [unfolded emits_def]]) (auto intro: assms(2) does_mono [OF assms(3)])

lemma Reconcile_shape:
  assumes "adds_finalizer lib"
  shows "does (Reconcile (traced_kube kube) lib mf req name) (\<lambda>r u.
    \<exists>p v. u = p @ v \<and> list_all is_preliminary p \<and> (list_all is_deploying v \<or> finalizing lib mf v))"
    (is "does _ ?Q")
proof -
  have nil: "?Q r p" if "list_all is_preliminary p" for r :: "goerr + unit" and p
    using that by (intro exI [of _ p] exI [of _ "[]"]) simp
  have live: "does (checked (addFinalizerIfMissing (traced_kube kube) lib driver) id (\<lambda>driver.
      deploy (traced_kube kube) lib mf req driver sts ds)) (\<lambda>_ u. list_all is_deploying u)" for driver sts ds
    using assms by (fold emits_def) (intro emits_intros addFinalizerIfMissing_emits deploy_emits)
  have fin: "does (runFinalizer (traced_kube kube) lib (fst (GetRBAC lib mf)) (fst (GetCSIDriver lib mf)) driver)
      (\<lambda>_ u. finalizing lib mf u)" for driver
    by (rule does_mono [OF runFinalizer_does]) (auto simp: finalizing_def)
  have cat: "?Q r (a @ b @ c @ d @ v)"
    if "list_all is_preliminary (a @ b @ c @ d)" and "list_all is_deploying v \<or> finalizing lib mf v"
    for r :: "goerr + unit" and a b c d v
    using that by (intro exI [of _ "a @ b @ c @ d"] exI [of _ v]) simp
  show ?thesis unfolding Reconcile_def traced_kube_ops
    apply (rule does_prefix [OF getIfPresent_emits], erule nil)
    apply (rule does_case_option, rule does_ret, simp add: nil)
    apply (rule does_prefix [OF getIfPresent_emits], metis nil list_all_append)
    apply (rule does_prefix [OF getIfPresent_emits], metis nil list_all_append)
    apply (rule does_prefix [OF updateStatus_emits], metis nil list_all_append)
    apply (rule does_if)
     apply (rule does_mono [OF live], intro allI impI cat, simp, simp)
    apply (rule does_mono [OF fin], intro allI impI cat, simp, simp)
    done
qed

subsection \<open>Every write has a reason\<close>

fun kind_of :: "kobj \<Rightarrow> kind" where
  "kind_of (O_BeegfsDriver _) = K_BeegfsDriver"
| "kind_of (O_ConfigMap _) = K_ConfigMap"
| "kind_of (O_Secret _) = K_Secret"
| "kind_of (O_Rbac (ServiceAccount _)) = K_ServiceAccount"
| "kind_of (O_Rbac (ClusterRole _)) = K_ClusterRole"
| "kind_of (O_Rbac (ClusterRoleBinding _)) = K_ClusterRoleBinding"
| "kind_of (O_Rbac (Role _)) = K_Role"
| "kind_of (O_Rbac (RoleBinding _)) = K_RoleBinding"
| "kind_of (O_CSIDriver _) = K_CSIDriver"
| "kind_of (O_StatefulSet _) = K_StatefulSet"
| "kind_of (O_DaemonSet _) = K_DaemonSet"

fun name_of :: "kobj \<Rightarrow> string" where
  "name_of (O_BeegfsDriver x) = m_Name (drv_Meta x)"
| "name_of (O_ConfigMap x) = m_Name (cm_Meta x)"
| "name_of (O_Secret x) = m_Name (sec_Meta x)"
| "name_of (O_Rbac (ServiceAccount m)) = m_Name m"
| "name_of (O_Rbac (ClusterRole x)) = m_Name (role_Meta x)"
| "name_of (O_Rbac (ClusterRoleBinding x)) = m_Name (bind_Meta x)"
| "name_of (O_Rbac (Role x)) = m_Name (role_Meta x)"
| "name_of (O_Rbac (RoleBinding x)) = m_Name (bind_Meta x)"
| "name_of (O_CSIDriver m) = m_Name m"
| "name_of (O_StatefulSet x) = m_Name (sts_Meta x)"
| "name_of (O_DaemonSet x) = m_Name (ds_Meta x)"

text \<open>The object on the cluster (second) does for the wanted one: the fields that the operator manages agree.\<close>

definition rbac_matches :: "k8s_lib \<Rightarrow> rbac_object \<Rightarrow> rbac_object \<Rightarrow> bool" where
  "rbac_matches lib x y =
     (case x of
        ServiceAccount _ \<Rightarrow> (case y of ServiceAccount _ \<Rightarrow> True | _ \<Rightarrow> False)
      | ClusterRole a \<Rightarrow> (case y of ClusterRole b \<Rightarrow> rulesEqual lib (role_Rules a) (role_Rules b) | _ \<Rightarrow> False)
      | ClusterRoleBinding a \<Rightarrow> (case y of ClusterRoleBinding b \<Rightarrow> sameBinding lib a b | _ \<Rightarrow> False)
      | Role a \<Rightarrow> (case y of Role b \<Rightarrow> rulesEqual lib (role_Rules a) (role_Rules b) | _ \<Rightarrow> False)
      | RoleBinding a \<Rightarrow> (case y of RoleBinding b \<Rightarrow> sameBinding lib a b | _ \<Rightarrow> False))"

definition matches :: "k8s_lib \<Rightarrow> kobj \<Rightarrow> kobj \<Rightarrow> bool" where
  "matches lib x y =
     (case x of
        O_BeegfsDriver _ \<Rightarrow> False
      | O_ConfigMap a \<Rightarrow> (case y of O_ConfigMap b \<Rightarrow> dataEqual lib (cm_Data a) (cm_Data b) | _ \<Rightarrow> False)
      | O_Secret _ \<Rightarrow> (case y of O_Secret _ \<Rightarrow> True | _ \<Rightarrow> False)
      | O_Rbac a \<Rightarrow> (case y of O_Rbac b \<Rightarrow> rbac_matches lib a b | _ \<Rightarrow> False)
      | O_CSIDriver _ \<Rightarrow> (case y of O_CSIDriver _ \<Rightarrow> True | _ \<Rightarrow> False)
      | O_StatefulSet a \<Rightarrow> (case y of O_StatefulSet b \<Rightarrow> DeepDerivative lib (sts_Spec a) (sts_Spec b) | _ \<Rightarrow> False)
      | O_DaemonSet a \<Rightarrow> (case y of O_DaemonSet b \<Rightarrow> DeepDerivative lib (ds_Spec a) (ds_Spec b) | _ \<Rightarrow> False))"

lemma matches_simps [simp]:
  "matches lib (O_ConfigMap a) (O_ConfigMap b) = dataEqual lib (cm_Data a) (cm_Data b)"
  "matches lib (O_Secret s) (O_Secret s')"
  "matches lib (O_Rbac (ServiceAccount m)) (O_Rbac (ServiceAccount m'))"
  "matches lib (O_Rbac (ClusterRole r)) (O_Rbac (ClusterRole r')) = rulesEqual lib (role_Rules r) (role_Rules r')"
  "matches lib (O_Rbac (ClusterRoleBinding c)) (O_Rbac (ClusterRoleBinding c')) = sameBinding lib c c'"
  "matches lib (O_Rbac (Role r)) (O_Rbac (Role r')) = rulesEqual lib (role_Rules r) (role_Rules r')"
  "matches lib (O_Rbac (RoleBinding c)) (O_Rbac (RoleBinding c')) = sameBinding lib c c'"
  "matches lib (O_CSIDriver m) (O_CSIDriver m')"
  "matches lib (O_StatefulSet x) (O_StatefulSet x') = DeepDerivative lib (sts_Spec x) (sts_Spec x')"
  "matches lib (O_DaemonSet y) (O_DaemonSet y') = DeepDerivative lib (ds_Spec y) (ds_Spec y')"
  by (simp_all add: matches_def rbac_matches_def)

text \<open>The answers in the history \<open>t\<close> of a run that give a write its reason.\<close>

definition absent :: "k8s_lib \<Rightarrow> call list \<Rightarrow> kobj \<Rightarrow> bool" where
  "absent lib t x \<longleftrightarrow> (\<exists>ns e. C_Get (kind_of x) ns (name_of x) (Inl e) \<in> set t \<and> IsNotFound lib e)"

definition outdated :: "k8s_lib \<Rightarrow> call list \<Rightarrow> kobj \<Rightarrow> bool" where
  "outdated lib t x \<longleftrightarrow> (\<exists>ns y. C_Get (kind_of x) ns (name_of x) (Inr y) \<in> set t \<and> \<not> matches lib x y)"

definition driver_seen :: "call list \<Rightarrow> BeegfsDriver \<Rightarrow> bool" where
  "driver_seen t y \<longleftrightarrow> (\<exists>ns n. C_Get K_BeegfsDriver ns n (Inr (O_BeegfsDriver y)) \<in> set t) \<or>
     (\<exists>x. C_UpdateStatus x (Inr (O_BeegfsDriver y)) \<in> set t)"

abbreviation has_finalizer :: "BeegfsDriver \<Rightarrow> bool" where
  "has_finalizer x \<equiv> finalizerClusterResourceDeletion \<in> set (m_Finalizers (drv_Meta x))"

fun justified :: "k8s_lib \<Rightarrow> call list \<Rightarrow> call \<Rightarrow> bool" where
  "justified lib t (C_Get _ _ _ _) = True"
| "justified lib t (C_Create x _) = absent lib t x"
| "justified lib t (C_Update x _) =
     (case x of
        O_BeegfsDriver d \<Rightarrow> \<exists>y. driver_seen t y \<and> has_finalizer d = (\<not> has_finalizer y) \<and> has_finalizer y = m_Deleting (drv_Meta y)
      | _ \<Rightarrow> outdated lib t x)"
| "justified lib t (C_UpdateStatus x _) =
     (case x of
        O_BeegfsDriver d \<Rightarrow> \<exists>y. driver_seen t y \<and> \<not> conditionsEqual lib (drv_Conditions d) (drv_Conditions y)
      | _ \<Rightarrow> False)"
| "justified lib t (C_Delete _ _) = (\<exists>y. driver_seen t y \<and> m_Deleting (drv_Meta y) \<and> has_finalizer y)"

fun just :: "k8s_lib \<Rightarrow> call list \<Rightarrow> call list \<Rightarrow> bool" where
  "just lib t [] = True"
| "just lib t (c # u) = (justified lib t c \<and> just lib (t @ [c]) u)"

lemma just_append [simp]: "just lib t (u @ v) \<longleftrightarrow> just lib t u \<and> just lib (t @ u) v"
  by (induction u arbitrary: t) auto

lemma just_iff: "just lib t u \<longleftrightarrow> (\<forall>p c q. u = p @ c # q \<longrightarrow> justified lib (t @ p) c)"
proof (induction u arbitrary: t)
  case (Cons a u)
  show ?case
    unfolding just.simps Cons
    by (auto simp: Cons_eq_append_conv)
qed simp

lemma driver_seen_mono: "driver_seen t y \<Longrightarrow> set t \<subseteq> set t' \<Longrightarrow> driver_seen t' y"
  unfolding driver_seen_def by blast

text \<open>\<open>jus lib t m Q\<close>: after the history \<open>t\<close>, every write of \<open>m\<close> has its reason, and the result and the longer
  history satisfy \<open>Q\<close>.\<close>

definition jus :: "k8s_lib \<Rightarrow> call list \<Rightarrow> ('w \<times> call list, 'a) state \<Rightarrow> ('a \<Rightarrow> call list \<Rightarrow> bool) \<Rightarrow> bool" where
  "jus lib t m Q = does m (\<lambda>r u. just lib t u \<and> Q r (t @ u))"

lemma jus_ret: "Q r t \<Longrightarrow> jus lib t (ret r) Q"
  unfolding jus_def by (rule does_ret) simp

lemma jus_mono: "jus lib t m P \<Longrightarrow> (\<And>r t'. P r t' \<Longrightarrow> Q r t') \<Longrightarrow> jus lib t m Q"
  unfolding jus_def by (erule does_mono) simp

lemma jus_logged:
  assumes "\<And>r. justified lib t (ev r)" and "\<And>w r w'. run_state m w = (r, w') \<Longrightarrow> Q r (t @ [ev r])"
  shows "jus lib t (logged m ev) Q"
  unfolding jus_def by (rule does_logged_run) (simp add: assms)

lemma jus_bind:
  assumes "jus lib t m P" and "\<And>r t'. set t \<subseteq> set t' \<Longrightarrow> P r t' \<Longrightarrow> jus lib t' (k r) Q"
  shows "jus lib t (State_Monad.bind m k) Q"
  unfolding jus_def
proof (rule does_bind [OF assms(1) [unfolded jus_def]], erule conjE)
  fix r u
  assume u: "just lib t u" "P r (t @ u)"
  show "does (k r) (\<lambda>y v. just lib t (u @ v) \<and> Q y (t @ u @ v))"
    by (rule does_mono [OF assms(2) [unfolded jus_def, OF _ u(2)]]) (simp_all add: u(1))
qed

lemma jus_checked:
  assumes "jus lib t m P" and "\<And>e t'. set t \<subseteq> set t' \<Longrightarrow> P (Inl e) t' \<Longrightarrow> Q (Inl (wrap e)) t'"
    and "\<And>x t'. set t \<subseteq> set t' \<Longrightarrow> P (Inr x) t' \<Longrightarrow> jus lib t' (k x) Q"
  shows "jus lib t (checked m wrap k) Q"
  unfolding checked_def
  by (rule jus_bind [OF assms(1)]) (auto split: sum.split intro: jus_ret assms(2,3))

lemma jus_cases:
  "(b \<Longrightarrow> jus lib t m Q) \<Longrightarrow> (\<not> b \<Longrightarrow> jus lib t n Q) \<Longrightarrow> jus lib t (if b then m else n) Q"
  "(\<And>e. r = Inl e \<Longrightarrow> Q (Inl (wrap e)) t) \<Longrightarrow> (\<And>x. r = Inr x \<Longrightarrow> jus lib t (k x) Q) \<Longrightarrow> jus lib t (guarded r wrap k) Q"
  "(\<And>a. r = Inl a \<Longrightarrow> jus lib t (f a) Q) \<Longrightarrow> (\<And>b. r = Inr b \<Longrightarrow> jus lib t (g b) Q) \<Longrightarrow> jus lib t (case_sum f g r) Q"
  "(z = None \<Longrightarrow> jus lib t h Q) \<Longrightarrow> (\<And>b. z = Some b \<Longrightarrow> jus lib t (g' b) Q) \<Longrightarrow> jus lib t (case_option h g' z) Q"
     apply simp
    apply (cases r, simp add: jus_ret, simp)
   apply (cases r, simp_all)
  apply (cases z, simp_all)
  done

lemma justified_update: "kind_of x \<noteq> K_BeegfsDriver \<Longrightarrow> justified lib t (C_Update x r) = outdated lib t x"
  by (cases x) auto

text \<open>
  The contract of a kind of object that the operator keeps on the cluster: the wrapper \<open>obj\<close> of its values tells the
  kind, which is not the kind of the driver itself, and the test of the operator on the object that it found is
  \<open>matches\<close>. What follows from it for \<open>ensure\<close> holds for every kind.
\<close>

locale managed_kind =
  fixes lib :: k8s_lib and K :: kind and obj :: "'o \<Rightarrow> kobj" and agrees :: "'o \<Rightarrow> 'o \<Rightarrow> bool"
  assumes kind_obj: "kind_of (obj x) = K"
    and not_driver: "K \<noteq> K_BeegfsDriver"
    and agrees_matches: "agrees x y = matches lib (obj x) (obj y)"
begin

lemma ensure_jus:
  assumes n: "n = name_of (obj x)" and good: "\<And>y. good y = agrees x y"
  shows "jus lib t (ensure lib (traced_api K obj api) ns n good x) (\<lambda>_ _. True)"
  unfolding ensure_def traced_api_ops
proof (rule jus_bind [where P = "\<lambda>r t'. C_Get K ns n (map_sum id obj r) \<in> set t'"])
  fix r t'
  assume "set t \<subseteq> set t'" and got: "C_Get K ns n (map_sum id obj r) \<in> set t'"
  show "jus lib t' (case r of
        Inl err \<Rightarrow> if \<not> IsNotFound lib err then ret (Inl err)
          else logged (kCreate api x) (\<lambda>r. C_Create (obj x) (map_sum id obj r))
      | Inr y \<Rightarrow> if \<not> good y then logged (kUpdate api x) (\<lambda>r. C_Update (obj x) (map_sum id obj r)) else ret (Inr y))
      (\<lambda>_ _. True)"
  proof (cases r)
    case (Inl e)
    then have "IsNotFound lib e \<Longrightarrow> absent lib t' (obj x)" using got n kind_obj by (auto simp: absent_def)
    then show ?thesis using Inl by (auto intro!: jus_ret jus_logged)
  next
    case (Inr y)
    then have "\<not> good y \<Longrightarrow> outdated lib t' (obj x)" using got n good kind_obj agrees_matches by (auto simp: outdated_def)
    then show ?thesis using Inr kind_obj not_driver by (auto intro!: jus_ret jus_logged simp: justified_update simp del: justified.simps)
  qed
qed (auto intro!: jus_logged)

end

text \<open>The kinds that the operator manages.\<close>

interpretation config_maps: managed_kind lib K_ConfigMap O_ConfigMap "\<lambda>x y. dataEqual lib (cm_Data x) (cm_Data y)" for lib
  by unfold_locales simp_all

interpretation secret_objects: managed_kind lib K_Secret O_Secret "\<lambda>_ _. True" for lib
  by unfold_locales simp_all

interpretation service_accounts: managed_kind lib K_ServiceAccount "O_Rbac \<circ> ServiceAccount" "\<lambda>_ _. True" for lib
  by unfold_locales simp_all

interpretation cluster_roles: managed_kind lib K_ClusterRole "O_Rbac \<circ> ClusterRole"
    "\<lambda>x y. rulesEqual lib (role_Rules x) (role_Rules y)" for lib
  by unfold_locales simp_all

interpretation cluster_role_bindings: managed_kind lib K_ClusterRoleBinding "O_Rbac \<circ> ClusterRoleBinding" "sameBinding lib" for lib
  by unfold_locales simp_all

interpretation role_objects: managed_kind lib K_Role "O_Rbac \<circ> Role" "\<lambda>x y. rulesEqual lib (role_Rules x) (role_Rules y)" for lib
  by unfold_locales simp_all

interpretation role_bindings: managed_kind lib K_RoleBinding "O_Rbac \<circ> RoleBinding" "sameBinding lib" for lib
  by unfold_locales simp_all

interpretation csi_drivers: managed_kind lib K_CSIDriver O_CSIDriver "\<lambda>_ _. True" for lib
  by unfold_locales simp_all

lemmas ensured_jus = config_maps.ensure_jus secret_objects.ensure_jus service_accounts.ensure_jus cluster_roles.ensure_jus
  cluster_role_bindings.ensure_jus role_objects.ensure_jus role_bindings.ensure_jus csi_drivers.ensure_jus

lemma drop_result_jus: "jus lib t m (\<lambda>_ _. True) \<Longrightarrow> jus lib t (drop_result m) (\<lambda>_ _. True)"
  by (erule jus_checked) (auto intro: jus_ret)

lemma ensureRBAC_jus: "jus lib t (ensureRBAC (traced_kube kube) lib req driver i) (\<lambda>_ _. True)"
  by (cases i) (auto intro!: jus_cases drop_result_jus ensured_jus simp: sameBinding_def setSubjects_def)

lemma ensureRBACs_jus: "jus lib t (ensureRBACs (traced_kube kube) lib req driver rbac) (\<lambda>_ _. True)"
proof (induction rbac arbitrary: t)
  case (Cons i rbac)
  show ?case unfolding ensureRBACs.simps by (rule jus_checked [OF ensureRBAC_jus]) (simp_all add: Cons)
qed (simp add: jus_ret)

lemma ensureConfigMap_jus: "jus lib t (ensureConfigMap (traced_kube kube) lib req driver) (\<lambda>_ _. True)"
  unfolding ensureConfigMap_def by (auto intro!: jus_cases ensured_jus)

lemma ensureSecret_jus: "jus lib t (ensureSecret (traced_kube kube) lib req driver s) (\<lambda>_ _. True)"
  unfolding ensureSecret_def by (auto intro!: jus_cases ensured_jus)

lemma ensureCSIDriver_jus: "jus lib t (ensureCSIDriver (traced_kube kube) lib d) (\<lambda>_ _. True)"
  unfolding ensureCSIDriver_def by (auto intro!: drop_result_jus ensured_jus)

text \<open>What the history says of an object that \<open>getIfPresent\<close> looked up.\<close>

definition looked_up :: "k8s_lib \<Rightarrow> call list \<Rightarrow> kind \<Rightarrow> string \<Rightarrow> kobj option \<Rightarrow> bool" where
  "looked_up lib t K n z \<longleftrightarrow> (\<exists>ns. case z of None \<Rightarrow> \<exists>e. C_Get K ns n (Inl e) \<in> set t \<and> IsNotFound lib e
     | Some x \<Rightarrow> C_Get K ns n (Inr x) \<in> set t)"

lemma looked_up_mono: "looked_up lib t K n z \<Longrightarrow> set t \<subseteq> set t' \<Longrightarrow> looked_up lib t' K n z"
  unfolding looked_up_def by (cases z) auto

lemma getIfPresent_jus:
  "jus lib t (getIfPresent lib (traced_api K obj api) ns n) (\<lambda>r t'. \<forall>z. r = Inr z \<longrightarrow> looked_up lib t' K n (map_option obj z))"
  unfolding getIfPresent_def traced_api_ops
  by (rule jus_bind [where P = "\<lambda>r t'. C_Get K ns n (map_sum id obj r) \<in> set t'"],
      auto intro!: jus_logged jus_ret jus_cases simp: looked_up_def, blast)

text \<open>A workload whose condition says that it is missing is created, and one that differs is updated.\<close>

locale workload_kind = managed_kind lib K obj "\<lambda>x y. DeepDerivative lib (spec_of x) (spec_of y)"
  for lib :: k8s_lib and K :: kind and obj :: "'o \<Rightarrow> kobj" and spec_of :: "'o \<Rightarrow> workload_spec"
begin

lemma placeWorkload_jus:
  assumes "looked_up lib t K n (map_option obj z)" "name_of (obj x) = n"
    and reason: "\<And>c. FindStatusCondition lib (drv_Conditions driver) ct = Some c \<Longrightarrow>
      cond_Reason c = ReasonServiceNotCreated \<longleftrightarrow> z = None"
  shows "jus lib t (placeWorkload lib (traced_api K obj api) driver ct spec_of (case z of None \<Rightarrow> zeroSpec | Some y \<Rightarrow> spec_of y) x)
    (\<lambda>_ _. True)"
proof -
  have "z = None \<Longrightarrow> absent lib t (obj x)"
    using assms(1,2) kind_obj by (auto simp: looked_up_def absent_def)
  moreover have "z = Some y \<Longrightarrow> \<not> DeepDerivative lib (spec_of x) (spec_of y) \<Longrightarrow> outdated lib t (obj x)" for y
    using assms(1,2) kind_obj agrees_matches by (auto simp: looked_up_def outdated_def)
  ultimately show ?thesis
    unfolding placeWorkload_def traced_api_ops using kind_obj not_driver reason
    by (intro jus_cases drop_result_jus jus_logged jus_ret TrueI)
      (auto simp: justified_update simp del: justified.simps(3) split: option.splits)
qed

end

interpretation stateful_sets: workload_kind lib K_StatefulSet O_StatefulSet sts_Spec for lib
  by unfold_locales simp_all

interpretation daemon_sets: workload_kind lib K_DaemonSet O_DaemonSet ds_Spec for lib
  by unfold_locales simp_all

text \<open>
  What the documentation of the libraries promises: a finalizer that is added is there and one that is removed is
  not; a condition that is set is found, with its reason, and the conditions of other types stay; the API server
  answers an update of a driver with the reasons that it was sent.
\<close>

definition finalizer_laws :: "k8s_lib \<Rightarrow> bool" where
  "finalizer_laws lib \<longleftrightarrow> adds_finalizer lib \<and> (\<forall>m f. f \<notin> set (m_Finalizers (RemoveFinalizer lib m f)))"

definition reason_of :: "k8s_lib \<Rightarrow> condition list \<Rightarrow> string \<Rightarrow> string option" where
  "reason_of lib cs t = map_option cond_Reason (FindStatusCondition lib cs t)"

definition condition_laws :: "k8s_lib \<Rightarrow> bool" where
  "condition_laws lib \<longleftrightarrow>
     (\<forall>cs c. reason_of lib (SetStatusCondition lib cs c) (cond_Type c) = Some (cond_Reason c)) \<and>
     (\<forall>cs c t. t \<noteq> cond_Type c \<longrightarrow> reason_of lib (SetStatusCondition lib cs c) t = reason_of lib cs t)"

definition keeps_reasons :: "k8s_lib \<Rightarrow> 'w kube \<Rightarrow> bool" where
  "keeps_reasons lib kube \<longleftrightarrow>
     (\<forall>x w y w'. run_state (driver_status kube x) w = (Inr y, w') \<longrightarrow> reason_of lib (drv_Conditions y) = reason_of lib (drv_Conditions x)) \<and>
     (\<forall>x w y w'. run_state (kUpdate (drivers kube) x) w = (Inr y, w') \<longrightarrow> reason_of lib (drv_Conditions y) = reason_of lib (drv_Conditions x))"

lemma keeps_reasonsD:
  assumes "keeps_reasons lib kube"
  shows "run_state (driver_status kube x) w = (Inr y, w') \<Longrightarrow> reason_of lib (drv_Conditions y) = reason_of lib (drv_Conditions x)"
    and "run_state (kUpdate (drivers kube) x) w = (Inr y, w') \<Longrightarrow> reason_of lib (drv_Conditions y) = reason_of lib (drv_Conditions x)"
  using assms unfolding keeps_reasons_def by blast+

text \<open>The reasons in the status of the driver tell whether the two workloads were found.\<close>

definition reasons_true :: "k8s_lib \<Rightarrow> stateful_set option \<Rightarrow> daemon_set option \<Rightarrow> condition list \<Rightarrow> bool" where
  "reasons_true lib sts ds cs \<longleftrightarrow>
     reason_of lib cs ConditionControllerServiceReady = Some (cond_Reason (controllerCondition sts)) \<and>
     reason_of lib cs ConditionNodeServiceReady = Some (cond_Reason (nodeCondition ds))"

lemma condition_types:
  "cond_Type (controllerCondition sts) = ConditionControllerServiceReady"
  "cond_Type (nodeCondition ds) = ConditionNodeServiceReady"
  "ConditionControllerServiceReady \<noteq> ConditionNodeServiceReady"
  by (auto simp: controllerCondition_def nodeCondition_def ConditionControllerServiceReady_def ConditionNodeServiceReady_def
      split: option.split)

lemma condition_reasons:
  "cond_Reason (controllerCondition sts) = ReasonServiceNotCreated \<longleftrightarrow> sts = None"
  "cond_Reason (nodeCondition ds) = ReasonServiceNotCreated \<longleftrightarrow> ds = None"
  by (auto simp: controllerCondition_def nodeCondition_def ReasonServiceNotCreated_def ReasonPodsNotScheduled_def
      ReasonPodsNotReady_def ReasonPodsReady_def split: option.split)

lemma set_conditions_true:
  "condition_laws lib \<Longrightarrow> reasons_true lib sts ds
     (SetStatusCondition lib (SetStatusCondition lib cs (controllerCondition sts)) (nodeCondition ds))"
  unfolding reasons_true_def condition_laws_def by (metis condition_types)

lemma reasons_trueD:
  assumes "reasons_true lib sts ds cs"
  shows "FindStatusCondition lib cs ConditionControllerServiceReady = Some c \<Longrightarrow> cond_Reason c = ReasonServiceNotCreated \<longleftrightarrow> sts = None"
    and "FindStatusCondition lib cs ConditionNodeServiceReady = Some c \<Longrightarrow> cond_Reason c = ReasonServiceNotCreated \<longleftrightarrow> ds = None"
  using assms condition_reasons(1) [of sts] condition_reasons(2) [of ds] by (auto simp: reasons_true_def reason_of_def)

text \<open>The history has the metadata of a driver.\<close>

definition meta_seen :: "call list \<Rightarrow> object_meta \<Rightarrow> bool" where
  "meta_seen t m \<longleftrightarrow> (\<exists>y. driver_seen t y \<and> drv_Meta y = m)"

lemma updateStatus_jus:
  assumes "condition_laws lib" "keeps_reasons lib kube" and seen: "driver_seen t driver"
  shows "jus lib t (updateStatus (traced_kube kube) lib driver sts ds) (\<lambda>r t'. \<forall>d. r = Inr d \<longrightarrow>
    meta_seen t' (drv_Meta d) \<and> reasons_true lib sts ds (drv_Conditions d))"
proof -
  define cs where "cs = SetStatusCondition lib (SetStatusCondition lib (drv_Conditions driver) (controllerCondition sts)) (nodeCondition ds)"
  have cs: "reasons_true lib sts ds cs" unfolding cs_def using assms(1) by (rule set_conditions_true)
  show ?thesis
    unfolding updateStatus_def Let_def cs_def [symmetric] traced_kube_ops
  proof (intro jus_cases jus_logged jus_ret allI impI)
    fix w r w' d
    assume "run_state (driver_status kube (driver\<lparr>drv_Conditions := cs\<rparr>)) w = (r, w')" "r = Inr d"
    then have "reason_of lib (drv_Conditions d) = reason_of lib cs"
      using keeps_reasonsD(1) [OF assms(2)] by fastforce
    then show "meta_seen (t @ [C_UpdateStatus (O_BeegfsDriver (driver\<lparr>drv_Conditions := cs\<rparr>)) (map_sum id O_BeegfsDriver r)]) (drv_Meta d)
      \<and> reasons_true lib sts ds (drv_Conditions d)"
      using cs \<open>r = Inr d\<close> by (auto simp: reasons_true_def meta_seen_def driver_seen_def)
  qed (use seen cs in \<open>auto simp: meta_seen_def\<close>)
qed

lemma addFinalizerIfMissing_jus:
  assumes "finalizer_laws lib" "keeps_reasons lib kube" "meta_seen t (drv_Meta driver)" "\<not> m_Deleting (drv_Meta driver)"
    and "reasons_true lib sts ds (drv_Conditions driver)"
  shows "jus lib t (addFinalizerIfMissing (traced_kube kube) lib driver) (\<lambda>r _. \<forall>d. r = Inr d \<longrightarrow>
    reasons_true lib sts ds (drv_Conditions d))"
  unfolding addFinalizerIfMissing_def traced_kube_ops traced_api_ops
  using assms
  by (intro jus_cases jus_logged jus_ret)
    (auto simp: meta_seen_def finalizer_laws_def adds_finalizer_def reasons_true_def dest!: keeps_reasonsD(2) [OF assms(2)])

lemma deleteIfPresent_jus:
  assumes "meta_seen t m" "m_Deleting m" "finalizerClusterResourceDeletion \<in> set (m_Finalizers m)"
  shows "jus lib t (deleteIfPresent lib (traced_api K obj api) x) (\<lambda>_ _. True)"
  unfolding deleteIfPresent_def traced_api_ops
  by (rule jus_bind [where P = "\<lambda>_ _. True"])
    (use assms in \<open>auto intro!: jus_logged jus_cases jus_ret simp: meta_seen_def\<close>)

lemma meta_seen_mono: "meta_seen t m \<Longrightarrow> set t \<subseteq> set t' \<Longrightarrow> meta_seen t' m"
  unfolding meta_seen_def using driver_seen_mono by blast

lemma deleteClusterScoped_jus:
  assumes "meta_seen t m" "m_Deleting m" "finalizerClusterResourceDeletion \<in> set (m_Finalizers m)"
  shows "jus lib t (deleteClusterScoped (traced_kube kube) lib rbac) (\<lambda>_ _. True)"
  using assms(1)
proof (induction rbac arbitrary: t)
  case (Cons i rbac)
  show ?case unfolding deleteClusterScoped.simps
  proof (rule jus_checked [where P = "\<lambda>_ _. True"])
    show "jus lib t (case i of
                ClusterRole x \<Rightarrow> deleteIfPresent lib (clusterRoles (traced_kube kube)) x
              | ClusterRoleBinding x \<Rightarrow> deleteIfPresent lib (clusterRoleBindings (traced_kube kube)) x
              | _ \<Rightarrow> ret (Inr ())) (\<lambda>_ _. True)"
      by (cases i) (auto intro!: jus_ret deleteIfPresent_jus [OF Cons.prems assms(2,3)])
  qed (auto intro: Cons.IH meta_seen_mono [OF Cons.prems])
qed (simp add: jus_ret)

lemma runFinalizer_jus:
  assumes "finalizer_laws lib" "meta_seen t (drv_Meta driver)" "m_Deleting (drv_Meta driver)"
  shows "jus lib t (runFinalizer (traced_kube kube) lib rbac d driver) (\<lambda>_ _. True)"
  unfolding runFinalizer_def containsString_iff traced_kube_ops
  apply (rule jus_cases)
   apply (rule jus_checked [OF deleteClusterScoped_jus [OF assms(2,3)]], assumption, simp)
   apply (rule jus_checked [OF deleteIfPresent_jus [OF meta_seen_mono [OF assms(2)] assms(3)]], assumption, assumption, simp)
   apply (rule drop_result_jus)
  subgoal premises prems for x t' y t''
  proof -
    have "meta_seen t'' (drv_Meta driver)" using assms(2) meta_seen_mono prems by blast
    then show ?thesis unfolding traced_api_ops
      using assms(1,3) prems by (intro jus_logged TrueI) (auto simp: meta_seen_def finalizer_laws_def)
  qed
  apply (simp add: jus_ret)
  done

text \<open>An owner reference does not change the name of an object.\<close>

definition reference_laws :: "k8s_lib \<Rightarrow> bool" where
  "reference_laws lib \<longleftrightarrow> (\<forall>d m m'. SetControllerReference lib d m = Inr m' \<longrightarrow> m_Name m' = m_Name m)"

lemma setCommonObjectMetadata_name:
  "reference_laws lib \<Longrightarrow> setCommonObjectMetadata lib req driver m = Inr m' \<Longrightarrow> m_Name m' = m_Name m"
  unfolding reference_laws_def setCommonObjectMetadata_def by fastforce

lemma placeStatefulSet_jus:
  assumes "reference_laws lib" "reasons_true lib z ds (drv_Conditions driver)"
    and "looked_up lib t K_StatefulSet (m_Name (sts_Meta sts)) (map_option O_StatefulSet z)"
  shows "jus lib t (placeStatefulSet (traced_kube kube) lib req driver cm s t1 z sts) (\<lambda>_ _. True)"
  unfolding placeStatefulSet_def traced_kube_ops
  using assms by (intro jus_cases TrueI stateful_sets.placeWorkload_jus) (auto simp: setCommonObjectMetadata_name reasons_trueD)

lemma placeDaemonSet_jus:
  assumes "reference_laws lib" "reasons_true lib sts z (drv_Conditions driver)"
    and "looked_up lib t K_DaemonSet (m_Name (ds_Meta ds)) (map_option O_DaemonSet z)"
  shows "jus lib t (placeDaemonSet (traced_kube kube) lib req driver cm s t1 z ds) (\<lambda>_ _. True)"
  unfolding placeDaemonSet_def traced_kube_ops
  using assms by (intro jus_cases TrueI daemon_sets.placeWorkload_jus) (auto simp: setCommonObjectMetadata_name reasons_trueD)

lemma deploy_jus:
  assumes "reference_laws lib" "reasons_true lib sts ds (drv_Conditions driver)"
    and sts: "looked_up lib t K_StatefulSet (m_Name (sts_Meta (fst (GetControllerServiceStatefulSet lib mf)))) (map_option O_StatefulSet sts)"
    and ds: "looked_up lib t K_DaemonSet (m_Name (ds_Meta (fst (GetNodeServiceDaemonSet lib mf)))) (map_option O_DaemonSet ds)"
  shows "jus lib t (deploy (traced_kube kube) lib mf req driver sts ds) (\<lambda>_ _. True)"
  unfolding deploy_def
  apply (rule jus_checked [OF ensureConfigMap_jus], simp)
  apply (rule jus_checked [OF ensureSecret_jus], simp)
  apply (rule jus_checked [OF ensureSecret_jus], simp)
  apply (rule jus_checked [OF ensureRBACs_jus], simp)
  apply (rule jus_checked [OF ensureCSIDriver_jus], simp)
  apply (rule jus_checked [OF placeStatefulSet_jus [OF assms(1,2) looked_up_mono [OF sts]]], blast, simp)
  apply (rule placeDaemonSet_jus [OF assms(1,2) looked_up_mono [OF ds]], blast)
  done

lemma Reconcile_jus:
  assumes laws: "finalizer_laws lib" "condition_laws lib" "reference_laws lib" "keeps_reasons lib kube"
  shows "jus lib t (Reconcile (traced_kube kube) lib mf req name) (\<lambda>_ _. True)"
  unfolding Reconcile_def traced_kube_ops
proof (rule jus_checked [OF getIfPresent_jus], simp, rule jus_cases, rule jus_ret, simp)
  fix found t0 driver
  assume "\<forall>z. Inr found = Inr z \<longrightarrow> looked_up lib t0 K_BeegfsDriver name (map_option O_BeegfsDriver z)" "found = Some driver"
  then have seen: "driver_seen t0 driver" by (auto simp: looked_up_def driver_seen_def)
  show "jus lib t0
     (checked (getIfPresent lib (traced_api K_StatefulSet O_StatefulSet (statefulSets kube)) req
          (m_Name (sts_Meta (fst (GetControllerServiceStatefulSet lib mf))))) id (\<lambda>sts.
      checked (getIfPresent lib (traced_api K_DaemonSet O_DaemonSet (daemonSets kube)) req
          (m_Name (ds_Meta (fst (GetNodeServiceDaemonSet lib mf))))) id (\<lambda>ds.
      checked (updateStatus (traced_kube kube) lib driver sts ds) id (\<lambda>driver.
        if \<not> m_Deleting (drv_Meta driver)
        then checked (addFinalizerIfMissing (traced_kube kube) lib driver) id (\<lambda>driver. deploy (traced_kube kube) lib mf req driver sts ds)
        else runFinalizer (traced_kube kube) lib (fst (GetRBAC lib mf)) (fst (GetCSIDriver lib mf)) driver)))) (\<lambda>_ _. True)"
    apply (rule jus_checked [OF getIfPresent_jus], simp)
    apply (rule jus_checked [OF getIfPresent_jus], simp)
    apply (rule jus_checked [OF updateStatus_jus [OF laws(2,4) driver_seen_mono [OF seen]]], blast, simp)
    apply (rule jus_cases)
     apply (rule jus_checked [OF addFinalizerIfMissing_jus [OF laws(1,4)]], blast, assumption, blast, simp)
     apply (rule deploy_jus [OF laws(3)], blast, rule looked_up_mono, blast, blast, rule looked_up_mono, blast, blast)
    apply (rule runFinalizer_jus [OF laws(1)], blast, simp)
    done
qed

end
