(* ===== verification/Operator_Steps.thy ===== *)
theory Operator_Steps
  imports Operator_Reconcile
begin

text \<open>
  What a run of the operator's \<open>Reconcile\<close> guarantees: the pod templates that it deploys, the objects that are on
  the cluster after a run without an error, the order in which a deletion proceeds, and that it writes nothing
  without a reason.
\<close>

subsection \<open>Pod templates\<close>

text \<open>One container of the manifest and the one that is deployed.\<close>

definition prepared_container ::
  "(string \<Rightarrow> resource_requirements option) \<Rightarrow> BeegfsDriverSpec \<Rightarrow> container \<Rightarrow> container \<Rightarrow> bool"
where
  "prepared_container override spec c c' \<longleftrightarrow>
     c_Name c' = c_Name c \<and>
     (case map_of (containerNameToImageOverrideMap (spec_ContainerImageOverrides spec)) (c_Name c) of
        None \<Rightarrow> c_Image c' = c_Image c
      | Some v \<Rightarrow> \<forall>name tag. c_Image c = name @ '':'' @ tag \<and> CHR '':'' \<notin> set name \<longrightarrow>
          c_Image c' = (if Image v = [] then name else Image v) @ '':'' @ (if Tag v = [] then tag else Tag v)) \<and>
     c_Env c' = map (\<lambda>e. case spec_LogLevel spec of
          Some l \<Rightarrow> if ev_Name e = ''LOG_LEVEL'' then e\<lparr>ev_Value := Itoa l\<rparr> else e
        | None \<Rightarrow> e) (c_Env c) \<and>
     overridden override (c\<lparr>c_Image := c_Image c', c_Env := c_Env c'\<rparr>) c'"

definition prepared ::
  "(string \<Rightarrow> resource_requirements option) \<Rightarrow> object_meta \<Rightarrow> secret \<Rightarrow> secret \<Rightarrow> BeegfsDriverSpec \<Rightarrow> string \<Rightarrow>
   pod_template \<Rightarrow> pod_template \<Rightarrow> bool"
where
  "prepared override cm s t spec aff T T' \<longleftrightarrow>
     (\<forall>k. entry (pt_Annotations T') k =
        (if k = annotationConfigMapVersion then Some (m_Name cm @ ''/'' @ m_ResourceVersion cm)
         else if k = annotationConnauthSecretVersion then Some (m_Name (sec_Meta s) @ ''/'' @ m_ResourceVersion (sec_Meta s))
         else if k = annotationTLSCertsSecretVersion then Some (m_Name (sec_Meta t) @ ''/'' @ m_ResourceVersion (sec_Meta t))
         else entry (pt_Annotations T) k)) \<and>
     pt_Affinity T' = Some ((case pt_Affinity T of None \<Rightarrow> newAffinity | Some a \<Rightarrow> a)\<lparr>aff_NodeAffinity := Some aff\<rparr>) \<and>
     list_all2 (prepared_container override spec) (pt_Containers T) (pt_Containers T')"

abbreviation set_level :: "int option \<Rightarrow> container \<Rightarrow> container" where
  "set_level level c \<equiv> c\<lparr>c_Env := map (\<lambda>e. case level of
      Some l \<Rightarrow> if ev_Name e = ''LOG_LEVEL'' then e\<lparr>ev_Value := Itoa l\<rparr> else e | None \<Rightarrow> e) (c_Env c)\<rparr>"

lemma setLogLevel_map: "setLogLevel level cs = map (set_level level) cs"
  by (cases level) (simp_all add: setLogLevel_def)

lemma setImage_image:
  assumes "map_of (containerNameToImageOverrideMap ov) (c_Name c) = Some v" "c_Image c = name @ '':'' @ tag" "CHR '':'' \<notin> set name"
  shows "c_Image (setImage ov c) = (if Image v = [] then name else Image v) @ '':'' @ (if Tag v = [] then tag else Tag v)"
  using assms getImageStringWithOverride_parts [OF assms(3), of tag v]
  by (cases "Image v = [] \<and> Tag v = []") (auto simp: setImage_def)

lemma setImage_other:
  "map_of (containerNameToImageOverrideMap ov) (c_Name c) = None \<Longrightarrow> setImage ov c = c"
  "setImage ov c = c\<lparr>c_Image := c_Image (setImage ov c)\<rparr>"
  by (auto simp: setImage_def split: option.split)

lemma setImage_fields [simp]:
  "c_Name (setImage ov c) = c_Name c" "c_Env (setImage ov c) = c_Env c" "c_Resources (setImage ov c) = c_Resources c"
  by (simp_all add: setImage_def split: option.split)

lemma overridden_fields:
  assumes "overridden override c c'"
  shows "c_Name c' = c_Name c" "c_Image c' = c_Image c" "c_Env c' = c_Env c"
proof -
  have "c' = c\<lparr>c_Resources := c_Resources c'\<rparr>" using assms by (simp add: overridden_def)
  then show "c_Name c' = c_Name c" "c_Image c' = c_Image c" "c_Env c' = c_Env c"
    by (metis container.select_convs container.surjective container.update_convs(4))+
qed

lemma prepared_containerI:
  assumes "overridden override (set_level (spec_LogLevel spec) (setImage (spec_ContainerImageOverrides spec) c)) c'"
  shows "prepared_container override spec c c'"
proof -
  note f = overridden_fields [OF assms]
  have "set_level (spec_LogLevel spec) (setImage (spec_ContainerImageOverrides spec) c) = c\<lparr>c_Image := c_Image c', c_Env := c_Env c'\<rparr>"
    using f by (intro container.equality) simp_all
  then have "overridden override (c\<lparr>c_Image := c_Image c', c_Env := c_Env c'\<rparr>) c'" using assms by (simp only:)
  moreover have "c_Image c' = c_Image (setImage (spec_ContainerImageOverrides spec) c)" using f by simp
  ultimately show ?thesis
    using f setImage_other(1) [of "spec_ContainerImageOverrides spec" c]
      setImage_image [of "spec_ContainerImageOverrides spec" c]
    unfolding prepared_container_def by (auto split: option.split)
qed

lemma has_resources_kept:
  "list_all has_resources cs \<Longrightarrow> list_all has_resources (map (set_level level) (map (setImage ov) cs))"
  by (auto simp: list_all_iff has_resources_def)

lemma annotations_spec:
  "entry (pt_Annotations (setResourceVersionAnnotations cm (Some s) (Some t) T)) k =
     (if k = annotationConfigMapVersion then Some (name_and_version cm)
      else if k = annotationConnauthSecretVersion then Some (name_and_version s)
      else if k = annotationTLSCertsSecretVersion then Some (name_and_version t)
      else entry (pt_Annotations T) k)"
  by (simp add: setResourceVersionAnnotations_def update_conv')

lemma prepareTemplate_spec:
  assumes "list_all has_resources (pt_Containers T)"
    and "resources (spec_ContainerResourceOverrides spec) = setResources override"
  shows "\<exists>T'. prepareTemplate cm s t spec aff resources T = Inr T' \<and> prepared override cm s t spec aff T T'"
proof -
  let ?cs = "map (set_level (spec_LogLevel spec)) (map (setImage (spec_ContainerImageOverrides spec)) (pt_Containers T))"
  obtain cs where cs: "setResources override ?cs = Inr cs" "list_all2 (overridden override) ?cs cs"
    using setResources_spec [OF has_resources_kept [OF assms(1)]] by blast
  then have "list_all2 (prepared_container override spec) (pt_Containers T) cs"
    by (auto simp: list_all2_map1 elim!: list_all2_mono intro: prepared_containerI)
  then show ?thesis
    using cs(1) assms(2)
    by (simp add: prepareTemplate_def Let_def setNodeAffinity_def setImages_def setLogLevel_map prepared_def
        annotations_spec name_and_version_def setResourceVersionAnnotations_def update_conv')
qed


subsection \<open>A run without an error\<close>

text \<open>The calls that leave the object \<open>c\<close> on the cluster where \<open>x\<close> is wanted: \<open>x\<close> was absent and is created, the
  one there does not do and is updated, or it does.\<close>

definition ensured :: "k8s_lib \<Rightarrow> string \<Rightarrow> kobj \<Rightarrow> call list \<Rightarrow> kobj \<Rightarrow> bool" where
  "ensured lib ns x u c \<longleftrightarrow>
     (\<exists>e. IsNotFound lib e \<and> u = [C_Get (kind_of x) ns (name_of x) (Inl e), C_Create x (Inr c)]) \<or>
     (\<exists>y. \<not> matches lib x y \<and> u = [C_Get (kind_of x) ns (name_of x) (Inr y), C_Update x (Inr c)]) \<or>
     (matches lib x c \<and> u = [C_Get (kind_of x) ns (name_of x) (Inr c)])"

lemma does_drop_result:
  assumes "does m (\<lambda>r u. \<forall>y. r = Inr y \<longrightarrow> P u)"
  shows "does (drop_result m) (\<lambda>r u. r = Inr () \<longrightarrow> P u)"
  by (rule does_checked [OF assms]) (auto intro: does_ret)

context managed_kind
begin

lemma ensure_does:
  assumes "n = name_of (obj x)" "\<And>y. good y = agrees x y"
  shows "does (ensure lib (traced_api K obj api) ns n good x) (\<lambda>r u. \<forall>y. r = Inr y \<longrightarrow> ensured lib ns (obj x) u (obj y))"
  unfolding ensure_def traced_api_ops
  using assms kind_obj agrees_matches
  by (intro does_bind_logged does_case_sum does_if does_ret does_logged) (auto simp: ensured_def)

lemma drop_ensure_does:
  assumes "n = name_of (obj x)" "\<And>y. good y = agrees x y"
  shows "does (drop_result (ensure lib (traced_api K obj api) ns n good x)) (\<lambda>r u. r = Inr () \<longrightarrow> (\<exists>c. ensured lib ns (obj x) u c))"
  by (rule does_drop_result, rule does_mono [OF ensure_does [OF assms]]) auto

end

text \<open>The namespace and the object that the operator wants for an RBAC object of the manifests.\<close>

fun wantedRBAC :: "k8s_lib \<Rightarrow> string \<Rightarrow> BeegfsDriver \<Rightarrow> rbac_object \<Rightarrow> goerr + (string \<times> kobj)" where
  "wantedRBAC lib req driver (ServiceAccount m) =
     bindE (setCommonObjectMetadata lib req driver m) (\<lambda>m. Inr (req, O_Rbac (ServiceAccount m)))"
| "wantedRBAC lib req driver (ClusterRole x) = Inr ([], O_Rbac (ClusterRole x))"
| "wantedRBAC lib req driver (ClusterRoleBinding x) = Inr ([], O_Rbac (ClusterRoleBinding (setSubjects req x)))"
| "wantedRBAC lib req driver (Role x) =
     bindE (setCommonObjectMetadata lib req driver (role_Meta x)) (\<lambda>m. Inr (req, O_Rbac (Role (x\<lparr>role_Meta := m\<rparr>))))"
| "wantedRBAC lib req driver (RoleBinding x) =
     bindE (setCommonObjectMetadata lib req driver (bind_Meta x)) (\<lambda>m.
       Inr (req, O_Rbac (RoleBinding ((setSubjects req x)\<lparr>bind_Meta := m\<rparr>))))"

definition ensuredRBAC :: "k8s_lib \<Rightarrow> string \<Rightarrow> BeegfsDriver \<Rightarrow> rbac_object \<Rightarrow> call list \<Rightarrow> bool" where
  "ensuredRBAC lib req driver i u \<longleftrightarrow> (\<exists>ns x c. wantedRBAC lib req driver i = Inr (ns, x) \<and> ensured lib ns x u c)"

lemma ensureRBAC_does:
  "does (ensureRBAC (traced_kube kube) lib req driver i) (\<lambda>r u. r = Inr () \<longrightarrow> ensuredRBAC lib req driver i u)"
proof (cases i)
  case (ServiceAccount m)
  then show ?thesis
    by (auto intro!: does_guarded does_mono [OF service_accounts.drop_ensure_does] simp: ensuredRBAC_def)
next
  case (ClusterRole x)
  then show ?thesis
    by (auto intro!: does_mono [OF cluster_roles.drop_ensure_does] simp: ensuredRBAC_def)
next
  case (ClusterRoleBinding x)
  then show ?thesis
    by (auto intro!: does_mono [OF cluster_role_bindings.drop_ensure_does] simp: ensuredRBAC_def setSubjects_def)
next
  case (Role x)
  then show ?thesis
    by (auto intro!: does_guarded does_mono [OF role_objects.drop_ensure_does] simp: ensuredRBAC_def)
next
  case (RoleBinding x)
  then show ?thesis
    by (auto intro!: does_guarded does_mono [OF role_bindings.drop_ensure_does] simp: ensuredRBAC_def sameBinding_def)
qed

lemma ensureRBACs_does:
  "does (ensureRBACs (traced_kube kube) lib req driver rbac) (\<lambda>r u. r = Inr () \<longrightarrow>
     (\<exists>vs. u = concat vs \<and> list_all2 (ensuredRBAC lib req driver) rbac vs))"
proof (induction rbac)
  case (Cons i rbac)
  show ?case unfolding ensureRBACs.simps
    by (rule does_checked [OF ensureRBAC_does])
      (auto intro!: does_mono [OF Cons] simp: list_all2_Cons1 intro: exI [of _ "_ # _"])
qed (auto intro!: does_ret)

text \<open>The call, if any, that puts the workload \<open>x\<close> on the cluster; \<open>good\<close> tells that the one found there does.\<close>

definition placed :: "k8s_lib \<Rightarrow> condition list \<Rightarrow> string \<Rightarrow> kobj \<Rightarrow> bool \<Rightarrow> call list \<Rightarrow> bool" where
  "placed lib cs ct x good u \<longleftrightarrow>
     (\<exists>c. FindStatusCondition lib cs ct = Some c \<and>
        (if cond_Reason c = ReasonServiceNotCreated then \<exists>y. u = [C_Create x (Inr y)]
         else if good then u = []
         else \<exists>y. u = [C_Update x (Inr y)]))"

lemma placeWorkload_does:
  "does (placeWorkload lib (traced_api K obj api) driver ct spec_of spec x) (\<lambda>r u. r = Inr () \<longrightarrow>
     placed lib (drv_Conditions driver) ct (obj x) (DeepDerivative lib (spec_of x) spec) u)"
  unfolding placeWorkload_def traced_api_ops
  by (intro does_case_option does_if does_ret does_checked_logged) (auto simp: placed_def)

definition wantedStatefulSet :: "stateful_set \<Rightarrow> object_meta \<Rightarrow> pod_template \<Rightarrow> stateful_set" where
  "wantedStatefulSet sts m T = sts\<lparr>sts_Meta := m, sts_Spec := (sts_Spec sts)\<lparr>ws_Template := T\<rparr>\<rparr>"

definition wantedDaemonSet :: "daemon_set \<Rightarrow> object_meta \<Rightarrow> pod_template \<Rightarrow> daemon_set" where
  "wantedDaemonSet ds m T = ds\<lparr>ds_Meta := m, ds_Spec := (ds_Spec ds)\<lparr>ws_Template := T\<rparr>\<rparr>"

definition ensuredConfigMap :: "k8s_lib \<Rightarrow> string \<Rightarrow> BeegfsDriver \<Rightarrow> call list \<Rightarrow> config_map \<Rightarrow> bool" where
  "ensuredConfigMap lib req driver u cm \<longleftrightarrow>
     (\<exists>new m. newConfigMap lib driver = Inr new \<and> setCommonObjectMetadata lib req driver (cm_Meta new) = Inr m \<and>
        ensured lib req (O_ConfigMap (new\<lparr>cm_Meta := m\<rparr>)) u (O_ConfigMap cm))"

definition ensuredSecret :: "k8s_lib \<Rightarrow> string \<Rightarrow> BeegfsDriver \<Rightarrow> secret \<Rightarrow> call list \<Rightarrow> secret \<Rightarrow> bool" where
  "ensuredSecret lib req driver new u s \<longleftrightarrow>
     (\<exists>m. setCommonObjectMetadata lib req driver (sec_Meta new) = Inr m \<and>
        ensured lib req (O_Secret (new\<lparr>sec_Meta := m\<rparr>)) u (O_Secret s))"

definition placedStatefulSet ::
  "k8s_lib \<Rightarrow> string \<Rightarrow> BeegfsDriver \<Rightarrow> config_map \<Rightarrow> secret \<Rightarrow> secret \<Rightarrow> stateful_set option \<Rightarrow> stateful_set \<Rightarrow> call list \<Rightarrow> bool"
where
  "placedStatefulSet lib req driver cm s t found sts u \<longleftrightarrow>
     (\<exists>m T. setCommonObjectMetadata lib req driver (sts_Meta sts) = Inr m \<and>
        prepareTemplate (cm_Meta cm) s t (drv_Spec driver) (spec_NodeAffinityControllerService (drv_Spec driver))
          setControllerResources (ws_Template (sts_Spec sts)) = Inr T \<and>
        placed lib (drv_Conditions driver) ConditionControllerServiceReady (O_StatefulSet (wantedStatefulSet sts m T))
          (DeepDerivative lib (sts_Spec (wantedStatefulSet sts m T)) (case found of None \<Rightarrow> zeroSpec | Some x \<Rightarrow> sts_Spec x)) u)"

definition placedDaemonSet ::
  "k8s_lib \<Rightarrow> string \<Rightarrow> BeegfsDriver \<Rightarrow> config_map \<Rightarrow> secret \<Rightarrow> secret \<Rightarrow> daemon_set option \<Rightarrow> daemon_set \<Rightarrow> call list \<Rightarrow> bool"
where
  "placedDaemonSet lib req driver cm s t found ds u \<longleftrightarrow>
     (\<exists>m T. setCommonObjectMetadata lib req driver (ds_Meta ds) = Inr m \<and>
        prepareTemplate (cm_Meta cm) s t (drv_Spec driver) (spec_NodeAffinityNodeService (drv_Spec driver))
          setNodeResources (ws_Template (ds_Spec ds)) = Inr T \<and>
        placed lib (drv_Conditions driver) ConditionNodeServiceReady (O_DaemonSet (wantedDaemonSet ds m T))
          (DeepDerivative lib (ds_Spec (wantedDaemonSet ds m T)) (case found of None \<Rightarrow> zeroSpec | Some x \<Rightarrow> ds_Spec x)) u)"

text \<open>The calls of a deployment: a block for each object, in order. The workloads carry the versions of the config
  map and the secrets that are on the cluster.\<close>

definition deployed ::
  "k8s_lib \<Rightarrow> manifests \<Rightarrow> string \<Rightarrow> BeegfsDriver \<Rightarrow> stateful_set option \<Rightarrow> daemon_set option \<Rightarrow> call list \<Rightarrow> bool"
where
  "deployed lib mf req driver sts ds u \<longleftrightarrow>
     (\<exists>u1 cm u2 s u3 t vs u5 d u6 u7.
        ensuredConfigMap lib req driver u1 cm \<and>
        ensuredSecret lib req driver newSecret u2 s \<and>
        ensuredSecret lib req driver newTLS u3 t \<and>
        list_all2 (ensuredRBAC lib req driver) (fst (GetRBAC lib mf)) vs \<and>
        ensured lib [] (O_CSIDriver (fst (GetCSIDriver lib mf))) u5 d \<and>
        placedStatefulSet lib req driver cm s t sts (fst (GetControllerServiceStatefulSet lib mf)) u6 \<and>
        placedDaemonSet lib req driver cm s t ds (fst (GetNodeServiceDaemonSet lib mf)) u7 \<and>
        u = u1 @ u2 @ u3 @ concat vs @ u5 @ u6 @ u7)"

lemma ensureConfigMap_does:
  "does (ensureConfigMap (traced_kube kube) lib req driver) (\<lambda>r u. \<forall>cm. r = Inr cm \<longrightarrow> ensuredConfigMap lib req driver u cm)"
  unfolding ensureConfigMap_def traced_kube_ops
  by (intro does_guarded does_mono [OF config_maps.ensure_does]) (auto simp: ensuredConfigMap_def)

lemma ensureSecret_does:
  "does (ensureSecret (traced_kube kube) lib req driver new) (\<lambda>r u. \<forall>s. r = Inr s \<longrightarrow> ensuredSecret lib req driver new u s)"
  unfolding ensureSecret_def traced_kube_ops
  by (intro does_guarded does_mono [OF secret_objects.ensure_does]) (auto simp: ensuredSecret_def)

lemma ensureCSIDriver_does:
  "does (ensureCSIDriver (traced_kube kube) lib d) (\<lambda>r u. r = Inr () \<longrightarrow> (\<exists>c. ensured lib [] (O_CSIDriver d) u c))"
  unfolding ensureCSIDriver_def traced_kube_ops by (rule csi_drivers.drop_ensure_does) simp_all

lemma placeStatefulSet_does:
  "does (placeStatefulSet (traced_kube kube) lib req driver cm s t found sts) (\<lambda>r u. r = Inr () \<longrightarrow>
     placedStatefulSet lib req driver cm s t found sts u)"
  unfolding placeStatefulSet_def traced_kube_ops
  by (intro does_guarded does_mono [OF placeWorkload_does]) (auto simp: placedStatefulSet_def wantedStatefulSet_def)

lemma placeDaemonSet_does:
  "does (placeDaemonSet (traced_kube kube) lib req driver cm s t found ds) (\<lambda>r u. r = Inr () \<longrightarrow>
     placedDaemonSet lib req driver cm s t found ds u)"
  unfolding placeDaemonSet_def traced_kube_ops
  by (intro does_guarded does_mono [OF placeWorkload_does]) (auto simp: placedDaemonSet_def wantedDaemonSet_def)

lemma deploy_does:
  "does (deploy (traced_kube kube) lib mf req driver sts ds) (\<lambda>r u. r = Inr () \<longrightarrow> deployed lib mf req driver sts ds u)"
  unfolding deploy_def
  apply (rule does_checked [OF ensureConfigMap_does], simp)
  apply (rule does_checked [OF ensureSecret_does], simp)
  apply (rule does_checked [OF ensureSecret_does], simp)
  apply (rule does_checked [OF ensureRBACs_does], simp)
  apply (rule does_checked [OF ensureCSIDriver_does], simp)
  apply (rule does_checked [OF placeStatefulSet_does], simp)
  apply (rule does_mono [OF placeDaemonSet_does])
  apply (unfold deployed_def)
  apply (clarsimp simp del: split_paired_Ex)
  apply (intro exI conjI, assumption+)
  apply simp
  done

lemma updateStatus_does:
  "does (updateStatus (traced_kube kube) lib driver sts ds) (\<lambda>r u. list_all is_preliminary u \<and>
     (\<forall>d. r = Inr d \<longrightarrow> u = [] \<and> drv_Meta d = drv_Meta driver \<or> (\<exists>x. u = [C_UpdateStatus x (Inr (O_BeegfsDriver d))])))"
  unfolding updateStatus_def traced_kube_ops Let_def
  by (intro does_if does_logged does_ret) auto

lemma addFinalizerIfMissing_does:
  "does (addFinalizerIfMissing (traced_kube kube) lib driver) (\<lambda>r u. \<forall>d. r = Inr d \<longrightarrow>
     (if has_finalizer driver then u = [] \<and> d = driver
      else u = [C_Update (O_BeegfsDriver (driver\<lparr>drv_Meta := AddFinalizer lib (drv_Meta driver) finalizerClusterResourceDeletion\<rparr>))
                  (Inr (O_BeegfsDriver d))]))"
  unfolding addFinalizerIfMissing_def traced_kube_ops traced_api_ops
  by (intro does_if does_logged does_ret) auto

abbreviation cluster_objects :: "k8s_lib \<Rightarrow> manifests \<Rightarrow> kobj list" where
  "cluster_objects lib mf \<equiv> cluster_scoped (fst (GetRBAC lib mf)) @ [O_CSIDriver (fst (GetCSIDriver lib mf))]"

lemma runFinalizer_success:
  "does (runFinalizer (traced_kube kube) lib (fst (GetRBAC lib mf)) (fst (GetCSIDriver lib mf)) driver) (\<lambda>r u. r = Inr () \<longrightarrow>
     (if has_finalizer driver
      then \<exists>ds y. u = ds @ [C_Update (O_BeegfsDriver (driver\<lparr>drv_Meta := RemoveFinalizer lib (drv_Meta driver) finalizerClusterResourceDeletion\<rparr>)) (Inr y)]
        \<and> deletes lib (cluster_objects lib mf) ds
      else u = []))"
  unfolding runFinalizer_def traced_kube_ops traced_api_ops
  apply (rule does_if)
   apply (rule does_checked [OF deleteClusterScoped_does], simp)
   apply (rule does_checked [OF deleteIfPresent_does], simp)
   apply (rule does_checked_logged)
    apply (auto intro!: does_ret deletes_snoc)
  done

text \<open>The calls of a run for a driver that is not being deleted, and of one for a driver that is.\<close>

definition live_run :: "k8s_lib \<Rightarrow> manifests \<Rightarrow> string \<Rightarrow> call list \<Rightarrow> bool" where
  "live_run lib mf req u \<longleftrightarrow>
     (\<exists>p q v driver driver' sts ds.
        u = p @ q @ v \<and> list_all is_preliminary p \<and> meta_seen p (drv_Meta driver) \<and> \<not> m_Deleting (drv_Meta driver) \<and>
        looked_up lib p K_StatefulSet (m_Name (sts_Meta (fst (GetControllerServiceStatefulSet lib mf)))) (map_option O_StatefulSet sts) \<and>
        looked_up lib p K_DaemonSet (m_Name (ds_Meta (fst (GetNodeServiceDaemonSet lib mf)))) (map_option O_DaemonSet ds) \<and>
        (if has_finalizer driver then q = [] \<and> driver' = driver
         else q = [C_Update (O_BeegfsDriver (driver\<lparr>drv_Meta := AddFinalizer lib (drv_Meta driver) finalizerClusterResourceDeletion\<rparr>))
                     (Inr (O_BeegfsDriver driver'))]) \<and>
        deployed lib mf req driver' sts ds v)"

definition deleting_run :: "k8s_lib \<Rightarrow> manifests \<Rightarrow> call list \<Rightarrow> bool" where
  "deleting_run lib mf u \<longleftrightarrow>
     (\<exists>p v driver. u = p @ v \<and> list_all is_preliminary p \<and> meta_seen p (drv_Meta driver) \<and> m_Deleting (drv_Meta driver) \<and>
        (if has_finalizer driver
         then \<exists>ds y. v = ds @ [C_Update (O_BeegfsDriver (driver\<lparr>drv_Meta := RemoveFinalizer lib (drv_Meta driver) finalizerClusterResourceDeletion\<rparr>)) (Inr y)]
           \<and> deletes lib (cluster_objects lib mf) ds
         else v = []))"

text \<open>What the status update and the calls before it tell of the driver.\<close>

lemma preliminary_driver:
  assumes "list_all is_preliminary u"
    and "u = [] \<and> drv_Meta d = drv_Meta driver \<or> (\<exists>x. u = [C_UpdateStatus x (Inr (O_BeegfsDriver d))])"
    and "C_Get K_BeegfsDriver req name (Inr (O_BeegfsDriver driver)) \<in> set p"
  shows "meta_seen (p @ u) (drv_Meta d)"
proof (cases "u = []")
  case True
  then have "driver_seen (p @ u) driver" "drv_Meta driver = drv_Meta d" using assms by (auto simp: driver_seen_def)
  then show ?thesis unfolding meta_seen_def by blast
next
  case False
  then have "driver_seen (p @ u) d" using assms(2) by (auto simp: driver_seen_def)
  then show ?thesis unfolding meta_seen_def by blast
qed

lemma rest_does:
  assumes got: "C_Get K_BeegfsDriver req name (Inr (O_BeegfsDriver driver)) \<in> set p" "list_all is_preliminary p"
    and "looked_up lib p K_StatefulSet (m_Name (sts_Meta (fst (GetControllerServiceStatefulSet lib mf)))) (map_option O_StatefulSet sts)"
    and "looked_up lib p K_DaemonSet (m_Name (ds_Meta (fst (GetNodeServiceDaemonSet lib mf)))) (map_option O_DaemonSet ds)"
  shows "does (checked (updateStatus (traced_kube kube) lib driver sts ds) id (\<lambda>driver.
        if \<not> m_Deleting (drv_Meta driver)
        then checked (addFinalizerIfMissing (traced_kube kube) lib driver) id (\<lambda>driver. deploy (traced_kube kube) lib mf req driver sts ds)
        else runFinalizer (traced_kube kube) lib (fst (GetRBAC lib mf)) (fst (GetCSIDriver lib mf)) driver))
      (\<lambda>r u. r = Inr () \<longrightarrow> live_run lib mf req (p @ u) \<or> deleting_run lib mf (p @ u))"
proof (rule does_checked [OF updateStatus_does], simp)
  fix d u
  assume u: "list_all is_preliminary u \<and>
     (\<forall>d'. Inr d = Inr d' \<longrightarrow> u = [] \<and> drv_Meta d' = drv_Meta driver \<or> (\<exists>x. u = [C_UpdateStatus x (Inr (O_BeegfsDriver d'))]))"
  then have seen: "meta_seen (p @ u) (drv_Meta d)" by (intro preliminary_driver [OF _ _ got(1)]) simp_all
  have pre: "list_all is_preliminary (p @ u)" using u got by simp
  have up: "looked_up lib (p @ u) K_StatefulSet (m_Name (sts_Meta (fst (GetControllerServiceStatefulSet lib mf)))) (map_option O_StatefulSet sts)"
    "looked_up lib (p @ u) K_DaemonSet (m_Name (ds_Meta (fst (GetNodeServiceDaemonSet lib mf)))) (map_option O_DaemonSet ds)"
    using assms(3,4) by (auto elim: looked_up_mono)
  show "does (if \<not> m_Deleting (drv_Meta d)
        then checked (addFinalizerIfMissing (traced_kube kube) lib d) id (\<lambda>driver. deploy (traced_kube kube) lib mf req driver sts ds)
        else runFinalizer (traced_kube kube) lib (fst (GetRBAC lib mf)) (fst (GetCSIDriver lib mf)) d)
      (\<lambda>r v. r = Inr () \<longrightarrow> live_run lib mf req (p @ u @ v) \<or> deleting_run lib mf (p @ u @ v))"
  proof (rule does_if)
    assume "\<not> m_Deleting (drv_Meta d)"
    then have "live_run lib mf req (p @ u @ q @ v)"
      if "if has_finalizer d then q = [] \<and> d' = d
         else q = [C_Update (O_BeegfsDriver (d\<lparr>drv_Meta := AddFinalizer lib (drv_Meta d) finalizerClusterResourceDeletion\<rparr>))
                     (Inr (O_BeegfsDriver d'))]" "deployed lib mf req d' sts ds v" for q v d'
      unfolding live_run_def using that seen pre up
      by (intro exI [of _ "p @ u"] exI [of _ q] exI [of _ v] exI [of _ d] exI [of _ d'] exI [of _ sts] exI [of _ ds])
        (simp only: append_assoc simp_thms)
    then show "does (checked (addFinalizerIfMissing (traced_kube kube) lib d) id (\<lambda>driver. deploy (traced_kube kube) lib mf req driver sts ds))
      (\<lambda>r v. r = Inr () \<longrightarrow> live_run lib mf req (p @ u @ v) \<or> deleting_run lib mf (p @ u @ v))"
      by (intro does_checked [OF addFinalizerIfMissing_does] does_mono [OF deploy_does]) simp_all
  next
    assume "\<not> \<not> m_Deleting (drv_Meta d)"
    then have "deleting_run lib mf (p @ u @ v)"
      if "if has_finalizer d
         then \<exists>ds y. v = ds @ [C_Update (O_BeegfsDriver (d\<lparr>drv_Meta := RemoveFinalizer lib (drv_Meta d) finalizerClusterResourceDeletion\<rparr>)) (Inr y)]
           \<and> deletes lib (cluster_objects lib mf) ds
         else v = []" for v
      unfolding deleting_run_def using that seen pre
      by (intro exI [of _ "p @ u"] exI [of _ v] exI [of _ d]) (simp only: append_assoc simp_thms)
    then show "does (runFinalizer (traced_kube kube) lib (fst (GetRBAC lib mf)) (fst (GetCSIDriver lib mf)) d)
      (\<lambda>r v. r = Inr () \<longrightarrow> live_run lib mf req (p @ u @ v) \<or> deleting_run lib mf (p @ u @ v))"
      by (intro does_mono [OF runFinalizer_success] impI disjI2) blast
  qed
qed

lemma getIfPresent_looked_up:
  "does (getIfPresent lib (traced_api K obj api) ns n) (\<lambda>r u. list_all is_preliminary u \<and>
     (\<forall>z. r = Inr z \<longrightarrow> looked_up lib u K n (map_option obj z)))"
  by (rule does_mono [OF getIfPresent_does]) (fastforce simp: looked_up_def)

lemma Reconcile_does:
  "does (Reconcile (traced_kube kube) lib mf req name) (\<lambda>r u. r = Inr () \<longrightarrow>
     (\<exists>e. IsNotFound lib e \<and> u = [C_Get K_BeegfsDriver req name (Inl e)]) \<or> live_run lib mf req u \<or> deleting_run lib mf u)"
  unfolding Reconcile_def traced_kube_ops
proof (rule does_checked [OF getIfPresent_does], simp, erule disjE)
  fix found u
  assume "\<exists>e. IsNotFound lib e \<and> u = [C_Get K_BeegfsDriver req name (Inl e)] \<and> Inr found = Inr None"
  then show "does (case found of None \<Rightarrow> ret (Inr ()) | Some driver \<Rightarrow> k driver) (\<lambda>r v. r = Inr () \<longrightarrow>
     (\<exists>e. IsNotFound lib e \<and> u @ v = [C_Get K_BeegfsDriver req name (Inl e)]) \<or> live_run lib mf req (u @ v) \<or> deleting_run lib mf (u @ v))"
    for k by (auto intro: does_ret)
next
  fix found u
  assume "(\<exists>e. \<not> IsNotFound lib e \<and> u = [C_Get K_BeegfsDriver req name (Inl e)] \<and> Inr found = Inl e) \<or>
    (\<exists>x. u = [C_Get K_BeegfsDriver req name (Inr (O_BeegfsDriver x))] \<and> Inr found = Inr (Some x))"
  then obtain driver where d: "u = [C_Get K_BeegfsDriver req name (Inr (O_BeegfsDriver driver))]" "found = Some driver" by auto
  let ?sts = "m_Name (sts_Meta (fst (GetControllerServiceStatefulSet lib mf)))"
  let ?ds = "m_Name (ds_Meta (fst (GetNodeServiceDaemonSet lib mf)))"
  show "does (case found of None \<Rightarrow> ret (Inr ()) | Some driver \<Rightarrow>
      checked (getIfPresent lib (traced_api K_StatefulSet O_StatefulSet (statefulSets kube)) req ?sts) id (\<lambda>sts.
      checked (getIfPresent lib (traced_api K_DaemonSet O_DaemonSet (daemonSets kube)) req ?ds) id (\<lambda>ds.
      checked (updateStatus (traced_kube kube) lib driver sts ds) id (\<lambda>driver.
        if \<not> m_Deleting (drv_Meta driver)
        then checked (addFinalizerIfMissing (traced_kube kube) lib driver) id (\<lambda>driver. deploy (traced_kube kube) lib mf req driver sts ds)
        else runFinalizer (traced_kube kube) lib (fst (GetRBAC lib mf)) (fst (GetCSIDriver lib mf)) driver))))
      (\<lambda>r v. r = Inr () \<longrightarrow> (\<exists>e. IsNotFound lib e \<and> u @ v = [C_Get K_BeegfsDriver req name (Inl e)]) \<or>
        live_run lib mf req (u @ v) \<or> deleting_run lib mf (u @ v))"
    unfolding d(2) option.case
    apply (rule does_checked [OF getIfPresent_looked_up], simp)
    apply (rule does_checked [OF getIfPresent_looked_up], simp)
    subgoal for sts a ds b
      apply (rule does_mono [OF rest_does [where p = "u @ a @ b" and req = req and name = name]])
          apply (simp_all add: d(1))
       apply (auto elim: looked_up_mono)
      done
    done
qed

subsection \<open>Runs of the operator\<close>


text \<open>C6. The finalizer is taken off a resource only in the last call of a run, directly after the deletion of every
  cluster-scoped object of the manifests has succeeded or found the object absent, whatever the API server answers;
  and a run that deletes something creates nothing. So no cluster-scoped object is left behind when the resource is
  gone.\<close>

theorem finalizer_removed_last:
  assumes "adds_finalizer lib"
    and "run_state (Reconcile (traced_kube kube) lib mf req name) (w, []) = (r, w', u)"
  shows "(\<forall>x y. C_Update (O_BeegfsDriver x) y \<in> set u \<and> finalizerClusterResourceDeletion \<notin> set (m_Finalizers (drv_Meta x)) \<longrightarrow>
           (\<exists>p ds. u = p @ ds @ [C_Update (O_BeegfsDriver x) y] \<and>
              deletes lib (cluster_scoped (fst (GetRBAC lib mf)) @ [O_CSIDriver (fst (GetCSIDriver lib mf))]) ds)) \<and>
         (\<forall>x y x' y'. C_Delete x y \<in> set u \<longrightarrow> C_Create x' y' \<notin> set u)"
proof -
  obtain p v where u: "u = p @ v" "list_all is_preliminary p" "list_all is_deploying v \<or> finalizing lib mf v"
    using doesD [OF Reconcile_shape [OF assms(1)] assms(2)] by auto
  then have p: "C_Update x y \<notin> set p" "C_Delete x z \<notin> set p" "C_Create x y \<notin> set p" for x y z
    by (auto simp: list_all_iff)
  from u(3) consider "list_all is_deploying v" | "list_all is_delete v"
    | ds x y where "v = ds @ [C_Update (O_BeegfsDriver x) y]" "list_all is_delete ds"
        "deletes lib (cluster_scoped (fst (GetRBAC lib mf)) @ [O_CSIDriver (fst (GetCSIDriver lib mf))]) ds"
    unfolding finalizing_def using deletes_is_delete by blast
  then show ?thesis
  proof cases
    case 3
    then have "C_Update z z' \<notin> set ds" "C_Create z z' \<notin> set ds" for z z' by (auto simp: list_all_iff)
    then show ?thesis using 3 p u(1) by auto
  qed (use p u(1) in \<open>fastforce simp: list_all_iff\<close>)+
qed


subsection \<open>A sample cluster\<close>

fun set_condition :: "condition list \<Rightarrow> condition \<Rightarrow> condition list" where
  "set_condition [] c = [c]"
| "set_condition (d # ds) c = (if cond_Type d = cond_Type c then c # ds else d # set_condition ds c)"

definition sample_template :: pod_template where
  "sample_template = \<lparr> pt_Annotations = None,
     pt_Containers = [\<lparr> c_Name = ''beegfs'', c_Image = ''ghcr.io/thinkparq/beegfs-csi-driver:v1.8.0'',
       c_Env = [\<lparr> ev_Name = ''LOG_LEVEL'', ev_Value = ''3'' \<rparr>],
       c_Resources = \<lparr> Limits = Some [(''memory'', ''256Mi'')], Requests = Some [(''cpu'', ''100m''), (''memory'', ''16Mi'')] \<rparr> \<rparr>],
     pt_Affinity = None \<rparr>"

definition sample_k8s :: k8s_lib where
  "sample_k8s = \<lparr> IsNotFound = (\<lambda>e. e = ErrorsNew ''not found''),
     SetStatusCondition = set_condition, FindStatusCondition = (\<lambda>cs t. find (\<lambda>c. cond_Type c = t) cs),
     conditionsEqual = (=), dataEqual = (=), rulesEqual = (=), subjectsEqual = (=), roleRefEqual = (=), DeepDerivative = (=),
     AddFinalizer = (\<lambda>m f. m\<lparr>m_Finalizers := m_Finalizers m @ [f]\<rparr>),
     RemoveFinalizer = (\<lambda>m f. m\<lparr>m_Finalizers := filter (\<lambda>g. g \<noteq> f) (m_Finalizers m)\<rparr>),
     SetControllerReference = (\<lambda>d m. Inr (m\<lparr>m_Controller := Some (m_Name (drv_Meta d))\<rparr>)),
     yaml_Marshal = (\<lambda>_. Inr ''config: {}''),
     unmarshalServiceAccount = (\<lambda>_. (new_meta ''sa'', None)),
     unmarshalRole = (\<lambda>_. (\<lparr> role_Meta = new_meta ''role'', role_Rules = [''get nodes''] \<rparr>, None)),
     unmarshalBinding = (\<lambda>_. (\<lparr> bind_Meta = new_meta ''binding'', bind_Subjects = [], bind_RoleRef = ''role'' \<rparr>, None)),
     unmarshalStatefulSet = (\<lambda>_. (\<lparr> sts_Meta = new_meta ''controller'',
       sts_Spec = \<lparr> ws_Template = sample_template, ws_Rest = [] \<rparr>, sts_Replicas = 0, sts_ReadyReplicas = 0 \<rparr>, None)),
     unmarshalDaemonSet = (\<lambda>_. (\<lparr> ds_Meta = new_meta ''node'',
       ds_Spec = \<lparr> ws_Template = sample_template, ws_Rest = [] \<rparr>, ds_DesiredNumberScheduled = 0, ds_NumberReady = 0 \<rparr>, None)),
     unmarshalCSIDriver = (\<lambda>_. (new_meta ''beegfs.csi.netapp.com'', None)) \<rparr>"

definition sample_manifests :: manifests where
  "sample_manifests = \<lparr> csBytes = [], driverBytes = [], dsBytes = [], rbacBytes = ''kind: ClusterRole---kind: ServiceAccount'' \<rparr>"

definition no_image :: ContainerImageOverride where
  "no_image = \<lparr> Image = [], Tag = [] \<rparr>"

definition no_resources :: resource_requirements where
  "no_resources = \<lparr> Limits = None, Requests = None \<rparr>"

definition sample_spec :: BeegfsDriverSpec where
  "sample_spec = \<lparr>
     spec_ContainerImageOverrides = \<lparr> BeegfsCsiDriver = \<lparr> Image = [], Tag = ''v1.9.0'' \<rparr>, CsiNodeDriverRegistrar = no_image,
       CsiProvisioner = no_image, CsiResizer = no_image, LivenessProbe = no_image \<rparr>,
     spec_ContainerResourceOverrides = \<lparr>
       ControllerBeegfsResources = no_resources\<lparr>Limits := Some [(''cpu'', ''1'')]\<rparr>,
       ControllerCsiProvisionerResources = no_resources, NodeBeegfsResources = no_resources,
       NodeDriverRegistrarResources = no_resources, NodeLivenessProbeResources = no_resources \<rparr>,
     spec_LogLevel = Some 5, spec_NodeAffinityControllerService = ''master'', spec_NodeAffinityNodeService = ''any'',
     spec_PluginConfigFromFile = \<lparr> DefaultConfig = zeroBeegfsConfig, FileSystemSpecificConfigs = [], NodeSpecificConfigs = [] \<rparr> \<rparr>"

text \<open>The resource, being deleted or not, on a cluster that has nothing else and grants everything.\<close>

definition sample_driver :: "bool \<Rightarrow> BeegfsDriver" where
  "sample_driver deleting = \<lparr>
     drv_Meta = (new_meta ''driver'')\<lparr>m_Deleting := deleting, m_Finalizers := if deleting then [finalizerClusterResourceDeletion] else []\<rparr>,
     drv_Spec = sample_spec, drv_Conditions = [] \<rparr>"

definition sample_api :: "'o option \<Rightarrow> (unit, 'o) kind_api" where
  "sample_api z = \<lparr> kGet = (\<lambda>_ _. ret (case z of None \<Rightarrow> Inl (ErrorsNew ''not found'') | Some x \<Rightarrow> Inr x)),
     kCreate = (\<lambda>x. ret (Inr x)), kUpdate = (\<lambda>x. ret (Inr x)), kDelete = (\<lambda>_. ret (Inr ())) \<rparr>"

definition sample_kube :: "bool \<Rightarrow> unit kube" where
  "sample_kube deleting = \<lparr> drivers = sample_api (Some (sample_driver deleting)), driver_status = (\<lambda>x. ret (Inr x)),
     configMaps = sample_api None, secrets = sample_api None, serviceAccounts = sample_api None,
     clusterRoles = sample_api None, clusterRoleBindings = sample_api None, roles = sample_api None,
     roleBindings = sample_api None, csiDrivers = sample_api None, statefulSets = sample_api None, daemonSets = sample_api None \<rparr>"

lemma sample_laws: "finalizer_laws sample_k8s" "condition_laws sample_k8s" "reference_laws sample_k8s"
  "keeps_reasons sample_k8s (sample_kube deleting)"
proof -
  have "find (\<lambda>d. cond_Type d = cond_Type c) (set_condition cs c) = Some c" for cs c
    by (induction cs) auto
  moreover have "t \<noteq> cond_Type c \<Longrightarrow> find (\<lambda>d. cond_Type d = t) (set_condition cs c) = find (\<lambda>d. cond_Type d = t) cs" for cs c t
    by (induction cs) auto
  ultimately show "condition_laws sample_k8s" by (simp add: condition_laws_def reason_of_def sample_k8s_def)
  show "finalizer_laws sample_k8s" "reference_laws sample_k8s" "keeps_reasons sample_k8s (sample_kube deleting)"
    by (auto simp: finalizer_laws_def adds_finalizer_def reference_laws_def keeps_reasons_def sample_k8s_def sample_kube_def sample_api_def)
qed

lemma sample_rbac:
  "fst (GetRBAC sample_k8s sample_manifests) =
     [ClusterRole \<lparr> role_Meta = new_meta ''role'', role_Rules = [''get nodes''] \<rparr>, ServiceAccount (new_meta ''sa'')]"
  by (simp add: GetRBAC_def sample_manifests_def sample_k8s_def Split.simps [of "CHR ''k'' # _"] readRBAC_def decoded_def HasPrefix_def)

lemma sample_sets:
  "fst (GetControllerServiceStatefulSet sample_k8s sample_manifests) = \<lparr> sts_Meta = new_meta ''controller'',
     sts_Spec = \<lparr> ws_Template = sample_template, ws_Rest = [] \<rparr>, sts_Replicas = 0, sts_ReadyReplicas = 0 \<rparr>"
  "fst (GetNodeServiceDaemonSet sample_k8s sample_manifests) = \<lparr> ds_Meta = new_meta ''node'',
     ds_Spec = \<lparr> ws_Template = sample_template, ws_Rest = [] \<rparr>, ds_DesiredNumberScheduled = 0, ds_NumberReady = 0 \<rparr>"
  "fst (GetCSIDriver sample_k8s sample_manifests) = new_meta ''beegfs.csi.netapp.com''"
  by (simp_all add: GetControllerServiceStatefulSet_def GetNodeServiceDaemonSet_def GetCSIDriver_def sample_k8s_def)

lemma sample_api_ops [simp]:
  "kGet (sample_api z) ns n = ret (case z of None \<Rightarrow> Inl (ErrorsNew ''not found'') | Some x \<Rightarrow> Inr x)"
  "kCreate (sample_api z) x = ret (Inr x)" "kUpdate (sample_api z) x = ret (Inr x)" "kDelete (sample_api z) x = ret (Inr ())"
  by (simp_all add: sample_api_def)

lemma sample_kube_ops [simp]:
  "drivers (sample_kube b) = sample_api (Some (sample_driver b))" "driver_status (sample_kube b) x = ret (Inr x)"
  "configMaps (sample_kube b) = sample_api None" "secrets (sample_kube b) = sample_api None"
  "serviceAccounts (sample_kube b) = sample_api None" "clusterRoles (sample_kube b) = sample_api None"
  "clusterRoleBindings (sample_kube b) = sample_api None" "roles (sample_kube b) = sample_api None"
  "roleBindings (sample_kube b) = sample_api None" "csiDrivers (sample_kube b) = sample_api None"
  "statefulSets (sample_kube b) = sample_api None" "daemonSets (sample_kube b) = sample_api None"
  by (simp_all add: sample_kube_def)

lemma sample_k8s_ops [simp]:
  "IsNotFound sample_k8s e = (e = ErrorsNew ''not found'')" "SetStatusCondition sample_k8s = set_condition"
  "FindStatusCondition sample_k8s cs t = find (\<lambda>c. cond_Type c = t) cs" "conditionsEqual sample_k8s = (=)"
  "RemoveFinalizer sample_k8s m f = m\<lparr>m_Finalizers := filter (\<lambda>g. g \<noteq> f) (m_Finalizers m)\<rparr>"
  "AddFinalizer sample_k8s m f = m\<lparr>m_Finalizers := m_Finalizers m @ [f]\<rparr>"
  "SetControllerReference sample_k8s d m = Inr (m\<lparr>m_Controller := Some (m_Name (drv_Meta d))\<rparr>)"
  "yaml_Marshal sample_k8s p = Inr ''config: {}''"
  by (simp_all add: sample_k8s_def)

text \<open>The calls of a run for the resource that is being deleted.\<close>

lemma sample_deletion:
  "\<exists>x y u. run_state (Reconcile (traced_kube (sample_kube True)) sample_k8s sample_manifests ''ns'' ''driver'') ((), []) = (Inr (), (), u) \<and>
     C_Update (O_BeegfsDriver x) y \<in> set u \<and> \<not> has_finalizer x"
  by (simp add: Reconcile_def getIfPresent_def updateStatus_def runFinalizer_def deleteIfPresent_def go_run sample_rbac sample_sets
      sample_driver_def new_meta_def Let_def)

lemma sample_deployment:
  "\<exists>u. run_state (Reconcile (traced_kube (sample_kube False)) sample_k8s sample_manifests ''ns'' ''driver'') ((), []) = (Inr (), (), u)
     \<and> u \<noteq> []"
  by (simp add: Reconcile_def getIfPresent_def updateStatus_def addFinalizerIfMissing_def deploy_def ensureConfigMap_def newConfigMap_def
      ensureSecret_def ensureCSIDriver_def placeStatefulSet_def placeDaemonSet_def placeWorkload_def ensure_def setCommonObjectMetadata_def
      prepareTemplate_def setResourceVersionAnnotations_def setNodeAffinity_def setImages_def setLogLevel_def setImage_def
      containerNameToImageOverrideMap_def container_names setControllerResources_def setNodeResources_def controllerResourceOverride_def
      nodeResourceOverride_def overrideResources_def overrideList_def overrideEntry_def sample_template_def sample_spec_def no_resources_def
      no_image_def condition_types controllerCondition_def nodeCondition_def
      ConditionControllerServiceReady_def ConditionNodeServiceReady_def newSecret_def newTLS_def
      go_run sample_rbac sample_sets sample_driver_def new_meta_def Let_def)



theorem finalizer_removed_last_witness:
  "\<exists>x y u p ds. run_state (Reconcile (traced_kube (sample_kube True)) sample_k8s sample_manifests ''ns'' ''driver'') ((), []) = (Inr (), (), u) \<and>
     u = p @ ds @ [C_Update (O_BeegfsDriver x) y] \<and>
     deletes sample_k8s (cluster_scoped (fst (GetRBAC sample_k8s sample_manifests)) @ [O_CSIDriver (fst (GetCSIDriver sample_k8s sample_manifests))]) ds"
proof -
  obtain x y u where u: "run_state (Reconcile (traced_kube (sample_kube True)) sample_k8s sample_manifests ''ns'' ''driver'') ((), []) = (Inr (), (), u)"
    "C_Update (O_BeegfsDriver x) y \<in> set u" "\<not> has_finalizer x"
    using sample_deletion by (elim exE conjE)
  have "adds_finalizer sample_k8s" using sample_laws(1) by (simp add: finalizer_laws_def)
  from finalizer_removed_last [OF this u(1), THEN conjunct1, rule_format, OF conjI [OF u(2,3)]]
  show ?thesis by (elim exE) (intro exI conjI, rule u(1), (erule conjunct1 conjunct2)+)
qed


end
