(* ===== verification/Operator_Main.thy ===== *)
theory Operator_Main
  imports Operator_Reconcile
begin

text \<open>
  operator/main.go, and \<open>SetupWithManager\<close> of operator/controllers/beegfsdriver_controller.go: the options with which the
  process of the operator starts, the kinds whose changes call \<open>Reconcile\<close>, and the status with which the process
  exits. The manager of controller-runtime is a parameter.
\<close>

subsection \<open>Options\<close>

record operator_flags =
  metricsAddr :: string
  probeAddr :: string
  enableLeaderElection :: bool
  enableHTTP2 :: bool

definition default_operator_flags :: operator_flags where
  "default_operator_flags = \<lparr> metricsAddr = '':8080'', probeAddr = '':8081'', enableLeaderElection = False, enableHTTP2 = False \<rparr>"

record tls_config =
  NextProtos :: "string list"

text \<open>The parts of \<open>ctrl.Options\<close> that are set, without the scheme and the filter of the metrics server, which are fixed objects
  of the libraries. \<open>opt_DefaultNamespaces\<close> are the keys of the map, which is nil when all
  namespaces are watched.\<close>

record manager_options =
  opt_DefaultNamespaces :: "string list option"
  opt_MetricsBindAddress :: string
  opt_SecureServing :: bool
  opt_TLSOpts :: "(tls_config \<Rightarrow> tls_config) list"
  opt_WebhookPort :: int
  opt_HealthProbeBindAddress :: string
  opt_LeaderElection :: bool
  opt_LeaderElectionID :: string

definition defaultNamespaces :: "string \<Rightarrow> string list option" where
  "defaultNamespaces driverNamespace = (if driverNamespace \<noteq> [] then Some [driverNamespace] else None)"

definition tlsOpts :: "bool \<Rightarrow> (tls_config \<Rightarrow> tls_config) list" where
  "tlsOpts http2 = (if \<not> http2 then [] @ [\<lambda>c. c\<lparr>NextProtos := [''http/1.1'']\<rparr>] else [])"

definition managerOptions :: "operator_flags \<Rightarrow> string \<Rightarrow> manager_options" where
  "managerOptions flags driverNamespace =
     \<lparr> opt_DefaultNamespaces = defaultNamespaces driverNamespace, opt_MetricsBindAddress = metricsAddr flags,
       opt_SecureServing = True, opt_TLSOpts = tlsOpts (enableHTTP2 flags), opt_WebhookPort = 9443,
       opt_HealthProbeBindAddress = probeAddr flags, opt_LeaderElection = enableLeaderElection flags,
       opt_LeaderElectionID = ''0d697945.csi.netapp.com'' \<rparr>"

subsection \<open>The manager\<close>

text \<open>\<open>NewManager\<close> includes \<open>GetConfigOrDie\<close>, the argument of the call, which exits with status 1 as well when it fails.
  \<open>mgr_Complete\<close> ends the builder of a controller: the kind that it is for, and the kinds that it owns.\<close>

record 'w manager_lib =
  NewManager :: "manager_options \<Rightarrow> ('w, goerr + unit) state"
  mgr_Complete :: "kind \<Rightarrow> kind list \<Rightarrow> ('w, goerr + unit) state"
  AddHealthzCheck :: "string \<Rightarrow> ('w, goerr + unit) state"
  AddReadyzCheck :: "string \<Rightarrow> ('w, goerr + unit) state"
  mgr_Start :: "('w, goerr + unit) state"

definition SetupWithManager :: "'w manager_lib \<Rightarrow> ('w, goerr + unit) state" where
  "SetupWithManager lib = mgr_Complete lib K_BeegfsDriver [K_StatefulSet, K_DaemonSet, K_ConfigMap, K_Secret]"

text \<open>The message that is logged before the exit with status 1; \<^const>\<open>None\<close> is the return of \<open>main\<close>, with status 0.\<close>

definition orExit :: "('w, goerr + unit) state \<Rightarrow> string \<Rightarrow> ('w, (goerr \<times> string) option) state \<Rightarrow> ('w, (goerr \<times> string) option) state" where
  "orExit m msg k = State_Monad.bind m (\<lambda>r. case r of Inl err \<Rightarrow> ret (Some (err, msg)) | Inr _ \<Rightarrow> k)"

definition operator_main :: "'w manager_lib \<Rightarrow> operator_flags \<Rightarrow> string \<Rightarrow> ('w, (goerr \<times> string) option) state" where
  "operator_main lib flags driverNamespace =
     orExit (NewManager lib (managerOptions flags driverNamespace)) ''unable to start manager'' (
     orExit (SetupWithManager lib) ''unable to create controller'' (
     orExit (AddHealthzCheck lib ''healthz'') ''unable to set up health check'' (
     orExit (AddReadyzCheck lib ''readyz'') ''unable to set up ready check'' (
     orExit (mgr_Start lib) ''problem running manager'' (ret None)))))"

text \<open>The metrics server speaks HTTP/2 only if the flag is set, whatever the configuration held before.\<close>

lemma http2_off_by_default: "NextProtos (fold (\<lambda>f. f) (opt_TLSOpts (managerOptions default_operator_flags ns)) c) = [''http/1.1'']"
  by (simp add: managerOptions_def tlsOpts_def default_operator_flags_def)

lemma http2_untouched: "enableHTTP2 flags \<Longrightarrow> fold (\<lambda>f. f) (opt_TLSOpts (managerOptions flags ns)) c = c"
  by (simp add: managerOptions_def tlsOpts_def)

subsection \<open>The run of the process\<close>

text \<open>The calls on the manager, with whether they succeeded.\<close>

datatype manager_call =
    M_New manager_options bool
  | M_Complete kind "kind list" bool
  | M_Healthz string bool
  | M_Readyz string bool
  | M_Start bool

definition traced_manager :: "'w manager_lib \<Rightarrow> ('w \<times> manager_call list) manager_lib" where
  "traced_manager lib =
     \<lparr> NewManager = (\<lambda>opts. logged (NewManager lib opts) (\<lambda>r. M_New opts (\<not> isl r))),
       mgr_Complete = (\<lambda>k owned. logged (mgr_Complete lib k owned) (\<lambda>r. M_Complete k owned (\<not> isl r))),
       AddHealthzCheck = (\<lambda>n. logged (AddHealthzCheck lib n) (\<lambda>r. M_Healthz n (\<not> isl r))),
       AddReadyzCheck = (\<lambda>n. logged (AddReadyzCheck lib n) (\<lambda>r. M_Readyz n (\<not> isl r))),
       mgr_Start = logged (mgr_Start lib) (\<lambda>r. M_Start (\<not> isl r)) \<rparr>"

definition start_calls :: "operator_flags \<Rightarrow> string \<Rightarrow> (bool \<Rightarrow> manager_call) list" where
  "start_calls flags driverNamespace = [M_New (managerOptions flags driverNamespace),
     M_Complete K_BeegfsDriver [K_StatefulSet, K_DaemonSet, K_ConfigMap, K_Secret], M_Healthz ''healthz'', M_Readyz ''readyz'', M_Start]"

text \<open>\<open>u\<close> are the first calls of \<open>ps\<close>, all of which succeed except perhaps the last; \<open>e\<close> tells whether it failed.\<close>

fun runs_until_failure :: "(bool \<Rightarrow> 'c) list \<Rightarrow> 'e option \<Rightarrow> 'c list \<Rightarrow> bool" where
  "runs_until_failure [] e u \<longleftrightarrow> e = None \<and> u = []"
| "runs_until_failure (p # ps) e u \<longleftrightarrow>
     (e \<noteq> None \<and> u = [p False]) \<or> (\<exists>v. u = p True # v \<and> runs_until_failure ps e v)"

lemma orExit_does:
  assumes "does k (\<lambda>e u. runs_until_failure ps e u)"
  shows "does (orExit (logged m (\<lambda>r. p (\<not> isl r))) msg k) (\<lambda>e u. runs_until_failure (p # ps) e u)"
  unfolding orExit_def
  by (rule does_bind_logged) (auto split: sum.split intro!: does_ret does_mono [OF assms])

text \<open>The steps of the start are made in order. The process stops at the first that fails, with status 1; it ends with status
  0 only after a manager that was set up completely has run and ended without an error.\<close>

lemma operator_main_steps:
  "does (operator_main (traced_manager lib) flags ns) (\<lambda>e u. runs_until_failure (start_calls flags ns) e u)"
  unfolding operator_main_def SetupWithManager_def traced_manager_def manager_lib.simps start_calls_def
  by (intro orExit_does does_ret) simp

end
