(* ===== verification/Deep_Copy.thy ===== *)
theory Deep_Copy
  imports Operator_Cluster
begin

text \<open>
  operator/api/v1/zz_generated.deepcopy.go. The other theories take a struct for its value; here its slices, maps and
  pointers are addresses in a memory, so that two structs can share an array. The theorems say that a deep copy has the
  value of the original and shares no memory with it, which is what allows the other theories to copy values. The
  \<open>DeepCopyInto\<close> methods of the types of the Kubernetes libraries are parameters that obey the same contract.
\<close>

subsection \<open>Memory\<close>

type_synonym addr = nat

text \<open>A slice is a part of an array; a nil slice, map or pointer is \<^const>\<open>None\<close>.\<close>

datatype go_slice = Slice (sl_array: addr) (sl_offset: nat) (sl_len: nat)

text \<open>The structs as they lie in memory. A struct of a library is a value of the type \<open>'l\<close>.\<close>

record BeegfsConfig_mem =
  bc_GrpcPort :: string
  bc_ConnInterfaces :: "go_slice option"
  bc_ConnNetFilter :: "go_slice option"
  bc_ConnTcpOnlyFilter :: "go_slice option"
  bc_BeegfsClientConf :: "addr option"
  bc_ConnAuth :: string
  bc_TLSCert :: string
  bc_ConnRDMAInterfaces :: "go_slice option"

record FileSystemSpecificConfig_mem =
  fc_SysMgmtdHost :: string
  fc_Config :: BeegfsConfig_mem

record NodeSpecificConfig_mem =
  nc_NodeList :: "go_slice option"
  nc_DefaultConfig :: BeegfsConfig_mem
  nc_FileSystemSpecificConfigs :: "go_slice option"

record PluginConfig_mem =
  pc_DefaultConfig :: BeegfsConfig_mem
  pc_FileSystemSpecificConfigs :: "go_slice option"

record PluginConfigFromFile_mem =
  pf_PluginConfig :: PluginConfig_mem
  pf_NodeSpecificConfigs :: "go_slice option"

record 'l ContainerResourceOverrides_mem =
  cr_ControllerBeegfsResources :: 'l
  cr_ControllerCsiProvisionerResources :: 'l
  cr_NodeBeegfsResources :: 'l
  cr_NodeDriverRegistrarResources :: 'l
  cr_NodeLivenessProbeResources :: 'l

record 'l BeegfsDriverSpec_mem =
  sp_ContainerImageOverrides :: ContainerImageOverrides
  sp_ContainerResourceOverrides :: "'l ContainerResourceOverrides_mem"
  sp_LogLevel :: "addr option"
  sp_NodeAffinityControllerService :: 'l
  sp_NodeAffinityNodeService :: 'l
  sp_PluginConfigFromFile :: PluginConfigFromFile_mem

record BeegfsDriverStatus_mem =
  st_Conditions :: "go_slice option"

record 'l BeegfsDriver_mem =
  bd_TypeMeta :: "string \<times> string"
  bd_ObjectMeta :: 'l
  bd_Spec :: "'l BeegfsDriverSpec_mem"
  bd_Status :: BeegfsDriverStatus_mem

record 'l BeegfsDriverList_mem =
  bl_TypeMeta :: "string \<times> string"
  bl_ListMeta :: 'l
  bl_Items :: "go_slice option"

text \<open>What lies at an address: an array, a map, an integer variable, or something that a library allocated.\<close>

datatype 'l cell =
    Strings "string list"
  | StringMap gomap
  | IntVar int
  | Conditions "'l list"
  | FileSystems "FileSystemSpecificConfig_mem list"
  | Nodes "NodeSpecificConfig_mem list"
  | Drivers "'l BeegfsDriver_mem list"
  | LibraryCell 'l

text \<open>The addresses below \<open>m_next\<close> are in use.\<close>

record 'l memory =
  m_next :: addr
  m_cell :: "addr \<Rightarrow> 'l cell"

definition alloc :: "'l cell \<Rightarrow> ('l memory, addr) state" where
  "alloc c = State (\<lambda>m. (m_next m, m\<lparr>m_next := m_next m + 1, m_cell := (m_cell m)(m_next m := c)\<rparr>))"

definition load :: "addr \<Rightarrow> ('l memory, 'l cell) state" where
  "load a = State (\<lambda>m. (m_cell m a, m))"

definition store :: "addr \<Rightarrow> 'l cell \<Rightarrow> ('l memory, unit) state" where
  "store a c = State (\<lambda>m. ((), m\<lparr>m_cell := (m_cell m)(a := c)\<rparr>))"

lemma run_memory [simp]:
  "run_state (alloc c) m = (m_next m, m\<lparr>m_next := m_next m + 1, m_cell := (m_cell m)(m_next m := c)\<rparr>)"
  "run_state (load a) m = (m_cell m a, m)"
  "run_state (store a c) m = ((), m\<lparr>m_cell := (m_cell m)(a := c)\<rparr>)"
  by (simp_all add: alloc_def load_def store_def)

text \<open>The array, map or integer of a cell. Go's types see to it that a cell holds what its reader expects.\<close>

fun strings_in :: "'l cell \<Rightarrow> string list" where
  "strings_in (Strings xs) = xs"
| "strings_in _ = []"

fun map_in :: "'l cell \<Rightarrow> gomap" where
  "map_in (StringMap xs) = xs"
| "map_in _ = []"

fun int_in :: "'l cell \<Rightarrow> int" where
  "int_in (IntVar i) = i"
| "int_in _ = 0"

fun conditions_in :: "'l cell \<Rightarrow> 'l list" where
  "conditions_in (Conditions xs) = xs"
| "conditions_in _ = []"

fun file_systems_in :: "'l cell \<Rightarrow> FileSystemSpecificConfig_mem list" where
  "file_systems_in (FileSystems xs) = xs"
| "file_systems_in _ = []"

fun nodes_in :: "'l cell \<Rightarrow> NodeSpecificConfig_mem list" where
  "nodes_in (Nodes xs) = xs"
| "nodes_in _ = []"

fun drivers_in :: "'l cell \<Rightarrow> 'l BeegfsDriver_mem list" where
  "drivers_in (Drivers xs) = xs"
| "drivers_in _ = []"

subsection \<open>Slices, maps and pointers\<close>

text \<open>\<open>make([]string, len(*in))\<close> and \<open>copy(*out, *in)\<close>, the built-in function, which stops at the shorter one.\<close>

definition copyStrings :: "go_slice option \<Rightarrow> ('l memory, go_slice option) state" where
  "copyStrings z =
     (case z of
        None \<Rightarrow> ret None
      | Some s \<Rightarrow>
          State_Monad.bind (alloc (Strings (replicate (sl_len s) ''''))) (\<lambda>b.
          State_Monad.bind (load (sl_array s)) (\<lambda>arr.
          State_Monad.bind (load b) (\<lambda>out.
          let src = take (sl_len s) (drop (sl_offset s) (strings_in arr)); dst = strings_in out
          in State_Monad.bind (store b (Strings (take (length dst) src @ drop (length src) dst))) (\<lambda>_.
             ret (Some (Slice b 0 (sl_len s))))))))"

text \<open>\<open>make(map[string]string)\<close>, filled by a \<open>range\<close> loop\<close>

fun copyEntries :: "addr \<Rightarrow> gomap \<Rightarrow> ('l memory, unit) state" where
  "copyEntries b [] = ret ()"
| "copyEntries b ((key, val) # es) =
     State_Monad.bind (load b) (\<lambda>out.
     State_Monad.bind (store b (StringMap (AList.update key val (map_in out)))) (\<lambda>_.
     copyEntries b es))"

definition copyMap :: "addr option \<Rightarrow> ('l memory, addr option) state" where
  "copyMap z =
     (case z of
        None \<Rightarrow> ret None
      | Some a \<Rightarrow>
          State_Monad.bind (alloc (StringMap [])) (\<lambda>b.
          State_Monad.bind (load a) (\<lambda>c.
          State_Monad.bind (copyEntries b (map_in c)) (\<lambda>_.
          ret (Some b)))))"

text \<open>\<open>*out = new(int)\<close> and \<open>**out = **in\<close>\<close>

definition copyInt :: "addr option \<Rightarrow> ('l memory, addr option) state" where
  "copyInt z =
     (case z of
        None \<Rightarrow> ret None
      | Some a \<Rightarrow>
          State_Monad.bind (alloc (IntVar 0)) (\<lambda>b.
          State_Monad.bind (load a) (\<lambda>c.
          State_Monad.bind (store b (IntVar (int_in c))) (\<lambda>_.
          ret (Some b)))))"

text \<open>\<open>make([]T, len(*in))\<close> and the loop that calls \<open>DeepCopyInto\<close> of \<open>T\<close> for every index. \<open>mk\<close> and \<open>un\<close> make the
  cell of an array of \<open>T\<close> and read it; \<open>k\<close> elements are left from the index \<open>i\<close> on.\<close>

fun copyElements ::
  "('a list \<Rightarrow> 'l cell) \<Rightarrow> ('l cell \<Rightarrow> 'a list) \<Rightarrow> ('a \<Rightarrow> ('l memory, 'a) state) \<Rightarrow> go_slice \<Rightarrow> addr \<Rightarrow> nat \<Rightarrow> nat
    \<Rightarrow> ('l memory, unit) state"
where
  "copyElements mk un copyInto s b i 0 = ret ()"
| "copyElements mk un copyInto s b i (Suc k) =
     State_Monad.bind (load (sl_array s)) (\<lambda>arr.
     State_Monad.bind (copyInto (un arr ! (sl_offset s + i))) (\<lambda>x.
     State_Monad.bind (load b) (\<lambda>out.
     State_Monad.bind (store b (mk ((un out)[i := x]))) (\<lambda>_.
     copyElements mk un copyInto s b (Suc i) k))))"

definition copySlice ::
  "('a list \<Rightarrow> 'l cell) \<Rightarrow> ('l cell \<Rightarrow> 'a list) \<Rightarrow> 'a \<Rightarrow> ('a \<Rightarrow> ('l memory, 'a) state) \<Rightarrow> go_slice option
    \<Rightarrow> ('l memory, go_slice option) state"
where
  "copySlice mk un zero copyInto z =
     (case z of
        None \<Rightarrow> ret None
      | Some s \<Rightarrow>
          State_Monad.bind (alloc (mk (replicate (sl_len s) zero))) (\<lambda>b.
          State_Monad.bind (copyElements mk un copyInto s b 0 (sl_len s)) (\<lambda>_.
          ret (Some (Slice b 0 (sl_len s))))))"

subsection \<open>The structs\<close>

text \<open>A value of \<open>*T\<close> is nil or a struct; \<open>new(T)\<close> makes a struct of its own for the result. \<open>DeepCopyInto\<close>
  gives the struct that \<open>out\<close> points to afterwards: all fields are those of \<open>in\<close>, except for those that are copied.\<close>

definition newCopy :: "('a \<Rightarrow> ('m, 'a) state) \<Rightarrow> 'a option \<Rightarrow> ('m, 'a option) state" where
  "newCopy copyInto z =
     (case z of None \<Rightarrow> ret None | Some x \<Rightarrow> State_Monad.bind (copyInto x) (\<lambda>out. ret (Some out)))"

definition BeegfsConfig_DeepCopyInto :: "BeegfsConfig_mem \<Rightarrow> ('l memory, BeegfsConfig_mem) state" where
  "BeegfsConfig_DeepCopyInto x =
     State_Monad.bind (copyStrings (bc_ConnInterfaces x)) (\<lambda>ifs.
     State_Monad.bind (copyStrings (bc_ConnNetFilter x)) (\<lambda>net.
     State_Monad.bind (copyStrings (bc_ConnTcpOnlyFilter x)) (\<lambda>tcp.
     State_Monad.bind (copyMap (bc_BeegfsClientConf x)) (\<lambda>conf.
     State_Monad.bind (copyStrings (bc_ConnRDMAInterfaces x)) (\<lambda>rdma.
     ret (x\<lparr>bc_ConnInterfaces := ifs, bc_ConnNetFilter := net, bc_ConnTcpOnlyFilter := tcp, bc_BeegfsClientConf := conf,
       bc_ConnRDMAInterfaces := rdma\<rparr>))))))"

definition BeegfsConfig_DeepCopy :: "BeegfsConfig_mem option \<Rightarrow> ('l memory, BeegfsConfig_mem option) state" where
  "BeegfsConfig_DeepCopy = newCopy BeegfsConfig_DeepCopyInto"

definition FileSystemSpecificConfig_DeepCopyInto ::
  "FileSystemSpecificConfig_mem \<Rightarrow> ('l memory, FileSystemSpecificConfig_mem) state"
where
  "FileSystemSpecificConfig_DeepCopyInto x =
     State_Monad.bind (BeegfsConfig_DeepCopyInto (fc_Config x)) (\<lambda>config. ret (x\<lparr>fc_Config := config\<rparr>))"

definition FileSystemSpecificConfig_DeepCopy ::
  "FileSystemSpecificConfig_mem option \<Rightarrow> ('l memory, FileSystemSpecificConfig_mem option) state"
where
  "FileSystemSpecificConfig_DeepCopy = newCopy FileSystemSpecificConfig_DeepCopyInto"

text \<open>The zero values with which a new array is filled.\<close>

definition zeroConfig_mem :: BeegfsConfig_mem where
  "zeroConfig_mem = \<lparr> bc_GrpcPort = [], bc_ConnInterfaces = None, bc_ConnNetFilter = None, bc_ConnTcpOnlyFilter = None,
     bc_BeegfsClientConf = None, bc_ConnAuth = [], bc_TLSCert = [], bc_ConnRDMAInterfaces = None \<rparr>"

definition zeroFileSystem_mem :: FileSystemSpecificConfig_mem where
  "zeroFileSystem_mem = \<lparr> fc_SysMgmtdHost = [], fc_Config = zeroConfig_mem \<rparr>"

definition zeroNode_mem :: NodeSpecificConfig_mem where
  "zeroNode_mem = \<lparr> nc_NodeList = None, nc_DefaultConfig = zeroConfig_mem, nc_FileSystemSpecificConfigs = None \<rparr>"

abbreviation copyFileSystems :: "go_slice option \<Rightarrow> ('l memory, go_slice option) state" where
  "copyFileSystems \<equiv> copySlice FileSystems file_systems_in zeroFileSystem_mem FileSystemSpecificConfig_DeepCopyInto"

definition NodeSpecificConfig_DeepCopyInto :: "NodeSpecificConfig_mem \<Rightarrow> ('l memory, NodeSpecificConfig_mem) state" where
  "NodeSpecificConfig_DeepCopyInto x =
     State_Monad.bind (copyStrings (nc_NodeList x)) (\<lambda>nodes.
     State_Monad.bind (BeegfsConfig_DeepCopyInto (nc_DefaultConfig x)) (\<lambda>config.
     State_Monad.bind (copyFileSystems (nc_FileSystemSpecificConfigs x)) (\<lambda>fss.
     ret (x\<lparr>nc_NodeList := nodes, nc_DefaultConfig := config, nc_FileSystemSpecificConfigs := fss\<rparr>))))"

definition NodeSpecificConfig_DeepCopy ::
  "NodeSpecificConfig_mem option \<Rightarrow> ('l memory, NodeSpecificConfig_mem option) state"
where
  "NodeSpecificConfig_DeepCopy = newCopy NodeSpecificConfig_DeepCopyInto"

definition PluginConfig_DeepCopyInto :: "PluginConfig_mem \<Rightarrow> ('l memory, PluginConfig_mem) state" where
  "PluginConfig_DeepCopyInto x =
     State_Monad.bind (BeegfsConfig_DeepCopyInto (pc_DefaultConfig x)) (\<lambda>config.
     State_Monad.bind (copyFileSystems (pc_FileSystemSpecificConfigs x)) (\<lambda>fss.
     ret (x\<lparr>pc_DefaultConfig := config, pc_FileSystemSpecificConfigs := fss\<rparr>)))"

definition PluginConfig_DeepCopy :: "PluginConfig_mem option \<Rightarrow> ('l memory, PluginConfig_mem option) state" where
  "PluginConfig_DeepCopy = newCopy PluginConfig_DeepCopyInto"

definition PluginConfigFromFile_DeepCopyInto ::
  "PluginConfigFromFile_mem \<Rightarrow> ('l memory, PluginConfigFromFile_mem) state"
where
  "PluginConfigFromFile_DeepCopyInto x =
     State_Monad.bind (PluginConfig_DeepCopyInto (pf_PluginConfig x)) (\<lambda>config.
     State_Monad.bind (copySlice Nodes nodes_in zeroNode_mem NodeSpecificConfig_DeepCopyInto (pf_NodeSpecificConfigs x)) (\<lambda>nodes.
     ret (x\<lparr>pf_PluginConfig := config, pf_NodeSpecificConfigs := nodes\<rparr>)))"

definition PluginConfigFromFile_DeepCopy ::
  "PluginConfigFromFile_mem option \<Rightarrow> ('l memory, PluginConfigFromFile_mem option) state"
where
  "PluginConfigFromFile_DeepCopy = newCopy PluginConfigFromFile_DeepCopyInto"

text \<open>Structs of strings are copied by the assignment alone.\<close>

definition ConnAuthConfig_DeepCopyInto :: "ConnAuthConfig \<Rightarrow> ('l memory, ConnAuthConfig) state" where
  "ConnAuthConfig_DeepCopyInto x = ret x"

definition ConnAuthConfig_DeepCopy :: "ConnAuthConfig option \<Rightarrow> ('l memory, ConnAuthConfig option) state" where
  "ConnAuthConfig_DeepCopy = newCopy ConnAuthConfig_DeepCopyInto"

definition TLSCertConfig_DeepCopyInto :: "TLSCertConfig \<Rightarrow> ('l memory, TLSCertConfig) state" where
  "TLSCertConfig_DeepCopyInto x = ret x"

definition TLSCertConfig_DeepCopy :: "TLSCertConfig option \<Rightarrow> ('l memory, TLSCertConfig option) state" where
  "TLSCertConfig_DeepCopy = newCopy TLSCertConfig_DeepCopyInto"

definition ContainerImageOverride_DeepCopyInto :: "ContainerImageOverride \<Rightarrow> ('l memory, ContainerImageOverride) state" where
  "ContainerImageOverride_DeepCopyInto x = ret x"

definition ContainerImageOverride_DeepCopy ::
  "ContainerImageOverride option \<Rightarrow> ('l memory, ContainerImageOverride option) state"
where
  "ContainerImageOverride_DeepCopy = newCopy ContainerImageOverride_DeepCopyInto"

definition ContainerImageOverrides_DeepCopyInto :: "ContainerImageOverrides \<Rightarrow> ('l memory, ContainerImageOverrides) state" where
  "ContainerImageOverrides_DeepCopyInto x =
     ret (x\<lparr>BeegfsCsiDriver := BeegfsCsiDriver x, CsiNodeDriverRegistrar := CsiNodeDriverRegistrar x,
       CsiProvisioner := CsiProvisioner x, CsiResizer := CsiResizer x, LivenessProbe := LivenessProbe x\<rparr>)"

definition ContainerImageOverrides_DeepCopy ::
  "ContainerImageOverrides option \<Rightarrow> ('l memory, ContainerImageOverrides option) state"
where
  "ContainerImageOverrides_DeepCopy = newCopy ContainerImageOverrides_DeepCopyInto"

subsection \<open>The structs with parts from libraries\<close>

text \<open>
  A type of a library: its zero value, its method \<open>DeepCopyInto\<close>, the value that a struct of this type stands for, the
  addresses that it leads to, and whether they are in order.
\<close>

record ('l, 'v) library_type =
  zeroValue :: 'l
  copyInto :: "'l \<Rightarrow> ('l memory, 'l) state"
  valueAt :: "'l memory \<Rightarrow> 'l \<Rightarrow> 'v"
  reachAt :: "'l memory \<Rightarrow> 'l \<Rightarrow> addr set"
  soundAt :: "'l memory \<Rightarrow> 'l \<Rightarrow> bool"

record 'l library_types =
  Condition :: "('l, condition) library_type"
  ObjectMeta :: "('l, object_meta) library_type"
  ListMeta :: "('l, string) library_type"
  ResourceRequirements :: "('l, resource_requirements) library_type"
  NodeAffinity :: "('l, string) library_type"

definition ContainerResourceOverrides_DeepCopyInto ::
  "'l library_types \<Rightarrow> 'l ContainerResourceOverrides_mem \<Rightarrow> ('l memory, 'l ContainerResourceOverrides_mem) state"
where
  "ContainerResourceOverrides_DeepCopyInto lib x =
     State_Monad.bind (copyInto (ResourceRequirements lib) (cr_ControllerBeegfsResources x)) (\<lambda>cb.
     State_Monad.bind (copyInto (ResourceRequirements lib) (cr_ControllerCsiProvisionerResources x)) (\<lambda>cp.
     State_Monad.bind (copyInto (ResourceRequirements lib) (cr_NodeBeegfsResources x)) (\<lambda>nb.
     State_Monad.bind (copyInto (ResourceRequirements lib) (cr_NodeDriverRegistrarResources x)) (\<lambda>nr.
     State_Monad.bind (copyInto (ResourceRequirements lib) (cr_NodeLivenessProbeResources x)) (\<lambda>np.
     ret (x\<lparr>cr_ControllerBeegfsResources := cb, cr_ControllerCsiProvisionerResources := cp, cr_NodeBeegfsResources := nb,
       cr_NodeDriverRegistrarResources := nr, cr_NodeLivenessProbeResources := np\<rparr>))))))"

definition ContainerResourceOverrides_DeepCopy ::
  "'l library_types \<Rightarrow> 'l ContainerResourceOverrides_mem option \<Rightarrow> ('l memory, 'l ContainerResourceOverrides_mem option) state"
where
  "ContainerResourceOverrides_DeepCopy lib = newCopy (ContainerResourceOverrides_DeepCopyInto lib)"

definition BeegfsDriverSpec_DeepCopyInto ::
  "'l library_types \<Rightarrow> 'l BeegfsDriverSpec_mem \<Rightarrow> ('l memory, 'l BeegfsDriverSpec_mem) state"
where
  "BeegfsDriverSpec_DeepCopyInto lib x =
     State_Monad.bind (ContainerResourceOverrides_DeepCopyInto lib (sp_ContainerResourceOverrides x)) (\<lambda>res.
     State_Monad.bind (copyInt (sp_LogLevel x)) (\<lambda>level.
     State_Monad.bind (copyInto (NodeAffinity lib) (sp_NodeAffinityControllerService x)) (\<lambda>controller.
     State_Monad.bind (copyInto (NodeAffinity lib) (sp_NodeAffinityNodeService x)) (\<lambda>node.
     State_Monad.bind (PluginConfigFromFile_DeepCopyInto (sp_PluginConfigFromFile x)) (\<lambda>config.
     ret (x\<lparr>sp_ContainerImageOverrides := sp_ContainerImageOverrides x, sp_ContainerResourceOverrides := res,
       sp_LogLevel := level, sp_NodeAffinityControllerService := controller, sp_NodeAffinityNodeService := node,
       sp_PluginConfigFromFile := config\<rparr>))))))"

definition BeegfsDriverSpec_DeepCopy ::
  "'l library_types \<Rightarrow> 'l BeegfsDriverSpec_mem option \<Rightarrow> ('l memory, 'l BeegfsDriverSpec_mem option) state"
where
  "BeegfsDriverSpec_DeepCopy lib = newCopy (BeegfsDriverSpec_DeepCopyInto lib)"

definition BeegfsDriverStatus_DeepCopyInto ::
  "'l library_types \<Rightarrow> BeegfsDriverStatus_mem \<Rightarrow> ('l memory, BeegfsDriverStatus_mem) state"
where
  "BeegfsDriverStatus_DeepCopyInto lib x =
     State_Monad.bind (copySlice Conditions conditions_in (zeroValue (Condition lib)) (copyInto (Condition lib)) (st_Conditions x)) (\<lambda>cs.
     ret (x\<lparr>st_Conditions := cs\<rparr>))"

definition BeegfsDriverStatus_DeepCopy ::
  "'l library_types \<Rightarrow> BeegfsDriverStatus_mem option \<Rightarrow> ('l memory, BeegfsDriverStatus_mem option) state"
where
  "BeegfsDriverStatus_DeepCopy lib = newCopy (BeegfsDriverStatus_DeepCopyInto lib)"

definition BeegfsDriver_DeepCopyInto ::
  "'l library_types \<Rightarrow> 'l BeegfsDriver_mem \<Rightarrow> ('l memory, 'l BeegfsDriver_mem) state"
where
  "BeegfsDriver_DeepCopyInto lib x =
     State_Monad.bind (copyInto (ObjectMeta lib) (bd_ObjectMeta x)) (\<lambda>meta.
     State_Monad.bind (BeegfsDriverSpec_DeepCopyInto lib (bd_Spec x)) (\<lambda>spec.
     State_Monad.bind (BeegfsDriverStatus_DeepCopyInto lib (bd_Status x)) (\<lambda>status.
     ret (x\<lparr>bd_TypeMeta := bd_TypeMeta x, bd_ObjectMeta := meta, bd_Spec := spec, bd_Status := status\<rparr>))))"

definition BeegfsDriver_DeepCopy ::
  "'l library_types \<Rightarrow> 'l BeegfsDriver_mem option \<Rightarrow> ('l memory, 'l BeegfsDriver_mem option) state"
where
  "BeegfsDriver_DeepCopy lib = newCopy (BeegfsDriver_DeepCopyInto lib)"

text \<open>\<open>DeepCopyObject\<close> returns a nil interface, not an interface that holds a nil pointer; both are \<^const>\<open>None\<close>.\<close>

definition BeegfsDriver_DeepCopyObject ::
  "'l library_types \<Rightarrow> 'l BeegfsDriver_mem option \<Rightarrow> ('l memory, 'l BeegfsDriver_mem option) state"
where
  "BeegfsDriver_DeepCopyObject lib z =
     State_Monad.bind (BeegfsDriver_DeepCopy lib z) (\<lambda>r. case r of Some c \<Rightarrow> ret (Some c) | None \<Rightarrow> ret None)"

definition zeroDriver_mem :: "'l library_types \<Rightarrow> 'l BeegfsDriver_mem" where
  "zeroDriver_mem lib =
     (let res = zeroValue (ResourceRequirements lib); image = \<lparr> Image = [], Tag = [] \<rparr>
      in \<lparr> bd_TypeMeta = ([], []), bd_ObjectMeta = zeroValue (ObjectMeta lib),
           bd_Spec = \<lparr> sp_ContainerImageOverrides = \<lparr> BeegfsCsiDriver = image, CsiNodeDriverRegistrar = image,
               CsiProvisioner = image, CsiResizer = image, LivenessProbe = image \<rparr>,
             sp_ContainerResourceOverrides = \<lparr> cr_ControllerBeegfsResources = res,
               cr_ControllerCsiProvisionerResources = res, cr_NodeBeegfsResources = res,
               cr_NodeDriverRegistrarResources = res, cr_NodeLivenessProbeResources = res \<rparr>,
             sp_LogLevel = None, sp_NodeAffinityControllerService = zeroValue (NodeAffinity lib),
             sp_NodeAffinityNodeService = zeroValue (NodeAffinity lib),
             sp_PluginConfigFromFile = \<lparr> pf_PluginConfig = \<lparr> pc_DefaultConfig = zeroConfig_mem,
               pc_FileSystemSpecificConfigs = None \<rparr>, pf_NodeSpecificConfigs = None \<rparr> \<rparr>,
           bd_Status = \<lparr> st_Conditions = None \<rparr> \<rparr>)"

definition BeegfsDriverList_DeepCopyInto ::
  "'l library_types \<Rightarrow> 'l BeegfsDriverList_mem \<Rightarrow> ('l memory, 'l BeegfsDriverList_mem) state"
where
  "BeegfsDriverList_DeepCopyInto lib x =
     State_Monad.bind (copyInto (ListMeta lib) (bl_ListMeta x)) (\<lambda>meta.
     State_Monad.bind (copySlice Drivers drivers_in (zeroDriver_mem lib) (BeegfsDriver_DeepCopyInto lib) (bl_Items x)) (\<lambda>items.
     ret (x\<lparr>bl_TypeMeta := bl_TypeMeta x, bl_ListMeta := meta, bl_Items := items\<rparr>)))"

definition BeegfsDriverList_DeepCopy ::
  "'l library_types \<Rightarrow> 'l BeegfsDriverList_mem option \<Rightarrow> ('l memory, 'l BeegfsDriverList_mem option) state"
where
  "BeegfsDriverList_DeepCopy lib = newCopy (BeegfsDriverList_DeepCopyInto lib)"

definition BeegfsDriverList_DeepCopyObject ::
  "'l library_types \<Rightarrow> 'l BeegfsDriverList_mem option \<Rightarrow> ('l memory, 'l BeegfsDriverList_mem option) state"
where
  "BeegfsDriverList_DeepCopyObject lib z =
     State_Monad.bind (BeegfsDriverList_DeepCopy lib z) (\<lambda>r. case r of Some c \<Rightarrow> ret (Some c) | None \<Rightarrow> ret None)"

subsection \<open>The contract of a copy\<close>

text \<open>Memory in use is neither freed nor changed.\<close>

definition grows :: "'l memory \<Rightarrow> 'l memory \<Rightarrow> bool" where
  "grows m m' \<longleftrightarrow> m_next m \<le> m_next m' \<and> (\<forall>a<m_next m. m_cell m' a = m_cell m a)"

lemma grows_refl [simp]: "grows m m"
  by (simp add: grows_def)

lemma grows_trans [trans]: "grows m m' \<Longrightarrow> grows m' m'' \<Longrightarrow> grows m m''"
  unfolding grows_def by auto

text \<open>Only memory of \<open>A\<close>, and memory that was not in use, is written.\<close>

definition writes_only :: "addr set \<Rightarrow> 'l memory \<Rightarrow> 'l memory \<Rightarrow> bool" where
  "writes_only A m m' \<longleftrightarrow> m_next m \<le> m_next m' \<and> (\<forall>a<m_next m. a \<notin> A \<longrightarrow> m_cell m' a = m_cell m a)"

text \<open>\<open>x'\<close> in the memory \<open>m'\<close> is a copy of \<open>x\<close> in the memory \<open>m\<close>: it has the same value, and all that it leads to is new.\<close>

definition copied ::
  "('l memory \<Rightarrow> 'a \<Rightarrow> 'v) \<Rightarrow> ('l memory \<Rightarrow> 'a \<Rightarrow> addr set) \<Rightarrow> ('l memory \<Rightarrow> 'a \<Rightarrow> bool) \<Rightarrow> 'l memory \<Rightarrow> 'a \<Rightarrow> 'a \<Rightarrow> 'l memory \<Rightarrow> bool"
where
  "copied V R W m x x' m' \<longleftrightarrow>
     grows m m' \<and> W m' x' \<and> V m' x' = V m x \<and> R m' x' \<subseteq> {m_next m..<m_next m'}"

text \<open>A method \<open>c\<close> that copies structs, which stand for the values \<open>V\<close> and lead to the addresses \<open>R\<close>; \<open>W\<close> are the structs
  in order.\<close>

locale copyable =
  fixes c :: "'a \<Rightarrow> ('l memory, 'a) state" and V :: "'l memory \<Rightarrow> 'a \<Rightarrow> 'v"
    and R :: "'l memory \<Rightarrow> 'a \<Rightarrow> addr set" and W :: "'l memory \<Rightarrow> 'a \<Rightarrow> bool"
  assumes in_use: "W m x \<Longrightarrow> a \<in> R m x \<Longrightarrow> a < m_next m"
    and frame: "W m x \<Longrightarrow> (\<And>a. a \<in> R m x \<Longrightarrow> m_cell m' a = m_cell m a) \<Longrightarrow> m_next m \<le> m_next m' \<Longrightarrow>
      W m' x \<and> V m' x = V m x \<and> R m' x = R m x"
    and copies: "W m x \<Longrightarrow> run_state (c x) m = (x', m') \<Longrightarrow> copied V R W m x x' m'"
begin

lemma grow: "W m x \<Longrightarrow> grows m m' \<Longrightarrow> W m' x \<and> V m' x = V m x \<and> R m' x = R m x"
  by (rule frame) (auto simp: grows_def dest: in_use)

text \<open>The copy may be made later, and the memory may grow afterwards.\<close>

lemma copied_later:
  assumes "W m x" "grows m m1" "run_state (c x) m1 = (x', m2)" "grows m2 m3"
  shows "copied V R W m x x' m3"
proof -
  have x: "W m1 x" "V m1 x = V m x" using grow [OF assms(1,2)] by simp_all
  have c: "copied V R W m1 x x' m2" using copies [OF x(1) assms(3)] .
  then have "W m3 x' \<and> V m3 x' = V m2 x' \<and> R m3 x' = R m2 x'"
    using grow [of m2 x' m3] assms(4) by (simp add: copied_def)
  then show ?thesis
    using c x(2) assms(2,4) grows_trans [OF assms(2)] grows_trans [of m1 m2 m3]
    by (auto simp: copied_def grows_def)
qed

text \<open>What is written through the original does not change the copy, and what is written through the copy does not change
  the original.\<close>

lemma newCopy_independent:
  assumes "W m x"
  shows "\<exists>x' m'. run_state (newCopy c (Some x)) m = (Some x', m') \<and> grows m m' \<and> V m' x' = V m x \<and>
    (\<forall>m''. writes_only {..<m_next m} m' m'' \<longrightarrow> V m'' x' = V m x) \<and>
    (\<forall>m''. writes_only {m_next m..} m' m'' \<longrightarrow> V m'' x = V m x)"
proof -
  obtain x' m' where run: "run_state (c x) m = (x', m')" by fastforce
  have c: "grows m m'" "W m' x'" "V m' x' = V m x" "R m' x' \<subseteq> {m_next m..<m_next m'}"
    using copies [OF assms run] by (simp_all add: copied_def)
  have "V m'' x' = V m x" if "writes_only {..<m_next m} m' m''" for m''
    using frame [OF c(2), of m''] that c(3,4) by (force simp: writes_only_def)
  moreover have "V m'' x = V m x" if "writes_only {m_next m..} m' m''" for m''
    using grow [OF assms, of m''] that c(1) by (auto simp: writes_only_def grows_def)
  ultimately show ?thesis using run c by (auto simp: newCopy_def)
qed

end

text \<open>Structs are copied field by field.\<close>

lemma copyable_pair:
  assumes 1: "copyable c1 V1 R1 W1" and 2: "copyable c2 V2 R2 W2"
  shows "copyable (\<lambda>(x, y). State_Monad.bind (c1 x) (\<lambda>x'. State_Monad.bind (c2 y) (\<lambda>y'. ret (x', y'))))
    (\<lambda>m (x, y). (V1 m x, V2 m y)) (\<lambda>m (x, y). R1 m x \<union> R2 m y) (\<lambda>m (x, y). W1 m x \<and> W2 m y)"
proof (unfold_locales, goal_cases)
  case (1 m x a)
  then show ?case using copyable.in_use [OF assms(1)] copyable.in_use [OF assms(2)] by (auto split: prod.splits)
next
  case (2 m x m')
  obtain a b where x: "x = (a, b)" by (cases x)
  have "W1 m' a \<and> V1 m' a = V1 m a \<and> R1 m' a = R1 m a" by (rule copyable.frame [OF 1]) (use 2 x in auto)
  moreover have "W2 m' b \<and> V2 m' b = V2 m b \<and> R2 m' b = R2 m b" by (rule copyable.frame [OF assms(2)]) (use 2 x in auto)
  ultimately show ?case by (simp add: x)
next
  case (3 m x x' m')
  obtain a b where x: "x = (a, b)" by (cases x)
  obtain a' m1 b' where run: "run_state (c1 a) m = (a', m1)" "run_state (c2 b) m1 = (b', m')" "x' = (a', b')"
    using 3 by (auto simp: x split: prod.splits)
  have W: "W1 m a" "W2 m b" using 3 by (simp_all add: x)
  have m1: "grows m m1" using copyable.copies [OF 1 W(1) run(1)] by (simp add: copied_def)
  have "grows m1 m'"
    using copyable.copies [OF 2 _ run(2)] copyable.grow [OF 2 W(2) m1] by (simp add: copied_def)
  then have "copied V1 R1 W1 m a a' m'" "copied V2 R2 W2 m b b' m'"
    using copyable.copied_later [OF 1 W(1) grows_refl run(1)] copyable.copied_later [OF 2 W(2) m1 run(2) grows_refl] by simp_all
  then show ?case by (auto simp: copied_def x run(3))
qed

lemma copyable_struct:
  assumes c: "copyable c V R W"
    and c': "\<And>x. c' x = State_Monad.bind (c (f x)) (\<lambda>y. ret (g x y))"
    and fg: "\<And>x y. f (g x y) = y" "\<And>x y v. h (g x y) v = h x v"
    and V': "\<And>m x. V' m x = h x (V m (f x))" and R': "\<And>m x. R' m x = R m (f x)" and W': "\<And>m x. W' m x = W m (f x)"
  shows "copyable c' V' R' W'"
proof (unfold_locales, goal_cases)
  case (1 m x a)
  then show ?case using copyable.in_use [OF c] by (simp add: R' W')
next
  case (2 m x m')
  then show ?case using copyable.frame [OF c, of m "f x" m'] by (simp add: V' R' W')
next
  case (3 m x x' m')
  then obtain y where "run_state (c (f x)) m = (y, m')" "x' = g x y" by (auto simp: c' split: prod.splits)
  then show ?case using copyable.copies [OF c, of m "f x" y m'] 3(1) by (simp add: copied_def V' R' W' fg)
qed

subsection \<open>Copies of slices, maps and pointers\<close>

definition elements :: "('l cell \<Rightarrow> 'a list) \<Rightarrow> 'l memory \<Rightarrow> go_slice \<Rightarrow> 'a list" where
  "elements un m s = take (sl_len s) (drop (sl_offset s) (un (m_cell m (sl_array s))))"

definition sliceValue :: "('l cell \<Rightarrow> 'a list) \<Rightarrow> ('l memory \<Rightarrow> 'a \<Rightarrow> 'v) \<Rightarrow> 'l memory \<Rightarrow> go_slice option \<Rightarrow> 'v list" where
  "sliceValue un V m z = (case z of None \<Rightarrow> [] | Some s \<Rightarrow> map (V m) (elements un m s))"

definition sliceReach :: "('l cell \<Rightarrow> 'a list) \<Rightarrow> ('l memory \<Rightarrow> 'a \<Rightarrow> addr set) \<Rightarrow> 'l memory \<Rightarrow> go_slice option \<Rightarrow> addr set" where
  "sliceReach un R m z = (case z of None \<Rightarrow> {} | Some s \<Rightarrow> insert (sl_array s) (\<Union>x\<in>set (elements un m s). R m x))"

definition sliceSound :: "('l cell \<Rightarrow> 'a list) \<Rightarrow> ('l memory \<Rightarrow> 'a \<Rightarrow> bool) \<Rightarrow> 'l memory \<Rightarrow> go_slice option \<Rightarrow> bool" where
  "sliceSound un W m z = (case z of None \<Rightarrow> True | Some s \<Rightarrow> sl_array s < m_next m \<and>
     sl_offset s + sl_len s \<le> length (un (m_cell m (sl_array s))) \<and> list_all (W m) (elements un m s))"

lemma length_elements: "sliceSound un W m (Some s) \<Longrightarrow> length (elements un m s) = sl_len s"
  by (auto simp: sliceSound_def elements_def)

text \<open>The first \<open>i\<close> elements of the array at \<open>b\<close> are copies of those of the slice \<open>s\<close>.\<close>

definition filled ::
  "('l cell \<Rightarrow> 'a list) \<Rightarrow> ('l memory \<Rightarrow> 'a \<Rightarrow> 'v) \<Rightarrow> ('l memory \<Rightarrow> 'a \<Rightarrow> addr set) \<Rightarrow> ('l memory \<Rightarrow> 'a \<Rightarrow> bool) \<Rightarrow> 'l memory
    \<Rightarrow> go_slice \<Rightarrow> addr \<Rightarrow> nat \<Rightarrow> 'l memory \<Rightarrow> bool"
where
  "filled un V R W m0 s b i m \<longleftrightarrow> grows m0 m \<and> m_next m0 \<le> b \<and> b < m_next m \<and> length (un (m_cell m b)) = sl_len s \<and>
     (\<forall>j<i. let x = un (m_cell m b) ! j
       in W m x \<and> V m x = V m0 (elements un m0 s ! j) \<and> R m x \<subseteq> {b<..<m_next m})"

context copyable
begin

lemma fill_step:
  assumes un_mk: "\<And>xs. un (mk xs) = xs" and s: "sliceSound un W m0 (Some s)"
    and m: "filled un V R W m0 s b i m" and i: "i < sl_len s"
    and run: "run_state (c (un (m_cell m (sl_array s)) ! (sl_offset s + i))) m = (x, m1)"
  shows "filled un V R W m0 s b (Suc i) (m1\<lparr>m_cell := (m_cell m1)(b := mk ((un (m_cell m1 b))[i := x]))\<rparr>)"
proof -
  let ?m2 = "m1\<lparr>m_cell := (m_cell m1)(b := mk ((un (m_cell m1 b))[i := x]))\<rparr>" and ?x = "elements un m0 s ! i"
  have g: "grows m0 m" "m_next m0 \<le> b" "b < m_next m" "length (un (m_cell m b)) = sl_len s"
    using m by (simp_all add: filled_def)
  have arr: "m_cell m (sl_array s) = m_cell m0 (sl_array s)" using s g(1) by (simp add: sliceSound_def grows_def)
  have x: "un (m_cell m (sl_array s)) ! (sl_offset s + i) = ?x" using s i unfolding arr by (simp add: sliceSound_def elements_def)
  have "?x \<in> set (elements un m0 s)" using length_elements [OF s] i by simp
  then have "W m0 ?x" using s by (auto simp: sliceSound_def list_all_iff)
  then have "W m ?x" "V m ?x = V m0 ?x" using grow g(1) by blast+
  then have c: "grows m m1" "W m1 x" "V m1 x = V m0 ?x" "R m1 x \<subseteq> {m_next m..<m_next m1}"
    using copies run x by (auto simp: copied_def)
  have new: "W ?m2 x \<and> V ?m2 x = V m1 x \<and> R ?m2 x = R m1 x"
    using c(4) g(3) by (intro frame [OF c(2)]) auto
  have old: "W ?m2 y \<and> V ?m2 y = V m y \<and> R ?m2 y = R m y" if "W m y" "R m y \<subseteq> {b<..<m_next m}" for y
    using that(2) c(1) by (intro frame [OF that(1)]) (auto simp: grows_def)
  have b: "m_cell m1 b = m_cell m b" using c(1) g(3) by (simp add: grows_def)
  have "W ?m2 y \<and> V ?m2 y = V m0 (elements un m0 s ! j) \<and> R ?m2 y \<subseteq> {b<..<m_next ?m2}"
    if j: "j < Suc i" and y: "y = (un (m_cell m b))[i := x] ! j" for j y
  proof (cases "j = i")
    case True
    then show ?thesis using new c g(3,4) i by (auto simp: y grows_def)
  next
    case False
    then have "W m y" "V m y = V m0 (elements un m0 s ! j)" "R m y \<subseteq> {b<..<m_next m}"
      using m j by (auto simp: y filled_def Let_def)
    then show ?thesis using old [of y] c(1) by (auto simp: grows_def)
  qed
  moreover have "grows m0 ?m2" using g(1,2) c(1) by (auto simp: grows_def)
  ultimately show ?thesis
    using g c(1) by (simp add: filled_def un_mk b Let_def grows_def)
qed

lemma fill:
  assumes un_mk: "\<And>xs. un (mk xs) = xs" and s: "sliceSound un W m0 (Some s)"
    and "filled un V R W m0 s b i m" "i + k = sl_len s" "run_state (copyElements mk un c s b i k) m = (u, m')"
  shows "filled un V R W m0 s b (sl_len s) m'"
  using assms(3-)
proof (induction k arbitrary: i m)
  case (Suc k)
  obtain x m1 where x: "run_state (c (un (m_cell m (sl_array s)) ! (sl_offset s + i))) m = (x, m1)" by fastforce
  show ?case
    by (rule Suc.IH [OF fill_step [where mk = mk, OF un_mk s Suc.prems(1) _ x]]) (use Suc.prems(2,3) x in simp_all)
qed simp

lemma slice_copyable:
  assumes un_mk: "\<And>xs. un (mk xs) = xs"
  shows "copyable (copySlice mk un zero c) (sliceValue un V) (sliceReach un R) (sliceSound un W)"
proof (unfold_locales, goal_cases)
  case (1 m z a)
  then show ?case
    by (auto simp: sliceReach_def sliceSound_def list_all_iff intro: in_use split: option.splits)
next
  case (2 m z m')
  show ?case
  proof (cases z)
    case (Some s)
    have arr: "m_cell m' (sl_array s) = m_cell m (sl_array s)" using 2(2) by (simp add: Some sliceReach_def)
    have el: "W m' x \<and> V m' x = V m x \<and> R m' x = R m x" if "x \<in> set (elements un m s)" for x
      by (rule frame) (use that 2 Some in \<open>auto simp: sliceReach_def sliceSound_def list_all_iff\<close>)
    have "elements un m' s = elements un m s" by (simp add: elements_def arr)
    then show ?thesis
      using 2(1,3) el arr by (auto simp: Some sliceValue_def sliceReach_def sliceSound_def list_all_iff)
  qed (simp add: sliceValue_def sliceReach_def sliceSound_def)
next
  case (3 m z z' m')
  show ?case
  proof (cases z)
    case None
    then show ?thesis using 3 by (auto simp: copySlice_def copied_def sliceValue_def sliceReach_def sliceSound_def)
  next
    case (Some s)
    let ?b = "m_next m" and ?m = "m\<lparr>m_next := m_next m + 1, m_cell := (m_cell m)(m_next m := mk (replicate (sl_len s) zero))\<rparr>"
    have run: "run_state (copyElements mk un c s ?b 0 (sl_len s)) ?m = ((), m')" "z' = Some (Slice ?b 0 (sl_len s))"
      using 3 by (auto simp: Some copySlice_def split: prod.splits)
    have "filled un V R W m s ?b 0 ?m" by (simp add: filled_def un_mk grows_def)
    then have f: "filled un V R W m s ?b (sl_len s) m'"
      by (rule fill [where mk = mk, OF un_mk 3(1) [unfolded Some] _ _ run(1)]) simp
    note len = length_elements [OF 3(1) [unfolded Some]]
    have el: "elements un m' (Slice ?b 0 (sl_len s)) = un (m_cell m' ?b)" using f by (simp add: filled_def elements_def)
    show ?thesis
      using f len unfolding copied_def run(2) Some sliceValue_def sliceReach_def sliceSound_def option.case el
      by (auto simp: filled_def Let_def list_all_length in_set_conv_nth intro!: nth_equalityI) fastforce+
  qed
qed

end

text \<open>Strings have no parts: they are the values that they stand for.\<close>

abbreviation stringsValue :: "'l memory \<Rightarrow> go_slice option \<Rightarrow> string list" where
  "stringsValue \<equiv> sliceValue strings_in (\<lambda>_ x. x)"

abbreviation stringsReach :: "'l memory \<Rightarrow> go_slice option \<Rightarrow> addr set" where
  "stringsReach \<equiv> sliceReach strings_in (\<lambda>_ _. {})"

abbreviation stringsSound :: "'l memory \<Rightarrow> go_slice option \<Rightarrow> bool" where
  "stringsSound \<equiv> sliceSound strings_in (\<lambda>_ _. True)"

interpretation strings: copyable copyStrings stringsValue stringsReach stringsSound
proof (unfold_locales, goal_cases)
  case (3 m z z' m')
  then show ?case
    by (cases z) (auto simp: copyStrings_def copied_def sliceValue_def sliceReach_def sliceSound_def elements_def grows_def Let_def)
qed (auto simp: sliceValue_def sliceReach_def sliceSound_def elements_def list_all_iff split: option.splits)

definition mapValue :: "'l memory \<Rightarrow> addr option \<Rightarrow> gomap option" where
  "mapValue m z = map_option (\<lambda>a. map_in (m_cell m a)) z"

definition mapSound :: "'l memory \<Rightarrow> addr option \<Rightarrow> bool" where
  "mapSound m z = (case z of None \<Rightarrow> True | Some a \<Rightarrow> a < m_next m \<and> is_map (map_in (m_cell m a)))"

lemma update_new: "k \<notin> fst ` set es \<Longrightarrow> AList.update k v es = es @ [(k, v)]"
  by (induction es) auto

lemma copyEntries_run:
  assumes "map_in (m_cell m b) = es1" "is_map (es1 @ es)" "run_state (copyEntries b es) m = (u, m')"
  shows "m_next m' = m_next m \<and> map_in (m_cell m' b) = es1 @ es \<and> (\<forall>a. a \<noteq> b \<longrightarrow> m_cell m' a = m_cell m a)"
  using assms
proof (induction es arbitrary: es1 m)
  case (Cons e es)
  obtain key val where e: "e = (key, val)" by (cases e)
  have upd: "AList.update key val es1 = es1 @ [(key, val)]"
    using Cons.prems(2) by (intro update_new) (auto simp: e)
  show ?case
    using Cons.IH [of "m\<lparr>m_cell := (m_cell m)(b := StringMap (es1 @ [(key, val)]))\<rparr>" "es1 @ [(key, val)]"] Cons.prems
    by (simp add: e upd)
qed auto

interpretation maps: copyable copyMap mapValue "\<lambda>_. set_option" mapSound
proof (unfold_locales, goal_cases)
  case (3 m z z' m')
  show ?case
  proof (cases z)
    case (Some a)
    let ?m = "m\<lparr>m_next := m_next m + 1, m_cell := (m_cell m)(m_next m := StringMap [])\<rparr>"
    have a: "a < m_next m" "is_map (map_in (m_cell m a))" using 3(1) by (simp_all add: Some mapSound_def)
    have run: "run_state (copyEntries (m_next m) (map_in (m_cell m a))) ?m = ((), m')" "z' = Some (m_next m)"
      using 3(2) a(1) by (auto simp: Some copyMap_def split: prod.splits)
    show ?thesis
      using copyEntries_run [of ?m "m_next m" "[]", OF _ _ run(1)] a
      by (auto simp: Some run(2) copied_def mapValue_def mapSound_def grows_def)
  qed (use 3 in \<open>simp_all add: copyMap_def copied_def mapValue_def mapSound_def\<close>)
qed (auto simp: mapValue_def mapSound_def split: option.splits)

definition intValue :: "'l memory \<Rightarrow> addr option \<Rightarrow> int option" where
  "intValue m z = map_option (\<lambda>a. int_in (m_cell m a)) z"

definition intSound :: "'l memory \<Rightarrow> addr option \<Rightarrow> bool" where
  "intSound m z = (case z of None \<Rightarrow> True | Some a \<Rightarrow> a < m_next m)"

interpretation ints: copyable copyInt intValue "\<lambda>_. set_option" intSound
proof (unfold_locales, goal_cases)
  case (3 m z z' m')
  then show ?case
    by (cases z) (auto simp: copyInt_def copied_def intValue_def intSound_def grows_def)
qed (auto simp: intValue_def intSound_def split: option.splits)

subsection \<open>Copies of the configuration\<close>

text \<open>The value that a struct in memory stands for is the struct of the other theories.\<close>

definition configValue :: "'l memory \<Rightarrow> BeegfsConfig_mem \<Rightarrow> BeegfsConfig" where
  "configValue m x = \<lparr> GrpcPort = bc_GrpcPort x, ConnInterfaces = stringsValue m (bc_ConnInterfaces x),
     ConnNetFilter = stringsValue m (bc_ConnNetFilter x), ConnTcpOnlyFilter = stringsValue m (bc_ConnTcpOnlyFilter x),
     BeegfsClientConf = mapValue m (bc_BeegfsClientConf x), ConnAuth = bc_ConnAuth x, TLSCert = bc_TLSCert x,
     ConnRDMAInterfaces = stringsValue m (bc_ConnRDMAInterfaces x) \<rparr>"

definition configReach :: "'l memory \<Rightarrow> BeegfsConfig_mem \<Rightarrow> addr set" where
  "configReach m x = stringsReach m (bc_ConnInterfaces x) \<union> (stringsReach m (bc_ConnNetFilter x) \<union>
     (stringsReach m (bc_ConnTcpOnlyFilter x) \<union> (set_option (bc_BeegfsClientConf x) \<union> stringsReach m (bc_ConnRDMAInterfaces x))))"

definition configSound :: "'l memory \<Rightarrow> BeegfsConfig_mem \<Rightarrow> bool" where
  "configSound m x \<longleftrightarrow> stringsSound m (bc_ConnInterfaces x) \<and> stringsSound m (bc_ConnNetFilter x) \<and>
     stringsSound m (bc_ConnTcpOnlyFilter x) \<and> mapSound m (bc_BeegfsClientConf x) \<and> stringsSound m (bc_ConnRDMAInterfaces x)"

interpretation config: copyable BeegfsConfig_DeepCopyInto configValue configReach configSound
  by (rule copyable_struct [OF copyable_pair [OF strings.copyable_axioms copyable_pair [OF strings.copyable_axioms
        copyable_pair [OF strings.copyable_axioms copyable_pair [OF maps.copyable_axioms strings.copyable_axioms]]]],
      where f = "\<lambda>x. (bc_ConnInterfaces x, bc_ConnNetFilter x, bc_ConnTcpOnlyFilter x, bc_BeegfsClientConf x, bc_ConnRDMAInterfaces x)"
        and g = "\<lambda>x (i, n, t, c, r). x\<lparr>bc_ConnInterfaces := i, bc_ConnNetFilter := n, bc_ConnTcpOnlyFilter := t,
          bc_BeegfsClientConf := c, bc_ConnRDMAInterfaces := r\<rparr>"
        and h = "\<lambda>x (i, n, t, c, r). \<lparr> GrpcPort = bc_GrpcPort x, ConnInterfaces = i, ConnNetFilter = n, ConnTcpOnlyFilter = t,
          BeegfsClientConf = c, ConnAuth = bc_ConnAuth x, TLSCert = bc_TLSCert x, ConnRDMAInterfaces = r \<rparr>"])
    (simp_all add: BeegfsConfig_DeepCopyInto_def configValue_def configReach_def configSound_def split: prod.splits)

definition fileSystemValue :: "'l memory \<Rightarrow> FileSystemSpecificConfig_mem \<Rightarrow> FileSystemSpecificConfig" where
  "fileSystemValue m x = \<lparr> fs_SysMgmtdHost = fc_SysMgmtdHost x, fs_Config = configValue m (fc_Config x) \<rparr>"

definition fileSystemReach :: "'l memory \<Rightarrow> FileSystemSpecificConfig_mem \<Rightarrow> addr set" where
  "fileSystemReach m x = configReach m (fc_Config x)"

definition fileSystemSound :: "'l memory \<Rightarrow> FileSystemSpecificConfig_mem \<Rightarrow> bool" where
  "fileSystemSound m x = configSound m (fc_Config x)"

interpretation fileSystem: copyable FileSystemSpecificConfig_DeepCopyInto fileSystemValue fileSystemReach fileSystemSound
  by (rule copyable_struct [OF config.copyable_axioms, where f = fc_Config and g = "\<lambda>x c. x\<lparr>fc_Config := c\<rparr>"
        and h = "\<lambda>x c. \<lparr> fs_SysMgmtdHost = fc_SysMgmtdHost x, fs_Config = c \<rparr>"])
    (simp_all add: FileSystemSpecificConfig_DeepCopyInto_def fileSystemValue_def fileSystemReach_def fileSystemSound_def)

lemmas fileSystems_copyable = fileSystem.slice_copyable [where mk = FileSystems and un = file_systems_in, OF file_systems_in.simps(1)]

definition nodeValue :: "'l memory \<Rightarrow> NodeSpecificConfig_mem \<Rightarrow> NodeSpecificConfig" where
  "nodeValue m x = \<lparr> NodeList = stringsValue m (nc_NodeList x), ns_DefaultConfig = configValue m (nc_DefaultConfig x),
     ns_FileSystemSpecificConfigs = sliceValue file_systems_in fileSystemValue m (nc_FileSystemSpecificConfigs x) \<rparr>"

definition nodeReach :: "'l memory \<Rightarrow> NodeSpecificConfig_mem \<Rightarrow> addr set" where
  "nodeReach m x = stringsReach m (nc_NodeList x) \<union> (configReach m (nc_DefaultConfig x) \<union>
     sliceReach file_systems_in fileSystemReach m (nc_FileSystemSpecificConfigs x))"

definition nodeSound :: "'l memory \<Rightarrow> NodeSpecificConfig_mem \<Rightarrow> bool" where
  "nodeSound m x \<longleftrightarrow> stringsSound m (nc_NodeList x) \<and> configSound m (nc_DefaultConfig x) \<and>
     sliceSound file_systems_in fileSystemSound m (nc_FileSystemSpecificConfigs x)"

interpretation node: copyable NodeSpecificConfig_DeepCopyInto nodeValue nodeReach nodeSound
  by (rule copyable_struct [OF copyable_pair [OF strings.copyable_axioms copyable_pair [OF config.copyable_axioms fileSystems_copyable]],
      where f = "\<lambda>x. (nc_NodeList x, nc_DefaultConfig x, nc_FileSystemSpecificConfigs x)"
        and g = "\<lambda>x (n, c, f). x\<lparr>nc_NodeList := n, nc_DefaultConfig := c, nc_FileSystemSpecificConfigs := f\<rparr>"
        and h = "\<lambda>x (n, c, f). \<lparr> NodeList = n, ns_DefaultConfig = c, ns_FileSystemSpecificConfigs = f \<rparr>"])
    (simp_all add: NodeSpecificConfig_DeepCopyInto_def nodeValue_def nodeReach_def nodeSound_def split: prod.splits)

definition pluginConfigValue :: "'l memory \<Rightarrow> PluginConfig_mem \<Rightarrow> PluginConfig" where
  "pluginConfigValue m x = \<lparr> DefaultConfig = configValue m (pc_DefaultConfig x),
     FileSystemSpecificConfigs = sliceValue file_systems_in fileSystemValue m (pc_FileSystemSpecificConfigs x) \<rparr>"

definition pluginConfigReach :: "'l memory \<Rightarrow> PluginConfig_mem \<Rightarrow> addr set" where
  "pluginConfigReach m x = configReach m (pc_DefaultConfig x) \<union>
     sliceReach file_systems_in fileSystemReach m (pc_FileSystemSpecificConfigs x)"

definition pluginConfigSound :: "'l memory \<Rightarrow> PluginConfig_mem \<Rightarrow> bool" where
  "pluginConfigSound m x \<longleftrightarrow> configSound m (pc_DefaultConfig x) \<and>
     sliceSound file_systems_in fileSystemSound m (pc_FileSystemSpecificConfigs x)"

interpretation pluginConfig: copyable PluginConfig_DeepCopyInto pluginConfigValue pluginConfigReach pluginConfigSound
  by (rule copyable_struct [OF copyable_pair [OF config.copyable_axioms fileSystems_copyable],
      where f = "\<lambda>x. (pc_DefaultConfig x, pc_FileSystemSpecificConfigs x)"
        and g = "\<lambda>x (c, f). x\<lparr>pc_DefaultConfig := c, pc_FileSystemSpecificConfigs := f\<rparr>"
        and h = "\<lambda>x (c, f). \<lparr> DefaultConfig = c, FileSystemSpecificConfigs = f \<rparr>"])
    (simp_all add: PluginConfig_DeepCopyInto_def pluginConfigValue_def pluginConfigReach_def pluginConfigSound_def split: prod.splits)

definition fromFileValue :: "'l memory \<Rightarrow> PluginConfigFromFile_mem \<Rightarrow> PluginConfigFromFile" where
  "fromFileValue m x = PluginConfig.extend (pluginConfigValue m (pf_PluginConfig x))
     (PluginConfigFromFile.fields (sliceValue nodes_in nodeValue m (pf_NodeSpecificConfigs x)))"

definition fromFileReach :: "'l memory \<Rightarrow> PluginConfigFromFile_mem \<Rightarrow> addr set" where
  "fromFileReach m x = pluginConfigReach m (pf_PluginConfig x) \<union> sliceReach nodes_in nodeReach m (pf_NodeSpecificConfigs x)"

definition fromFileSound :: "'l memory \<Rightarrow> PluginConfigFromFile_mem \<Rightarrow> bool" where
  "fromFileSound m x \<longleftrightarrow> pluginConfigSound m (pf_PluginConfig x) \<and> sliceSound nodes_in nodeSound m (pf_NodeSpecificConfigs x)"

interpretation fromFile: copyable PluginConfigFromFile_DeepCopyInto fromFileValue fromFileReach fromFileSound
  by (rule copyable_struct [OF copyable_pair [OF pluginConfig.copyable_axioms
        node.slice_copyable [where mk = Nodes and un = nodes_in, OF nodes_in.simps(1)]],
      where f = "\<lambda>x. (pf_PluginConfig x, pf_NodeSpecificConfigs x)"
        and g = "\<lambda>x (c, n). x\<lparr>pf_PluginConfig := c, pf_NodeSpecificConfigs := n\<rparr>"
        and h = "\<lambda>x (c, n). PluginConfig.extend c (PluginConfigFromFile.fields n)"])
    (simp_all add: PluginConfigFromFile_DeepCopyInto_def fromFileValue_def fromFileReach_def fromFileSound_def split: prod.splits)

text \<open>A struct of strings is its own value.\<close>

lemma plain_copyable:
  "copyable ConnAuthConfig_DeepCopyInto (\<lambda>_ x. x) (\<lambda>_ _. {}) (\<lambda>_ _. True)"
  "copyable TLSCertConfig_DeepCopyInto (\<lambda>_ x. x) (\<lambda>_ _. {}) (\<lambda>_ _. True)"
  "copyable ContainerImageOverride_DeepCopyInto (\<lambda>_ x. x) (\<lambda>_ _. {}) (\<lambda>_ _. True)"
  "copyable ContainerImageOverrides_DeepCopyInto (\<lambda>_ x. x) (\<lambda>_ _. {}) (\<lambda>_ _. True)"
  by (unfold_locales; simp add: copied_def ConnAuthConfig_DeepCopyInto_def TLSCertConfig_DeepCopyInto_def
      ContainerImageOverride_DeepCopyInto_def ContainerImageOverrides_DeepCopyInto_def)+

subsection \<open>Copies of the driver\<close>

text \<open>The documentation of the libraries promises of \<open>DeepCopyInto\<close> what is shown here for the types of the operator.\<close>

definition copies_deeply :: "('l, 'v) library_type \<Rightarrow> bool" where
  "copies_deeply t \<longleftrightarrow> copyable (copyInto t) (valueAt t) (reachAt t) (soundAt t)"

definition library_copies :: "'l library_types \<Rightarrow> bool" where
  "library_copies lib \<longleftrightarrow> copies_deeply (Condition lib) \<and> copies_deeply (ObjectMeta lib) \<and> copies_deeply (ListMeta lib) \<and>
     copies_deeply (ResourceRequirements lib) \<and> copies_deeply (NodeAffinity lib)"

lemma library_copiesD:
  assumes "library_copies lib"
  shows "copyable (copyInto (Condition lib)) (valueAt (Condition lib)) (reachAt (Condition lib)) (soundAt (Condition lib))"
    and "copyable (copyInto (ObjectMeta lib)) (valueAt (ObjectMeta lib)) (reachAt (ObjectMeta lib)) (soundAt (ObjectMeta lib))"
    and "copyable (copyInto (ListMeta lib)) (valueAt (ListMeta lib)) (reachAt (ListMeta lib)) (soundAt (ListMeta lib))"
    and "copyable (copyInto (ResourceRequirements lib)) (valueAt (ResourceRequirements lib)) (reachAt (ResourceRequirements lib))
      (soundAt (ResourceRequirements lib))"
    and "copyable (copyInto (NodeAffinity lib)) (valueAt (NodeAffinity lib)) (reachAt (NodeAffinity lib)) (soundAt (NodeAffinity lib))"
  using assms by (simp_all add: library_copies_def copies_deeply_def)

definition resourcesValue :: "'l library_types \<Rightarrow> 'l memory \<Rightarrow> 'l ContainerResourceOverrides_mem \<Rightarrow> ContainerResourceOverrides" where
  "resourcesValue lib m x = (let v = valueAt (ResourceRequirements lib) m in
     \<lparr> ControllerBeegfsResources = v (cr_ControllerBeegfsResources x),
       ControllerCsiProvisionerResources = v (cr_ControllerCsiProvisionerResources x),
       NodeBeegfsResources = v (cr_NodeBeegfsResources x), NodeDriverRegistrarResources = v (cr_NodeDriverRegistrarResources x),
       NodeLivenessProbeResources = v (cr_NodeLivenessProbeResources x) \<rparr>)"

definition resourcesReach :: "'l library_types \<Rightarrow> 'l memory \<Rightarrow> 'l ContainerResourceOverrides_mem \<Rightarrow> addr set" where
  "resourcesReach lib m x = (let r = reachAt (ResourceRequirements lib) m in
     r (cr_ControllerBeegfsResources x) \<union> (r (cr_ControllerCsiProvisionerResources x) \<union> (r (cr_NodeBeegfsResources x) \<union>
       (r (cr_NodeDriverRegistrarResources x) \<union> r (cr_NodeLivenessProbeResources x)))))"

definition resourcesSound :: "'l library_types \<Rightarrow> 'l memory \<Rightarrow> 'l ContainerResourceOverrides_mem \<Rightarrow> bool" where
  "resourcesSound lib m x \<longleftrightarrow> (let w = soundAt (ResourceRequirements lib) m in
     w (cr_ControllerBeegfsResources x) \<and> w (cr_ControllerCsiProvisionerResources x) \<and> w (cr_NodeBeegfsResources x) \<and>
     w (cr_NodeDriverRegistrarResources x) \<and> w (cr_NodeLivenessProbeResources x))"

lemma resources_copyable:
  assumes "library_copies lib"
  shows "copyable (ContainerResourceOverrides_DeepCopyInto lib) (resourcesValue lib) (resourcesReach lib) (resourcesSound lib)"
proof -
  note r = library_copiesD(4) [OF assms]
  show ?thesis
    by (rule copyable_struct [OF copyable_pair [OF r copyable_pair [OF r copyable_pair [OF r copyable_pair [OF r r]]]],
        where f = "\<lambda>x. (cr_ControllerBeegfsResources x, cr_ControllerCsiProvisionerResources x, cr_NodeBeegfsResources x,
            cr_NodeDriverRegistrarResources x, cr_NodeLivenessProbeResources x)"
          and g = "\<lambda>x (a, b, c, d, e). x\<lparr>cr_ControllerBeegfsResources := a, cr_ControllerCsiProvisionerResources := b,
            cr_NodeBeegfsResources := c, cr_NodeDriverRegistrarResources := d, cr_NodeLivenessProbeResources := e\<rparr>"
          and h = "\<lambda>_ (a, b, c, d, e). \<lparr> ControllerBeegfsResources = a, ControllerCsiProvisionerResources = b,
            NodeBeegfsResources = c, NodeDriverRegistrarResources = d, NodeLivenessProbeResources = e \<rparr>"])
      (simp_all add: ContainerResourceOverrides_DeepCopyInto_def resourcesValue_def resourcesReach_def resourcesSound_def
        Let_def split: prod.splits)
qed

definition specValue :: "'l library_types \<Rightarrow> 'l memory \<Rightarrow> 'l BeegfsDriverSpec_mem \<Rightarrow> BeegfsDriverSpec" where
  "specValue lib m x = \<lparr> spec_ContainerImageOverrides = sp_ContainerImageOverrides x,
     spec_ContainerResourceOverrides = resourcesValue lib m (sp_ContainerResourceOverrides x),
     spec_LogLevel = intValue m (sp_LogLevel x),
     spec_NodeAffinityControllerService = valueAt (NodeAffinity lib) m (sp_NodeAffinityControllerService x),
     spec_NodeAffinityNodeService = valueAt (NodeAffinity lib) m (sp_NodeAffinityNodeService x),
     spec_PluginConfigFromFile = fromFileValue m (sp_PluginConfigFromFile x) \<rparr>"

definition specReach :: "'l library_types \<Rightarrow> 'l memory \<Rightarrow> 'l BeegfsDriverSpec_mem \<Rightarrow> addr set" where
  "specReach lib m x = resourcesReach lib m (sp_ContainerResourceOverrides x) \<union> (set_option (sp_LogLevel x) \<union>
     (reachAt (NodeAffinity lib) m (sp_NodeAffinityControllerService x) \<union>
     (reachAt (NodeAffinity lib) m (sp_NodeAffinityNodeService x) \<union> fromFileReach m (sp_PluginConfigFromFile x))))"

definition specSound :: "'l library_types \<Rightarrow> 'l memory \<Rightarrow> 'l BeegfsDriverSpec_mem \<Rightarrow> bool" where
  "specSound lib m x \<longleftrightarrow> resourcesSound lib m (sp_ContainerResourceOverrides x) \<and> intSound m (sp_LogLevel x) \<and>
     soundAt (NodeAffinity lib) m (sp_NodeAffinityControllerService x) \<and>
     soundAt (NodeAffinity lib) m (sp_NodeAffinityNodeService x) \<and> fromFileSound m (sp_PluginConfigFromFile x)"

lemma spec_copyable:
  assumes "library_copies lib"
  shows "copyable (BeegfsDriverSpec_DeepCopyInto lib) (specValue lib) (specReach lib) (specSound lib)"
proof -
  note a = library_copiesD(5) [OF assms]
  show ?thesis
    by (rule copyable_struct [OF copyable_pair [OF resources_copyable [OF assms] copyable_pair [OF ints.copyable_axioms
          copyable_pair [OF a copyable_pair [OF a fromFile.copyable_axioms]]]],
        where f = "\<lambda>x. (sp_ContainerResourceOverrides x, sp_LogLevel x, sp_NodeAffinityControllerService x,
            sp_NodeAffinityNodeService x, sp_PluginConfigFromFile x)"
          and g = "\<lambda>x (r, l, c, n, p). x\<lparr>sp_ContainerResourceOverrides := r, sp_LogLevel := l,
            sp_NodeAffinityControllerService := c, sp_NodeAffinityNodeService := n, sp_PluginConfigFromFile := p\<rparr>"
          and h = "\<lambda>x (r, l, c, n, p). \<lparr> spec_ContainerImageOverrides = sp_ContainerImageOverrides x,
            spec_ContainerResourceOverrides = r, spec_LogLevel = l, spec_NodeAffinityControllerService = c,
            spec_NodeAffinityNodeService = n, spec_PluginConfigFromFile = p \<rparr>"])
      (simp_all add: BeegfsDriverSpec_DeepCopyInto_def specValue_def specReach_def specSound_def split: prod.splits)
qed

definition statusValue :: "'l library_types \<Rightarrow> 'l memory \<Rightarrow> BeegfsDriverStatus_mem \<Rightarrow> condition list" where
  "statusValue lib m x = sliceValue conditions_in (valueAt (Condition lib)) m (st_Conditions x)"

definition statusReach :: "'l library_types \<Rightarrow> 'l memory \<Rightarrow> BeegfsDriverStatus_mem \<Rightarrow> addr set" where
  "statusReach lib m x = sliceReach conditions_in (reachAt (Condition lib)) m (st_Conditions x)"

definition statusSound :: "'l library_types \<Rightarrow> 'l memory \<Rightarrow> BeegfsDriverStatus_mem \<Rightarrow> bool" where
  "statusSound lib m x = sliceSound conditions_in (soundAt (Condition lib)) m (st_Conditions x)"

lemma status_copyable:
  assumes "library_copies lib"
  shows "copyable (BeegfsDriverStatus_DeepCopyInto lib) (statusValue lib) (statusReach lib) (statusSound lib)"
  by (rule copyable_struct [OF copyable.slice_copyable [OF library_copiesD(1) [OF assms], where mk = Conditions and un = conditions_in,
          OF conditions_in.simps(1)],
      where f = st_Conditions and g = "\<lambda>x c. x\<lparr>st_Conditions := c\<rparr>" and h = "\<lambda>_ c. c"])
    (simp_all add: BeegfsDriverStatus_DeepCopyInto_def statusValue_def statusReach_def statusSound_def)

definition driverValue :: "'l library_types \<Rightarrow> 'l memory \<Rightarrow> 'l BeegfsDriver_mem \<Rightarrow> (string \<times> string) \<times> BeegfsDriver" where
  "driverValue lib m x = (bd_TypeMeta x, \<lparr> drv_Meta = valueAt (ObjectMeta lib) m (bd_ObjectMeta x),
     drv_Spec = specValue lib m (bd_Spec x), drv_Conditions = statusValue lib m (bd_Status x) \<rparr>)"

definition driverReach :: "'l library_types \<Rightarrow> 'l memory \<Rightarrow> 'l BeegfsDriver_mem \<Rightarrow> addr set" where
  "driverReach lib m x = reachAt (ObjectMeta lib) m (bd_ObjectMeta x) \<union> (specReach lib m (bd_Spec x) \<union> statusReach lib m (bd_Status x))"

definition driverSound :: "'l library_types \<Rightarrow> 'l memory \<Rightarrow> 'l BeegfsDriver_mem \<Rightarrow> bool" where
  "driverSound lib m x \<longleftrightarrow> soundAt (ObjectMeta lib) m (bd_ObjectMeta x) \<and> specSound lib m (bd_Spec x) \<and> statusSound lib m (bd_Status x)"

lemma driver_copyable:
  assumes "library_copies lib"
  shows "copyable (BeegfsDriver_DeepCopyInto lib) (driverValue lib) (driverReach lib) (driverSound lib)"
  by (rule copyable_struct [OF copyable_pair [OF library_copiesD(2) [OF assms] copyable_pair [OF spec_copyable [OF assms] status_copyable [OF assms]]],
      where f = "\<lambda>x. (bd_ObjectMeta x, bd_Spec x, bd_Status x)"
        and g = "\<lambda>x (o', s, t). x\<lparr>bd_ObjectMeta := o', bd_Spec := s, bd_Status := t\<rparr>"
        and h = "\<lambda>x (o', s, t). (bd_TypeMeta x, \<lparr> drv_Meta = o', drv_Spec = s, drv_Conditions = t \<rparr>)"])
    (simp_all add: BeegfsDriver_DeepCopyInto_def driverValue_def driverReach_def driverSound_def split: prod.splits)

definition driverListValue ::
  "'l library_types \<Rightarrow> 'l memory \<Rightarrow> 'l BeegfsDriverList_mem \<Rightarrow> (string \<times> string) \<times> string \<times> ((string \<times> string) \<times> BeegfsDriver) list"
where
  "driverListValue lib m x = (bl_TypeMeta x, valueAt (ListMeta lib) m (bl_ListMeta x),
     sliceValue drivers_in (driverValue lib) m (bl_Items x))"

definition driverListReach :: "'l library_types \<Rightarrow> 'l memory \<Rightarrow> 'l BeegfsDriverList_mem \<Rightarrow> addr set" where
  "driverListReach lib m x = reachAt (ListMeta lib) m (bl_ListMeta x) \<union> sliceReach drivers_in (driverReach lib) m (bl_Items x)"

definition driverListSound :: "'l library_types \<Rightarrow> 'l memory \<Rightarrow> 'l BeegfsDriverList_mem \<Rightarrow> bool" where
  "driverListSound lib m x \<longleftrightarrow> soundAt (ListMeta lib) m (bl_ListMeta x) \<and> sliceSound drivers_in (driverSound lib) m (bl_Items x)"

lemma driver_list_copyable:
  assumes "library_copies lib"
  shows "copyable (BeegfsDriverList_DeepCopyInto lib) (driverListValue lib) (driverListReach lib) (driverListSound lib)"
  by (rule copyable_struct [OF copyable_pair [OF library_copiesD(3) [OF assms] copyable.slice_copyable [OF driver_copyable [OF assms],
          where mk = Drivers and un = drivers_in, OF drivers_in.simps(1)]],
      where f = "\<lambda>x. (bl_ListMeta x, bl_Items x)" and g = "\<lambda>x (o', i). x\<lparr>bl_ListMeta := o', bl_Items := i\<rparr>"
        and h = "\<lambda>x (o', i). (bl_TypeMeta x, o', i)"])
    (simp_all add: BeegfsDriverList_DeepCopyInto_def driverListValue_def driverListReach_def driverListSound_def split: prod.splits)

text \<open>\<open>Reconcile\<close> compares the status with the copy that it made before it set the conditions in place.\<close>

lemma old_status_kept:
  assumes "library_copies lib" "statusSound lib m x"
  shows "\<exists>x' m'. run_state (BeegfsDriverStatus_DeepCopy lib (Some x)) m = (Some x', m') \<and>
    (\<forall>m''. writes_only {..<m_next m} m' m'' \<longrightarrow> statusValue lib m'' x' = statusValue lib m x)"
  unfolding BeegfsDriverStatus_DeepCopy_def using copyable.newCopy_independent [OF status_copyable] assms by blast

lemma DeepCopyObject_run:
  "run_state (BeegfsDriver_DeepCopyObject lib z) m = run_state (BeegfsDriver_DeepCopy lib z) m"
  "run_state (BeegfsDriverList_DeepCopyObject lib y) m = run_state (BeegfsDriverList_DeepCopy lib y) m"
  by (simp_all add: BeegfsDriver_DeepCopyObject_def BeegfsDriverList_DeepCopyObject_def split: prod.splits option.splits)

text \<open>C16. A deep copy of a BeegfsDriver has the value of the original and is independent of it. Whatever is written afterwards
  to memory that was in use before the copy (all that the original leads to: its arrays, maps and variables, at any
  depth) leaves the value of the copy as it is, and whatever is written to memory that the copy brought with it leaves
  the value of the original as it is. The method allocates and changes nothing else.\<close>

theorem DeepCopy_independent:
  assumes "library_copies lib" "driverSound lib m x"
  shows "\<exists>x' m'. run_state (BeegfsDriver_DeepCopy lib (Some x)) m = (Some x', m') \<and> grows m m' \<and>
    driverValue lib m' x' = driverValue lib m x \<and>
    (\<forall>m''. writes_only {..<m_next m} m' m'' \<longrightarrow> driverValue lib m'' x' = driverValue lib m x) \<and>
    (\<forall>m''. writes_only {m_next m..} m' m'' \<longrightarrow> driverValue lib m'' x = driverValue lib m x)"
  unfolding BeegfsDriver_DeepCopy_def
  by (rule copyable.newCopy_independent [OF driver_copyable [OF assms(1)] assms(2)])

text \<open>Library types whose structs hold no addresses, and a driver whose configurations share an array.\<close>

datatype sample_struct =
    SampleCondition condition
  | SampleMeta object_meta
  | SampleResources resource_requirements
  | SampleText string

fun sample_condition :: "sample_struct \<Rightarrow> condition" where
  "sample_condition (SampleCondition x) = x"
| "sample_condition _ = \<lparr> cond_Type = [], cond_Status = [], cond_Reason = [], cond_Message = [] \<rparr>"

fun sample_meta :: "sample_struct \<Rightarrow> object_meta" where
  "sample_meta (SampleMeta x) = x"
| "sample_meta _ = new_meta []"

fun sample_resources :: "sample_struct \<Rightarrow> resource_requirements" where
  "sample_resources (SampleResources x) = x"
| "sample_resources _ = \<lparr> Limits = None, Requests = None \<rparr>"

fun sample_text :: "sample_struct \<Rightarrow> string" where
  "sample_text (SampleText x) = x"
| "sample_text _ = []"

definition plain_type :: "(sample_struct \<Rightarrow> 'v) \<Rightarrow> (sample_struct, 'v) library_type" where
  "plain_type v = \<lparr> zeroValue = SampleText [], copyInto = ret, valueAt = (\<lambda>_. v), reachAt = (\<lambda>_ _. {}), soundAt = (\<lambda>_ _. True) \<rparr>"

lemma plain_type_copies: "copies_deeply (plain_type v)"
  unfolding copies_deeply_def by unfold_locales (auto simp: plain_type_def copied_def)

definition sample_types :: "sample_struct library_types" where
  "sample_types = \<lparr> Condition = plain_type sample_condition, ObjectMeta = plain_type sample_meta, ListMeta = plain_type sample_text,
     ResourceRequirements = plain_type sample_resources, NodeAffinity = plain_type sample_text \<rparr>"

definition sample_memory :: "sample_struct memory" where
  "sample_memory = \<lparr> m_next = 5, m_cell = (\<lambda>a.
     if a = 0 then Strings [''ib0'', ''eth0'', ''eth1'']
     else if a = 1 then StringMap [(''connMaxInternodeNum'', ''8'')]
     else if a = 2 then IntVar 3
     else if a = 3 then Conditions [SampleCondition \<lparr> cond_Type = ''NodeServiceReady'', cond_Status = ''True'',
       cond_Reason = ''PodsReady'', cond_Message = [] \<rparr>]
     else FileSystems [\<lparr> fc_SysMgmtdHost = ''10.0.0.1'', fc_Config = zeroConfig_mem\<lparr>bc_ConnInterfaces := Some (Slice 0 1 2)\<rparr> \<rparr>]) \<rparr>"

definition sample_driver_mem :: "sample_struct BeegfsDriver_mem" where
  "sample_driver_mem = (let d = zeroDriver_mem sample_types in
     d\<lparr>bd_TypeMeta := (''BeegfsDriver'', ''v1''),
       bd_Spec := (bd_Spec d)\<lparr>sp_LogLevel := Some 2,
         sp_PluginConfigFromFile := \<lparr> pf_PluginConfig = \<lparr> pc_DefaultConfig = zeroConfig_mem\<lparr>bc_ConnInterfaces := Some (Slice 0 0 2),
             bc_BeegfsClientConf := Some 1\<rparr>, pc_FileSystemSpecificConfigs = Some (Slice 4 0 1) \<rparr>,
           pf_NodeSpecificConfigs = None \<rparr>\<rparr>,
       bd_Status := \<lparr> st_Conditions = Some (Slice 3 0 1) \<rparr>\<rparr>)"

lemmas sound_defs = driverSound_def specSound_def statusSound_def resourcesSound_def fromFileSound_def pluginConfigSound_def
  fileSystemSound_def configSound_def sliceSound_def mapSound_def intSound_def elements_def

theorem DeepCopy_independent_witness:
  "library_copies sample_types \<and> driverSound sample_types sample_memory sample_driver_mem \<and>
   (\<exists>x' m'. run_state (BeegfsDriver_DeepCopy sample_types (Some sample_driver_mem)) sample_memory = (Some x', m') \<and>
     driverValue sample_types (m'\<lparr>m_cell := (m_cell m')(0 := Strings [])\<rparr>) x' = driverValue sample_types sample_memory sample_driver_mem)"
proof -
  have lib: "library_copies sample_types" by (simp add: library_copies_def sample_types_def plain_type_copies)
  have sound: "driverSound sample_types sample_memory sample_driver_mem"
    by (simp add: sound_defs sample_types_def plain_type_def sample_memory_def sample_driver_mem_def zeroDriver_mem_def zeroConfig_mem_def Let_def)
  obtain x' m' where copy: "run_state (BeegfsDriver_DeepCopy sample_types (Some sample_driver_mem)) sample_memory = (Some x', m')"
    and later: "\<And>m''. writes_only {..<m_next sample_memory} m' m'' \<Longrightarrow>
      driverValue sample_types m'' x' = driverValue sample_types sample_memory sample_driver_mem"
    using DeepCopy_independent [OF lib sound] by blast
  have "writes_only {..<m_next sample_memory} m' (m'\<lparr>m_cell := (m_cell m')(0 := Strings [])\<rparr>)"
    by (simp add: writes_only_def sample_memory_def)
  from later [OF this] lib sound copy show ?thesis by blast
qed

end
