(* ===== verification/JUnit.thy ===== *)
theory JUnit
  imports Go_Env
begin

text \<open>
  release-tools/filter-junit.go, which merges JUnit files and keeps the test cases whose names match a pattern. The
  XML package and the compiled pattern are parameters. The lemmas say which test case is kept for a name, and that
  the standard input is never read.
\<close>

record TestCase =
  tc_Name :: string
  tc_Time :: string
  tc_SystemOut :: string
  tc_SystemErr :: string
  tc_Failure :: string
  tc_Skipped :: string

definition SkipReason_UnmarshalText :: "string \<Rightarrow> string" where
  "SkipReason_UnmarshalText text = (if text = '''' then '' '' else text)"

definition SkipReason_MarshalText :: "string \<Rightarrow> string" where
  "SkipReason_MarshalText s = (if s = '' '' then '''' else s)"

text \<open>The test cases that \<open>xml.Unmarshal\<close> appends to a suite, and those of the second format; and \<open>xml.MarshalIndent\<close>.\<close>

record xml_lib =
  xml_TestSuite :: "string \<Rightarrow> goerr + TestCase list"
  xml_TestResults :: "string \<Rightarrow> goerr + TestCase list"
  xml_MarshalIndent :: "TestCase list \<Rightarrow> goerr + string"

text \<open>Every error is a panic.\<close>

definition panicking :: "goerr \<Rightarrow> goerr" where
  "panicking e = Panic (err_msg e)"

definition addCases :: "xml_lib \<Rightarrow> string \<Rightarrow> TestCase list \<Rightarrow> goerr + TestCase list" where
  "addCases xml data cases =
     (case xml_TestSuite xml data of
        Inr read \<Rightarrow> Inr (cases @ read)
      | Inl err \<Rightarrow>
          if err_msg err \<noteq> ''expected element type <testsuite> but have <testsuites>'' then Inl (panicking err)
          else (case xml_TestResults xml data of
                  Inl err \<Rightarrow> Inl (panicking err)
                | Inr read \<Rightarrow> Inr (cases @ read)))"

text \<open>The loop over the input files. The standard input is read into the slice \<open>data\<close> as it is, which is nil or what
  the last file left: \<open>os.Stdin.Read\<close> does not extend it. What it writes into the slice is \<open>stdin\<close>.\<close>

fun readInputs ::
  "'w os_env \<Rightarrow> (string \<Rightarrow> ('w, goerr + string) state) \<Rightarrow> xml_lib \<Rightarrow> string \<Rightarrow> TestCase list \<Rightarrow> string list \<Rightarrow> ('w, goerr + TestCase list) state"
where
  "readInputs env stdin xml data cases [] = ret (Inr cases)"
| "readInputs env stdin xml data cases (input # inputs) =
     checked (if input = ''-'' then stdin data else os_ReadFile env input) panicking (\<lambda>data.
     guarded (addCases xml data cases) id (\<lambda>cases. readInputs env stdin xml data cases inputs))"

text \<open>The map from names to test cases.\<close>

fun filterCases :: "(string \<Rightarrow> bool) \<Rightarrow> (string \<times> TestCase) list \<Rightarrow> TestCase list \<Rightarrow> (string \<times> TestCase) list" where
  "filterCases re filtered [] = filtered"
| "filterCases re filtered (testcase # testcases) =
     (if \<not> re (tc_Name testcase) then filterCases re filtered testcases
      else
        case map_of filtered (tc_Name testcase) of
          None \<Rightarrow> filterCases re (AList.update (tc_Name testcase) testcase filtered) testcases
        | Some entry \<Rightarrow>
            if tc_Skipped entry \<noteq> '''' \<and> tc_Skipped testcase = ''''
            then filterCases re (AList.update (tc_Name testcase) testcase filtered) testcases
            else filterCases re filtered testcases)"

definition junit_main ::
  "'w os_env \<Rightarrow> (string \<Rightarrow> ('w, goerr + string) state) \<Rightarrow> (string \<Rightarrow> ('w, goerr + unit) state) \<Rightarrow> xml_lib \<Rightarrow>
   (string \<Rightarrow> bool) \<Rightarrow> string \<Rightarrow> string list \<Rightarrow> ('w, goerr + unit) state"
where
  "junit_main env stdin stdout xml re out inputs =
     checked (readInputs env stdin xml '''' [] inputs) id (\<lambda>cases.
     guarded (xml_MarshalIndent xml (map snd (filterCases re [] cases))) panicking (\<lambda>data.
     if out = ''-'' then checked (stdout data) panicking (\<lambda>_. ret (Inr ()))
     else checked (os_WriteFile env out data 0x1A4) panicking (\<lambda>_. ret (Inr ()))))"

subsection \<open>What is kept\<close>

text \<open>An empty \<open>skipped\<close> element survives reading and writing.\<close>

lemma skip_reason_roundtrip: "text \<noteq> '' '' \<Longrightarrow> SkipReason_MarshalText (SkipReason_UnmarshalText text) = text"
  by (simp add: SkipReason_MarshalText_def SkipReason_UnmarshalText_def)

definition first_real :: "(string \<Rightarrow> bool) \<Rightarrow> string \<Rightarrow> TestCase list \<Rightarrow> TestCase option" where
  "first_real re n = find (\<lambda>t. tc_Name t = n \<and> re n \<and> tc_Skipped t = '''')"

definition first_any :: "(string \<Rightarrow> bool) \<Rightarrow> string \<Rightarrow> TestCase list \<Rightarrow> TestCase option" where
  "first_any re n = find (\<lambda>t. tc_Name t = n \<and> re n)"

lemma filterCases_from:
  "map_of (filterCases re filtered cases) n =
     (case map_of filtered n of
        None \<Rightarrow> (case first_real re n cases of Some t \<Rightarrow> Some t | None \<Rightarrow> first_any re n cases)
      | Some e \<Rightarrow> if tc_Skipped e = '''' then Some e
          else (case first_real re n cases of Some t \<Rightarrow> Some t | None \<Rightarrow> Some e))"
  by (induction cases arbitrary: filtered)
    (auto simp: first_real_def first_any_def update_conv' split: option.splits)

text \<open>For each name that matches, the first test case that was run is kept, and the first one of all when every one of
  them was skipped; each name is kept once.\<close>

lemma kept_case:
  "map_of (filterCases re [] cases) n = (case first_real re n cases of Some t \<Rightarrow> Some t | None \<Rightarrow> first_any re n cases)"
  by (simp add: filterCases_from)

lemma kept_once: "is_map filtered \<Longrightarrow> is_map (filterCases re filtered cases)"
  by (induction cases arbitrary: filtered) (auto split: option.split)

text \<open>A slice of length zero is never filled: with the standard input as the only input there is nothing to decode.\<close>

lemma stdin_never_read:
  assumes "\<And>w. run_state (stdin '''') w = (Inr '''', w)"
  shows "run_state (readInputs env stdin xml '''' [] [''-'']) w =
    ((case addCases xml '''' [] of Inl e \<Rightarrow> Inl e | Inr cs \<Rightarrow> Inr cs), w)"
  using assms by (simp add: run_checked guarded_def split: sum.split)

end
