(* ===== verification/Spec2Isabelle.thy ===== *)
theory Spec2Isabelle
  imports Config Redaction Thread_Safe Volume Client_Files Mounts Ctl Params Controller Controller_Steps Concurrency Node Server
    Driver Driver_Main Chwrap Operator_Steps Operator_Main Deep_Copy JUnit
begin

text \<open>
  This library verifies the BeeGFS CSI driver, its operator and its helper programs: the Go code under src/. It
  models the code function by function and proves what makes it correct.

  \<^bold>\<open>The program.\<close> A container orchestrator asks the driver for volumes over gRPC. A volume is a directory of a BeeGFS
  file system. The controller service (pkg/beegfs/controllerserver.go) creates and deletes these directories with the
  BeeGFS command line tools (beegfs_ctl.go); to delete one it mounts the file system below its data directory. The
  node service (nodeserver.go) mounts a file system at a staging path and binds a volume's directory into a pod; it
  leaves a file with the name of the node next to the volume, and the controller waits for these files to go before it
  deletes the volume. Both services write client configuration files (beegfs_util.go) from the plugin configuration
  (config.go, with the types of operator/api/v1). A lock per volume and a map of finished work (thread_safe.go) order
  the requests, which run at the same time. server.go holds the gRPC server and the interceptor around every handler;
  beegfs.go and cmd/beegfs-csi-driver start it all. The container finds the host's tools through cmd/chwrap. The
  operator (operator/controllers, deploy/k8s) deploys the driver on Kubernetes from embedded manifests. The release
  tool filter-junit.go merges test reports.

  \<^bold>\<open>How Go becomes HOL.\<close> \<open>Go_Base\<close> fixes it: strings are byte lists, errors are values of \<open>goerr\<close> with their wrapping
  structure, \<open>(T, error)\<close> is \<open>goerr + T\<close>, machine integers keep their width, maps are association lists whose order
  stands for the order in which Go happens to visit them, structs are records, and code with effects is a
  computation of the state monad over a world of any type. A panic and a loop without end are the errors \<open>Panic\<close> and
  \<open>Diverged\<close>; the theorems say when they cannot arise. \<open>Go_Strings\<close>, \<open>Go_Path\<close>, \<open>Go_Net\<close>, \<open>Go_URL\<close> and \<open>Go_Encoding\<close>
  model what the code uses of Go's library. The world is a parameter: the record \<open>os_env\<close> of \<open>Go_Env\<close> for the file
  system, mounts, commands and the clock, \<open>kube\<close> of \<open>Operator_Cluster\<close> for the Kubernetes API server. Both are run by a
  tracing version that writes down every call with its answer; \<open>does\<close> and \<open>emits\<close> are the rules that follow the calls
  along the text of a function, and most theorems speak about all calls of a handler, in order, for every
  answer of the world. Third-party libraries (YAML, INI, XML, gRPC, the Kubernetes client) are parameters; where a
  theorem relies on their documented behaviour, it is a named hypothesis.

  \<^bold>\<open>Components.\<close>

  \<^item> \<open>Config\<close> (config.go, types of operator/api/v1): merging, validating and stripping configurations, reading the
    three files. A configuration refines a partial function from settings to values and overwriting refines map
    addition; the order of precedence follows. \<open>Redaction\<close> (the \<open>MarshalJSON\<close> methods): secrets do not reach the log.
  \<^item> \<open>Thread_Safe\<close> (thread_safe.go): the lock and the status map, with the contracts \<open>string_lock\<close> and \<open>status_store\<close>.
  \<^item> \<open>Volume\<close> (beegfs.go, volume identifiers of beegfs_util.go): the struct \<open>beegfsVolume\<close>, where its directories lie,
    that identifiers are read back, and which directory name is derived from one.
  \<^item> \<open>Client_Files\<close> and \<open>Mounts\<close> (beegfs_util.go): the client files and what they hold; mount options, mounting,
    unmounting and cleaning up.
  \<^item> \<open>Ctl\<close> (beegfs_ctl.go): the executors for BeeGFS 7 and 8, the dispatcher and the fake, behind the contract
    \<open>ctl_contract\<close>.
  \<^item> \<open>Params\<close> and \<open>Controller\<close> (controllerserver.go): the request parameters, with the contract \<open>param_group\<close>, and the
    handlers on a state of lock, status map and world. \<open>Controller_Steps\<close>: the calls of the handlers, containment
    below the data directory, the order of a deletion, and that waiting for the nodes ends. \<open>Concurrency\<close>: requests
    at the same time, as a step relation that the handlers are shown to follow; mutual exclusion and progress.
  \<^item> \<open>Node\<close> (nodeserver.go): the node service, by all its calls.
  \<^item> \<open>Server\<close> (server.go): endpoint, request IDs, interceptor, start; the contract \<open>status_handler\<close> says that the
    errors of every handler are gRPC statuses. \<open>Driver\<close> (identityserver.go, the constructors of beegfs.go) and
    \<open>Driver_Main\<close> (log functions and life cycle of server.go, cmd/beegfs-csi-driver/main.go): how the driver starts and
    what becomes of the process.
  \<^item> \<open>Chwrap\<close> (cmd/chwrap/main.go): the wrapper around the host's tools.
  \<^item> \<open>Operator_Pods\<close>, \<open>Operator_Cluster\<close>, \<open>Operator_Reconcile\<close> and \<open>Operator_Steps\<close> (operator/controllers, deploy/k8s,
    the resource types of operator/api/v1): the overrides on pod templates, the manifests, the API server,
    \<open>Reconcile\<close>, and what a run of it guarantees. The contracts \<open>managed_kind\<close> and \<open>workload_kind\<close> hold for every kind
    of object that the operator keeps on the cluster.
  \<^item> \<open>Operator_Main\<close> (operator/main.go): the options with which the operator starts, and how its process ends.
    \<open>Deep_Copy\<close> (zz_generated.deepcopy.go): the generated copies, on a memory in which slices, maps and pointers are
    addresses. The contract \<open>copyable\<close> says that a copy has the value of the original and shares nothing with it, which
    is why structs can be values in all other theories.
  \<^item> \<open>JUnit\<close> (release-tools/filter-junit.go): which test cases are kept.
  \<^item> This theory: what the controller and the node service agree on.

  \<^bold>\<open>Bounds.\<close> Two loops of the code need not end. The wait for the nodes takes fuel; it is shown that a number of rounds
  that follows from the timeout suffices, if the clock moves as \<open>time.Sleep\<close> promises, and running out of fuel is
  the error \<open>Diverged\<close>, never a result. The loop over the parents of a directory is a partial function in the option
  monad; it returns for every absolute path and provably not for a relative one. All other recursion is total.

  \<^bold>\<open>Not modelled.\<close> The end-to-end tests below test/e2e are not part of the programs. groupversion_info.go and the \<open>init\<close>
  functions only register types with a library. The parsing of command line flags belongs to a library too. Log
  output is modelled where it is data (log lines of the interceptor, the log functions), but the handlers' own log calls
  are left out, because they have no effect on a result. Text is bytes: the code never looks inside a multi-byte
  character. The rendering of JSON, YAML, INI and XML belongs to libraries.
\<close>

section \<open>The node service and the controller service\<close>

lemma createNodesDir_does:
  assumes "ctlExec cs = beegfsCtlDispatcher (traced env)" "0 < nodeUnstageTimeout cs"
    and "path_Join [csiDirPathBeegfsRoot vol, ''nodes''] = abs_path ds" "list_all proper ds" "ds \<noteq> []"
  shows "does (createNodesDir cs vol) (\<lambda>_ t. \<exists>q. mkdir_steps vol ds \<lparr> uid = 0, gid = 0, mode = 0x1E8 \<rparr> q t)"
proof -
  have "does (createDirectoryForVolume (ctlExec cs) vol (abs_path ds) cfg) (mkdir_steps vol ds cfg)" for cfg
    using dispatch_create_does [OF assms(4,5)] by (simp add: assms(1) beegfsCtlDispatcher_def)
  then show ?thesis
    unfolding createNodesDir_def assms(3) using assms(2)
    by (simp only: if_True) (rule does_bind, assumption, auto intro!: does_ret)
qed

text \<open>C10. The two services agree on where nodes are tracked. For a volume ID that the controller makes, there is one
  directory of the BeeGFS file system, named by the volume, such that: when tracking is configured, it is the directory
  that the controller has BeeGFS create with the volume; a node that has staged the volume looks for it below its own
  mount and, if it is there, writes a file with its name into it; a node that unstages the volume removes this file; and
  a deletion that succeeds has looked at this directory, below the controller's mount, before it removed the
  directory of the volume, and has last seen it missing or empty, or not empty when the configured waiting time had
  passed. Both talk to the same management host.\<close>

theorem tracking_agrees:
  assumes "volID = NewBeegfsURL host (abs_path (bs @ [n]))" "valid_host host" "list_all proper (bs @ [n])"
    and "newBeegfsVolumeFromID (abs_path ms) volID (ns_pluginConfig ns) = Inr vn" "list_all proper ms" "proper (ns_nodeID ns)"
    and "cs_newBeegfsVolumeFromID cs volID = Inr vc" "data_dir cs ds" "ctlExec cs = beegfsCtlDispatcher (traced cenv)"
  shows "\<exists>cms tracked. sysMgmtdHost vn = sysMgmtdHost vc
    \<and> mountPath vn = abs_path (ms @ [''mount'']) \<and> mountPath vc = abs_path (cms @ [''mount''])
    \<and> (\<forall>w r w' t. 0 < nodeUnstageTimeout cs \<and> run_state (createNodesDir cs vc) (w, []) = (r, w', t) \<longrightarrow>
        (\<exists>q. mkdir_steps vc tracked \<lparr> uid = 0, gid = 0, mode = 0x1E8 \<rparr> q t))
    \<and> (\<forall>env w w' t. run_state (trackNode (traced env) ns vn) (w, []) = ((), w', t) \<longrightarrow>
        (\<exists>x v. t = E_DirExists (abs_path (ms @ [''mount''] @ tracked)) x # v
          \<and> (if x = Inr True then \<exists>y. v = [E_WriteFile (abs_path (ms @ [''mount''] @ tracked @ [ns_nodeID ns])) '''' 0x1A0 y] else v = [])))
    \<and> (\<forall>env w w' t. run_state (untrackNode (traced env) ns vn) (w, []) = ((), w', t) \<longrightarrow>
        (\<exists>x v. t = E_Exists (abs_path (ms @ [''mount''] @ tracked @ [ns_nodeID ns])) x # v
          \<and> (if x = Inr True then \<exists>y. v = [E_Remove (abs_path (ms @ [''mount''] @ tracked @ [ns_nodeID ns])) y] else v = [])))
    \<and> (\<forall>env fuel w w' t. run_state (deleteVolumeUntilWait (traced env) fuel vc (nodeUnstageTimeout cs)) (w, []) = (Inr (), w', t) \<longrightarrow>
        (\<exists>start u look. t = E_Now start # u @ look @ [E_RemoveAll (volDirPath vc) (Inr ())]
          \<and> last_look (abs_path (cms @ [''mount''] @ tracked)) (csiDirPath vc) (wait_limit (nodeUnstageTimeout cs)) start look))"
proof -
  obtain d where d: "path_Join [csDataDir cs, sanitizeVolumeID volID] = abs_path (ds @ [d])" "list_all proper (ds @ [d])"
    unfolding assms(1) using volume_dir [OF assms(8)] .
  have parse: "parseBeegfsURL volID = Inr (host, abs_path (bs @ [n]))"
    using parse_NewBeegfsURL [of host "abs_path (bs @ [n])"] assms(1,2) by (simp add: printed_path_def)
  have vn: "newBeegfsVolume (abs_path ms) host (abs_path (bs @ [n])) (ns_pluginConfig ns) = Inr vn"
    using assms(4) by (simp add: newBeegfsVolumeFromID_def parse)
  have vc: "newBeegfsVolume (abs_path (ds @ [d])) host (abs_path (bs @ [n])) (cs_pluginConfig cs) = Inr vc"
    using assms(7) by (simp add: cs_newBeegfsVolumeFromID_def newBeegfsVolumeFromID_def parse d(1))
  have ok: "list_all proper bs" "proper n" using assms(3) by simp_all
  note pn = volume_paths [OF vn assms(5) ok] and pc = volume_paths [OF vc d(2) ok]
  let ?tracked = "bs @ [''.csi'', ''volumes'', n, ''nodes'']"
  have paths: "nodesPath vn = abs_path (ms @ [''mount''] @ ?tracked)" "nodePath ns vn = abs_path (ms @ [''mount''] @ ?tracked @ [ns_nodeID ns])"
    using tracking_file_path [OF vn assms(5,3,6)] by simp_all
  have np: "path_Join [csiDirPath vc, ''nodes''] = abs_path ((ds @ [d]) @ [''mount''] @ ?tracked)"
      "path_Join [csiDirPathBeegfsRoot vc, ''nodes''] = abs_path ?tracked" "list_all proper ?tracked"
    using pc(7,8) d(2) ok by (simp_all add: path_Join_abs2 path_simps)
  have hosts: "sysMgmtdHost vn = sysMgmtdHost vc"
    using newBeegfsVolume_fields [OF vn] newBeegfsVolume_fields [OF vc] by simp
  have created: "\<forall>w r w' t. 0 < nodeUnstageTimeout cs \<and> run_state (createNodesDir cs vc) (w, []) = (r, w', t) \<longrightarrow>
      (\<exists>q. mkdir_steps vc ?tracked \<lparr> uid = 0, gid = 0, mode = 0x1E8 \<rparr> q t)"
    using doesD [OF createNodesDir_does [OF assms(9) _ np(2,3)]] by fastforce
  have looked: "\<forall>env fuel w w' t. run_state (deleteVolumeUntilWait (traced env) fuel vc (nodeUnstageTimeout cs)) (w, []) = (Inr (), w', t) \<longrightarrow>
      (\<exists>start u look. t = E_Now start # u @ look @ [E_RemoveAll (volDirPath vc) (Inr ())]
        \<and> last_look (abs_path ((ds @ [d]) @ [''mount''] @ ?tracked)) (csiDirPath vc) (wait_limit (nodeUnstageTimeout cs)) start look)"
  proof (intro allI impI)
    fix env :: "'d os_env" and fuel w w' t
    assume "run_state (deleteVolumeUntilWait (traced env) fuel vc (nodeUnstageTimeout cs)) (w, []) = (Inr (), w', t)"
    from doesD [OF deleteVolumeUntilWait_does this] obtain start v where
      t: "t = E_Now start # v @ [E_RemoveAll (volDirPath vc) (Inr ())]"
      and v: "wait_trace vc (path_Join [csiDirPath vc, ''nodes'']) (wait_limit (nodeUnstageTimeout cs)) start v" by auto
    from wait_trace_last_look [OF v] obtain u look where "v = u @ look"
      "last_look (path_Join [csiDirPath vc, ''nodes'']) (csiDirPath vc) (wait_limit (nodeUnstageTimeout cs)) start look" by blast
    with t show "\<exists>start u look. t = E_Now start # u @ look @ [E_RemoveAll (volDirPath vc) (Inr ())]
        \<and> last_look (abs_path ((ds @ [d]) @ [''mount''] @ ?tracked)) (csiDirPath vc) (wait_limit (nodeUnstageTimeout cs)) start look"
      unfolding np(1) by (intro exI [of _ start] exI [of _ u] exI [of _ look]) simp
  qed
  have tracks: "\<forall>env w w' t. run_state (trackNode (traced env) ns vn) (w, []) = ((), w', t) \<longrightarrow> track_steps ns vn t"
      "\<forall>env w w' t. run_state (untrackNode (traced env) ns vn) (w, []) = ((), w', t) \<longrightarrow> untrack_steps ns vn t"
    using doesD [OF track_does] doesD [OF untrack_does] by fastforce+
  show ?thesis
    by (intro exI [of _ "ds @ [d]"] exI [of _ ?tracked] conjI hosts pn(2) pc(2) created looked
        tracks [unfolded track_steps_def untrack_steps_def paths])
qed

theorem tracking_agrees_witness:
  "\<exists>vn vc tracked t u q x v. newBeegfsVolumeFromID (abs_path [''stage'']) sample_id (ns_pluginConfig sample_ns) = Inr vn
    \<and> cs_newBeegfsVolumeFromID sample_cs sample_id = Inr vc
    \<and> run_state (trackNode (traced (calm_env [])) sample_ns vn) ((), []) = ((), (), t)
    \<and> t = E_DirExists (abs_path ([''stage''] @ [''mount''] @ tracked)) x # v
    \<and> snd (snd (run_state (createNodesDir sample_cs vc) ((), []))) = u
    \<and> mkdir_steps vc tracked \<lparr> uid = 0, gid = 0, mode = 0x1E8 \<rparr> q u"
proof -
  have path: "abs_path [''stage''] = ''/stage''" "abs_path ([''scratch''] @ [''vol1'']) = ''/scratch/vol1''" by (simp_all add: abs_path_def)
  obtain vn where vn: "newBeegfsVolumeFromID (abs_path [''stage'']) sample_id (ns_pluginConfig sample_ns) = Inr vn"
    using sample_node_volume by (auto simp: path sample_ns_def)
  obtain vc where vc: "cs_newBeegfsVolumeFromID sample_cs sample_id = Inr vc" using sample_check by metis
  have id: "sample_id = NewBeegfsURL ''10.0.0.1'' (abs_path ([''scratch''] @ [''vol1'']))" by (simp only: path)
  have host: "valid_host ''10.0.0.1''" by code_simp
  have ok: "list_all proper ([''scratch''] @ [''vol1''])" "list_all proper [''stage'']" "proper (ns_nodeID sample_ns)"
    "data_dir sample_cs [''data'']" "ctlExec sample_cs = beegfsCtlDispatcher (traced (calm_env []))" "0 < nodeUnstageTimeout sample_cs"
    by (simp_all add: sample_ns_def sample_cs_def data_dir_def abs_path_def proper_def)
  obtain t where track: "run_state (trackNode (traced (calm_env [])) sample_ns vn) ((), []) = ((), (), t)" by (metis prod.collapse unit.exhaust)
  obtain r u where create: "run_state (createNodesDir sample_cs vc) ((), []) = (r, (), u)" by (metis prod.collapse unit.exhaust)
  from tracking_agrees [OF id host ok(1) vn ok(2,3) vc ok(4,5)] obtain cms tracked where
    "\<forall>w r w' t. 0 < nodeUnstageTimeout sample_cs \<and> run_state (createNodesDir sample_cs vc) (w, []) = (r, w', t) \<longrightarrow>
        (\<exists>q. mkdir_steps vc tracked \<lparr> uid = 0, gid = 0, mode = 0x1E8 \<rparr> q t)"
    and "\<forall>(env :: unit os_env) w w' t. run_state (trackNode (traced env) sample_ns vn) (w, []) = ((), w', t) \<longrightarrow>
        (\<exists>x v. t = E_DirExists (abs_path ([''stage''] @ [''mount''] @ tracked)) x # v
          \<and> (if x = Inr True then \<exists>y. v = [E_WriteFile (abs_path ([''stage''] @ [''mount''] @ tracked @ [ns_nodeID sample_ns])) '''' 0x1A0 y] else v = []))"
    by (elim exE conjE)
  then obtain q x v where "mkdir_steps vc tracked \<lparr> uid = 0, gid = 0, mode = 0x1E8 \<rparr> q u"
      "t = E_DirExists (abs_path ([''stage''] @ [''mount''] @ tracked)) x # v"
    using create track ok(6) by blast
  then show ?thesis using vn vc track create
    by (intro exI [of _ vn] exI [of _ vc] exI [of _ tracked] exI [of _ t] exI [of _ u] exI [of _ q] exI [of _ x] exI [of _ v]) simp
qed

end
